(* ===== verification/Prelude.thy ===== *)
theory Prelude
  imports Complex_Main "HOL-Library.Word" "HOL-Library.AList" "HOL-Library.Multiset"
begin

text \<open>
  Shared vocabulary of the development: the widths of the Rust integers, byte strings, the
  collections of evaluation rules, and the facts on association lists, options and lists that
  the component theories use. A Rust \<open>HashMap\<close> or \<open>DashMap\<close> that the code only looks up is a
  map; one that the code also iterates over or counts is an association list with distinct keys,
  whose order is the (unspecified) iteration order.
\<close>

section \<open>Types\<close>

type_synonym u8 = "8 word"
type_synonym u16 = "16 word"
type_synonym u32 = "32 word"
type_synonym u64 = "64 word"
type_synonym bytes = "u8 list"

named_theorems f64_eval \<open>definitions that evaluate double-precision arithmetic on literals\<close>
named_theorems model_simps \<open>unfolding rules of small accessors and constructors\<close>

section \<open>Association lists as hash maps\<close>

lemma distinct_update [simp]:
  "distinct (map fst xs) \<Longrightarrow> distinct (map fst (AList.update k v xs))"
  by (rule AList.distinct_update)

lemma distinct_delete [simp]:
  "distinct (map fst xs) \<Longrightarrow> distinct (map fst (AList.delete k xs))"
  by (rule AList.distinct_delete)

lemma map_of_update [simp]: "map_of (AList.update k v xs) = (map_of xs)(k \<mapsto> v)"
  by (rule AList.update_conv')

lemma map_of_delete [simp]: "map_of (AList.delete k xs) = (map_of xs)(k := None)"
  by (rule AList.delete_conv')

lemma set_update_subset: "set (AList.update k v xs) \<subseteq> insert (k, v) (set xs)"
  by (induction xs) auto

lemma update_nonempty [simp]: "AList.update k v xs \<noteq> []"
  by (cases xs) auto

lemma list_all_update: "list_all P xs \<Longrightarrow> P (k, v) \<Longrightarrow> list_all P (AList.update k v xs)"
  using set_update_subset [of k v xs] by (auto simp: list_all_iff)

lemma list_all_delete: "list_all P xs \<Longrightarrow> list_all P (AList.delete k xs)"
  by (auto simp: list_all_iff AList.delete_eq)

section \<open>Words\<close>

lemma unat_u8_less: "unat (b :: u8) < 256"
  using unsigned_less [of b, where 'a = nat] by simp

lemma unat_u64_less: "unat (w :: u64) < 18446744073709551616"
  using unsigned_less [of w, where 'a = nat] by simp

end
