(* ===== verification/Ieee_Round.thy ===== *)
theory Ieee_Round
  imports Prelude
begin

text \<open>
  Round-to-nearest-even on the binary64 grid, written so that it computes. A magnitude is the
  63-bit integer \<open>b\<close> below the sign bit of an IEEE-754 double: \<open>mag_val b\<close> is the number
  it stands for and \<open>round_mag q\<close> the magnitude nearest to \<open>q\<close> (ties to the even
  significand, overflow to the infinity pattern \<open>inf_mag\<close>). The theory shows that
  \<open>mag_val\<close> is strictly increasing, that \<open>round_mag\<close> is monotone, and that it returns every
  representable number unchanged; everything the later theories need of rounding follows from
  these three facts.
\<close>

section \<open>Bit lengths and binary logarithms\<close>

function nbits :: "int \<Rightarrow> int" where
  "nbits n = (if n \<le> 0 then 0 else 1 + nbits (n div 2))"
  by pat_completeness auto
termination
  by (relation "measure nat") auto

declare nbits.simps [simp del]

primrec num_len :: "num \<Rightarrow> int" where
  "num_len num.One = 1"
| "num_len (num.Bit0 n) = 1 + num_len n"
| "num_len (num.Bit1 n) = 1 + num_len n"

lemma nbits_zero [simp]: "nbits 0 = 0"
  by (simp add: nbits.simps)

lemma nbits_numeral [simp]: "nbits (numeral n) = num_len n"
proof (induction n)
  case One
  show ?case by (simp add: nbits.simps [of 1])
next
  case (Bit0 n)
  have "(numeral (num.Bit0 n) :: int) div 2 = numeral n" by simp
  with Bit0 show ?case by (simp add: nbits.simps [of "numeral (num.Bit0 n)"])
next
  case (Bit1 n)
  have "(numeral (num.Bit1 n) :: int) div 2 = numeral n" by simp
  with Bit1 show ?case by (simp add: nbits.simps [of "numeral (num.Bit1 n)"])
qed

lemma nbits_one [simp]: "nbits 1 = 1"
  using nbits_numeral [of num.One] by simp

lemma nbits_nonneg [simp]: "0 \<le> nbits n"
  by (induction n rule: nbits.induct) (simp add: nbits.simps)

lemma nbits_bounds: "0 < n \<Longrightarrow> 2 ^ nat (nbits n - 1) \<le> n \<and> n < 2 ^ nat (nbits n)"
proof (induction n rule: nbits.induct)
  case (1 n)
  show ?case
  proof (cases "n = 1")
    case True
    then show ?thesis by simp
  next
    case False
    with "1.prems" have n: "1 < n" by simp
    then have half: "0 < n div 2" by simp
    with "1.prems" have IH: "2 ^ nat (nbits (n div 2) - 1) \<le> n div 2 \<and> n div 2 < 2 ^ nat (nbits (n div 2))"
      by (intro "1.IH") auto
    have nb: "nbits n = 1 + nbits (n div 2)" using "1.prems" by (simp add: nbits.simps [of n])
    have pos: "1 \<le> nbits (n div 2)" using half by (subst nbits.simps) simp
    define k where "k = nat (nbits (n div 2) - 1)"
    have k: "nat (nbits n - 1) = Suc k" "nat (nbits n) = Suc (Suc k)" "nat (nbits (n div 2)) = Suc k"
      using pos nb by (auto simp: k_def)
    from IH have "2 ^ k \<le> n div 2" "n div 2 < 2 ^ Suc k" using k by (auto simp: k_def)
    then have "2 ^ Suc k \<le> n" "n < 2 ^ Suc (Suc k)" by auto
    then show ?thesis using k by simp
  qed
qed

definition ilog2 :: "real \<Rightarrow> int" where
  "ilog2 q = (if 1 \<le> q then nbits \<lfloor>q\<rfloor> - 1 else - nbits (\<lceil>1 / q\<rceil> - 1))"

definition round_half_even :: "real \<Rightarrow> int" where
  "round_half_even x =
     (let f = \<lfloor>x\<rfloor>; d = x - of_int f
      in if d < 1 / 2 then f else if 1 / 2 < d then f + 1 else if even f then f else f + 1)"

lemma two_powi_mono: "a \<le> b \<Longrightarrow> (2::real) powi a \<le> 2 powi b"
  by (rule power_int_increasing) auto

lemma two_powi_less_iff: "(2::real) powi a < 2 powi b \<longleftrightarrow> a < b"
  by (meson linorder_not_less one_less_numeral_iff power_int_increasing power_int_strict_increasing
      semiring_norm(76) two_powi_mono)

lemma two_powi_pos [simp]: "0 < (2::real) powi a"
  by (rule zero_less_power_int) simp

lemma ilog2_bounds: 
  assumes "0 < q"
  shows "2 powi ilog2 q \<le> q" and "q < 2 powi (ilog2 q + 1)"
proof -
  have "2 powi ilog2 q \<le> q \<and> q < 2 powi (ilog2 q + 1)"
  proof (cases "1 \<le> q")
    case True
    define n where "n = \<lfloor>q\<rfloor>"
    have n: "0 < n" using True by (simp add: n_def)
    then have pos: "1 \<le> nbits n" by (subst nbits.simps) simp
    from nbits_bounds [OF n] have lo: "(2::int) ^ nat (nbits n - 1) \<le> n" and hi: "n + 1 \<le> 2 ^ nat (nbits n)"
      by auto
    have "(2::real) powi (nbits n - 1) = of_int (2 ^ nat (nbits n - 1))"
      using pos by (simp add: power_int_nonneg_exp)
    also have "\<dots> \<le> of_int n" using lo by (simp only: of_int_le_iff)
    also have "\<dots> \<le> q" by (simp add: n_def)
    finally have A: "2 powi (nbits n - 1) \<le> q" .
    have "q < of_int (n + 1)" by (simp add: n_def)
    also have "\<dots> \<le> of_int (2 ^ nat (nbits n))" using hi by (simp only: of_int_le_iff)
    also have "\<dots> = (2::real) powi nbits n" using pos by (simp add: power_int_nonneg_exp)
    finally show ?thesis using A True by (simp add: ilog2_def n_def)
  next
    case False
    define n where "n = \<lceil>1 / q\<rceil> - 1"
    have q1: "1 < 1 / q" using False assms by simp
    then have "2 \<le> \<lceil>1 / q\<rceil>" by (simp add: less_ceiling_iff numeral_2_eq_2)
    then have n: "0 < n" by (simp add: n_def)
    then have pos: "1 \<le> nbits n" by (subst nbits.simps) simp
    from nbits_bounds [OF n] have lo: "(2::int) ^ nat (nbits n - 1) \<le> n" and hi: "n + 1 \<le> 2 ^ nat (nbits n)"
      by auto
    have "1 / q \<le> of_int (n + 1)" by (simp add: n_def)
    also have "\<dots> \<le> of_int (2 ^ nat (nbits n))" using hi by (simp only: of_int_le_iff)
    also have "\<dots> = (2::real) powi nbits n" using pos by (simp add: power_int_nonneg_exp)
    finally have A: "2 powi (- nbits n) \<le> q"
      using assms by (simp add: power_int_minus field_simps)
    have "(2::real) powi (nbits n - 1) = of_int (2 ^ nat (nbits n - 1))"
      using pos by (simp add: power_int_nonneg_exp)
    also have "\<dots> \<le> of_int n" using lo by (simp only: of_int_le_iff)
    also have "\<dots> < 1 / q" unfolding n_def by linarith
    finally have "q < 1 / 2 powi (nbits n - 1)" using assms by (simp add: field_simps)
    also have "\<dots> = 2 powi (- (nbits n - 1))" by (rule power_int_minus_divide [symmetric])
    also have "\<dots> = 2 powi (- nbits n + 1)" by (rule arg_cong [where f = "power_int 2"]) simp
    finally have "q < 2 powi (- nbits n + 1)" .
    then show ?thesis using A False by (simp add: ilog2_def n_def)
  qed
  then show "2 powi ilog2 q \<le> q" and "q < 2 powi (ilog2 q + 1)" by auto
qed

lemma ilog2_unique:
  assumes "2 powi k \<le> q" "q < 2 powi (k + 1)"
  shows "ilog2 q = k"
proof -
  have q: "0 < q" using assms(1) two_powi_pos [of k] by linarith
  have "(2::real) powi ilog2 q < 2 powi (k + 1)" "(2::real) powi k < 2 powi (ilog2 q + 1)"
    using ilog2_bounds [OF q] assms by linarith+
  then show ?thesis by (simp add: two_powi_less_iff)
qed

lemma ilog2_mono: "0 < p \<Longrightarrow> p \<le> q \<Longrightarrow> ilog2 p \<le> ilog2 q"
proof -
  assume pq: "0 < p" "p \<le> q"
  then have "0 < q" by simp
  have "(2::real) powi ilog2 p < 2 powi (ilog2 q + 1)"
    using ilog2_bounds(1) [OF pq(1)] ilog2_bounds(2) [OF \<open>0 < q\<close>] pq(2) by linarith
  then show ?thesis by (simp add: two_powi_less_iff)
qed

lemma round_half_even_of_int [simp]: "round_half_even (of_int n) = n"
  by (simp add: round_half_even_def)

lemma round_half_even_mono: "x \<le> y \<Longrightarrow> round_half_even x \<le> round_half_even y"
proof -
  assume xy: "x \<le> y"
  then have f: "\<lfloor>x\<rfloor> \<le> \<lfloor>y\<rfloor>" by (rule floor_mono)
  show ?thesis
  proof (cases "\<lfloor>x\<rfloor> = \<lfloor>y\<rfloor>")
    case True
    with xy show ?thesis by (auto simp: round_half_even_def Let_def)
  next
    case False
    with f have "\<lfloor>x\<rfloor> + 1 \<le> \<lfloor>y\<rfloor>" by simp
    then show ?thesis by (auto simp: round_half_even_def Let_def)
  qed
qed


lemma round_half_even_le_of_int: "x \<le> of_int n \<Longrightarrow> round_half_even x \<le> n"
  using round_half_even_mono [of x "of_int n"] by simp

lemma of_int_le_round_half_even: "of_int n \<le> x \<Longrightarrow> n \<le> round_half_even x"
  using round_half_even_mono [of "of_int n" x] by simp

abbreviation mant_size :: int where
  "mant_size \<equiv> 4503599627370496"

abbreviation inf_mag :: int where
  "inf_mag \<equiv> 9218868437227405312"

definition mag_val :: "int \<Rightarrow> real" where
  "mag_val b =
     (let ex = b div mant_size; fr = b mod mant_size
      in if ex = 0 then of_int fr * 2 powi (- 1074) else of_int (fr + mant_size) * 2 powi (ex - 1075))"

definition round_exp :: "real \<Rightarrow> int" where
  "round_exp q = max (ilog2 q - 52) (- 1074)"

definition round_mag :: "real \<Rightarrow> int" where
  "round_mag q =
     (if q \<le> 0 then 0
      else min ((round_exp q + 1074) * mant_size + round_half_even (q / 2 powi round_exp q)) inf_mag)"

lemma mant_size_powi: "(2::real) powi 52 = of_int mant_size"
  by simp

lemma powi_shift: "of_int mant_size * (2::real) powi k = 2 powi (52 + k)"
  by (simp add: power_int_add)

lemma mag_val_nonneg [simp]: "0 \<le> b \<Longrightarrow> 0 \<le> mag_val b"
proof -
  assume "0 \<le> b"
  have "0 \<le> b mod mant_size" by simp
  then show ?thesis by (auto simp: mag_val_def Let_def less_imp_le)
qed

lemma mag_val_upper:
  assumes "0 \<le> b"
  shows "mag_val b < 2 powi (b div mant_size - 1022)"
proof -
  have m: "b mod mant_size < mant_size" "0 \<le> b mod mant_size" by auto
  show ?thesis
  proof (cases "b div mant_size = 0")
    case True
    have "mag_val b = of_int (b mod mant_size) * 2 powi (- 1074)" using True by (simp add: mag_val_def)
    also have "\<dots> < of_int mant_size * 2 powi (- 1074)"
      using m(1) by (intro mult_strict_right_mono) auto
    also have "\<dots> = 2 powi (52 + - 1074)" by (rule powi_shift)
    finally show ?thesis using True by simp
  next
    case False
    have "mag_val b = of_int (b mod mant_size + mant_size) * 2 powi (b div mant_size - 1075)"
      using False by (simp add: mag_val_def)
    also have "\<dots> < of_int (2 * mant_size) * 2 powi (b div mant_size - 1075)"
      using m(1) by (intro mult_strict_right_mono) auto
    also have "\<dots> = 2 * (of_int mant_size * 2 powi (b div mant_size - 1075))" by simp
    also have "\<dots> = 2 * 2 powi (52 + (b div mant_size - 1075))" by (simp only: powi_shift)
    also have "\<dots> = 2 powi (b div mant_size - 1022)"
      using power_int_add_1' [of "2::real" "52 + (b div mant_size - 1075)"] by simp
    finally show ?thesis .
  qed
qed

lemma mag_val_lower:
  assumes "b div mant_size \<noteq> 0"
  shows "2 powi (b div mant_size - 1023) \<le> mag_val b"
proof -
  have m: "0 \<le> b mod mant_size" by simp
  have "(2::real) powi (b div mant_size - 1023) = 2 powi (52 + (b div mant_size - 1075))" by simp
  also have "\<dots> = of_int mant_size * 2 powi (b div mant_size - 1075)" by (simp only: powi_shift)
  also have "\<dots> \<le> of_int (b mod mant_size + mant_size) * 2 powi (b div mant_size - 1075)"
    using m by (intro mult_right_mono) (auto simp: less_imp_le)
  also have "\<dots> = mag_val b" using assms by (simp add: mag_val_def)
  finally show ?thesis .
qed

lemma mag_val_strict_mono:
  assumes "0 \<le> a" "a < b"
  shows "mag_val a < mag_val b"
proof (cases "a div mant_size = b div mant_size")
  case True
  then have "a mod mant_size < b mod mant_size"
    using assms(2) div_mult_mod_eq [of a mant_size] div_mult_mod_eq [of b mant_size] by linarith
  then show ?thesis using True
    by (auto simp: mag_val_def Let_def intro!: mult_strict_right_mono)
next
  case False
  have "a div mant_size \<le> b div mant_size" using assms(2) by (intro zdiv_mono1) auto
  with False have lt: "a div mant_size < b div mant_size" by simp
  have "0 \<le> a div mant_size" using assms(1) by (simp add: pos_imp_zdiv_nonneg_iff)
  with lt have b0: "b div mant_size \<noteq> 0" by simp
  have "mag_val a < 2 powi (a div mant_size - 1022)" by (rule mag_val_upper [OF assms(1)])
  also have "\<dots> \<le> 2 powi (b div mant_size - 1023)" using lt by (intro two_powi_mono) simp
  also have "\<dots> \<le> mag_val b" by (rule mag_val_lower [OF b0])
  finally show ?thesis .
qed

lemma mag_val_zero [simp]: "mag_val 0 = 0"
  by (simp add: mag_val_def)

lemma mag_val_pos: "0 < b \<Longrightarrow> 0 < mag_val b"
  using mag_val_strict_mono [of 0 b] by simp

lemma round_mag_mag_val:
  assumes "0 \<le> b" "b < inf_mag"
  shows "round_mag (mag_val b) = b"
proof (cases "b = 0")
  case True
  then show ?thesis by (simp add: round_mag_def)
next
  case False
  with assms have b: "0 < b" by simp
  have pos: "0 < mag_val b" by (rule mag_val_pos [OF b])
  have split: "b div mant_size * mant_size + b mod mant_size = b" by (rule div_mult_mod_eq)
  show ?thesis
  proof (cases "b div mant_size = 0")
    case True
    have "(2::real) powi ilog2 (mag_val b) < 2 powi (- 1022)"
      using ilog2_bounds(1) [OF pos] mag_val_upper [OF assms(1)] True by simp
    then have e: "round_exp (mag_val b) = - 1074"
      by (simp only: two_powi_less_iff) (simp add: round_exp_def)
    have "mag_val b / 2 powi (- 1074) = of_int (b mod mant_size)" 
      using True by (simp add: mag_val_def)
    with e pos True split assms(2) show ?thesis by (simp add: round_mag_def)
  next
    case False
    have ilog: "ilog2 (mag_val b) = b div mant_size - 1023"
      using mag_val_lower [OF False] mag_val_upper [OF assms(1)] by (intro ilog2_unique) auto
    have "0 \<le> b div mant_size" using assms(1) by (simp add: pos_imp_zdiv_nonneg_iff)
    with False have e: "round_exp (mag_val b) = b div mant_size - 1075"
      by (simp add: round_exp_def ilog)
    have "mag_val b / 2 powi (b div mant_size - 1075) = of_int (b mod mant_size + mant_size)"
      using False by (simp add: mag_val_def Let_def)
    then have "round_half_even (mag_val b / 2 powi (b div mant_size - 1075)) = b mod mant_size + mant_size"
      by (simp only: round_half_even_of_int)
    moreover have "(b div mant_size - 1075 + 1074) * mant_size + (b mod mant_size + mant_size) = b"
      using split by (simp add: left_diff_distrib)
    ultimately show ?thesis using pos assms(2) by (simp add: round_mag_def e del: of_int_add)
  qed
qed

lemma round_exp_ge: "- 1074 \<le> round_exp q"
  by (simp add: round_exp_def)

lemma round_exp_mono: "0 < p \<Longrightarrow> p \<le> q \<Longrightarrow> round_exp p \<le> round_exp q"
  using ilog2_mono [of p q] by (auto simp: round_exp_def)

lemma scaled_upper:
  assumes "0 < p"
  shows "round_half_even (p / 2 powi round_exp p) \<le> 2 * mant_size"
proof (rule round_half_even_le_of_int)
  have "p < 2 powi (ilog2 p + 1)" by (rule ilog2_bounds(2) [OF assms])
  also have "\<dots> \<le> 2 powi (53 + round_exp p)" by (intro two_powi_mono) (auto simp: round_exp_def)
  also have "\<dots> = of_int (2 * mant_size) * 2 powi round_exp p" by (simp add: power_int_add)
  finally show "p / 2 powi round_exp p \<le> of_int (2 * mant_size)" by (simp add: field_simps)
qed

lemma scaled_lower:
  assumes "0 < q" "- 1074 < round_exp q"
  shows "mant_size \<le> round_half_even (q / 2 powi round_exp q)"
proof (rule of_int_le_round_half_even)
  have "ilog2 q = 52 + round_exp q" using assms(2) by (auto simp: round_exp_def)
  then have "2 powi (52 + round_exp q) \<le> q" using ilog2_bounds(1) [OF assms(1)] by simp
  then have "of_int mant_size * 2 powi round_exp q \<le> q" by (simp only: powi_shift)
  then show "of_int mant_size \<le> q / 2 powi round_exp q" by (simp add: field_simps)
qed

lemma round_mag_mono:
  assumes "p \<le> q"
  shows "round_mag p \<le> round_mag q"
proof (cases "p \<le> 0")
  case True
  have "0 \<le> round_half_even (q / 2 powi round_exp q)" if "0 < q"
    using that of_int_le_round_half_even [of 0 "q / 2 powi round_exp q"] by simp
  moreover have "0 \<le> (round_exp q + 1074) * mant_size" using round_exp_ge [of q] by simp
  ultimately show ?thesis using True by (auto simp: round_mag_def)
next
  case False
  then have p: "0 < p" and q: "0 < q" using assms by auto
  have "(round_exp p + 1074) * mant_size + round_half_even (p / 2 powi round_exp p)
      \<le> (round_exp q + 1074) * mant_size + round_half_even (q / 2 powi round_exp q)"
  proof (cases "round_exp p = round_exp q")
    case True
    have "p / 2 powi round_exp q \<le> q / 2 powi round_exp q"
      using assms by (intro divide_right_mono) (auto simp: less_imp_le)
    with True show ?thesis by (simp add: round_half_even_mono)
  next
    case False
    then have lt: "round_exp p < round_exp q" using round_exp_mono [OF p assms] by simp
    have "- 1074 < round_exp q" using lt round_exp_ge [of p] by simp
    then show ?thesis using scaled_upper [OF p] scaled_lower [OF q] lt by simp
  qed
  then show ?thesis using p q by (auto simp: round_mag_def)
qed

lemma round_mag_range: "0 \<le> round_mag q" "round_mag q \<le> inf_mag"
  using round_mag_mono [of "min q 0" q] by (auto simp: round_mag_def)

end
