(* ===== verification/F64.thy ===== *)
theory F64
  imports Ieee_Round
begin

text \<open>
  Rust's \<open>f64\<close> as its 64 bits, with the operations the sources use: the four arithmetic
  operators, the comparison operators, \<open>max\<close>, \<open>clamp\<close>, literals and the \<open>as f64\<close>
  conversion. Every operation computes the exact real result and rounds it once, as IEEE-754
  prescribes; a NaN result is the canonical quiet NaN. The two zeros are different bit patterns
  with the same value.

  The last section isolates what path search needs of these operations as the contract
  \<open>cost_algebra\<close> and proves that \<open>f64\<close> keeps it: adding a non-negative cost never decreases
  an accumulated cost and is monotone in it, in spite of rounding, and a sum that has left the
  range below \<open>f64::MAX\<close> never comes back.
\<close>

section \<open>Values and operations\<close>

type_synonym f64 = "64 word"

datatype fval = FNaN | FInf bool | FFin real

definition f64_neg :: "f64 \<Rightarrow> bool" where
  "f64_neg w \<longleftrightarrow> 9223372036854775808 \<le> uint w"

definition f64_mag :: "f64 \<Rightarrow> int" where
  "f64_mag w = uint w mod 9223372036854775808"

definition f64_val :: "f64 \<Rightarrow> fval" where
  "f64_val w =
     (if inf_mag < f64_mag w then FNaN
      else if f64_mag w = inf_mag then FInf (f64_neg w)
      else FFin (if f64_neg w then - mag_val (f64_mag w) else mag_val (f64_mag w)))"

definition f64_pack :: "bool \<Rightarrow> int \<Rightarrow> f64" where
  "f64_pack s b = word_of_int ((if s then 9223372036854775808 else 0) + b)"

definition f64_nan :: f64 where "f64_nan = f64_pack False 9221120237041090560"
definition f64_inf :: "bool \<Rightarrow> f64" where "f64_inf s = f64_pack s inf_mag"
definition f64_max_value :: f64 where "f64_max_value = f64_pack False 9218868437227405311"

definition f64_round :: "bool \<Rightarrow> real \<Rightarrow> f64" where
  "f64_round zero_sign q =
     (if q = 0 then f64_pack zero_sign 0 else f64_pack (q < 0) (round_mag \<bar>q\<bar>))"

definition f64_add :: "f64 \<Rightarrow> f64 \<Rightarrow> f64" where
  "f64_add a b =
     (case (f64_val a, f64_val b) of
        (FNaN, _) \<Rightarrow> f64_nan
      | (_, FNaN) \<Rightarrow> f64_nan
      | (FInf s, FInf t) \<Rightarrow> if s = t then f64_inf s else f64_nan
      | (FInf s, FFin _) \<Rightarrow> f64_inf s
      | (FFin _, FInf t) \<Rightarrow> f64_inf t
      | (FFin x, FFin y) \<Rightarrow> f64_round (f64_neg a \<and> f64_neg b) (x + y))"

definition f64_minus :: "f64 \<Rightarrow> f64" where
  "f64_minus a = f64_pack (\<not> f64_neg a) (f64_mag a)"

definition f64_sub :: "f64 \<Rightarrow> f64 \<Rightarrow> f64" where
  "f64_sub a b = f64_add a (f64_minus b)"

definition f64_mul :: "f64 \<Rightarrow> f64 \<Rightarrow> f64" where
  "f64_mul a b =
     (let s = (f64_neg a \<noteq> f64_neg b) in
      case (f64_val a, f64_val b) of
        (FNaN, _) \<Rightarrow> f64_nan
      | (_, FNaN) \<Rightarrow> f64_nan
      | (FInf _, FInf _) \<Rightarrow> f64_inf s
      | (FInf _, FFin y) \<Rightarrow> if y = 0 then f64_nan else f64_inf s
      | (FFin x, FInf _) \<Rightarrow> if x = 0 then f64_nan else f64_inf s
      | (FFin x, FFin y) \<Rightarrow> f64_round s (x * y))"

definition f64_div :: "f64 \<Rightarrow> f64 \<Rightarrow> f64" where
  "f64_div a b =
     (let s = (f64_neg a \<noteq> f64_neg b) in
      case (f64_val a, f64_val b) of
        (FNaN, _) \<Rightarrow> f64_nan
      | (_, FNaN) \<Rightarrow> f64_nan
      | (FInf _, FInf _) \<Rightarrow> f64_nan
      | (FInf _, FFin _) \<Rightarrow> f64_inf s
      | (FFin _, FInf _) \<Rightarrow> f64_pack s 0
      | (FFin x, FFin y) \<Rightarrow>
          if y = 0 then (if x = 0 then f64_nan else f64_inf s) else f64_round s (x / y))"

fun fval_lt :: "fval \<Rightarrow> fval \<Rightarrow> bool" where
  "fval_lt FNaN _ = False"
| "fval_lt _ FNaN = False"
| "fval_lt (FInf s) (FInf t) = (s \<and> \<not> t)"
| "fval_lt (FInf s) (FFin _) = s"
| "fval_lt (FFin _) (FInf t) = (\<not> t)"
| "fval_lt (FFin x) (FFin y) = (x < y)"

definition f64_lt :: "f64 \<Rightarrow> f64 \<Rightarrow> bool" where
  "f64_lt a b = fval_lt (f64_val a) (f64_val b)"

definition f64_is_nan :: "f64 \<Rightarrow> bool" where
  "f64_is_nan a = (f64_val a = FNaN)"

datatype ordering = Less | Equal | Greater

definition f64_partial_cmp :: "f64 \<Rightarrow> f64 \<Rightarrow> ordering option" where
  "f64_partial_cmp a b =
     (if f64_is_nan a \<or> f64_is_nan b then None
      else if f64_lt a b then Some Less else if f64_lt b a then Some Greater else Some Equal)"

definition f64_max :: "f64 \<Rightarrow> f64 \<Rightarrow> f64" where
  "f64_max a b =
     (if f64_is_nan a then b else if f64_is_nan b then a else if f64_lt a b then b else a)"

definition f64_clamp :: "f64 \<Rightarrow> f64 \<Rightarrow> f64 \<Rightarrow> f64" where
  "f64_clamp x lo hi =
     (let x = (if f64_lt x lo then lo else x) in if f64_lt hi x then hi else x)"

definition f64_lit :: "real \<Rightarrow> f64" where
  "f64_lit q = f64_round False q"

definition f64_of_int :: "int \<Rightarrow> f64" where
  "f64_of_int n = f64_round False (of_int n)"


lemmas f64_rounding_defs [f64_eval] =
  f64_val_def f64_mag_def f64_neg_def mag_val_def f64_round_def round_mag_def round_exp_def
  ilog2_def round_half_even_def f64_pack_def f64_nan_def f64_inf_def f64_max_value_def

lemmas f64_operation_defs [f64_eval] =
  f64_add_def f64_minus_def f64_sub_def f64_mul_def f64_div_def f64_lt_def f64_is_nan_def
  f64_partial_cmp_def f64_max_def f64_clamp_def f64_lit_def f64_of_int_def

lemma f64_mag_range: "0 \<le> f64_mag w" "f64_mag w < 9223372036854775808"
  by (auto simp: f64_mag_def)

lemma uint_f64_pack:
  assumes "0 \<le> b" "b < 9223372036854775808"
  shows "uint (f64_pack s b) = (if s then 9223372036854775808 else 0) + b"
  unfolding f64_pack_def using assms by (subst uint_word_of_int) simp

lemma f64_pack_fields [simp]:
  assumes "0 \<le> b" "b < 9223372036854775808"
  shows "f64_neg (f64_pack s b) = s" and "f64_mag (f64_pack s b) = b"
  using assms by (auto simp: f64_neg_def f64_mag_def uint_f64_pack)

lemma f64_val_pack:
  assumes "0 \<le> b" "b < inf_mag"
  shows "f64_val (f64_pack s b) = FFin (if s then - mag_val b else mag_val b)"
  using assms by (simp add: f64_val_def)

lemma f64_val_special [simp]:
  "f64_val f64_nan = FNaN" "f64_val (f64_inf s) = FInf s" "f64_neg (f64_inf s) = s"
  by (simp_all add: f64_val_def f64_nan_def f64_inf_def)

lemma f64_val_zero [simp]: "f64_val 0 = FFin 0" "\<not> f64_neg 0"
  by (simp_all add: f64_val_def f64_neg_def f64_mag_def)

lemma f64_val_FFin_cases:
  assumes "f64_val w = FFin x"
  obtains b where "0 \<le> b" "b < inf_mag" "x = (if f64_neg w then - mag_val b else mag_val b)"
  using assms f64_mag_range [of w] that [of "f64_mag w"]
  by (auto simp: f64_val_def split: if_splits)

text \<open>The value a rounding delivers.\<close>

definition fval_round :: "real \<Rightarrow> fval" where
  "fval_round q =
     (if round_mag \<bar>q\<bar> = inf_mag then FInf (q < 0)
      else FFin (if q < 0 then - mag_val (round_mag \<bar>q\<bar>) else mag_val (round_mag \<bar>q\<bar>)))"

lemma f64_val_round [simp]: "f64_val (f64_round z q) = fval_round q"
proof (cases "q = 0")
  case True
  then show ?thesis by (simp add: f64_round_def fval_round_def f64_val_pack round_mag_def)
next
  case False
  show ?thesis
  proof (cases "round_mag \<bar>q\<bar> = inf_mag")
    case True
    then show ?thesis using False by (simp add: f64_round_def fval_round_def f64_inf_def [symmetric])
  next
    case neq: False
    then have "round_mag \<bar>q\<bar> < inf_mag" using round_mag_range(2) [of "\<bar>q\<bar>"] by simp
    then show ?thesis using False neq
      by (simp add: f64_round_def fval_round_def f64_val_pack round_mag_range(1))
  qed
qed

lemma fval_round_exact: "f64_val w = FFin x \<Longrightarrow> fval_round x = FFin x"
proof (erule f64_val_FFin_cases)
  fix b assume b: "0 \<le> b" "b < inf_mag" and x: "x = (if f64_neg w then - mag_val b else mag_val b)"
  have "mag_val b = 0" if "f64_neg w" "\<not> x < 0"
    using that x mag_val_nonneg [OF b(1)] by simp
  moreover have "\<not> x < 0" if "\<not> f64_neg w" using that x mag_val_nonneg [OF b(1)] by simp
  moreover have "\<bar>x\<bar> = mag_val b" using x mag_val_nonneg [OF b(1)] by simp
  ultimately show ?thesis using x b round_mag_mag_val [OF b] by (auto simp: fval_round_def)
qed

lemma fval_round_zero [simp]: "fval_round 0 = FFin 0"
  by (simp add: fval_round_def round_mag_def)

lemma fval_round_not_nan [simp]: "fval_round q \<noteq> FNaN"
  by (simp add: fval_round_def)

subsection \<open>The order\<close>

fun fval_le :: "fval \<Rightarrow> fval \<Rightarrow> bool" where
  "fval_le FNaN _ = False"
| "fval_le _ FNaN = False"
| "fval_le (FInf s) (FInf t) = (s \<or> \<not> t)"
| "fval_le (FInf s) (FFin _) = s"
| "fval_le (FFin _) (FInf t) = (\<not> t)"
| "fval_le (FFin x) (FFin y) = (x \<le> y)"

lemma fval_le_iff: "fval_le a b \<longleftrightarrow> a \<noteq> FNaN \<and> b \<noteq> FNaN \<and> \<not> fval_lt b a"
  by (cases a; cases b) auto

lemma fval_lt_irrefl [simp]: "\<not> fval_lt a a"
  by (cases a) auto

lemma fval_lt_trans: "fval_lt a b \<Longrightarrow> fval_lt b c \<Longrightarrow> fval_lt a c"
  by (cases a; cases b; cases c) auto

lemma fval_lt_not_nan: "fval_lt a b \<Longrightarrow> a \<noteq> FNaN \<and> b \<noteq> FNaN"
  by (cases a; cases b) auto

lemma fval_le_lt_trans: "fval_le a b \<Longrightarrow> fval_lt b c \<Longrightarrow> fval_lt a c"
  by (cases a; cases b; cases c) auto

lemma fval_le_trans: "fval_le a b \<Longrightarrow> fval_le b c \<Longrightarrow> fval_le a c"
  by (cases a; cases b; cases c) auto

lemma fval_le_refl [simp]: "fval_le a a \<longleftrightarrow> a \<noteq> FNaN"
  by (cases a) auto

lemma fval_round_mono:
  assumes "p \<le> q"
  shows "fval_le (fval_round p) (fval_round q)"
proof -
  have le: "mag_val (round_mag x) \<le> mag_val (round_mag y)" if "x \<le> y" for x y
    using round_mag_mono [OF that] mag_val_strict_mono [of "round_mag x" "round_mag y"] round_mag_range(1) [of x]
    by (cases "round_mag x = round_mag y") auto
  have inf: "round_mag y = inf_mag" if "x \<le> y" "round_mag x = inf_mag" for x y
    using round_mag_mono [OF that(1)] that(2) round_mag_range(2) [of y] by simp
  have nn: "0 \<le> mag_val (round_mag x)" for x by (simp add: round_mag_range(1))
  consider "0 \<le> p" | "p < 0" "0 \<le> q" | "q < 0" using assms by linarith
  then show ?thesis
  proof cases
    case 1
    then show ?thesis using assms le [of p q] inf [of p q] by (auto simp: fval_round_def)
  next
    case 2
    then show ?thesis using nn [of "\<bar>p\<bar>"] nn [of q] by (auto simp: fval_round_def)
  next
    case 3
    then show ?thesis using assms le [of "- q" "- p"] inf [of "- q" "- p"] by (auto simp: fval_round_def)
  qed
qed

lemma f64_lt_irrefl [simp]: "\<not> f64_lt a a"
  by (simp add: f64_lt_def)

lemma f64_lt_trans: "f64_lt a b \<Longrightarrow> f64_lt b c \<Longrightarrow> f64_lt a c"
  unfolding f64_lt_def by (rule fval_lt_trans)

lemma f64_lt_asym: "f64_lt a b \<Longrightarrow> \<not> f64_lt b a"
  using f64_lt_trans [of a b a] by auto

lemma f64_lt_not_nan: "f64_lt a b \<Longrightarrow> \<not> f64_is_nan a \<and> \<not> f64_is_nan b"
  by (auto simp: f64_lt_def f64_is_nan_def dest: fval_lt_not_nan)

lemma f64_max_value_val: "f64_val f64_max_value = FFin (mag_val 9218868437227405311)"
  by (simp add: f64_max_value_def f64_val_pack)

subsection \<open>Arithmetic on non-negative values\<close>

lemma f64_val_add_fin:
  "f64_val a = FFin x \<Longrightarrow> f64_val b = FFin y \<Longrightarrow> f64_val (f64_add a b) = fval_round (x + y)"
  by (simp add: f64_add_def)

lemma f64_val_neg_sign: "f64_val a = FFin x \<Longrightarrow> 0 < x \<Longrightarrow> \<not> f64_neg a"
  by (erule f64_val_FFin_cases) (auto dest: leD [OF mag_val_nonneg])

lemma f64_val_neg_inf: "f64_val a = FInf s \<Longrightarrow> f64_neg a = s"
  by (auto simp: f64_val_def split: if_splits)

definition f64_not_neg :: "f64 \<Rightarrow> bool" where
  "f64_not_neg a \<longleftrightarrow> \<not> f64_lt a 0"

lemma f64_not_neg_iff:
  "f64_not_neg a \<longleftrightarrow> (case f64_val a of FNaN \<Rightarrow> True | FInf s \<Rightarrow> \<not> s | FFin x \<Rightarrow> 0 \<le> x)"
  by (auto simp: f64_not_neg_def f64_lt_def split: fval.splits)

lemma fval_round_FInfD: "fval_round q = FInf True \<Longrightarrow> q < 0"
  by (simp add: fval_round_def split: if_splits)

lemma fval_round_FFinD: "fval_round q = FFin x \<Longrightarrow> 0 \<le> q \<Longrightarrow> 0 \<le> x"
  using fval_round_mono [of 0 q] by simp

lemma f64_not_neg_add:
  assumes "f64_not_neg a" "f64_not_neg b"
  shows "f64_not_neg (f64_add a b)"
  using assms
  by (auto simp: f64_not_neg_iff f64_add_def split: fval.splits
      dest!: fval_round_FInfD dest: fval_round_FFinD)

lemma f64_not_neg_mul:
  assumes "f64_not_neg a" "f64_not_neg b"
  shows "f64_not_neg (f64_mul a b)"
proof -
  have "f64_neg a = f64_neg b" if "f64_val a = FInf s" "f64_val b = FInf t" for s t
    using assms that by (simp add: f64_not_neg_iff f64_val_neg_inf)
  moreover have "\<not> f64_neg a" "f64_neg b = False" if "f64_val a = FInf s" "f64_val b = FFin y" "y \<noteq> 0" for s y
    using assms that f64_val_neg_sign [OF that(2)] by (auto simp: f64_not_neg_iff f64_val_neg_inf)
  moreover have "\<not> f64_neg b" "f64_neg a = False" if "f64_val b = FInf s" "f64_val a = FFin y" "y \<noteq> 0" for s y
    using assms that f64_val_neg_sign [OF that(2)] by (auto simp: f64_not_neg_iff f64_val_neg_inf)
  ultimately show ?thesis using assms
    by (auto simp: f64_not_neg_iff f64_mul_def Let_def mult_less_0_iff split: fval.splits
        dest!: fval_round_FInfD dest: fval_round_FFinD)
qed

lemma f64_not_neg_div:
  assumes "f64_not_neg a" "f64_lt 0 b"
  shows "f64_not_neg (f64_div a b)"
proof -
  have b: "f64_val b = FInf False \<or> (\<exists>y. f64_val b = FFin y \<and> 0 < y)"
    using assms(2) by (cases "f64_val b") (auto simp: f64_lt_def)
  then have nb: "\<not> f64_neg b" using f64_val_neg_sign f64_val_neg_inf by blast
  have na: "\<not> f64_neg a" if "f64_val a = FInf s" for s
    using assms(1) that by (simp add: f64_not_neg_iff f64_val_neg_inf)
  from b show ?thesis using assms(1) nb na
    by (auto simp: f64_not_neg_iff f64_div_def Let_def f64_val_pack divide_less_0_iff split: fval.splits
        dest!: fval_round_FInfD dest: fval_round_FFinD)
qed


text \<open>Adding a link cost to an accumulated cost.\<close>

definition f64_path_cost :: "f64 \<Rightarrow> bool" where
  "f64_path_cost c \<longleftrightarrow> (case f64_val c of FFin x \<Rightarrow> 0 \<le> x | _ \<Rightarrow> False) \<and> f64_lt c f64_max_value"

definition f64_rank :: "f64 \<Rightarrow> real" where
  "f64_rank c = (case f64_val c of FFin x \<Rightarrow> x | _ \<Rightarrow> 0)"

lemma f64_path_costE:
  assumes "f64_path_cost c"
  obtains x where "f64_val c = FFin x" "0 \<le> x" "f64_rank c = x" "f64_lt c f64_max_value"
  using assms by (auto simp: f64_path_cost_def f64_rank_def split: fval.splits)

lemma f64_path_cost_not_nan: "f64_path_cost c \<Longrightarrow> \<not> f64_is_nan c"
  by (auto simp: f64_path_cost_def f64_is_nan_def split: fval.splits)

lemma f64_path_cost_zero [simp]: "f64_path_cost 0" "f64_rank 0 = 0"
  by (auto simp: f64_path_cost_def f64_rank_def f64_lt_def f64_max_value_val mag_val_pos)

lemma f64_lt_rank: "f64_path_cost a \<Longrightarrow> f64_path_cost b \<Longrightarrow> f64_lt a b \<longleftrightarrow> f64_rank a < f64_rank b"
  by (auto simp: f64_lt_def elim!: f64_path_costE)

lemma f64_add_inflationary:
  assumes c: "f64_path_cost c" and w: "f64_not_neg w" and lt: "f64_lt (f64_add c w) f64_max_value"
  shows "f64_path_cost (f64_add c w)" and "f64_rank c \<le> f64_rank (f64_add c w)"
proof -
  obtain x where x: "f64_val c = FFin x" "0 \<le> x" "f64_rank c = x" using c by (rule f64_path_costE)
  obtain y where y: "f64_val w = FFin y" "0 \<le> y"
    using w lt x by (cases "f64_val w") (auto simp: f64_not_neg_iff f64_add_def f64_lt_def f64_max_value_val)
  have v: "f64_val (f64_add c w) = fval_round (x + y)" by (rule f64_val_add_fin [OF x(1) y(1)])
  have "fval_le (FFin x) (fval_round (x + y))"
    using fval_round_mono [of x "x + y"] y(2) fval_round_exact [OF x(1)] by simp
  moreover have "fval_lt (fval_round (x + y)) (f64_val f64_max_value)" using lt v by (simp add: f64_lt_def)
  ultimately obtain z where z: "fval_round (x + y) = FFin z" "x \<le> z"
    by (cases "fval_round (x + y)") (auto simp: f64_max_value_val)
  then show "f64_path_cost (f64_add c w)" and "f64_rank c \<le> f64_rank (f64_add c w)"
    using v x lt by (auto simp: f64_path_cost_def f64_rank_def)
qed

lemma f64_add_mono:
  assumes c: "f64_path_cost c" and d: "f64_path_cost d" and w: "f64_not_neg w"
    and le: "f64_rank c \<le> f64_rank d" and lt: "f64_lt (f64_add d w) f64_max_value"
  shows "f64_lt (f64_add c w) f64_max_value" and "f64_rank (f64_add c w) \<le> f64_rank (f64_add d w)"
proof -
  obtain x where x: "f64_val c = FFin x" "0 \<le> x" "f64_rank c = x" using c by (rule f64_path_costE)
  obtain z where z: "f64_val d = FFin z" "0 \<le> z" "f64_rank d = z" using d by (rule f64_path_costE)
  obtain y where y: "f64_val w = FFin y" "0 \<le> y"
    using w lt z by (cases "f64_val w") (auto simp: f64_not_neg_iff f64_add_def f64_lt_def f64_max_value_val)
  have vc: "f64_val (f64_add c w) = fval_round (x + y)" by (rule f64_val_add_fin [OF x(1) y(1)])
  have vd: "f64_val (f64_add d w) = fval_round (z + y)" by (rule f64_val_add_fin [OF z(1) y(1)])
  have m: "fval_le (fval_round (x + y)) (fval_round (z + y))" using le x z by (intro fval_round_mono) simp
  show L: "f64_lt (f64_add c w) f64_max_value"
    using fval_le_lt_trans [OF m] lt vc vd by (simp add: f64_lt_def)
  have "f64_path_cost (f64_add c w)" "f64_path_cost (f64_add d w)"
    using f64_add_inflationary(1) c d w L lt by auto
  moreover have "fval_le (f64_val (f64_add c w)) (f64_val (f64_add d w))" using m vc vd by simp
  ultimately show "f64_rank (f64_add c w) \<le> f64_rank (f64_add d w)"
    by (auto elim!: f64_path_costE)
qed

lemma f64_add_sticky:
  assumes c: "f64_not_neg c" and w: "f64_not_neg w" and ge: "\<not> f64_lt c f64_max_value"
  shows "\<not> f64_lt (f64_add c w) f64_max_value"
proof (cases "f64_val c")
  case FNaN
  then show ?thesis by (simp add: f64_lt_def f64_add_def)
next
  case (FInf s)
  then show ?thesis using c w
    by (cases "f64_val w") (auto simp: f64_lt_def f64_add_def f64_not_neg_iff f64_max_value_val)
next
  case (FFin x)
  show ?thesis
  proof (cases "f64_val w")
    case FNaN
    then show ?thesis using FFin by (simp add: f64_lt_def f64_add_def)
  next
    case (FInf s)
    then show ?thesis using FFin w by (simp add: f64_lt_def f64_add_def f64_not_neg_iff f64_max_value_val)
  next
    case y: (FFin y)
    have "fval_le (FFin x) (fval_round (x + y))"
      using fval_round_mono [of x "x + y"] w y fval_round_exact [OF FFin] by (simp add: f64_not_neg_iff)
    moreover have "fval_le (f64_val f64_max_value) (FFin x)"
      using ge FFin by (simp add: f64_lt_def f64_max_value_val)
    ultimately have "fval_le (f64_val f64_max_value) (fval_round (x + y))" by (blast intro: fval_le_trans)
    then show ?thesis using f64_val_add_fin [OF FFin y] by (simp add: f64_lt_def fval_le_iff)
  qed
qed

section \<open>What path search needs of costs\<close>

text \<open>
  The contract: \<open>ext c w\<close> extends the accumulated cost \<open>c\<close> by a link of cost \<open>w\<close>, \<open>top\<close>
  is the bound a cost must stay below, \<open>good\<close> costs are those that do not compare below zero
  (NaN included), and \<open>rank\<close> gives the number an \<open>ok\<close> cost stands for.
\<close>

locale cost_algebra =
  fixes ext :: "'c \<Rightarrow> 'c \<Rightarrow> 'c" and lt :: "'c \<Rightarrow> 'c \<Rightarrow> bool" and zero :: 'c and top :: 'c
    and ok :: "'c \<Rightarrow> bool" and good :: "'c \<Rightarrow> bool" and rank :: "'c \<Rightarrow> real"
  assumes ok_zero: "ok zero" and rank_zero: "rank zero = 0"
    and ok_good: "ok c \<Longrightarrow> good c" and ok_nonneg: "ok c \<Longrightarrow> 0 \<le> rank c"
    and ok_below: "ok c \<Longrightarrow> lt c top"
    and lt_rank: "ok a \<Longrightarrow> ok b \<Longrightarrow> lt a b \<longleftrightarrow> rank a < rank b"
    and lt_trans: "lt a b \<Longrightarrow> lt b c \<Longrightarrow> lt a c"
    and good_ext: "good c \<Longrightarrow> good w \<Longrightarrow> good (ext c w)"
    and ext_ok: "ok c \<Longrightarrow> good w \<Longrightarrow> lt (ext c w) top \<Longrightarrow> ok (ext c w)"
    and ext_inflates: "ok c \<Longrightarrow> good w \<Longrightarrow> lt (ext c w) top \<Longrightarrow> rank c \<le> rank (ext c w)"
    and ext_mono_lt: "ok c \<Longrightarrow> ok d \<Longrightarrow> good w \<Longrightarrow> rank c \<le> rank d \<Longrightarrow> lt (ext d w) top
      \<Longrightarrow> lt (ext c w) top"
    and ext_mono: "ok c \<Longrightarrow> ok d \<Longrightarrow> good w \<Longrightarrow> rank c \<le> rank d \<Longrightarrow> lt (ext d w) top
      \<Longrightarrow> rank (ext c w) \<le> rank (ext d w)"
    and sticky: "good c \<Longrightarrow> good w \<Longrightarrow> \<not> lt c top \<Longrightarrow> \<not> lt (ext c w) top"
begin

lemma good_foldl: "good c \<Longrightarrow> list_all good ws \<Longrightarrow> good (foldl ext c ws)"
  by (induction ws arbitrary: c) (auto intro: good_ext)

lemma foldl_ok: "ok c \<Longrightarrow> list_all good ws \<Longrightarrow> lt (foldl ext c ws) top \<Longrightarrow> ok (foldl ext c ws)"
proof (induction ws rule: rev_induct)
  case Nil
  then show ?case by simp
next
  case (snoc w ws)
  have "lt (foldl ext c ws) top"
  proof (rule ccontr)
    assume "\<not> lt (foldl ext c ws) top"
    then have "\<not> lt (ext (foldl ext c ws) w) top"
      using snoc.prems by (intro sticky good_foldl) (auto intro: ok_good)
    with snoc.prems show False by simp
  qed
  with snoc show ?case by (auto intro: ext_ok)
qed

lemma foldl_prefix_below:
  "ok c \<Longrightarrow> list_all good (ws @ [w]) \<Longrightarrow> lt (foldl ext c (ws @ [w])) top \<Longrightarrow> lt (foldl ext c ws) top"
  using sticky [of "foldl ext c ws" w] good_foldl [of c ws] by (auto intro: ok_good)

lemma lt_better:
  "ok a \<Longrightarrow> good b \<Longrightarrow> (lt b top \<Longrightarrow> ok b \<and> rank a \<le> rank b) \<Longrightarrow> \<not> lt b a"
  using lt_rank [of b a] lt_trans [of b a top] ok_below [of a] by auto

end

interpretation fcost: cost_algebra f64_add f64_lt "0 :: f64" f64_max_value
  f64_path_cost f64_not_neg f64_rank
proof unfold_locales
  show "f64_path_cost c \<Longrightarrow> f64_not_neg c" for c
    by (auto simp: f64_not_neg_iff elim!: f64_path_costE)
  show "f64_path_cost c \<Longrightarrow> 0 \<le> f64_rank c" for c
    by (auto elim!: f64_path_costE)
  show "f64_path_cost c \<Longrightarrow> f64_lt c f64_max_value" for c
    by (auto elim!: f64_path_costE)
qed (auto simp: f64_lt_rank f64_not_neg_add f64_add_sticky
       intro: f64_lt_trans f64_add_inflationary f64_add_mono)

section \<open>The unit interval\<close>

definition f64_unit :: "f64 \<Rightarrow> bool" where
  "f64_unit a \<longleftrightarrow> (case f64_val a of FFin x \<Rightarrow> 0 \<le> x \<and> x \<le> 1 | _ \<Rightarrow> False)"

lemma f64_unitE:
  assumes "f64_unit a"
  obtains x where "f64_val a = FFin x" "0 \<le> x" "x \<le> 1"
  using assms by (auto simp: f64_unit_def split: fval.splits)

lemma f64_unit_iff_fval: "f64_unit a \<longleftrightarrow> fval_le (FFin 0) (f64_val a) \<and> fval_le (f64_val a) (FFin 1)"
  by (cases "f64_val a") (auto simp: f64_unit_def)

lemma f64_one_val: "f64_val (f64_lit 1) = FFin 1"
  by (simp add: f64_eval)

lemma f64_clamp_unit:
  assumes "\<not> f64_is_nan x"
  shows "f64_unit (f64_clamp x 0 (f64_lit 1))"
  using assms f64_one_val
  by (cases "f64_val x") (auto simp: f64_clamp_def f64_unit_def f64_lt_def f64_is_nan_def Let_def)

lemma f64_mul_unit_below:
  assumes "f64_val k = FFin a" "0 \<le> a" "f64_unit x"
  shows "\<exists>p. f64_val (f64_mul k x) = FFin p \<and> 0 \<le> p \<and> p \<le> a"
proof -
  obtain y where y: "f64_val x = FFin y" "0 \<le> y" "y \<le> 1" using assms(3) by (rule f64_unitE)
  have v: "f64_val (f64_mul k x) = fval_round (a * y)" using assms(1) y(1) by (simp add: f64_mul_def Let_def)
  have "fval_le (fval_round (a * y)) (FFin a)"
    using fval_round_mono [of "a * y" a] fval_round_exact [OF assms(1)] assms(2) y
    by (simp add: mult_left_le)
  moreover have "fval_le (FFin 0) (fval_round (a * y))"
    using fval_round_mono [of 0 "a * y"] assms(2) y by simp
  ultimately show ?thesis using v by (cases "fval_round (a * y)") auto
qed

lemma f64_weighted_unit:
  assumes k: "f64_val k = FFin a" "0 \<le> a" and l: "f64_val l = FFin b" "0 \<le> b"
    and sum: "fval_round (a + b) = FFin 1" and x: "f64_unit x" and y: "f64_unit y"
  shows "f64_unit (f64_add (f64_mul k x) (f64_mul l y))"
proof -
  obtain p where p: "f64_val (f64_mul k x) = FFin p" "0 \<le> p" "p \<le> a" using f64_mul_unit_below [OF k x] by blast
  obtain q where q: "f64_val (f64_mul l y) = FFin q" "0 \<le> q" "q \<le> b" using f64_mul_unit_below [OF l y] by blast
  have "fval_le (FFin 0) (fval_round (p + q))" using fval_round_mono [of 0 "p + q"] p q by simp
  moreover have "fval_le (fval_round (p + q)) (FFin 1)"
    using fval_round_mono [of "p + q" "a + b"] p q sum by simp
  ultimately show ?thesis using f64_val_add_fin [OF p(1) q(1)] by (simp add: f64_unit_iff_fval)
qed

end
