(* ===== verification/Link_Metrics.thy ===== *)
theory Link_Metrics
  imports F64
begin

text \<open>
  \<^verbatim>\<open>crates/omnimesh-routing/src/metrics.rs\<close>: the metrics of a directed link, their composite
  cost, and the tracker that smooths measurements with an exponential moving average. All
  arithmetic is the double-precision arithmetic of \<open>F64\<close>, rounding included.
\<close>

section \<open>Metrics and cost\<close>

definition EMA_ALPHA :: f64 where
  "EMA_ALPHA = f64_lit (2 / 10)"

record LinkMetrics =
  latency_ms :: f64
  bandwidth_kbps :: f64
  loss_rate :: f64
  relay_cost :: f64

definition LinkMetrics_default :: LinkMetrics where
  "LinkMetrics_default =
     \<lparr>latency_ms = f64_lit 10, bandwidth_kbps = f64_lit 10000, loss_rate = 0, relay_cost = 0\<rparr>"

definition link_cost :: "LinkMetrics \<Rightarrow> f64" where
  "link_cost m =
     (let bw_mbps = f64_max (f64_div (bandwidth_kbps m) (f64_lit 1000)) (f64_lit (1 / 10))
      in f64_add
           (f64_div (f64_mul (latency_ms m) (f64_add (f64_lit 1) (loss_rate m))) bw_mbps)
           (relay_cost m))"

section \<open>The tracker\<close>

record LinkMetricTracker =
  latency_ema :: f64
  bandwidth_ema :: f64
  loss_rate_ema :: f64
  tracker_relay_cost :: f64

definition tracker_default :: LinkMetricTracker where
  "tracker_default =
     (let def = LinkMetrics_default in
      \<lparr>latency_ema = latency_ms def, bandwidth_ema = bandwidth_kbps def,
       loss_rate_ema = loss_rate def, tracker_relay_cost = relay_cost def\<rparr>)"

definition tracker_new :: "LinkMetrics \<Rightarrow> LinkMetricTracker" where
  "tracker_new initial =
     \<lparr>latency_ema = latency_ms initial, bandwidth_ema = bandwidth_kbps initial,
      loss_rate_ema = loss_rate initial, tracker_relay_cost = relay_cost initial\<rparr>"

text \<open>The expression \<^verbatim>\<open>EMA_ALPHA * x + (1.0 - EMA_ALPHA) * old\<close> of the three recorders.\<close>

definition ema :: "f64 \<Rightarrow> f64 \<Rightarrow> f64" where
  "ema x old = f64_add (f64_mul EMA_ALPHA x) (f64_mul (f64_sub (f64_lit 1) EMA_ALPHA) old)"

definition tracker_record_latency :: "f64 \<Rightarrow> LinkMetricTracker \<Rightarrow> LinkMetricTracker" where
  "tracker_record_latency x t = t\<lparr>latency_ema := ema x (latency_ema t)\<rparr>"

definition tracker_record_bandwidth :: "f64 \<Rightarrow> LinkMetricTracker \<Rightarrow> LinkMetricTracker" where
  "tracker_record_bandwidth x t = t\<lparr>bandwidth_ema := ema x (bandwidth_ema t)\<rparr>"

definition tracker_record_loss_rate :: "f64 \<Rightarrow> LinkMetricTracker \<Rightarrow> LinkMetricTracker" where
  "tracker_record_loss_rate x t =
     (let clamped = f64_clamp x 0 (f64_lit 1) in t\<lparr>loss_rate_ema := ema clamped (loss_rate_ema t)\<rparr>)"

definition set_relay_cost :: "f64 \<Rightarrow> LinkMetricTracker \<Rightarrow> LinkMetricTracker" where
  "set_relay_cost c t = t\<lparr>tracker_relay_cost := c\<rparr>"

definition tracker_metrics :: "LinkMetricTracker \<Rightarrow> LinkMetrics" where
  "tracker_metrics t =
     \<lparr>latency_ms = latency_ema t, bandwidth_kbps = bandwidth_ema t,
      loss_rate = loss_rate_ema t, relay_cost = tracker_relay_cost t\<rparr>"

definition tracker_cost :: "LinkMetricTracker \<Rightarrow> f64" where
  "tracker_cost t = link_cost (tracker_metrics t)"

lemmas tracker_defs [model_simps] =
  tracker_record_latency_def tracker_record_bandwidth_def tracker_record_loss_rate_def
  set_relay_cost_def tracker_metrics_def tracker_new_def tracker_default_def LinkMetrics_default_def

section \<open>Costs are not negative\<close>

text \<open>Metrics as the comments describe them: no field compares below zero.\<close>

definition metrics_sane :: "LinkMetrics \<Rightarrow> bool" where
  "metrics_sane m \<longleftrightarrow>
     f64_not_neg (latency_ms m) \<and> f64_not_neg (loss_rate m) \<and> f64_not_neg (relay_cost m)"

lemma f64_lits:
  "f64_val (f64_lit 1) = FFin 1" "f64_val (f64_lit 10) = FFin 10" "f64_not_neg (f64_lit 1)"
  "f64_lt 0 (f64_lit (1 / 10))" "\<not> f64_is_nan (f64_lit (1 / 10))"
  "f64_not_neg EMA_ALPHA" "f64_not_neg (f64_sub (f64_lit 1) EMA_ALPHA)"
  by (simp_all add: f64_eval f64_not_neg_def EMA_ALPHA_def)

lemma bandwidth_divisor_positive: "f64_lt 0 (f64_max x (f64_lit (1 / 10)))"
proof (cases "f64_is_nan x \<or> f64_lt x (f64_lit (1 / 10))")
  case True
  then show ?thesis using f64_lits by (auto simp: f64_max_def)
next
  case False
  then have "f64_max x (f64_lit (1 / 10)) = x" using f64_lits by (simp add: f64_max_def)
  moreover have "fval_le (f64_val (f64_lit (1 / 10))) (f64_val x)"
    using False f64_lits(5) by (auto simp: fval_le_iff f64_is_nan_def f64_lt_def)
  ultimately show ?thesis using f64_lits(4) False
    by (cases "f64_val x"; cases "f64_val (f64_lit (1 / 10))") (auto simp: f64_lt_def f64_is_nan_def)
qed

lemma link_cost_not_neg: "metrics_sane m \<Longrightarrow> f64_not_neg (link_cost m)"
  by (auto simp: link_cost_def Let_def metrics_sane_def f64_lits
      intro!: f64_not_neg_add f64_not_neg_div f64_not_neg_mul bandwidth_divisor_positive)

section \<open>The tracker keeps its metrics sane\<close>

lemma ema_not_neg: "f64_not_neg x \<Longrightarrow> f64_not_neg y \<Longrightarrow> f64_not_neg (ema x y)"
  by (auto simp: ema_def f64_lits intro!: f64_not_neg_add f64_not_neg_mul)

lemma ema_weights:
  "f64_val EMA_ALPHA = FFin (3602879701896397 / 18014398509481984)"
  "f64_val (f64_sub (f64_lit 1) EMA_ALPHA) = FFin (3602879701896397 / 4503599627370496)"
  "fval_round (3602879701896397 / 18014398509481984 + 3602879701896397 / 4503599627370496) = FFin 1"
  by (simp_all add: f64_eval EMA_ALPHA_def fval_round_def)

lemma ema_unit: "f64_unit x \<Longrightarrow> f64_unit y \<Longrightarrow> f64_unit (ema x y)"
  unfolding ema_def
  by (rule f64_weighted_unit [OF ema_weights(1) _ ema_weights(2) _ ema_weights(3)]) simp_all

lemma f64_unit_not_neg: "f64_unit x \<Longrightarrow> f64_not_neg x"
  by (auto simp: f64_not_neg_iff elim!: f64_unitE)

text \<open>The operations of a tracker, as a run applies them.\<close>

datatype measurement = Latency f64 | Bandwidth f64 | Loss f64 | RelayCost f64

fun tracker_apply :: "measurement \<Rightarrow> LinkMetricTracker \<Rightarrow> LinkMetricTracker" where
  "tracker_apply (Latency x) t = tracker_record_latency x t"
| "tracker_apply (Bandwidth x) t = tracker_record_bandwidth x t"
| "tracker_apply (Loss x) t = tracker_record_loss_rate x t"
| "tracker_apply (RelayCost x) t = set_relay_cost x t"

text \<open>Latencies and relay costs not below zero; loss samples arbitrary but not NaN.\<close>

fun measurement_ok :: "measurement \<Rightarrow> bool" where
  "measurement_ok (Latency x) = f64_not_neg x"
| "measurement_ok (Bandwidth x) = True"
| "measurement_ok (Loss x) = (\<not> f64_is_nan x)"
| "measurement_ok (RelayCost x) = f64_not_neg x"

definition tracker_inv :: "LinkMetricTracker \<Rightarrow> bool" where
  "tracker_inv t \<longleftrightarrow> f64_not_neg (latency_ema t) \<and> f64_unit (loss_rate_ema t)
     \<and> f64_not_neg (tracker_relay_cost t)"

lemma tracker_apply_inv: "measurement_ok x \<Longrightarrow> tracker_inv t \<Longrightarrow> tracker_inv (tracker_apply x t)"
  by (cases x) (auto simp: tracker_inv_def model_simps Let_def intro: ema_not_neg ema_unit f64_clamp_unit)

lemma tracker_run_inv:
  "list_all measurement_ok xs \<Longrightarrow> tracker_inv t \<Longrightarrow> tracker_inv (fold tracker_apply xs t)"
  by (induction xs arbitrary: t) (auto intro: tracker_apply_inv)

lemma tracker_inv_sane: "tracker_inv t \<Longrightarrow> metrics_sane (tracker_metrics t)"
  by (auto simp: tracker_inv_def metrics_sane_def model_simps f64_unit_not_neg)

lemma tracker_new_default_inv: "tracker_inv (tracker_new LinkMetrics_default)"
  by (simp add: tracker_inv_def model_simps f64_eval f64_not_neg_def f64_unit_def)

end
