(* ===== verification/Core_Types.thy ===== *)
theory Core_Types
  imports Prelude
begin

text \<open>
  The shared vocabulary of the workspace, \<^verbatim>\<open>crates/omnimesh-core/src/error.rs\<close> and
  \<^verbatim>\<open>types.rs\<close>: the error type with its two classifications and its display form, protocol
  versions, peer identifiers with their hexadecimal form, node records, connection states and
  socket addresses. The \<^verbatim>\<open>hex\<close> crate is a parameter of the operations that call it; its contract
  is the locale \<open>hex_codec\<close>, which lower-case hexadecimal satisfies.
\<close>

section \<open>Errors\<close>

datatype OmniMeshError =
    Identity string
  | KeyStore string
  | KeyRotation string
  | Crypto string
  | Handshake string
  | KeyDerivation string
  | Connection string
  | Transport string
  | Timeout u64
  | Address string
  | NoRoute string
  | Routing string
  | Discovery string
  | Service string
  | Config string
  | Storage string
  | ProtocolMismatch string string
  | InvalidPacket string
  | Io string
  | Serialization string
  | Internal string

type_synonym 'a result = "OmniMeshError + 'a"

text \<open>A call that may also panic.\<close>

datatype 'a outcome = Returned "'a result" | Panicked

fun is_retryable :: "OmniMeshError \<Rightarrow> bool" where
  "is_retryable (Connection _) = True"
| "is_retryable (Timeout _) = True"
| "is_retryable (Transport _) = True"
| "is_retryable (Discovery _) = True"
| "is_retryable (Io _) = True"
| "is_retryable _ = False"

fun is_security_error :: "OmniMeshError \<Rightarrow> bool" where
  "is_security_error (Crypto _) = True"
| "is_security_error (Handshake _) = True"
| "is_security_error (KeyStore _) = True"
| "is_security_error (InvalidPacket _) = True"
| "is_security_error _ = False"

text \<open>Decimal digits, as Rust formats an unsigned integer.\<close>

fun show_nat :: "nat \<Rightarrow> string" where
  "show_nat n = (if n < 10 then [char_of (48 + n)] else show_nat (n div 10) @ [char_of (48 + n mod 10)])"

declare show_nat.simps [simp del]

lemma show_nat_nonempty [simp]: "show_nat n \<noteq> []"
  by (subst show_nat.simps) simp

fun display_error :: "OmniMeshError \<Rightarrow> string" where
  "display_error (Identity m) = ''identity error: '' @ m"
| "display_error (KeyStore m) = ''keystore error: '' @ m"
| "display_error (KeyRotation m) = ''key rotation error: '' @ m"
| "display_error (Crypto m) = ''crypto error: '' @ m"
| "display_error (Handshake m) = ''handshake error: '' @ m"
| "display_error (KeyDerivation m) = ''key derivation error: '' @ m"
| "display_error (Connection m) = ''connection error: '' @ m"
| "display_error (Transport m) = ''transport error: '' @ m"
| "display_error (Timeout ms) = ''timeout after '' @ show_nat (unat ms) @ ''ms''"
| "display_error (Address m) = ''address error: '' @ m"
| "display_error (NoRoute m) = ''no route to peer: '' @ m"
| "display_error (Routing m) = ''routing error: '' @ m"
| "display_error (Discovery m) = ''discovery error: '' @ m"
| "display_error (Service m) = ''service error: '' @ m"
| "display_error (Config m) = ''config error: '' @ m"
| "display_error (Storage m) = ''storage error: '' @ m"
| "display_error (ProtocolMismatch l r) =
     ''protocol version mismatch: local='' @ l @ '', remote='' @ r"
| "display_error (InvalidPacket m) = ''invalid packet: '' @ m"
| "display_error (Io m) = ''I/O error: '' @ m"
| "display_error (Serialization m) = ''serialization error: '' @ m"
| "display_error (Internal m) = ''internal error: '' @ m"

lemma retryable_not_security: "is_retryable e \<Longrightarrow> \<not> is_security_error e"
  by (cases e) simp_all

section \<open>Protocol versions\<close>

record ProtocolVersion =
  major :: u16
  minor :: u16
  patch :: u16

definition CURRENT :: ProtocolVersion where
  "CURRENT = \<lparr>major = 0, minor = 1, patch = 0\<rparr>"

definition is_compatible_with :: "ProtocolVersion \<Rightarrow> ProtocolVersion \<Rightarrow> bool" where
  "is_compatible_with v w \<longleftrightarrow> major v = major w"

definition display_version :: "ProtocolVersion \<Rightarrow> string" where
  "display_version v =
     show_nat (unat (major v)) @ ''.'' @ show_nat (unat (minor v)) @ ''.'' @ show_nat (unat (patch v))"

section \<open>Peer identifiers\<close>

datatype PeerId = PeerId (as_bytes: bytes)

definition from_bytes :: "bytes \<Rightarrow> PeerId" where
  "from_bytes bs = PeerId bs"

text \<open>The array type \<^verbatim>\<open>[u8; 32]\<close>.\<close>

definition peer_wf :: "PeerId \<Rightarrow> bool" where
  "peer_wf p \<longleftrightarrow> length (as_bytes p) = 32"

definition to_hex :: "(bytes \<Rightarrow> string) \<Rightarrow> PeerId \<Rightarrow> string" where
  "to_hex hex_encode p = hex_encode (as_bytes p)"

text \<open>\<open>hex_decode\<close> returns the display form of the decoding error on the left.\<close>

definition from_hex :: "(string \<Rightarrow> string + bytes) \<Rightarrow> string \<Rightarrow> PeerId result" where
  "from_hex hex_decode s =
     (case hex_decode s of
        Inl e \<Rightarrow> Inl (Identity (''invalid hex PeerId: '' @ e))
      | Inr bs \<Rightarrow>
          if length bs \<noteq> 32
          then Inl (Identity (''PeerId must be 32 bytes, got '' @ show_nat (length bs)))
          else Inr (PeerId bs))"

definition to_base64 :: "(bytes \<Rightarrow> string) \<Rightarrow> PeerId \<Rightarrow> string" where
  "to_base64 base64_encode p = base64_encode (as_bytes p)"

text \<open>The slice \<^verbatim>\<open>[..8]\<close> panics (\<open>None\<close>) on a shorter string.\<close>

definition short :: "(bytes \<Rightarrow> string) \<Rightarrow> PeerId \<Rightarrow> string option" where
  "short hex_encode p =
     (let h = to_hex hex_encode p in if length h < 8 then None else Some (take 8 h))"

definition debug_peer_id :: "(bytes \<Rightarrow> string) \<Rightarrow> PeerId \<Rightarrow> string option" where
  "debug_peer_id hex_encode p =
     map_option (\<lambda>s. ''PeerId('' @ s @ [CHR 0xE2, CHR 0x80, CHR 0xA6] @ '')'') (short hex_encode p)"

definition display_peer_id :: "(bytes \<Rightarrow> string) \<Rightarrow> PeerId \<Rightarrow> string" where
  "display_peer_id hex_encode p = to_hex hex_encode p"

record NodeInfo =
  ni_peer_id :: PeerId
  ni_name :: string
  ni_version :: ProtocolVersion
  ni_addresses :: "string list"
  ni_last_seen :: u64
  ni_is_relay :: bool

section \<open>Connection states\<close>

datatype ConnectionState = Disconnected | Connecting | Connected | Disconnecting

fun display_state :: "ConnectionState \<Rightarrow> string" where
  "display_state Disconnected = ''disconnected''"
| "display_state Connecting = ''connecting''"
| "display_state Connected = ''connected''"
| "display_state Disconnecting = ''disconnecting''"

section \<open>Socket addresses\<close>

text \<open>
  \<^verbatim>\<open>std::net\<close>: an IPv4 address is 4 octets, an IPv6 address 16; an IPv6 socket address
  carries a flow label and a scope as well, which \<^verbatim>\<open>SocketAddr::new\<close> sets to zero.
\<close>

datatype IpAddr = V4 bytes | V6 bytes

datatype SocketAddr = SocketAddrV4 bytes u16 | SocketAddrV6 bytes u16 u32 u32

fun socket_addr_new :: "IpAddr \<Rightarrow> u16 \<Rightarrow> SocketAddr" where
  "socket_addr_new (V4 a) p = SocketAddrV4 a p"
| "socket_addr_new (V6 a) p = SocketAddrV6 a p 0 0"

fun socket_ip :: "SocketAddr \<Rightarrow> IpAddr" where
  "socket_ip (SocketAddrV4 a _) = V4 a"
| "socket_ip (SocketAddrV6 a _ _ _) = V6 a"

fun socket_port :: "SocketAddr \<Rightarrow> u16" where
  "socket_port (SocketAddrV4 _ p) = p"
| "socket_port (SocketAddrV6 _ p _ _) = p"

section \<open>The contract of the hexadecimal codec\<close>

locale hex_codec =
  fixes hex_encode :: "bytes \<Rightarrow> string" and hex_decode :: "string \<Rightarrow> string + bytes"
  assumes decode_encode: "hex_decode (hex_encode bs) = Inr bs"
    and encode_length: "length (hex_encode bs) = 2 * length bs"
begin

lemma from_hex_to_hex: "peer_wf p \<Longrightarrow> from_hex hex_decode (to_hex hex_encode p) = Inr p"
  by (cases p) (simp add: from_hex_def to_hex_def peer_wf_def decode_encode)

lemma from_hex_wf: "from_hex hex_decode s = Inr p \<Longrightarrow> peer_wf p"
  by (auto simp: from_hex_def peer_wf_def split: sum.splits if_splits)

lemma short_total: "peer_wf p \<Longrightarrow> \<exists>h. short hex_encode p = Some h \<and> length h = 8"
  by (simp add: short_def to_hex_def peer_wf_def encode_length)

lemma to_hex_inj: "to_hex hex_encode p = to_hex hex_encode q \<Longrightarrow> p = q"
  using decode_encode [of "as_bytes p"] decode_encode [of "as_bytes q"]
  by (cases p; cases q) (simp add: to_hex_def)

end

text \<open>Lower-case hexadecimal, the format of the crate, satisfies it.\<close>

definition hex_digit :: "nat \<Rightarrow> char" where
  "hex_digit n = (if n < 10 then char_of (48 + n) else char_of (87 + n))"

definition hex_value :: "char \<Rightarrow> nat option" where
  "hex_value c =
     (let n = of_char c :: nat in
      if 48 \<le> n \<and> n \<le> 57 then Some (n - 48)
      else if 97 \<le> n \<and> n \<le> 102 then Some (n - 87)
      else if 65 \<le> n \<and> n \<le> 70 then Some (n - 55)
      else None)"

fun lower_hex :: "bytes \<Rightarrow> string" where
  "lower_hex [] = []"
| "lower_hex (b # bs) = hex_digit (unat b div 16) # hex_digit (unat b mod 16) # lower_hex bs"

fun parse_hex :: "string \<Rightarrow> string + bytes" where
  "parse_hex [] = Inr []"
| "parse_hex [c] = Inl ''Odd number of digits''"
| "parse_hex (c # d # cs) =
     (case (hex_value c, hex_value d) of
        (Some h, Some l) \<Rightarrow>
          (case parse_hex cs of Inl e \<Rightarrow> Inl e | Inr bs \<Rightarrow> Inr (word_of_nat (16 * h + l) # bs))
      | _ \<Rightarrow> Inl ''Invalid character'')"

lemma hex_value_digit: "n < 16 \<Longrightarrow> hex_value (hex_digit n) = Some n"
  by (auto simp: hex_value_def hex_digit_def Let_def)

lemma parse_lower_hex: "parse_hex (lower_hex bs) = Inr bs"
proof (induction bs)
  case Nil
  then show ?case by simp
next
  case (Cons b bs)
  have "unat b < 256" by (rule unat_u8_less)
  then have "hex_value (hex_digit (unat b div 16)) = Some (unat b div 16)"
    "hex_value (hex_digit (unat b mod 16)) = Some (unat b mod 16)"
    by (auto intro!: hex_value_digit)
  with Cons show ?case by simp
qed

lemma length_lower_hex: "length (lower_hex bs) = 2 * length bs"
  by (induction bs) simp_all

interpretation lower: hex_codec lower_hex parse_hex
  by unfold_locales (simp_all add: parse_lower_hex length_lower_hex)

end
