(* ===== verification/Route_Graph.thy ===== *)
theory Route_Graph
  imports Link_Metrics Core_Types
begin

text \<open>
  \<^verbatim>\<open>crates/omnimesh-routing/src/graph.rs\<close>: the adjacency map of the mesh, its link operations,
  and the path search \<^verbatim>\<open>find_shortest_path\<close> with its two loops. The order of an adjacency list is
  the iteration order of the \<^verbatim>\<open>HashMap\<close>; nothing below depends on it. The contract of
  \<^verbatim>\<open>BinaryHeap\<close> is the locale \<open>binary_heap\<close>: \<open>pop\<close> removes one entry that no other entry
  compares greater than.
\<close>

section \<open>The graph\<close>

record RouteGraph =
  edges :: "(PeerId \<times> (PeerId \<times> LinkMetrics) list) list"

definition graph_new :: RouteGraph where
  "graph_new = \<lparr>edges = []\<rparr>"

definition add_link :: "PeerId \<Rightarrow> PeerId \<Rightarrow> LinkMetrics \<Rightarrow> RouteGraph \<Rightarrow> RouteGraph" where
  "add_link from to metrics g =
     (let neighbours = (case map_of (edges g) from of Some ns \<Rightarrow> ns | None \<Rightarrow> [])
      in g\<lparr>edges := AList.update from (AList.update to metrics neighbours) (edges g)\<rparr>)"

definition remove_link :: "PeerId \<Rightarrow> PeerId \<Rightarrow> RouteGraph \<Rightarrow> RouteGraph" where
  "remove_link from to g =
     (case map_of (edges g) from of
        None \<Rightarrow> g
      | Some neighbours \<Rightarrow>
          (let neighbours = AList.delete to neighbours
           in if neighbours = [] then g\<lparr>edges := AList.delete from (edges g)\<rparr>
              else g\<lparr>edges := AList.update from neighbours (edges g)\<rparr>))"

definition get_link :: "RouteGraph \<Rightarrow> PeerId \<Rightarrow> PeerId \<Rightarrow> LinkMetrics option" where
  "get_link g from to =
     (case map_of (edges g) from of None \<Rightarrow> None | Some neighbours \<Rightarrow> map_of neighbours to)"

section \<open>Path search\<close>

record SearchState =
  ss_cost :: f64
  ss_node :: PeerId

definition SearchState_cmp :: "SearchState \<Rightarrow> SearchState \<Rightarrow> ordering" where
  "SearchState_cmp self other =
     (case f64_partial_cmp (ss_cost other) (ss_cost self) of Some ord \<Rightarrow> ord | None \<Rightarrow> Equal)"

text \<open>
  The local variables of \<^verbatim>\<open>find_shortest_path\<close>. The heap is the collection of its entries;
  which entry \<^verbatim>\<open>BinaryHeap::pop\<close> takes among equally good ones is left to the parameter
  \<open>heap_pop\<close>.
\<close>

type_synonym heap_pop = "SearchState list \<Rightarrow> (SearchState \<times> SearchState list) option"

record search =
  distances :: "PeerId \<rightharpoonup> f64"
  predecessors :: "PeerId \<rightharpoonup> PeerId"
  heap :: "SearchState list"

definition current_best :: "search \<Rightarrow> PeerId \<Rightarrow> f64" where
  "current_best s v = (case distances s v of Some d \<Rightarrow> d | None \<Rightarrow> f64_max_value)"

definition relax :: "f64 \<Rightarrow> PeerId \<Rightarrow> PeerId \<times> LinkMetrics \<Rightarrow> search \<Rightarrow> search" where
  "relax cost node nm s =
     (let neighbour = fst nm; next_cost = f64_add cost (link_cost (snd nm))
      in if f64_lt next_cost (current_best s neighbour)
         then s\<lparr>distances := (distances s)(neighbour \<mapsto> next_cost),
                predecessors := (predecessors s)(neighbour \<mapsto> node),
                heap := \<lparr>ss_cost = next_cost, ss_node = neighbour\<rparr> # heap s\<rparr>
         else s)"

definition process_entry :: "RouteGraph \<Rightarrow> SearchState \<Rightarrow> search \<Rightarrow> search" where
  "process_entry g e s =
     (if (case distances s (ss_node e) of Some best_dist \<Rightarrow> f64_lt best_dist (ss_cost e) | None \<Rightarrow> False)
      then s
      else case map_of (edges g) (ss_node e) of
             Some neighbours \<Rightarrow> fold (relax (ss_cost e) (ss_node e)) neighbours s
           | None \<Rightarrow> s)"

text \<open>
  The \<^verbatim>\<open>while let Some(..) = heap.pop()\<close> loop: the outer option is \<open>None\<close> when the loop never
  ends, the inner one is \<open>None\<close> when the heap ran empty and otherwise the state in which the
  target was taken from the heap.
\<close>

partial_function (option) search_loop ::
  "heap_pop \<Rightarrow> RouteGraph \<Rightarrow> PeerId \<Rightarrow> search \<Rightarrow> search option option" where
  "search_loop heap_pop g target s =
     (case heap_pop (heap s) of
        None \<Rightarrow> Some None
      | Some (e, h) \<Rightarrow>
          (if ss_node e = target then Some (Some (s\<lparr>heap := h\<rparr>))
           else search_loop heap_pop g target (process_entry g e (s\<lparr>heap := h\<rparr>))))"

text \<open>The \<^verbatim>\<open>while let Some(pred)\<close> loop that walks the predecessors back, pushing onto \<open>path\<close>.\<close>

partial_function (option) walk_back ::
  "(PeerId \<rightharpoonup> PeerId) \<Rightarrow> PeerId \<Rightarrow> PeerId list \<Rightarrow> PeerId list option" where
  "walk_back preds current path =
     (case preds current of
        None \<Rightarrow> Some path
      | Some pred \<Rightarrow> walk_back preds pred (path @ [pred]))"

definition search_start :: "PeerId \<Rightarrow> search" where
  "search_start start =
     \<lparr>distances = [start \<mapsto> 0], predecessors = Map.empty,
      heap = [\<lparr>ss_cost = 0, ss_node = start\<rparr>]\<rparr>"

text \<open>The outer option of the result is \<open>None\<close> when one of the two loops does not end.\<close>

definition find_shortest_path ::
  "heap_pop \<Rightarrow> RouteGraph \<Rightarrow> PeerId \<Rightarrow> PeerId \<Rightarrow> PeerId list option option" where
  "find_shortest_path heap_pop g start target =
     (case search_loop heap_pop g target (search_start start) of
        None \<Rightarrow> None
      | Some None \<Rightarrow> Some None
      | Some (Some s) \<Rightarrow>
          (case walk_back (predecessors s) target [target] of
             None \<Rightarrow> None
           | Some path \<Rightarrow> Some (Some (rev path))))"

section \<open>The contract of the heap\<close>

lemma cmp_Greater_iff: "SearchState_cmp x e = Greater \<longleftrightarrow> f64_lt (ss_cost x) (ss_cost e)"
  using f64_lt_not_nan [of "ss_cost x" "ss_cost e"] f64_lt_asym [of "ss_cost x" "ss_cost e"]
  by (cases "f64_lt (ss_cost x) (ss_cost e)") (simp_all add: SearchState_cmp_def f64_partial_cmp_def)

locale binary_heap =
  fixes heap_pop :: heap_pop
  assumes pop_None: "heap_pop h = None \<longleftrightarrow> h = []"
    and pop_mset: "heap_pop h = Some (e, h') \<Longrightarrow> mset h = add_mset e (mset h')"
    and pop_greatest: "heap_pop h = Some (e, h') \<Longrightarrow> \<forall>y \<in> set h. \<not> f64_is_nan (ss_cost y) \<Longrightarrow>
      x \<in> set h \<Longrightarrow> SearchState_cmp x e \<noteq> Greater"
begin

lemma pop_set: "heap_pop h = Some (e, h') \<Longrightarrow> set h = insert e (set h')"
  by (drule pop_mset) (metis set_mset_add_mset_insert set_mset_mset)

lemma pop_length: "heap_pop h = Some (e, h') \<Longrightarrow> length h = Suc (length h')"
  by (drule pop_mset) (metis size_add_mset size_mset)

lemma pop_not_lt:
  assumes "heap_pop h = Some (e, h')" "\<forall>y \<in> set h. \<not> f64_is_nan (ss_cost y)" "x \<in> set h"
    "f64_lt (ss_cost x) (ss_cost e)"
  shows False
  using pop_greatest [OF assms(1,2,3)] assms(4) by (simp add: cmp_Greater_iff)

end

text \<open>Taking the first greatest entry is one such heap.\<close>

fun first_greatest :: "SearchState \<Rightarrow> SearchState list \<Rightarrow> SearchState" where
  "first_greatest e [] = e"
| "first_greatest e (x # xs) = (if SearchState_cmp x e = Greater then first_greatest x xs else first_greatest e xs)"

definition list_heap_pop :: heap_pop where
  "list_heap_pop h =
     (case h of [] \<Rightarrow> None | e # xs \<Rightarrow> (let m = first_greatest e xs in Some (m, remove1 m h)))"

lemma first_greatest_in: "first_greatest e xs \<in> insert e (set xs)"
  by (induction xs arbitrary: e) auto

text \<open>Not better than a NaN-free champion: the comparison is a weak order on the entries.\<close>

lemma first_greatest_not_worse:
  "f64_lt (ss_cost y) (ss_cost (first_greatest e xs)) \<Longrightarrow> f64_lt (ss_cost y) (ss_cost e)"
proof (induction xs arbitrary: e)
  case Nil
  then show ?case by simp
next
  case (Cons a xs)
  then show ?case
    by (cases "f64_lt (ss_cost a) (ss_cost e)") (auto simp: cmp_Greater_iff intro: f64_lt_trans)
qed

lemma first_greatest_max: "x \<in> insert e (set xs) \<Longrightarrow> \<not> f64_lt (ss_cost x) (ss_cost (first_greatest e xs))"
proof (induction xs arbitrary: e)
  case Nil
  then show ?case by simp
next
  case (Cons a xs)
  show ?case
  proof (cases "f64_lt (ss_cost a) (ss_cost e)")
    case True
    then have "\<not> f64_lt (ss_cost e) (ss_cost (first_greatest a xs))"
      using first_greatest_not_worse [of e a xs] f64_lt_asym by blast
    with True Cons show ?thesis by (auto simp: cmp_Greater_iff)
  next
    case False
    then have "\<not> f64_lt (ss_cost a) (ss_cost (first_greatest e xs))"
      using first_greatest_not_worse [of a e xs] by blast
    with False Cons show ?thesis by (auto simp: cmp_Greater_iff)
  qed
qed

interpretation list_heap: binary_heap list_heap_pop
proof unfold_locales
  fix h e h' assume pop: "list_heap_pop h = Some (e, h')"
  then obtain x xs where h: "h = x # xs" and e: "e = first_greatest x xs" and h': "h' = remove1 e h"
    by (auto simp: list_heap_pop_def Let_def split: list.splits)
  have "e \<in> set h" using first_greatest_in [of x xs] h e by auto
  then show "mset h = add_mset e (mset h')" using h' by simp
  show "SearchState_cmp y e \<noteq> Greater" if "y \<in> set h" for y
    using first_greatest_max [of y x xs] that h e by (simp add: cmp_Greater_iff)
qed (auto simp: list_heap_pop_def Let_def split: list.splits)

section \<open>Well-formed graphs\<close>

text \<open>
  The invariant of the nested hash maps: keys are distinct, and a source that has lost its last
  link is removed.
\<close>

definition graph_wf :: "RouteGraph \<Rightarrow> bool" where
  "graph_wf g \<longleftrightarrow> distinct (map fst (edges g))
     \<and> list_all (\<lambda>(u, ns). distinct (map fst ns) \<and> ns \<noteq> []) (edges g)"

definition links :: "RouteGraph \<Rightarrow> PeerId \<Rightarrow> (PeerId \<times> LinkMetrics) list" where
  "links g u = (case map_of (edges g) u of Some ns \<Rightarrow> ns | None \<Rightarrow> [])"

lemma graph_wf_new [simp]: "graph_wf graph_new"
  by (simp add: graph_wf_def graph_new_def)

lemma graph_wf_links: "graph_wf g \<Longrightarrow> distinct (map fst (links g u))"
  by (auto simp: graph_wf_def links_def list_all_iff split: option.splits dest!: map_of_SomeD)

lemma graph_wf_add_link: "graph_wf g \<Longrightarrow> graph_wf (add_link u v m g)"
  using graph_wf_links [of g u]
  by (cases "map_of (edges g) u")
    (auto simp: graph_wf_def add_link_def Let_def links_def intro!: list_all_update)

lemma graph_wf_remove_link: "graph_wf g \<Longrightarrow> graph_wf (remove_link u v g)"
  using graph_wf_links [of g u]
  by (cases "map_of (edges g) u")
    (auto simp: graph_wf_def remove_link_def Let_def links_def intro!: list_all_update list_all_delete)

lemma get_link_add_link:
  "get_link (add_link u v m g) a b = (if a = u \<and> b = v then Some m else get_link g a b)"
  by (auto simp: get_link_def add_link_def Let_def split: option.splits)

lemma get_link_remove_link:
  "get_link (remove_link u v g) a b = (if a = u \<and> b = v then None else get_link g a b)"
proof -
  have "AList.delete v ns = [] \<Longrightarrow> map_of ns b = None \<or> b = v" for ns :: "(PeerId \<times> LinkMetrics) list"
    using map_of_delete [of v ns] by (metis fun_upd_apply map_of.simps(1))
  then show ?thesis
    by (auto simp: get_link_def remove_link_def Let_def split: option.splits)
qed

lemma get_link_iff_links: "graph_wf g \<Longrightarrow> get_link g u v = Some m \<longleftrightarrow> (v, m) \<in> set (links g u)"
  using graph_wf_links [of g u]
  by (auto simp: get_link_def links_def split: option.splits)

lemma process_entry_links:
  "process_entry g e s =
     (if (case distances s (ss_node e) of Some d \<Rightarrow> f64_lt d (ss_cost e) | None \<Rightarrow> False) then s
      else fold (relax (ss_cost e) (ss_node e)) (links g (ss_node e)) s)"
  by (auto simp: process_entry_def links_def split: option.splits)

end
