(* ===== verification/Route_Search.thy ===== *)
theory Route_Search
  imports Route_Graph
begin

text \<open>
  The analysis of \<^verbatim>\<open>find_shortest_path\<close> (\<^verbatim>\<open>crates/omnimesh-routing/src/graph.rs\<close>): that its heap loop ends on
  every graph, the invariant of the loop over distances and predecessors, and that on graphs without
  negative costs the walk back ends and gives a route that none undercuts.
\<close>

section \<open>The search loop ends\<close>

definition graph_nodes :: "RouteGraph \<Rightarrow> PeerId set" where
  "graph_nodes g = (\<Union>u \<in> fst ` set (edges g). fst ` set (links g u))"

lemma finite_graph_nodes [simp]: "finite (graph_nodes g)"
  by (simp add: graph_nodes_def)

lemma links_in_nodes: "fst ` set (links g u) \<subseteq> graph_nodes g"
proof (cases "map_of (edges g) u")
  case None
  then show ?thesis by (simp add: links_def)
next
  case (Some ns)
  then have "u \<in> fst ` set (edges g)" by (force dest: map_of_SomeD)
  then show ?thesis by (auto simp: graph_nodes_def)
qed

definition slack :: "search \<Rightarrow> PeerId \<Rightarrow> nat" where
  "slack s v = card {x. f64_lt x (current_best s v)}"

definition potential :: "PeerId set \<Rightarrow> search \<Rightarrow> nat" where
  "potential N s = (\<Sum>v\<in>N. slack s v)"

lemma card_lt_strict: "f64_lt a b \<Longrightarrow> card {x. f64_lt x a} < card {x. f64_lt x b}"
  by (rule psubset_card_mono) (auto intro: f64_lt_trans simp: psubset_eq dest: f64_lt_asym)

lemma potential_heap [simp]: "potential N (s\<lparr>heap := h\<rparr>) = potential N s"
  by (simp add: potential_def slack_def current_best_def)

lemma relax_potential:
  assumes "finite N" "fst nm \<in> N"
  shows "relax c u nm s = s \<or> potential N (relax c u nm s) < potential N s"
proof (cases "f64_lt (f64_add c (link_cost (snd nm))) (current_best s (fst nm))")
  case False
  then show ?thesis by (simp add: relax_def Let_def)
next
  case True
  have "slack (relax c u nm s) v \<le> slack s v" for v
    using True card_lt_strict [OF True]
    by (cases "v = fst nm") (auto simp: slack_def relax_def Let_def current_best_def)
  moreover have "slack (relax c u nm s) (fst nm) < slack s (fst nm)"
    using True card_lt_strict [OF True] by (simp add: slack_def relax_def Let_def current_best_def)
  ultimately have "potential N (relax c u nm s) < potential N s"
    unfolding potential_def using assms by (intro sum_strict_mono_ex1) auto
  then show ?thesis ..
qed

lemma fold_relax_potential:
  assumes "finite N" "fst ` set ns \<subseteq> N"
  shows "fold (relax c u) ns s = s \<or> potential N (fold (relax c u) ns s) < potential N s"
  using assms(2)
proof (induction ns arbitrary: s)
  case Nil
  then show ?case by simp
next
  case (Cons nm ns)
  then have "fold (relax c u) ns (relax c u nm s) = relax c u nm s
      \<or> potential N (fold (relax c u) ns (relax c u nm s)) < potential N (relax c u nm s)"
    by simp
  moreover have "relax c u nm s = s \<or> potential N (relax c u nm s) < potential N s"
    using Cons.prems assms(1) by (intro relax_potential) auto
  ultimately show ?case by auto
qed

lemma process_entry_potential:
  "process_entry g e s = s \<or> potential (graph_nodes g) (process_entry g e s) < potential (graph_nodes g) s"
  using fold_relax_potential [OF finite_graph_nodes links_in_nodes [of g "ss_node e"], of "ss_cost e" "ss_node e" s]
  by (auto simp: process_entry_links)

context binary_heap
begin

lemma search_induct:
  assumes step: "\<And>s. (\<And>e h. heap_pop (heap s) = Some (e, h) \<Longrightarrow> P (process_entry g e (s\<lparr>heap := h\<rparr>))) \<Longrightarrow> P s"
  shows "P s"
proof (induction s rule: wf_induct [where r = "measures [potential (graph_nodes g), \<lambda>s. length (heap s)]"])
  case 1
  show ?case by simp
next
  case (2 s)
  show ?case
  proof (rule step)
    fix e h assume pop: "heap_pop (heap s) = Some (e, h)"
    have "(process_entry g e (s\<lparr>heap := h\<rparr>), s) \<in> measures [potential (graph_nodes g), \<lambda>s. length (heap s)]"
      using process_entry_potential [of g e "s\<lparr>heap := h\<rparr>"] pop_length [OF pop] by auto
    with 2 show "P (process_entry g e (s\<lparr>heap := h\<rparr>))" by blast
  qed
qed

lemma search_loop_ends: "\<exists>r. search_loop heap_pop g target s = Some r"
proof (induction s rule: search_induct [where g = g])
  case (1 s)
  show ?case
  proof (cases "heap_pop (heap s)")
    case None
    then show ?thesis by (simp add: search_loop.simps)
  next
    case (Some p)
    obtain e h where p: "p = (e, h)" by (cases p)
    from 1 [of e h] Some p have "\<exists>r. search_loop heap_pop g target (process_entry g e (s\<lparr>heap := h\<rparr>)) = Some r"
      by simp
    with Some p show ?thesis by (subst search_loop.simps) auto
  qed
qed

end

section \<open>Routes and their cost\<close>

text \<open>The links a list of peers follows, and the cost that adding them up in order gives.\<close>

fun route_links :: "RouteGraph \<Rightarrow> PeerId list \<Rightarrow> LinkMetrics list option" where
  "route_links g (u # v # vs) =
     (case get_link g u v of
        None \<Rightarrow> None
      | Some m \<Rightarrow> map_option (Cons m) (route_links g (v # vs)))"
| "route_links g [u] = Some []"
| "route_links g [] = None"

definition route_cost :: "RouteGraph \<Rightarrow> PeerId list \<Rightarrow> f64 option" where
  "route_cost g p = map_option (\<lambda>ms. foldl f64_add 0 (map link_cost ms)) (route_links g p)"

definition route_between :: "RouteGraph \<Rightarrow> PeerId \<Rightarrow> PeerId \<Rightarrow> PeerId list \<Rightarrow> bool" where
  "route_between g u v p \<longleftrightarrow> route_links g p \<noteq> None \<and> hd p = u \<and> last p = v"

definition no_negative_links :: "RouteGraph \<Rightarrow> bool" where
  "no_negative_links g \<longleftrightarrow>
     list_all (\<lambda>(u, ns). list_all (\<lambda>(v, m). f64_not_neg (link_cost m)) ns) (edges g)"

lemma no_negative_linksD: "no_negative_links g \<Longrightarrow> get_link g u v = Some m \<Longrightarrow> f64_not_neg (link_cost m)"
  by (auto simp: no_negative_links_def get_link_def list_all_iff split: option.splits
      dest!: map_of_SomeD bspec)

lemma route_links_snoc:
  assumes "p \<noteq> []"
  shows "route_links g (p @ [v]) =
    (case route_links g p of
       None \<Rightarrow> None
     | Some ms \<Rightarrow> map_option (\<lambda>m. ms @ [m]) (get_link g (last p) v))"
  using assms
proof (induction g p rule: route_links.induct)
  case (1 g u w vs)
  then show ?case by (auto simp: option.map_comp comp_def split: option.splits)
next
  case (2 g u)
  then show ?case by (auto split: option.splits)
qed simp

lemma route_cost_snoc:
  assumes "p \<noteq> []"
  shows "route_cost g (p @ [v]) =
    (case route_cost g p of
       None \<Rightarrow> None
     | Some c \<Rightarrow> map_option (\<lambda>m. f64_add c (link_cost m)) (get_link g (last p) v))"
  using route_links_snoc [OF assms, of g v]
  by (auto simp: route_cost_def option.map_comp comp_def split: option.splits)

lemma route_links_good:
  "no_negative_links g \<Longrightarrow> route_links g p = Some ms \<Longrightarrow> list_all f64_not_neg (map link_cost ms)"
  by (induction g p arbitrary: ms rule: route_links.induct)
    (auto split: option.splits dest: no_negative_linksD)

lemma route_cost_good: "no_negative_links g \<Longrightarrow> route_cost g p = Some c \<Longrightarrow> f64_not_neg c"
  by (auto simp: route_cost_def dest!: route_links_good
      intro!: fcost.good_foldl fcost.ok_good [OF fcost.ok_zero])

lemma route_cost_ok:
  "no_negative_links g \<Longrightarrow> route_cost g p = Some c \<Longrightarrow> f64_lt c f64_max_value \<Longrightarrow> f64_path_cost c"
  by (auto simp: route_cost_def dest!: route_links_good intro!: fcost.foldl_ok [OF fcost.ok_zero])

lemma route_cost_snoc_below:
  assumes "no_negative_links g" "p \<noteq> []" "route_cost g (p @ [v]) = Some c" "f64_lt c f64_max_value"
  obtains d m where "route_cost g p = Some d" "get_link g (last p) v = Some m"
    "c = f64_add d (link_cost m)" "f64_path_cost d"
proof -
  from assms(3) obtain d m where dm: "route_cost g p = Some d" "get_link g (last p) v = Some m"
    "c = f64_add d (link_cost m)"
    using route_cost_snoc [OF assms(2), of g v] by (auto split: option.splits)
  have "f64_lt d f64_max_value"
    using f64_add_sticky [OF route_cost_good [OF assms(1) dm(1)] no_negative_linksD [OF assms(1) dm(2)]]
      assms(4) dm(3) by blast
  then have "f64_path_cost d" by (rule route_cost_ok [OF assms(1) dm(1)])
  with dm show ?thesis by (rule that)
qed

section \<open>The invariant of the search\<close>

text \<open>
  The link from \<open>u\<close> to \<open>v\<close> is settled when the known distance of \<open>v\<close> is at most the one
  over \<open>u\<close>.
\<close>

definition settled_link :: "search \<Rightarrow> PeerId \<Rightarrow> PeerId \<times> LinkMetrics \<Rightarrow> bool" where
  "settled_link s u nm \<longleftrightarrow>
     (\<forall>du. distances s u = Some du \<longrightarrow> f64_lt (f64_add du (link_cost (snd nm))) f64_max_value \<longrightarrow>
       (\<exists>dv. distances s (fst nm) = Some dv \<and> f64_rank dv \<le> f64_rank (f64_add du (link_cost (snd nm)))))"

text \<open>
  Every known node waits in the heap with its distance or has all its links settled; the nodes
  of \<open>X\<close>, whose links are being processed, are exempt.
\<close>

definition frontier_inv :: "RouteGraph \<Rightarrow> PeerId set \<Rightarrow> search \<Rightarrow> bool" where
  "frontier_inv g X s \<longleftrightarrow>
     (\<forall>v d. distances s v = Some d \<longrightarrow> v \<notin> X \<longrightarrow>
        \<lparr>ss_cost = d, ss_node = v\<rparr> \<in> set (heap s) \<or> (\<forall>nm \<in> set (links g v). settled_link s v nm))"

definition pred_edges :: "search \<Rightarrow> (PeerId \<times> PeerId) set" where
  "pred_edges s = {(u, v). predecessors s v = Some u}"

text \<open>The known distance of \<open>v\<close> is at least the one over its predecessor \<open>u\<close>.\<close>

definition pred_link :: "RouteGraph \<Rightarrow> search \<Rightarrow> PeerId \<Rightarrow> PeerId \<Rightarrow> bool" where
  "pred_link g s u v \<longleftrightarrow>
     (\<exists>m du dv. get_link g u v = Some m \<and> distances s u = Some du \<and> distances s v = Some dv \<and>
        f64_lt (f64_add du (link_cost m)) f64_max_value \<and>
        f64_rank (f64_add du (link_cost m)) \<le> f64_rank dv)"

definition pred_inv :: "RouteGraph \<Rightarrow> PeerId \<Rightarrow> search \<Rightarrow> bool" where
  "pred_inv g start s \<longleftrightarrow>
     predecessors s start = None \<and> finite (dom (predecessors s)) \<and> acyclic (pred_edges s) \<and>
     (\<forall>v. v \<in> dom (distances s) \<longrightarrow> v \<noteq> start \<longrightarrow> predecessors s v \<noteq> None) \<and>
     (\<forall>u v. predecessors s v = Some u \<longrightarrow> pred_link g s u v)"

definition dist_inv :: "PeerId \<Rightarrow> PeerId \<Rightarrow> search \<Rightarrow> bool" where
  "dist_inv start target s \<longleftrightarrow>
     distances s start = Some 0 \<and>
     (\<forall>v d. distances s v = Some d \<longrightarrow> f64_path_cost d) \<and>
     (\<forall>e \<in> set (heap s). f64_path_cost (ss_cost e) \<and>
        (\<exists>d. distances s (ss_node e) = Some d \<and> f64_rank d \<le> f64_rank (ss_cost e))) \<and>
     (\<forall>d. distances s target = Some d \<longrightarrow> \<lparr>ss_cost = d, ss_node = target\<rparr> \<in> set (heap s))"

lemma dist_invD:
  assumes "dist_inv start target s"
  shows "distances s start = Some 0"
    and "distances s v = Some d \<Longrightarrow> f64_path_cost d"
    and "e \<in> set (heap s) \<Longrightarrow> f64_path_cost (ss_cost e)"
    and "e \<in> set (heap s) \<Longrightarrow> \<exists>d. distances s (ss_node e) = Some d \<and> f64_rank d \<le> f64_rank (ss_cost e)"
    and "distances s target = Some d \<Longrightarrow> \<lparr>ss_cost = d, ss_node = target\<rparr> \<in> set (heap s)"
  using assms by (auto simp: dist_inv_def)

lemma pred_invD:
  assumes "pred_inv g start s"
  shows "predecessors s start = None" and "finite (dom (predecessors s))" and "acyclic (pred_edges s)"
    and "distances s v = Some d \<Longrightarrow> v \<noteq> start \<Longrightarrow> \<exists>u. predecessors s v = Some u"
    and "predecessors s v = Some u \<Longrightarrow> pred_link g s u v"
  using assms by (auto simp: pred_inv_def)

section \<open>Improving one neighbour\<close>

definition improve :: "PeerId \<Rightarrow> PeerId \<Rightarrow> f64 \<Rightarrow> search \<Rightarrow> search" where
  "improve u v c s =
     s\<lparr>distances := (distances s)(v \<mapsto> c), predecessors := (predecessors s)(v \<mapsto> u),
       heap := \<lparr>ss_cost = c, ss_node = v\<rparr> # heap s\<rparr>"

lemma improve_simps [simp]:
  "distances (improve u v c s) = (distances s)(v \<mapsto> c)"
  "predecessors (improve u v c s) = (predecessors s)(v \<mapsto> u)"
  "heap (improve u v c s) = \<lparr>ss_cost = c, ss_node = v\<rparr> # heap s"
  by (simp_all add: improve_def)

lemma relax_improve:
  "relax c u (v, m) s =
     (if f64_lt (f64_add c (link_cost m)) (current_best s v)
      then improve u v (f64_add c (link_cost m)) s else s)"
  by (simp add: relax_def improve_def Let_def)

text \<open>What holds when \<^verbatim>\<open>next_cost\<close> beats the best known distance of \<open>v\<close>.\<close>

definition improving :: "RouteGraph \<Rightarrow> PeerId \<Rightarrow> PeerId \<Rightarrow> search \<Rightarrow> PeerId \<Rightarrow> PeerId \<Rightarrow> LinkMetrics \<Rightarrow> f64 \<Rightarrow> bool" where
  "improving g start target s u v m c \<longleftrightarrow>
     no_negative_links g \<and> dist_inv start target s \<and> pred_inv g start s \<and> get_link g u v = Some m \<and>
     f64_path_cost c \<and> (\<exists>du. distances s u = Some du \<and> f64_rank du = f64_rank c) \<and>
     f64_lt (f64_add c (link_cost m)) (current_best s v)"

lemma improving_facts:
  assumes "improving g start target s u v m c"
  shows "f64_not_neg (link_cost m)"
    and "f64_lt (f64_add c (link_cost m)) f64_max_value"
    and "f64_path_cost (f64_add c (link_cost m))"
    and "f64_rank c \<le> f64_rank (f64_add c (link_cost m))"
    and "\<And>dv. distances s v = Some dv \<Longrightarrow> f64_rank (f64_add c (link_cost m)) < f64_rank dv"
    and "v \<noteq> start" and "v \<noteq> u"
proof -
  note a = assms [unfolded improving_def]
  show g: "f64_not_neg (link_cost m)" using a no_negative_linksD by blast
  have di: "dist_inv start target s" using a by blast
  have c: "f64_path_cost c" using a by blast
  show lt: "f64_lt (f64_add c (link_cost m)) f64_max_value"
  proof (cases "distances s v")
    case None
    with a show ?thesis by (simp add: current_best_def)
  next
    case (Some d)
    with a have "f64_lt (f64_add c (link_cost m)) d" by (simp add: current_best_def)
    then show ?thesis using fcost.ok_below [OF dist_invD(2) [OF di Some]] by (rule f64_lt_trans)
  qed
  show ok: "f64_path_cost (f64_add c (link_cost m))" by (rule fcost.ext_ok [OF c g lt])
  show inf: "f64_rank c \<le> f64_rank (f64_add c (link_cost m))" by (rule fcost.ext_inflates [OF c g lt])
  show less: "f64_rank (f64_add c (link_cost m)) < f64_rank dv" if "distances s v = Some dv" for dv
    using a that f64_lt_rank [OF ok dist_invD(2) [OF di that]] by (simp add: current_best_def)
  show "v \<noteq> start"
    using less [of 0] dist_invD(1) [OF di] fcost.ok_nonneg [OF ok] by auto
  show "v \<noteq> u" using less a inf by force
qed

lemma improve_dist_inv:
  assumes "improving g start target s u v m c"
  shows "dist_inv start target (improve u v (f64_add c (link_cost m)) s)"
proof -
  note f = improving_facts [OF assms]
  have di: "dist_inv start target s" using assms by (simp add: improving_def)
  have "\<exists>d. ((distances s)(v \<mapsto> f64_add c (link_cost m))) (ss_node e) = Some d \<and> f64_rank d \<le> f64_rank (ss_cost e)"
    if "e \<in> set (heap s)" for e
    using dist_invD(4) [OF di that] f(5) by (cases "ss_node e = v") force+
  then show ?thesis using f(3,6) di by (auto simp: dist_inv_def)
qed

lemma pred_chain_rank:
  assumes "pred_inv g start s" "dist_inv start target s" "no_negative_links g"
    and "(a, b) \<in> (pred_edges s)\<^sup>*" "distances s b = Some db"
  shows "\<exists>da. distances s a = Some da \<and> f64_rank da \<le> f64_rank db"
  using assms(4,5)
proof (induction arbitrary: db rule: rtrancl_induct)
  case base
  then show ?case by simp
next
  case (step x y)
  from step.hyps(2) have "predecessors s y = Some x" by (simp add: pred_edges_def)
  from pred_invD(5) [OF assms(1) this] step.prems obtain m dx where
    x: "get_link g x y = Some m" "distances s x = Some dx" "f64_lt (f64_add dx (link_cost m)) f64_max_value"
      "f64_rank (f64_add dx (link_cost m)) \<le> f64_rank db" by (auto simp: pred_link_def)
  have "f64_rank dx \<le> f64_rank (f64_add dx (link_cost m))"
    using fcost.ext_inflates [OF dist_invD(2) [OF assms(2) x(2)] no_negative_linksD [OF assms(3) x(1)] x(3)] .
  with step.IH [OF x(2)] x(4) show ?case by force
qed

lemma improve_pred_inv:
  assumes imp: "improving g start target s u v m c"
  shows "pred_inv g start (improve u v (f64_add c (link_cost m)) s)"
proof -
  let ?n = "f64_add c (link_cost m)" and ?s = "improve u v (f64_add c (link_cost m)) s"
  note f = improving_facts [OF imp]
  from imp have di: "dist_inv start target s" and pi: "pred_inv g start s" and nn: "no_negative_links g"
    and link: "get_link g u v = Some m" and c: "f64_path_cost c" by (auto simp: improving_def)
  from imp obtain du where du: "distances s u = Some du" "f64_rank du = f64_rank c" by (auto simp: improving_def)
  have "pred_edges ?s \<subseteq> insert (u, v) (pred_edges s)" by (auto simp: pred_edges_def)
  moreover have "(v, u) \<notin> (pred_edges s)\<^sup>*"
  proof
    assume "(v, u) \<in> (pred_edges s)\<^sup>*"
    from pred_chain_rank [OF pi di nn this du(1)] obtain dv where
      "distances s v = Some dv" "f64_rank dv \<le> f64_rank du" by blast
    with f(4) f(5) du(2) show False by force
  qed
  ultimately have ac: "acyclic (pred_edges ?s)"
    using pred_invD(3) [OF pi] by (meson acyclic_insert acyclic_subset)
  have new: "pred_link g ?s u v"
    unfolding pred_link_def using link du f(7) fcost.ext_mono [OF dist_invD(2) [OF di du(1)] c f(1) _ f(2)]
      fcost.ext_mono_lt [OF dist_invD(2) [OF di du(1)] c f(1) _ f(2)] by auto
  have old: "pred_link g ?s x y" if y: "predecessors s y = Some x" "y \<noteq> v" for x y
  proof -
    from pred_invD(5) [OF pi y(1)] obtain m' dx dy where
      x: "get_link g x y = Some m'" "distances s x = Some dx" "distances s y = Some dy"
        "f64_lt (f64_add dx (link_cost m')) f64_max_value" "f64_rank (f64_add dx (link_cost m')) \<le> f64_rank dy"
      by (auto simp: pred_link_def)
    show ?thesis
    proof (cases "x = v")
      case False
      with x y show ?thesis by (auto simp: pred_link_def)
    next
      case True
      have le: "f64_rank ?n \<le> f64_rank dx" using f(5) x(2) True by force
      note mono = fcost.ext_mono [OF f(3) dist_invD(2) [OF di x(2)] no_negative_linksD [OF nn x(1)] le x(4)]
        fcost.ext_mono_lt [OF f(3) dist_invD(2) [OF di x(2)] no_negative_linksD [OF nn x(1)] le x(4)]
      with x y(2) True show ?thesis by (auto simp: pred_link_def)
    qed
  qed
  show ?thesis
    unfolding pred_inv_def
    using ac new old f(6) pred_invD(1,2) [OF pi] pred_invD(4) [OF pi] by auto
qed

lemma improve_settled:
  assumes imp: "improving g start target s u v m c" and "y \<noteq> v" and "settled_link s y nm"
  shows "settled_link (improve u v (f64_add c (link_cost m)) s) y nm"
  using assms(2,3) improving_facts(5) [OF imp] unfolding settled_link_def by (cases "fst nm = v") force+

lemma improve_frontier_inv:
  assumes imp: "improving g start target s u v m c" and "frontier_inv g X s"
  shows "frontier_inv g X (improve u v (f64_add c (link_cost m)) s)"
  unfolding frontier_inv_def
proof (intro allI impI)
  fix y d
  assume y: "distances (improve u v (f64_add c (link_cost m)) s) y = Some d" "y \<notin> X"
  show "\<lparr>ss_cost = d, ss_node = y\<rparr> \<in> set (heap (improve u v (f64_add c (link_cost m)) s)) \<or>
      (\<forall>nm\<in>set (links g y). settled_link (improve u v (f64_add c (link_cost m)) s) y nm)"
  proof (cases "y = v")
    case True
    with y show ?thesis by simp
  next
    case False
    with y assms(2) have "\<lparr>ss_cost = d, ss_node = y\<rparr> \<in> set (heap s) \<or> (\<forall>nm\<in>set (links g y). settled_link s y nm)"
      by (simp add: frontier_inv_def)
    with improve_settled [OF imp False] show ?thesis by auto
  qed
qed

section \<open>One turn of the loop\<close>

definition search_inv :: "RouteGraph \<Rightarrow> PeerId \<Rightarrow> PeerId \<Rightarrow> search \<Rightarrow> bool" where
  "search_inv g start target s \<longleftrightarrow>
     dist_inv start target s \<and> pred_inv g start s \<and> frontier_inv g {} s"

text \<open>The state while the links of \<open>u\<close>, taken from the heap with cost \<open>c\<close>, are processed.\<close>

definition relax_inv :: "RouteGraph \<Rightarrow> PeerId \<Rightarrow> PeerId \<Rightarrow> PeerId \<Rightarrow> f64 \<Rightarrow> search \<Rightarrow> bool" where
  "relax_inv g start target u c s \<longleftrightarrow>
     dist_inv start target s \<and> pred_inv g start s \<and> frontier_inv g {u} s \<and> f64_path_cost c \<and>
     (\<exists>du. distances s u = Some du \<and> f64_rank du = f64_rank c)"

lemma relax_step:
  assumes wf: "graph_wf g" and nn: "no_negative_links g" and inv: "relax_inv g start target u c s"
    and link: "(v, m) \<in> set (links g u)"
  shows "relax_inv g start target u c (relax c u (v, m) s)"
    and "settled_link (relax c u (v, m) s) u (v, m)"
    and "settled_link s u nm \<Longrightarrow> settled_link (relax c u (v, m) s) u nm"
proof -
  let ?n = "f64_add c (link_cost m)"
  from inv obtain du where du: "distances s u = Some du" "f64_rank du = f64_rank c" and c: "f64_path_cost c"
    and di: "dist_inv start target s" by (auto simp: relax_inv_def)
  have gl: "get_link g u v = Some m" using link by (simp add: get_link_iff_links [OF wf])
  note good = no_negative_linksD [OF nn gl]
  have okdu: "f64_path_cost du" by (rule dist_invD(2) [OF di du(1)])
  show "relax_inv g start target u c (relax c u (v, m) s)"
    and "settled_link (relax c u (v, m) s) u (v, m)"
    and "settled_link s u nm \<Longrightarrow> settled_link (relax c u (v, m) s) u nm"
  proof (atomize (full), cases "f64_lt ?n (current_best s v)")
    case True
    then have imp: "improving g start target s u v m c"
      using inv nn gl by (auto simp: improving_def relax_inv_def)
    have vu: "v \<noteq> u" by (rule improving_facts(7) [OF imp])
    have "settled_link (improve u v ?n s) u (v, m)"
      using du vu fcost.ext_mono [OF c okdu good] by (auto simp: settled_link_def)
    moreover have "relax_inv g start target u c (improve u v ?n s)"
      using inv du vu improve_dist_inv [OF imp] improve_pred_inv [OF imp] improve_frontier_inv [OF imp]
      by (auto simp: relax_inv_def)
    ultimately show "relax_inv g start target u c (relax c u (v, m) s) \<and>
        settled_link (relax c u (v, m) s) u (v, m) \<and>
        (settled_link s u nm \<longrightarrow> settled_link (relax c u (v, m) s) u nm)"
      using True improve_settled [OF imp] vu by (auto simp: relax_improve)
  next
    case False
    have "settled_link s u (v, m)"
      unfolding settled_link_def
    proof (intro allI impI)
      fix d assume d: "distances s u = Some d" "f64_lt (f64_add d (link_cost (snd (v, m)))) f64_max_value"
      with du have lt: "f64_lt ?n f64_max_value" and le: "f64_rank ?n \<le> f64_rank (f64_add d (link_cost m))"
        using fcost.ext_mono [OF c okdu good] fcost.ext_mono_lt [OF c okdu good] by auto
      with False obtain dv where dv: "distances s v = Some dv" "\<not> f64_lt ?n dv"
        by (auto simp: current_best_def split: option.splits)
      then have "f64_rank dv \<le> f64_rank ?n"
        using f64_lt_rank [OF fcost.ext_ok [OF c good lt] dist_invD(2) [OF di dv(1)]] by simp
      with dv le show "\<exists>dv. distances s (fst (v, m)) = Some dv \<and>
          f64_rank dv \<le> f64_rank (f64_add d (link_cost (snd (v, m))))" by auto
    qed
    with False inv show "relax_inv g start target u c (relax c u (v, m) s) \<and>
        settled_link (relax c u (v, m) s) u (v, m) \<and>
        (settled_link s u nm \<longrightarrow> settled_link (relax c u (v, m) s) u nm)"
      by (simp add: relax_improve)
  qed
qed

lemma fold_relax_inv:
  assumes wf: "graph_wf g" and nn: "no_negative_links g"
  shows "relax_inv g start target u c s \<Longrightarrow> set ns \<subseteq> set (links g u) \<Longrightarrow>
    \<forall>nm \<in> D. settled_link s u nm \<Longrightarrow>
    relax_inv g start target u c (fold (relax c u) ns s) \<and>
    (\<forall>nm \<in> D \<union> set ns. settled_link (fold (relax c u) ns s) u nm)"
proof (induction ns arbitrary: s D)
  case Nil
  then show ?case by simp
next
  case (Cons vm ns)
  obtain v m where vm: "vm = (v, m)" by (cases vm)
  then have link: "(v, m) \<in> set (links g u)" using Cons.prems(2) by simp
  note step = relax_step [OF wf nn Cons.prems(1) link]
  have "relax_inv g start target u c (fold (relax c u) ns (relax c u vm s)) \<and>
    (\<forall>nm \<in> insert vm D \<union> set ns. settled_link (fold (relax c u) ns (relax c u vm s)) u nm)"
    using Cons.prems step vm by (intro Cons.IH) auto
  then show ?case by simp
qed

context binary_heap
begin

lemma process_entry_inv:
  assumes wf: "graph_wf g" and nn: "no_negative_links g" and inv: "search_inv g start target s"
    and pop: "heap_pop (heap s) = Some (e, h)" and ne: "ss_node e \<noteq> target"
  shows "search_inv g start target (process_entry g e (s\<lparr>heap := h\<rparr>))"
proof -
  let ?u = "ss_node e" and ?s = "s\<lparr>heap := h\<rparr>"
  from inv have di: "dist_inv start target s" and pi: "pred_inv g start s" and fi: "frontier_inv g {} s"
    by (auto simp: search_inv_def)
  note hs = pop_set [OF pop]
  have e: "e \<in> set (heap s)" using hs by simp
  have di': "dist_inv start target ?s" using di hs ne by (auto simp: dist_inv_def)
  have pi': "pred_inv g start ?s" using pi by (simp add: pred_inv_def pred_edges_def pred_link_def)
  have sl: "settled_link ?s v nm = settled_link s v nm" for v nm by (simp add: settled_link_def)
  have fi': "frontier_inv g {?u} ?s" using fi hs by (fastforce simp: frontier_inv_def sl)
  from dist_invD(4) [OF di e] obtain d where d: "distances s ?u = Some d" "f64_rank d \<le> f64_rank (ss_cost e)"
    by blast
  show ?thesis
  proof (cases "f64_lt d (ss_cost e)")
    case True
    have "frontier_inv g {} ?s"
      unfolding frontier_inv_def
    proof (intro allI impI)
      fix v d' assume v: "distances ?s v = Some d'"
      show "\<lparr>ss_cost = d', ss_node = v\<rparr> \<in> set (heap ?s) \<or> (\<forall>nm\<in>set (links g v). settled_link ?s v nm)"
      proof (cases "v = ?u")
        case True
        then have "\<lparr>ss_cost = d', ss_node = v\<rparr> \<noteq> e"
          using \<open>f64_lt d (ss_cost e)\<close> v d by (cases e) auto
        then show ?thesis using fi v hs by (auto simp: frontier_inv_def sl)
      next
        case False
        with fi' v show ?thesis by (simp add: frontier_inv_def)
      qed
    qed
    with True d di' pi' show ?thesis by (simp add: process_entry_links search_inv_def)
  next
    case False
    have "f64_rank d = f64_rank (ss_cost e)"
      using False d f64_lt_rank [OF dist_invD(2) [OF di d(1)] dist_invD(3) [OF di e]] by simp
    then have ri: "relax_inv g start target ?u (ss_cost e) ?s"
      using di' pi' fi' d dist_invD(3) [OF di e] by (simp add: relax_inv_def)
    let ?t = "fold (relax (ss_cost e) ?u) (links g ?u) ?s"
    have t: "relax_inv g start target ?u (ss_cost e) ?t" "\<forall>nm \<in> set (links g ?u). settled_link ?t ?u nm"
      using fold_relax_inv [OF wf nn ri, where ns = "links g ?u" and D = "{}"] by auto
    then have "frontier_inv g {} ?t" by (auto simp: relax_inv_def frontier_inv_def)
    with t False d show ?thesis by (simp add: process_entry_links search_inv_def relax_inv_def)
  qed
qed

end

section \<open>Optimality\<close>

lemma route_reaches:
  assumes wf: "graph_wf g" and nn: "no_negative_links g" and inv: "search_inv g start target s"
  shows "p \<noteq> [] \<Longrightarrow> hd p = start \<Longrightarrow> route_cost g p = Some c \<Longrightarrow> f64_lt c f64_max_value \<Longrightarrow>
    (\<exists>d. distances s (last p) = Some d \<and> f64_rank d \<le> f64_rank c) \<or>
    (\<exists>e \<in> set (heap s). f64_rank (ss_cost e) \<le> f64_rank c)"
proof (induction p arbitrary: c rule: rev_induct)
  case Nil
  then show ?case by simp
next
  case (snoc v p)
  from inv have di: "dist_inv start target s" and fi: "frontier_inv g {} s" by (auto simp: search_inv_def)
  show ?case
  proof (cases "p = []")
    case True
    with snoc.prems dist_invD(1) [OF di] show ?thesis by (simp add: route_cost_def)
  next
    case False
    from route_cost_snoc_below [OF nn False snoc.prems(3,4)] obtain d m where
      d: "route_cost g p = Some d" "get_link g (last p) v = Some m" "c = f64_add d (link_cost m)" "f64_path_cost d" .
    note good = no_negative_linksD [OF nn d(2)]
    have lt: "f64_lt (f64_add d (link_cost m)) f64_max_value" using snoc.prems(4) d(3) by simp
    have dc: "f64_rank d \<le> f64_rank c" using fcost.ext_inflates [OF d(4) good lt] d(3) by simp
    from snoc.IH [OF False _ d(1)] snoc.prems(2) False fcost.ok_below [OF d(4)]
    consider (known) x where "distances s (last p) = Some x" "f64_rank x \<le> f64_rank d"
      | (waiting) e where "e \<in> set (heap s)" "f64_rank (ss_cost e) \<le> f64_rank d"
      by auto
    then show ?thesis
    proof cases
      case waiting
      with dc show ?thesis by fastforce
    next
      case known
      from fi known(1) consider (heap) "\<lparr>ss_cost = x, ss_node = last p\<rparr> \<in> set (heap s)"
        | (settled) "\<forall>nm\<in>set (links g (last p)). settled_link s (last p) nm"
        by (auto simp: frontier_inv_def)
      then show ?thesis
      proof cases
        case heap
        with known(2) dc show ?thesis by fastforce
      next
        case settled
        have okx: "f64_path_cost x" by (rule dist_invD(2) [OF di known(1)])
        have "settled_link s (last p) (v, m)" using settled d(2) by (simp add: get_link_iff_links [OF wf])
        then obtain dv where "distances s v = Some dv" "f64_rank dv \<le> f64_rank (f64_add x (link_cost m))"
          using known(1) fcost.ext_mono_lt [OF okx d(4) good known(2) lt] by (auto simp: settled_link_def)
        then show ?thesis using fcost.ext_mono [OF okx d(4) good known(2) lt] d(3) by auto
      qed
    qed
  qed
qed

text \<open>What the loop delivers: the target was taken with a distance that no route undercuts.\<close>

definition found_best :: "RouteGraph \<Rightarrow> PeerId \<Rightarrow> PeerId \<Rightarrow> search \<Rightarrow> bool" where
  "found_best g start target s \<longleftrightarrow>
     search_inv g start target s \<and>
     (\<exists>d. distances s target = Some d \<and>
        (\<forall>p c. route_between g start target p \<longrightarrow> route_cost g p = Some c \<longrightarrow>
           f64_lt c f64_max_value \<longrightarrow> f64_rank d \<le> f64_rank c))"

definition unreachable_below_max :: "RouteGraph \<Rightarrow> PeerId \<Rightarrow> PeerId \<Rightarrow> bool" where
  "unreachable_below_max g start target \<longleftrightarrow>
     (\<forall>p c. route_between g start target p \<longrightarrow> route_cost g p = Some c \<longrightarrow> \<not> f64_lt c f64_max_value)"

lemma route_between_nonempty: "route_between g u v p \<Longrightarrow> p \<noteq> []"
  by (auto simp: route_between_def)

context binary_heap
begin

lemma search_loop_correct:
  assumes wf: "graph_wf g" and nn: "no_negative_links g"
  shows "search_inv g start target s \<Longrightarrow>
    (\<exists>r. search_loop heap_pop g target s = Some r \<and>
      (case r of
         None \<Rightarrow> unreachable_below_max g start target
       | Some s' \<Rightarrow> \<exists>s0. found_best g start target s0 \<and> predecessors s' = predecessors s0))"
proof (induction s rule: search_induct [where g = g])
  case (1 s)
  note inv = 1(2)
  from inv have di: "dist_inv start target s" by (simp add: search_inv_def)
  have reach: "\<lbrakk>route_between g start target p; route_cost g p = Some c; f64_lt c f64_max_value\<rbrakk> \<Longrightarrow>
      (\<exists>d. distances s target = Some d \<and> f64_rank d \<le> f64_rank c) \<or>
      (\<exists>e \<in> set (heap s). f64_rank (ss_cost e) \<le> f64_rank c)" for p c
    using route_reaches [OF wf nn inv, of p c] route_between_nonempty [of g start target p]
    by (auto simp: route_between_def)
  show ?case
  proof (cases "heap_pop (heap s)")
    case None
    then have "heap s = []" by (simp add: pop_None)
    then have "unreachable_below_max g start target"
      using reach dist_invD(5) [OF di] unfolding unreachable_below_max_def by fastforce
    with None show ?thesis by (simp add: search_loop.simps)
  next
    case (Some x)
    then obtain e h where pop: "heap_pop (heap s) = Some (e, h)" by (cases x) auto
    show ?thesis
    proof (cases "ss_node e = target")
      case False
      then have "search_inv g start target (process_entry g e (s\<lparr>heap := h\<rparr>))"
        by (rule process_entry_inv [OF wf nn inv pop])
      from 1(1) [OF pop this] pop False show ?thesis by (subst search_loop.simps) simp
    next
      case True
      have e: "e \<in> set (heap s)" using pop_set [OF pop] by simp
      from dist_invD(4) [OF di e] True obtain d where d: "distances s target = Some d" "f64_rank d \<le> f64_rank (ss_cost e)"
        by blast
      have nan: "\<forall>y \<in> set (heap s). \<not> f64_is_nan (ss_cost y)"
        using dist_invD(3) [OF di] f64_path_cost_not_nan by blast
      have least: "f64_rank (ss_cost e) \<le> f64_rank (ss_cost x)" if "x \<in> set (heap s)" for x
        using pop_not_lt [OF pop nan that] f64_lt_rank [OF dist_invD(3) [OF di that] dist_invD(3) [OF di e]] by fastforce
      have "found_best g start target s"
        unfolding found_best_def using inv d least reach by force
      with pop True show ?thesis by (subst search_loop.simps) auto
    qed
  qed
qed

end

section \<open>Walking the predecessors back\<close>

lemma finite_pred_edges: "finite (dom (predecessors s)) \<Longrightarrow> finite (pred_edges s)"
  by (rule finite_subset [of _ "(\<lambda>v. (the (predecessors s v), v)) ` dom (predecessors s)"])
    (force simp: pred_edges_def)+

lemma wf_pred_edges: "pred_inv g start s \<Longrightarrow> wf (pred_edges s)"
  by (intro finite_acyclic_wf finite_pred_edges) (auto dest: pred_invD(2,3))

lemma walk_back_route:
  assumes nn: "no_negative_links g" and di: "dist_inv start target s" and pi: "pred_inv g start s"
  shows "distances s v = Some dv \<Longrightarrow>
    \<exists>q k. (\<forall>path. walk_back (predecessors s) v path = Some (path @ q)) \<and>
      hd (rev (v # q)) = start \<and> route_cost g (rev (v # q)) = Some k \<and>
      f64_path_cost k \<and> f64_rank k \<le> f64_rank dv \<and>
      distinct (v # q) \<and> (\<forall>x \<in> set q. (x, v) \<in> (pred_edges s)\<^sup>+)"
proof (induction v arbitrary: dv rule: wf_induct_rule [OF wf_pred_edges [OF pi]])
  case (1 v)
  show ?case
  proof (cases "predecessors s v")
    case None
    with pred_invD(4) [OF pi "1.prems"] have v: "v = start" by auto
    have "\<forall>path. walk_back (predecessors s) v path = Some (path @ [])"
      using None by (simp add: walk_back.simps)
    then show ?thesis using v "1.prems" dist_invD(1) [OF di]
      by (intro exI [of _ "[]"]) (simp add: route_cost_def)
  next
    case (Some u)
    then have uv: "(u, v) \<in> pred_edges s" by (simp add: pred_edges_def)
    from pred_invD(5) [OF pi Some] "1.prems" obtain m du where
      m: "get_link g u v = Some m" "distances s u = Some du" "f64_lt (f64_add du (link_cost m)) f64_max_value"
        "f64_rank (f64_add du (link_cost m)) \<le> f64_rank dv" by (auto simp: pred_link_def)
    from "1.IH" [OF uv m(2)] obtain q k where
      w: "\<forall>path. walk_back (predecessors s) u path = Some (path @ q)" and
      q: "hd (rev (u # q)) = start" "route_cost g (rev (u # q)) = Some k" "f64_path_cost k"
        "f64_rank k \<le> f64_rank du" "distinct (u # q)" "\<forall>x \<in> set q. (x, u) \<in> (pred_edges s)\<^sup>+"
      by blast
    note good = no_negative_linksD [OF nn m(1)] and okdu = dist_invD(2) [OF di m(2)]
    have lt: "f64_lt (f64_add k (link_cost m)) f64_max_value" by (rule fcost.ext_mono_lt [OF q(3) okdu good q(4) m(3)])
    have "\<forall>path. walk_back (predecessors s) v path = Some (path @ u # q)"
      using Some w by (subst walk_back.simps) simp
    moreover have "hd (rev (v # u # q)) = start" using q(1) by (auto simp: hd_append split: if_splits)
    moreover have "route_cost g (rev (v # u # q)) = Some (f64_add k (link_cost m))"
      using route_cost_snoc [of "rev (u # q)" g v] q(2) m(1) by simp
    moreover have "f64_path_cost (f64_add k (link_cost m))" by (rule fcost.ext_ok [OF q(3) good lt])
    moreover have "f64_rank (f64_add k (link_cost m)) \<le> f64_rank dv"
      using fcost.ext_mono [OF q(3) okdu good q(4) m(3)] m(4) by linarith
    moreover have anc: "\<forall>x \<in> set (u # q). (x, v) \<in> (pred_edges s)\<^sup>+"
      using q(6) uv by (auto intro: trancl_into_trancl)
    moreover have "distinct (v # u # q)"
      using q(5) anc pred_invD(3) [OF pi] by (auto simp: acyclic_def)
    ultimately show ?thesis by blast
  qed
qed

section \<open>The result of the search\<close>

lemma search_inv_start: "search_inv g start target (search_start start)"
  by (auto simp: search_inv_def dist_inv_def pred_inv_def frontier_inv_def search_start_def pred_edges_def
      acyclic_def)

text \<open>A best route: loop-free, cheaper than \<^verbatim>\<open>f64::MAX\<close>, and undercut by no route.\<close>

definition best_route :: "RouteGraph \<Rightarrow> PeerId \<Rightarrow> PeerId \<Rightarrow> PeerId list \<Rightarrow> bool" where
  "best_route g start target p \<longleftrightarrow>
     route_between g start target p \<and> distinct p \<and>
     (\<exists>c. route_cost g p = Some c \<and> f64_lt c f64_max_value \<and>
       (\<forall>q d. route_between g start target q \<longrightarrow> route_cost g q = Some d \<longrightarrow> \<not> f64_lt d c))"

lemma found_best_walk_back:
  assumes nn: "no_negative_links g" and fb: "found_best g start target s"
  shows "\<exists>path. walk_back (predecessors s) target [target] = Some path \<and> best_route g start target (rev path)"
proof -
  from fb obtain d where inv: "search_inv g start target s" and d: "distances s target = Some d"
    and least: "\<And>p c. route_between g start target p \<Longrightarrow> route_cost g p = Some c \<Longrightarrow>
      f64_lt c f64_max_value \<Longrightarrow> f64_rank d \<le> f64_rank c"
    by (auto simp: found_best_def)
  from inv have di: "dist_inv start target s" and pi: "pred_inv g start s" by (auto simp: search_inv_def)
  from walk_back_route [OF nn di pi d] obtain q k where
    w: "walk_back (predecessors s) target [target] = Some ([target] @ q)" and
    q: "hd (rev (target # q)) = start" "route_cost g (rev (target # q)) = Some k" "f64_path_cost k"
      "f64_rank k \<le> f64_rank d" "distinct (target # q)" by blast
  have "\<not> f64_lt c k" if "route_between g start target p" "route_cost g p = Some c" for p c
    using fcost.lt_better [OF q(3) route_cost_good [OF nn that(2)]] route_cost_ok [OF nn that(2)]
      least [OF that] q(4) by force
  moreover have "route_between g start target (rev (target # q))"
    using q(1,2) by (auto simp: route_between_def route_cost_def)
  ultimately have "best_route g start target (rev ([target] @ q))"
    using q fcost.ok_below [OF q(3)] by (auto simp: best_route_def)
  with w show ?thesis by blast
qed

context binary_heap
begin

lemma find_shortest_path_correct:
  assumes wf: "graph_wf g" and nn: "no_negative_links g"
  shows "(\<exists>p. find_shortest_path heap_pop g start target = Some (Some p) \<and> best_route g start target p) \<or>
    find_shortest_path heap_pop g start target = Some None \<and> unreachable_below_max g start target"
proof -
  from search_loop_correct [OF wf nn search_inv_start [of g start target]] obtain r where
    r: "search_loop heap_pop g target (search_start start) = Some r" and
    c: "case r of None \<Rightarrow> unreachable_below_max g start target
       | Some s' \<Rightarrow> \<exists>s0. found_best g start target s0 \<and> predecessors s' = predecessors s0" by blast
  show ?thesis
  proof (cases r)
    case None
    with r c show ?thesis by (simp add: find_shortest_path_def)
  next
    case (Some s')
    with c obtain s0 where s0: "found_best g start target s0" "predecessors s' = predecessors s0" by auto
    from found_best_walk_back [OF nn s0(1)] r Some s0(2) show ?thesis
      by (auto simp: find_shortest_path_def)
  qed
qed

end

section \<open>Cycles of predecessors\<close>

text \<open>
  On a graph with a negative link the predecessors can form a cycle; the walk back then never
  ends.
\<close>

lemma walk_back_leaves:
  assumes "walk_back preds v path = Some r"
  shows "(\<forall>x \<in> C. \<exists>y \<in> C. preds x = Some y) \<longrightarrow> v \<notin> C"
  by (rule walk_back.raw_induct [where P = "\<lambda>p v path r. (\<forall>x \<in> C. \<exists>y \<in> C. p x = Some y) \<longrightarrow> v \<notin> C",
        OF _ assms]) (fastforce split: option.splits)

lemma walk_back_cycle_None:
  assumes "\<And>x. x \<in> C \<Longrightarrow> \<exists>y \<in> C. preds x = Some y" and "v \<in> C"
  shows "walk_back preds v path = None"
  using walk_back_leaves [of preds v path _ C] assms by (cases "walk_back preds v path") auto

end
