(* ===== verification/Router.thy ===== *)
theory Router
  imports Route_Search
begin

text \<open>
  \<^verbatim>\<open>crates/omnimesh-routing/src/router.rs\<close>: the coordinator that turns measurements and gossiped
  link states into the graph and answers route queries. The clock of
  \<^verbatim>\<open>get_link_state_update\<close> is an argument. A run of a router is a sequence of events, and the
  reachable routers are the inductive set of the events' results.
\<close>

section \<open>State and operations\<close>

record LinkStateUpdate =
  source :: PeerId
  destination :: PeerId
  metrics :: LinkMetrics
  seqno :: u64
  timestamp :: u64

record Router =
  local_peer_id :: PeerId
  local_trackers :: "PeerId \<rightharpoonup> LinkMetricTracker"
  graph :: RouteGraph
  gossip_sequences :: "PeerId \<times> PeerId \<rightharpoonup> u64"
  sequence_generator :: u64

definition router_new :: "PeerId \<Rightarrow> Router" where
  "router_new self =
     \<lparr>local_peer_id = self, local_trackers = Map.empty, graph = graph_new,
      gossip_sequences = Map.empty, sequence_generator = 1\<rparr>"

definition update_graph_link :: "PeerId \<Rightarrow> Router \<Rightarrow> Router" where
  "update_graph_link peer r =
     (case local_trackers r peer of
        Some tracker \<Rightarrow> r\<lparr>graph := add_link (local_peer_id r) peer (tracker_metrics tracker) (graph r)\<rparr>
      | None \<Rightarrow> r)"

text \<open>The \<^verbatim>\<open>entry(..).or_insert_with(..).value_mut()\<close> access that the three recorders share.\<close>

definition tracker_entry :: "Router \<Rightarrow> PeerId \<Rightarrow> LinkMetricTracker" where
  "tracker_entry r peer =
     (case local_trackers r peer of Some t \<Rightarrow> t | None \<Rightarrow> tracker_new LinkMetrics_default)"

definition record_latency :: "PeerId \<Rightarrow> f64 \<Rightarrow> Router \<Rightarrow> Router" where
  "record_latency peer x r =
     update_graph_link peer
       (r\<lparr>local_trackers := (local_trackers r)(peer \<mapsto> tracker_record_latency x (tracker_entry r peer))\<rparr>)"

definition record_bandwidth :: "PeerId \<Rightarrow> f64 \<Rightarrow> Router \<Rightarrow> Router" where
  "record_bandwidth peer x r =
     update_graph_link peer
       (r\<lparr>local_trackers := (local_trackers r)(peer \<mapsto> tracker_record_bandwidth x (tracker_entry r peer))\<rparr>)"

definition record_loss_rate :: "PeerId \<Rightarrow> f64 \<Rightarrow> Router \<Rightarrow> Router" where
  "record_loss_rate peer x r =
     update_graph_link peer
       (r\<lparr>local_trackers := (local_trackers r)(peer \<mapsto> tracker_record_loss_rate x (tracker_entry r peer))\<rparr>)"

definition get_link_state_update :: "PeerId \<Rightarrow> u64 \<Rightarrow> Router \<Rightarrow> LinkStateUpdate option \<times> Router" where
  "get_link_state_update peer now r =
     (case local_trackers r peer of
        None \<Rightarrow> (None, r)
      | Some tracker \<Rightarrow>
          (Some \<lparr>source = local_peer_id r, destination = peer, metrics = tracker_metrics tracker,
                 seqno = sequence_generator r, timestamp = now\<rparr>,
           r\<lparr>sequence_generator := sequence_generator r + 1\<rparr>))"

definition process_link_state_update :: "LinkStateUpdate \<Rightarrow> Router \<Rightarrow> bool \<times> Router" where
  "process_link_state_update u r =
     (let key = (source u, destination u);
          current_seq = (case gossip_sequences r key of Some s \<Rightarrow> s | None \<Rightarrow> 0)
      in if seqno u \<le> current_seq
         then (False, r\<lparr>gossip_sequences := (gossip_sequences r)(key \<mapsto> current_seq)\<rparr>)
         else (True, r\<lparr>gossip_sequences := (gossip_sequences r)(key \<mapsto> seqno u),
                       graph := add_link (source u) (destination u) (metrics u) (graph r)\<rparr>))"

text \<open>As for \<open>find_shortest_path\<close>, the outer option is \<open>None\<close> when the query does not return.\<close>

definition find_route :: "heap_pop \<Rightarrow> Router \<Rightarrow> PeerId \<Rightarrow> PeerId list option option" where
  "find_route heap_pop r target = find_shortest_path heap_pop (graph r) (local_peer_id r) target"

definition next_hop :: "heap_pop \<Rightarrow> Router \<Rightarrow> PeerId \<Rightarrow> PeerId option option" where
  "next_hop heap_pop r target =
     (case find_route heap_pop r target of
        None \<Rightarrow> None
      | Some None \<Rightarrow> Some None
      | Some (Some route) \<Rightarrow> Some (if length route > 1 then Some (route ! 1) else None))"

lemmas recorder_defs = record_latency_def record_bandwidth_def record_loss_rate_def update_graph_link_def

section \<open>Runs\<close>

datatype router_event =
    Measure PeerId measurement
  | Gossip LinkStateUpdate
  | Advertise PeerId u64

text \<open>A router never sets the relay cost of its own trackers.\<close>

fun router_step :: "router_event \<Rightarrow> Router \<Rightarrow> Router" where
  "router_step (Measure peer (Latency x)) r = record_latency peer x r"
| "router_step (Measure peer (Bandwidth x)) r = record_bandwidth peer x r"
| "router_step (Measure peer (Loss x)) r = record_loss_rate peer x r"
| "router_step (Measure peer (RelayCost x)) r = r"
| "router_step (Gossip u) r = snd (process_link_state_update u r)"
| "router_step (Advertise peer now) r = snd (get_link_state_update peer now r)"

fun event_sane :: "router_event \<Rightarrow> bool" where
  "event_sane (Measure peer x) = measurement_ok x"
| "event_sane (Gossip u) = metrics_sane (metrics u)"
| "event_sane (Advertise peer now) = True"

inductive router_reach :: "PeerId \<Rightarrow> Router \<Rightarrow> bool" for self where
  start: "router_reach self (router_new self)"
| step: "router_reach self r \<Longrightarrow> event_sane e \<Longrightarrow> router_reach self (router_step e r)"

definition router_inv :: "PeerId \<Rightarrow> Router \<Rightarrow> bool" where
  "router_inv self r \<longleftrightarrow>
     local_peer_id r = self \<and> graph_wf (graph r) \<and> no_negative_links (graph r) \<and>
     (\<forall>peer t. local_trackers r peer = Some t \<longrightarrow> tracker_inv t)"

lemma no_negative_links_add_link:
  "no_negative_links g \<Longrightarrow> f64_not_neg (link_cost m) \<Longrightarrow> no_negative_links (add_link u v m g)"
  by (auto simp: no_negative_links_def add_link_def Let_def list_all_iff
      dest!: set_update_subset [THEN subsetD] map_of_SomeD split: option.splits)

lemma router_inv_record:
  assumes "router_inv self r" "tracker_inv t"
  shows "router_inv self (update_graph_link peer (r\<lparr>local_trackers := (local_trackers r)(peer \<mapsto> t)\<rparr>))"
  using assms
  by (auto simp: router_inv_def update_graph_link_def
      intro: graph_wf_add_link no_negative_links_add_link link_cost_not_neg tracker_inv_sane)

lemma tracker_entry_inv: "router_inv self r \<Longrightarrow> tracker_inv (tracker_entry r peer)"
  by (auto simp: tracker_entry_def router_inv_def tracker_new_default_inv split: option.splits)

lemma router_inv_step:
  assumes "router_inv self r" "event_sane e"
  shows "router_inv self (router_step e r)"
proof (cases e)
  case (Measure peer x)
  with assms show ?thesis
    using tracker_apply_inv [of x "tracker_entry r peer"] tracker_entry_inv [OF assms(1)]
    by (cases x) (auto simp: record_latency_def record_bandwidth_def record_loss_rate_def intro!: router_inv_record)
next
  case (Gossip u)
  with assms show ?thesis
    by (auto simp: process_link_state_update_def Let_def router_inv_def
        intro: graph_wf_add_link no_negative_links_add_link link_cost_not_neg)
next
  case (Advertise peer now)
  with assms show ?thesis by (auto simp: get_link_state_update_def router_inv_def split: option.splits)
qed

lemma router_inv_new: "router_inv self (router_new self)"
  by (simp add: router_inv_def router_new_def) (simp add: no_negative_links_def graph_new_def)

lemma router_reach_inv: "router_reach self r \<Longrightarrow> router_inv self r"
  by (induction rule: router_reach.induct) (auto intro: router_inv_new router_inv_step)

section \<open>Route queries of a reachable router\<close>

lemma best_route_self: "best_route g s s p \<Longrightarrow> p = [s]"
  by (cases p) (auto simp: best_route_def route_between_def split: if_splits)

lemma best_route_long:
  assumes "best_route g s t p" "s \<noteq> t"
  obtains h q where "p = s # h # q" "get_link g s h \<noteq> None" "h \<noteq> s"
proof -
  from assms obtain p' where p: "p = s # p'" and "p' \<noteq> []"
    by (cases p) (auto simp: best_route_def route_between_def split: if_splits)
  then obtain h q where hq: "p = s # h # q" by (cases p') auto
  with assms(1) have "get_link g s h \<noteq> None" "h \<noteq> s"
    by (auto simp: best_route_def route_cost_def split: option.splits)
  with hq that show thesis by blast
qed

context binary_heap
begin

lemma find_route_cases:
  assumes "router_reach self r"
  shows "(\<exists>p. find_route heap_pop r target = Some (Some p) \<and> best_route (graph r) self target p) \<or>
    find_route heap_pop r target = Some None \<and> unreachable_below_max (graph r) self target"
  using find_shortest_path_correct [of "graph r" self target] router_reach_inv [OF assms]
  by (simp add: find_route_def router_inv_def)

lemma next_hop_cases:
  assumes "router_reach self r"
  shows "\<exists>h. next_hop heap_pop r target = Some h \<and>
    (case h of
       Some n \<Rightarrow> target \<noteq> self \<and> n \<noteq> self \<and> get_link (graph r) self n \<noteq> None \<and>
         (\<exists>q. find_route heap_pop r target = Some (Some (self # n # q)))
     | None \<Rightarrow> target = self \<or> unreachable_below_max (graph r) self target)"
  using find_route_cases [OF assms, of target]
proof (elim disjE exE conjE)
  fix p assume p: "find_route heap_pop r target = Some (Some p)" "best_route (graph r) self target p"
  show ?thesis
  proof (cases "self = target")
    case True
    with p show ?thesis by (auto simp: next_hop_def dest: best_route_self)
  next
    case False
    then show ?thesis by (rule best_route_long [OF p(2)]) (use False p in \<open>auto simp: next_hop_def\<close>)
  qed
qed (simp add: next_hop_def)

end

section \<open>Gossip\<close>

definition known_seq :: "Router \<Rightarrow> PeerId \<times> PeerId \<Rightarrow> u64" where
  "known_seq r k = (case gossip_sequences r k of Some s \<Rightarrow> s | None \<Rightarrow> 0)"

definition gossip_key :: "LinkStateUpdate \<Rightarrow> PeerId \<times> PeerId" where
  "gossip_key u = (source u, destination u)"

definition known_link :: "Router \<Rightarrow> PeerId \<times> PeerId \<Rightarrow> LinkMetrics option" where
  "known_link r k = get_link (graph r) (fst k) (snd k)"

lemma process_accepts: "fst (process_link_state_update u r) \<longleftrightarrow> known_seq r (gossip_key u) < seqno u"
  by (auto simp: process_link_state_update_def Let_def known_seq_def gossip_key_def)

lemma process_known_seq:
  "known_seq (snd (process_link_state_update u r)) k =
     (if k = gossip_key u then max (known_seq r k) (seqno u) else known_seq r k)"
  by (auto simp: process_link_state_update_def Let_def known_seq_def gossip_key_def max_def)

lemma process_known_link:
  "known_link (snd (process_link_state_update u r)) k =
     (if k = gossip_key u \<and> known_seq r k < seqno u then Some (metrics u) else known_link r k)"
  by (cases k) (auto simp: process_link_state_update_def Let_def known_seq_def gossip_key_def known_link_def
      get_link_add_link)

definition gossip_run :: "LinkStateUpdate list \<Rightarrow> Router \<Rightarrow> Router" where
  "gossip_run us r = fold (\<lambda>u. router_step (Gossip u)) us r"

lemma gossip_run_simps [simp]:
  "gossip_run [] r = r"
  "gossip_run (us @ [u]) r = snd (process_link_state_update u (gossip_run us r))"
  by (simp_all add: gossip_run_def)

text \<open>The sequence number known after a run is the greatest one seen.\<close>

lemma gossip_run_known_seq:
  "known_seq (gossip_run us r) k = Max (insert (known_seq r k) (seqno ` {u \<in> set us. gossip_key u = k}))"
proof (induction us rule: rev_induct)
  case Nil
  then show ?case by simp
next
  case (snoc u us)
  have "{v \<in> set (us @ [u]). gossip_key v = k} =
      (if k = gossip_key u then insert u {v \<in> set us. gossip_key v = k} else {v \<in> set us. gossip_key v = k})"
    by auto
  with snoc show ?case by (cases "k = gossip_key u") (simp_all add: process_known_seq insert_commute max.commute)
qed

text \<open>The link known after a run is that of an update carrying this number.\<close>

lemma gossip_run_known_link:
  "known_seq (gossip_run us r) k = known_seq r k \<and> known_link (gossip_run us r) k = known_link r k \<or>
   (\<exists>u \<in> set us. gossip_key u = k \<and> seqno u = known_seq (gossip_run us r) k \<and> known_seq r k < seqno u \<and>
      known_link (gossip_run us r) k = Some (metrics u))"
proof (induction us rule: rev_induct)
  case Nil
  then show ?case by simp
next
  case (snoc u us)
  have "known_seq r k \<le> known_seq (gossip_run us r) k" by (simp add: gossip_run_known_seq)
  with snoc show ?case
    by (cases "k = gossip_key u \<and> known_seq (gossip_run us r) k < seqno u")
      (auto simp: process_known_seq process_known_link max_def)
qed

definition gossip_consistent :: "LinkStateUpdate list \<Rightarrow> bool" where
  "gossip_consistent us \<longleftrightarrow>
     list_all (\<lambda>u. list_all (\<lambda>v. gossip_key u = gossip_key v \<and> seqno u = seqno v \<longrightarrow> metrics u = metrics v) us) us"

lemma gossip_run_order:
  assumes "set us = set vs" "gossip_consistent us"
  shows "known_seq (gossip_run us r) k = known_seq (gossip_run vs r) k"
    and "known_link (gossip_run us r) k = known_link (gossip_run vs r) k"
proof -
  show eq: "known_seq (gossip_run us r) k = known_seq (gossip_run vs r) k"
    by (simp add: gossip_run_known_seq assms(1))
  show "known_link (gossip_run us r) k = known_link (gossip_run vs r) k"
    using gossip_run_known_link [of us r k] gossip_run_known_link [of vs r k] assms
    unfolding eq gossip_consistent_def list_all_iff by (metis order_less_irrefl)
qed

section \<open>Outgoing sequence numbers\<close>

lemma advertise_generator:
  "sequence_generator (router_step e r) \<in> {sequence_generator r, sequence_generator r + 1}"
  by (cases "(e, r)" rule: router_step.cases)
    (auto simp: recorder_defs process_link_state_update_def Let_def get_link_state_update_def split: option.splits)

lemma run_generator:
  "unat (sequence_generator r) + length es < 2 ^ 64 \<Longrightarrow>
     sequence_generator r \<le> sequence_generator (fold router_step es r)"
proof (induction es arbitrary: r)
  case Nil
  then show ?case by simp
next
  case (Cons e es)
  let ?g = "sequence_generator r"
  from Cons.prems have succ: "unat (?g + 1) = unat ?g + 1" by (simp add: unat_word_ariths)
  then have le: "?g \<le> sequence_generator (router_step e r)"
    and small: "unat (sequence_generator (router_step e r)) + length es < 2 ^ 64"
    using advertise_generator [of e r] Cons.prems by (auto simp: word_le_nat_alt)
  from Cons.IH [OF small] le show ?case by simp
qed

end
