(* ===== verification/Routing_Laws.thy ===== *)
theory Routing_Laws
  imports Router
begin

text \<open>
  The properties of the routing crate (\<^verbatim>\<open>crates/omnimesh-routing\<close>), and the sample networks on which
  they are applied.
\<close>

section \<open>Sample networks\<close>

definition node :: "u8 \<Rightarrow> PeerId" where
  "node n = from_bytes (replicate 32 n)"

definition link_of :: "real \<Rightarrow> LinkMetrics" where
  "link_of x = \<lparr>latency_ms = f64_lit x, bandwidth_kbps = f64_lit 1000, loss_rate = 0, relay_cost = 0\<rparr>"

definition triangle :: RouteGraph where
  "triangle = add_link (node 1) (node 3) (link_of 5)
     (add_link (node 2) (node 3) (link_of 1) (add_link (node 1) (node 2) (link_of 1) graph_new))"

lemma node_eq [simp]: "node a = node b \<longleftrightarrow> a = b"
  by (simp add: node_def from_bytes_def)

text \<open>The doubles of the samples, as bits.\<close>

lemma sample_lits:
  "f64_lit 1 = 4607182418800017408" "f64_lit 5 = 4617315517961601024" "f64_lit 1000 = 4652007308841189376" "f64_lit (1 / 10) = 4591870180066957722" "f64_max_value = 9218868437227405311"
  by (simp_all add: f64_eval)

lemma sample_ops:
  "f64_div 4652007308841189376 4652007308841189376 = 4607182418800017408" "f64_max 4607182418800017408 4591870180066957722 = 4607182418800017408" "f64_add 4607182418800017408 0 = 4607182418800017408" "f64_add 4617315517961601024 0 = 4617315517961601024"
  "f64_mul 4607182418800017408 4607182418800017408 = 4607182418800017408" "f64_mul 4617315517961601024 4607182418800017408 = 4617315517961601024" "f64_div 4607182418800017408 4607182418800017408 = 4607182418800017408" "f64_div 4617315517961601024 4607182418800017408 = 4617315517961601024"
  by (simp_all add: f64_eval)

lemma sample_sums:
  "f64_add 0 4607182418800017408 = 4607182418800017408" "f64_add 0 4617315517961601024 = 4617315517961601024" "f64_add 4607182418800017408 4607182418800017408 = 4611686018427387904"
  by (simp_all add: f64_eval)

lemma sample_lt:
  "f64_lt 4607182418800017408 9218868437227405311" "f64_lt 4617315517961601024 9218868437227405311" "f64_lt 4607182418800017408 4617315517961601024" "\<not> f64_lt 4617315517961601024 4607182418800017408" "f64_lt 4611686018427387904 4617315517961601024" "\<not> f64_lt 4607182418800017408 0" "\<not> f64_lt 4617315517961601024 0" "f64_lt 0 9218868437227405311" 
  by (simp_all add: f64_eval)

lemma link_of_costs: "link_cost (link_of 1) = 4607182418800017408" "link_cost (link_of 5) = 4617315517961601024"
  by (simp_all add: link_cost_def link_of_def Let_def sample_lits sample_ops)

lemma triangle_edges:
  "edges triangle = [(node 1, [(node 2, link_of 1), (node 3, link_of 5)]), (node 2, [(node 3, link_of 1)])]"
  by (simp add: triangle_def add_link_def graph_new_def Let_def)

lemma triangle_ok: "graph_wf triangle" "no_negative_links triangle"
  by (simp_all add: graph_wf_def no_negative_links_def triangle_edges link_of_costs f64_not_neg_def sample_lt)

lemmas search_eval = find_shortest_path_def search_start_def search_loop.simps walk_back.simps process_entry_def
  relax_def current_best_def list_heap_pop_def Let_def

lemma triangle_path: "find_shortest_path list_heap_pop triangle (node 1) (node 3) = Some (Some [node 1, node 2, node 3])"
  by (simp add: search_eval triangle_edges link_of_costs sample_sums sample_lt sample_lits cmp_Greater_iff)

definition update_of :: "u8 \<Rightarrow> u8 \<Rightarrow> u64 \<Rightarrow> LinkMetrics \<Rightarrow> LinkStateUpdate" where
  "update_of a b q m = \<lparr>source = node a, destination = node b, metrics = m, seqno = q, timestamp = 0\<rparr>"

definition sample_router :: Router where
  "sample_router = gossip_run [update_of 1 2 1 (link_of 1), update_of 2 3 1 (link_of 1), update_of 1 3 1 (link_of 5)]
     (router_new (node 1))"

text \<open>A gossiped link whose relay cost is negative infinity, back to the node that computes routes.\<close>

definition poisoned_router :: Router where
  "poisoned_router = gossip_run
     [update_of 1 2 1 (link_of 1), update_of 1 3 1 (link_of 5),
      update_of 2 1 1 ((link_of 1)\<lparr>relay_cost := f64_inf True\<rparr>)] (router_new (node 1))"

lemmas gossip_eval = gossip_run_def process_link_state_update_def update_of_def router_new_def Let_def

lemma metrics_sane_link_of: "metrics_sane (link_of 1)" "metrics_sane (link_of 5)"
  by (simp_all add: metrics_sane_def link_of_def sample_lits f64_not_neg_def sample_lt)

lemma sample_router_reach: "router_reach (node 1) sample_router"
  unfolding sample_router_def gossip_run_def
  by (simp del: router_step.simps)
    (intro router_reach.intros, simp_all add: update_of_def metrics_sane_link_of)

lemma sample_router_graph: "graph sample_router = triangle" "local_peer_id sample_router = node 1"
  by (simp_all add: sample_router_def gossip_eval triangle_def add_link_def graph_new_def)

lemma neg_inf_ops:
  "f64_inf True = 18442240474082181120" "f64_add 4607182418800017408 18442240474082181120 = 18442240474082181120" "f64_add 18442240474082181120 4607182418800017408 = 18442240474082181120" "f64_add 18442240474082181120 4617315517961601024 = 18442240474082181120"
  "f64_lt 18442240474082181120 0" "f64_lt 18442240474082181120 4607182418800017408" "f64_lt 18442240474082181120 4617315517961601024" "\<not> f64_lt 18442240474082181120 18442240474082181120" "\<not> f64_lt 4607182418800017408 18442240474082181120"
  "\<not> f64_lt 4617315517961601024 18442240474082181120" "\<not> f64_lt 0 0" "\<not> f64_lt 0 18442240474082181120"
  by (simp_all add: f64_eval)

lemma poisoned_cost: "link_cost ((link_of 1)\<lparr>relay_cost := f64_inf True\<rparr>) = 18442240474082181120"
  by (simp add: link_cost_def link_of_def Let_def sample_lits sample_ops neg_inf_ops)

lemma poisoned_graph:
  "local_peer_id poisoned_router = node 1"
  "edges (graph poisoned_router) =
     [(node 1, [(node 2, link_of 1), (node 3, link_of 5)]),
      (node 2, [(node 1, (link_of 1)\<lparr>relay_cost := f64_inf True\<rparr>)])]"
  by (simp_all add: poisoned_router_def gossip_eval add_link_def graph_new_def)

lemma poisoned_search:
  "\<exists>s. search_loop list_heap_pop (graph poisoned_router) (node 3) (search_start (node 1)) = Some (Some s) \<and>
     predecessors s (node 1) = Some (node 2) \<and> predecessors s (node 2) = Some (node 1) \<and>
     predecessors s (node 3) = Some (node 1)"
  by (simp add: search_eval poisoned_graph poisoned_cost link_of_costs sample_sums sample_lt sample_lits neg_inf_ops(2-)
      cmp_Greater_iff)

lemma poisoned_find: "find_route list_heap_pop poisoned_router (node 3) = None"
proof -
  obtain s where s: "search_loop list_heap_pop (graph poisoned_router) (node 3) (search_start (node 1)) = Some (Some s)"
    and p: "predecessors s (node 1) = Some (node 2)" "predecessors s (node 2) = Some (node 1)"
      "predecessors s (node 3) = Some (node 1)"
    using poisoned_search by blast
  have "walk_back (predecessors s) (node 3) [node 3] = None"
    by (rule walk_back_cycle_None [where C = "{node 1, node 2, node 3}"]) (auto simp: p)
  with s show ?thesis by (simp add: find_route_def find_shortest_path_def poisoned_graph)
qed

section \<open>Properties\<close>

text \<open>
  C1. Optimality and loop-freedom: when no link of a well-formed graph has a negative cost, every
  path that \<^verbatim>\<open>find_shortest_path\<close> returns leads from the start to the target over links of the
  graph, visits no node twice, and no route between the two has a smaller floating-point cost.
\<close>

theorem shortest_path_best:
  assumes "binary_heap heap_pop" "graph_wf g" "no_negative_links g"
    and "find_shortest_path heap_pop g start target = Some (Some p)"
  shows "best_route g start target p"
  using binary_heap.find_shortest_path_correct [OF assms(1-3), of start target] assms(4) by auto

theorem shortest_path_best_witness:
  "find_shortest_path list_heap_pop triangle (node 1) (node 3) = Some (Some [node 1, node 2, node 3]) \<and>
   best_route triangle (node 1) (node 3) [node 1, node 2, node 3]"
  using shortest_path_best [OF list_heap.binary_heap_axioms triangle_ok triangle_path] triangle_path by simp

text \<open>
  C4. Totality and completeness: under the same conditions the search returns, and it answers
  \<^verbatim>\<open>None\<close> exactly when no route to the target costs less than \<^verbatim>\<open>f64::MAX\<close>.
\<close>

theorem shortest_path_total:
  assumes "binary_heap heap_pop" "graph_wf g" "no_negative_links g"
  shows "\<exists>r. find_shortest_path heap_pop g start target = Some r \<and>
    (r = None \<longleftrightarrow> unreachable_below_max g start target)"
  using binary_heap.find_shortest_path_correct [OF assms, of start target]
  by (auto simp: best_route_def unreachable_below_max_def)

theorem shortest_path_total_witness:
  "(\<exists>r. find_shortest_path list_heap_pop triangle (node 1) (node 3) = Some r \<and>
     (r = None \<longleftrightarrow> unreachable_below_max triangle (node 1) (node 3))) \<and>
   \<not> unreachable_below_max triangle (node 1) (node 3)"
  using shortest_path_total [OF list_heap.binary_heap_axioms triangle_ok, of "node 1" "node 3"] triangle_path
  by auto

text \<open>
  C17. Termination of the search loop on every graph, negative and NaN costs included: each
  improvement strictly lowers a distance in the finite set of doubles.
\<close>

theorem search_terminates:
  assumes "binary_heap heap_pop"
  shows "\<exists>r. search_loop heap_pop g target s = Some r"
  by (rule binary_heap.search_loop_ends [OF assms])

theorem search_terminates_witness:
  "\<exists>r. search_loop list_heap_pop (graph poisoned_router) (node 3) (search_start (node 1)) = Some r"
  by (rule search_terminates [OF list_heap.binary_heap_axioms])


text \<open>
  C5. A router that has only seen measurements without negative latencies and without NaN losses,
  and gossip without negative fields, answers every route query, with a best route of its current
  graph from itself, or with \<^verbatim>\<open>None\<close> when no route costs less than \<^verbatim>\<open>f64::MAX\<close>.
\<close>

theorem router_answers:
  assumes "binary_heap heap_pop" "router_reach self r"
  shows "(\<exists>p. find_route heap_pop r target = Some (Some p) \<and> best_route (graph r) self target p) \<or>
    find_route heap_pop r target = Some None \<and> unreachable_below_max (graph r) self target"
  by (rule binary_heap.find_route_cases [OF assms])

theorem router_answers_witness:
  "(\<exists>p. find_route list_heap_pop sample_router (node 3) = Some (Some p) \<and> best_route (graph sample_router) (node 1) (node 3) p) \<or>
   find_route list_heap_pop sample_router (node 3) = Some None \<and> unreachable_below_max (graph sample_router) (node 1) (node 3)"
  by (rule router_answers [OF list_heap.binary_heap_axioms sample_router_reach])

text \<open>
  The next hop of such a router is a neighbour it has a link to, the second node of the route
  that \<^verbatim>\<open>find_route\<close> gives; there is none only for the router itself and for unreachable targets.
\<close>

lemma next_hop_neighbour:
  assumes "binary_heap heap_pop" "router_reach self r"
  shows "\<exists>h. next_hop heap_pop r target = Some h \<and>
    (case h of
       Some n \<Rightarrow> target \<noteq> self \<and> n \<noteq> self \<and> get_link (graph r) self n \<noteq> None \<and>
         (\<exists>q. find_route heap_pop r target = Some (Some (self # n # q)))
     | None \<Rightarrow> target = self \<or> unreachable_below_max (graph r) self target)"
  by (rule binary_heap.next_hop_cases [OF assms])

text \<open>
  C10. Gossip converges: two routers that start alike and receive the same updates, in any order and
  with any repetitions, hold the same sequence number and the same metrics for every link, provided
  no two updates for one link carry one sequence number with different metrics.
\<close>

theorem gossip_converges:
  assumes "set us = set vs" "gossip_consistent us"
  shows "known_seq (gossip_run us r) k = known_seq (gossip_run vs r) k \<and>
    known_link (gossip_run us r) k = known_link (gossip_run vs r) k"
  using gossip_run_order [OF assms] by simp

theorem gossip_converges_witness:
  "(let us = [update_of 1 2 1 (link_of 1), update_of 1 2 2 (link_of 5)];
        vs = [update_of 1 2 2 (link_of 5), update_of 1 2 1 (link_of 1), update_of 1 2 2 (link_of 5)]
    in known_link (gossip_run us (router_new (node 1))) (node 1, node 2) =
       known_link (gossip_run vs (router_new (node 1))) (node 1, node 2))"
  using gossip_converges [of "[update_of 1 2 1 (link_of 1), update_of 1 2 2 (link_of 5)]"
      "[update_of 1 2 2 (link_of 5), update_of 1 2 1 (link_of 1), update_of 1 2 2 (link_of 5)]"
      "router_new (node 1)" "(node 1, node 2)"]
  by (simp add: gossip_consistent_def gossip_key_def update_of_def insert_commute Let_def)

text \<open>
  Replay protection: an update that has been processed once is reported as old ever after,
  whatever gossip arrives in between, and processing it again changes neither the graph nor any
  known sequence number.
\<close>

lemma gossip_replay_dropped:
  "let r' = gossip_run us (snd (process_link_state_update u r))
   in \<not> fst (process_link_state_update u r') \<and>
      graph (snd (process_link_state_update u r')) = graph r' \<and>
      known_seq (snd (process_link_state_update u r')) k = known_seq r' k"
proof -
  have "\<not> known_seq (gossip_run us (snd (process_link_state_update u r))) (gossip_key u) < seqno u"
    by (simp add: gossip_run_known_seq process_known_seq not_less)
  then show ?thesis
    by (simp add: Let_def process_accepts process_known_seq max_def)
      (simp add: process_link_state_update_def Let_def known_seq_def gossip_key_def)
qed

text \<open>
  C26. Outgoing sequence numbers grow: of two updates a router generates, with any events in
  between, the later one has the greater number as long as the 64-bit counter has not wrapped.
\<close>

theorem outgoing_sequence_grows:
  assumes "get_link_state_update p t r = (Some u, r1)"
    and "get_link_state_update q t' (fold router_step es r1) = (Some u', r2)"
    and "unat (sequence_generator r) + length es + 1 < 2 ^ 64"
  shows "seqno u < seqno u'"
proof -
  from assms(1) have u: "seqno u = sequence_generator r" and r1: "sequence_generator r1 = sequence_generator r + 1"
    by (auto simp: get_link_state_update_def split: option.splits)
  have succ: "unat (sequence_generator r + 1) = unat (sequence_generator r) + 1"
    using assms(3) by (simp add: unat_word_ariths)
  have "sequence_generator r1 \<le> sequence_generator (fold router_step es r1)"
    by (rule run_generator) (use assms(3) r1 succ in simp)
  moreover have "seqno u' = sequence_generator (fold router_step es r1)"
    using assms(2) by (auto simp: get_link_state_update_def split: option.splits)
  ultimately show ?thesis using u r1 succ by (simp add: word_less_nat_alt word_le_nat_alt)
qed

theorem outgoing_sequence_grows_witness:
  "seqno (the (fst (get_link_state_update (node 2) 7 (record_latency (node 2) 0 (router_new (node 1)))))) <
   seqno (the (fst (get_link_state_update (node 2) 8
     (fold router_step [Measure (node 2) (Latency 0)]
       (snd (get_link_state_update (node 2) 7 (record_latency (node 2) 0 (router_new (node 1)))))))))"
  by (rule outgoing_sequence_grows [where es = "[Measure (node 2) (Latency 0)]" and p = "node 2" and q = "node 2"
        and r = "record_latency (node 2) 0 (router_new (node 1))" and t = 7 and t' = 8])
    (auto simp: get_link_state_update_def recorder_defs router_new_def)

text \<open>
  C37. A restart silences a node: the counter starts again at one, so the first update a restarted
  router generates for a link is dropped by every peer that already knows a number for that link.
\<close>

theorem restart_update_dropped:
  assumes "sequence_generator r = sequence_generator (router_new self)"
    and "get_link_state_update p t r = (Some u, r1)" and "1 \<le> known_seq peer (gossip_key u)"
  shows "\<not> fst (process_link_state_update u peer) \<and>
    known_link (snd (process_link_state_update u peer)) k = known_link peer k"
proof -
  have "seqno u = 1" using assms(1,2) by (auto simp: get_link_state_update_def router_new_def split: option.splits)
  with assms(3) show ?thesis by (auto simp: process_accepts process_known_link)
qed

theorem restart_update_dropped_witness:
  "\<not> fst (process_link_state_update
     (the (fst (get_link_state_update (node 2) 9 (record_latency (node 2) 0 (router_new (node 1)))))) sample_router)"
proof -
  let ?r = "record_latency (node 2) 0 (router_new (node 1))"
  obtain u r1 where u: "get_link_state_update (node 2) 9 ?r = (Some u, r1)" "gossip_key u = (node 1, node 2)"
    by (auto simp: get_link_state_update_def recorder_defs router_new_def gossip_key_def)
  moreover have "known_seq sample_router (node 1, node 2) = 1"
    by (simp add: known_seq_def sample_router_def gossip_eval)
  ultimately show ?thesis
    using restart_update_dropped [of ?r "node 1" "node 2" 9 u r1 sample_router]
    by (simp add: recorder_defs router_new_def)
qed



end
