(* ===== verification/Retry.thy ===== *)
theory Retry
  imports F64 Core_Types
begin

text \<open>
  \<^verbatim>\<open>crates/omnimesh-core/src/retry.rs\<close>: retry policies and \<^verbatim>\<open>retry_async\<close>. The retried operation
  is a function of an arbitrary state (what the \<^verbatim>\<open>FnMut\<close> may change); the loop returns its outcome,
  the final state and the intervals slept. A duration is its number of nanoseconds, and the
  conversions from and to doubles are those of \<^verbatim>\<open>std::time::Duration\<close>, panics included.
\<close>

section \<open>Durations\<close>

type_synonym Duration = nat

definition from_millis :: "nat \<Rightarrow> Duration" where
  "from_millis n = n * 1000000"

definition from_secs :: "nat \<Rightarrow> Duration" where
  "from_secs n = n * 1000000000"

definition as_secs_f64 :: "Duration \<Rightarrow> f64" where
  "as_secs_f64 d =
     f64_add (f64_of_int (int (d div 1000000000)))
       (f64_div (f64_of_int (int (d mod 1000000000))) (f64_lit 1000000000))"

text \<open>Negative, infinite and NaN arguments, and more than 64 bits of seconds, panic.\<close>

definition from_secs_f64 :: "f64 \<Rightarrow> Duration option" where
  "from_secs_f64 x =
     (case f64_val x of
        FFin v \<Rightarrow>
          (if v < 0 then None
           else let n = nat (round_half_even (v * 1000000000))
                in if n div 1000000000 < 2 ^ 64 then Some n else None)
      | _ \<Rightarrow> None)"

section \<open>Policies\<close>

record RetryPolicy =
  max_retries :: u32
  initial_interval :: Duration
  max_interval :: Duration
  multiplier :: f64

definition RetryPolicy_default :: RetryPolicy where
  "RetryPolicy_default =
     \<lparr>max_retries = 5, initial_interval = from_millis 100, max_interval = from_secs 30, multiplier = f64_lit 2\<rparr>"

definition aggressive :: RetryPolicy where
  "aggressive =
     \<lparr>max_retries = 10, initial_interval = from_millis 50, max_interval = from_secs 5, multiplier = f64_lit (3 / 2)\<rparr>"

definition conservative :: RetryPolicy where
  "conservative =
     \<lparr>max_retries = 3, initial_interval = from_secs 1, max_interval = from_secs 60, multiplier = f64_lit 3\<rparr>"

definition no_retries :: RetryPolicy where
  "no_retries = RetryPolicy_default\<lparr>max_retries := 0\<rparr>"

text \<open>The fields of \<^verbatim>\<open>backoff::ExponentialBackoff\<close> that \<^verbatim>\<open>retry_async\<close> reads.\<close>

record ExponentialBackoff =
  bo_initial_interval :: Duration
  bo_max_interval :: Duration
  bo_multiplier :: f64

definition to_backoff :: "RetryPolicy \<Rightarrow> ExponentialBackoff" where
  "to_backoff p =
     \<lparr>bo_initial_interval = initial_interval p, bo_max_interval = max_interval p, bo_multiplier = multiplier p\<rparr>"

section \<open>The retry loop\<close>

lemma attempts_progress:
  assumes "(a :: u32) < m"
  shows "unat (a + 1) = unat a + 1"
proof -
  have "unat a < unat m" using assms by (simp add: word_less_nat_alt)
  moreover have "unat m < 2 ^ 32" using unsigned_less [of m, where 'a = nat] by simp
  ultimately show ?thesis by (simp add: unat_word_ariths)
qed

function retry_loop ::
  "RetryPolicy \<Rightarrow> ExponentialBackoff \<Rightarrow> ('s \<Rightarrow> 'a result \<times> 's) \<Rightarrow> u32 \<Rightarrow> Duration \<Rightarrow> 's \<Rightarrow>
     'a outcome \<times> 's \<times> Duration list" where
  "retry_loop policy backoff operation attempts current_interval s =
     (case operation s of
        (Inr v, s') \<Rightarrow> (Returned (Inr v), s', [])
      | (Inl err, s') \<Rightarrow>
          (if is_retryable err \<and> attempts < max_retries policy
           then case from_secs_f64 (f64_mul (as_secs_f64 current_interval) (bo_multiplier backoff)) of
                  None \<Rightarrow> (Panicked, s', [current_interval])
                | Some d \<Rightarrow>
                    (case retry_loop policy backoff operation (attempts + 1) (min d (bo_max_interval backoff)) s' of
                       (r, s'', slept) \<Rightarrow> (r, s'', current_interval # slept))
           else (Returned (Inl err), s', [])))"
  by pat_completeness auto

termination
  by (relation "measure (\<lambda>(p, b, f, a, i, s). unat (max_retries p) - unat a)")
    (auto simp: attempts_progress word_less_nat_alt)

declare retry_loop.simps [simp del]

definition retry_async ::
  "RetryPolicy \<Rightarrow> ('s \<Rightarrow> 'a result \<times> 's) \<Rightarrow> 's \<Rightarrow> 'a outcome \<times> 's \<times> Duration list" where
  "retry_async policy operation s =
     (if max_retries policy = 0
      then case operation s of (r, s') \<Rightarrow> (Returned r, s', [])
      else let backoff = to_backoff policy
           in retry_loop policy backoff operation 0 (bo_initial_interval backoff) s)"

section \<open>Intervals stay representable\<close>

lemma fval_round_between:
  assumes "0 \<le> x" "x \<le> y" "fval_round y = FFin y"
  shows "\<exists>z. fval_round x = FFin z \<and> 0 \<le> z \<and> z \<le> y"
  using fval_round_mono [of 0 x] fval_round_mono [of x y] assms by (cases "fval_round x") auto

lemma seconds_exact:
  "fval_round 1 = FFin 1" "fval_round 60 = FFin 60" "fval_round 61 = FFin 61" "fval_round 183 = FFin 183"
  "fval_round 1000000000 = FFin 1000000000" "f64_val (f64_lit 1000000000) = FFin 1000000000"
  by (simp_all add: f64_eval fval_round_def)

lemma as_secs_f64_bound:
  assumes "d \<le> from_secs 60"
  shows "\<exists>z. f64_val (as_secs_f64 d) = FFin z \<and> 0 \<le> z \<and> z \<le> 61"
proof -
  have "d div 1000000000 \<le> 60" using assms by (simp add: from_secs_def)
  then have "real_of_int (int (d div 1000000000)) \<le> 60" by linarith
  then obtain a where a: "f64_val (f64_of_int (int (d div 1000000000))) = FFin a" "0 \<le> a" "a \<le> 60"
    using fval_round_between [OF _ _ seconds_exact(2), of "real (d div 1000000000)"] by (auto simp: f64_of_int_def)
  have "real_of_int (int (d mod 1000000000)) \<le> 1000000000"
    using mod_less_divisor [of 1000000000 d] by linarith
  then obtain b where b: "f64_val (f64_of_int (int (d mod 1000000000))) = FFin b" "0 \<le> b" "b \<le> 1000000000"
    using fval_round_between [OF _ _ seconds_exact(5), of "real (d mod 1000000000)"] by (auto simp: f64_of_int_def)
  then obtain c where c: "f64_val (f64_div (f64_of_int (int (d mod 1000000000))) (f64_lit 1000000000)) = FFin c"
    "0 \<le> c" "c \<le> 1"
    using fval_round_between [OF _ _ seconds_exact(1), of "b / 1000000000"] seconds_exact(6)
    by (auto simp: f64_div_def Let_def)
  show ?thesis
    using fval_round_between [OF _ _ seconds_exact(3), of "a + c"] a c f64_val_add_fin [OF a(1) c(1)]
    by (auto simp: as_secs_f64_def)
qed

lemma from_secs_f64_bound:
  assumes "f64_val x = FFin v" "0 \<le> v" "v \<le> 183"
  shows "from_secs_f64 x \<noteq> None"
proof -
  have "round_half_even (v * 1000000000) \<le> round_half_even 183000000000"
    by (rule round_half_even_mono) (use assms in simp)
  then have "nat (round_half_even (v * 1000000000)) \<le> 183000000000"
    by (simp add: round_half_even_def)
  then have "nat (round_half_even (v * 1000000000)) div 1000000000 \<le> 183000000000 div 1000000000"
    by (rule div_le_mono)
  then show ?thesis using assms by (simp add: from_secs_f64_def Let_def)
qed

text \<open>Policies whose intervals are at most a minute and whose multiplier is between 0 and 3.\<close>

definition policy_safe :: "RetryPolicy \<Rightarrow> bool" where
  "policy_safe p \<longleftrightarrow>
     initial_interval p \<le> from_secs 60 \<and> max_interval p \<le> from_secs 60 \<and>
     (case f64_val (multiplier p) of FFin v \<Rightarrow> 0 \<le> v \<and> v \<le> 3 | _ \<Rightarrow> False)"

lemma policy_safe_next:
  assumes "policy_safe p" "i \<le> from_secs 60"
  shows "from_secs_f64 (f64_mul (as_secs_f64 i) (multiplier p)) \<noteq> None"
proof -
  obtain a where a: "f64_val (as_secs_f64 i) = FFin a" "0 \<le> a" "a \<le> 61" using as_secs_f64_bound [OF assms(2)] by blast
  obtain v where v: "f64_val (multiplier p) = FFin v" "0 \<le> v" "v \<le> 3"
    using assms(1) by (auto simp: policy_safe_def split: fval.splits)
  have "a * v \<le> 61 * 3" by (rule mult_mono) (use a v in auto)
  then obtain z where "fval_round (a * v) = FFin z" "0 \<le> z" "z \<le> 183"
    using fval_round_between [OF _ _ seconds_exact(4), of "a * v"] a v by auto
  then show ?thesis using a v by (intro from_secs_f64_bound) (auto simp: f64_mul_def Let_def)
qed

lemma policies_safe: "policy_safe RetryPolicy_default" "policy_safe aggressive" "policy_safe conservative" "policy_safe no_retries"
  by (simp_all add: policy_safe_def RetryPolicy_default_def aggressive_def conservative_def no_retries_def
      from_millis_def from_secs_def f64_eval)

section \<open>The specification of a retry\<close>

text \<open>At most \<open>k\<close> further calls, each only after a retryable failure; the last call's result counts.\<close>

fun retry_spec :: "nat \<Rightarrow> ('s \<Rightarrow> 'a result \<times> 's) \<Rightarrow> 's \<Rightarrow> 'a result \<times> 's" where
  "retry_spec k operation s =
     (case operation s of
        (Inl err, s') \<Rightarrow>
          (case k of Suc j \<Rightarrow> if is_retryable err then retry_spec j operation s' else (Inl err, s') | 0 \<Rightarrow> (Inl err, s'))
      | (Inr v, s') \<Rightarrow> (Inr v, s'))"

declare retry_spec.simps [simp del]

lemma retry_loop_refines:
  assumes "policy_safe p"
  shows "attempts \<le> max_retries p \<Longrightarrow> i \<le> from_secs 60 \<Longrightarrow>
    \<exists>slept. retry_loop p (to_backoff p) f attempts i s =
        (Returned (fst (retry_spec (unat (max_retries p) - unat attempts) f s)),
         snd (retry_spec (unat (max_retries p) - unat attempts) f s), slept) \<and>
      length slept \<le> unat (max_retries p) - unat attempts \<and>
      (\<forall>d \<in> set slept. d \<le> max i (max_interval p))"
proof (induction "unat (max_retries p) - unat attempts" arbitrary: attempts i s)
  case 0
  then have "\<not> attempts < max_retries p" by (simp add: word_less_nat_alt)
  with 0 show ?case
    by (subst retry_loop.simps) (auto simp: retry_spec.simps [of 0] split: sum.splits prod.splits)
next
  case (Suc k)
  from Suc.hyps(2) have lt: "attempts < max_retries p" by (simp add: word_less_nat_alt)
  show ?case
  proof (cases "\<exists>e s'. f s = (Inl e, s') \<and> is_retryable e")
    case False
    then show ?thesis
      by (subst retry_loop.simps) (auto simp: retry_spec.simps [of _ f s] split: sum.splits prod.splits nat.splits)
  next
    case True
    then obtain e s' where f: "f s = (Inl e, s')" "is_retryable e" by blast
    obtain d where d: "from_secs_f64 (f64_mul (as_secs_f64 i) (multiplier p)) = Some d"
      using policy_safe_next [OF assms Suc.prems(2)] by blast
    have m: "min d (max_interval p) \<le> from_secs 60" using assms by (auto simp: policy_safe_def)
    have k: "k = unat (max_retries p) - unat (attempts + 1)"
      using Suc.hyps(2) attempts_progress [OF lt] by simp
    have le: "attempts + 1 \<le> max_retries p"
      using lt attempts_progress [OF lt] by (simp add: word_less_nat_alt word_le_nat_alt)
    from Suc.hyps(1) [OF k le m, of s'] obtain slept where
      "retry_loop p (to_backoff p) f (attempts + 1) (min d (max_interval p)) s' =
         (Returned (fst (retry_spec k f s')), snd (retry_spec k f s'), slept)"
      "length slept \<le> k" "\<forall>x \<in> set slept. x \<le> max_interval p"
      by (auto simp: k [symmetric] max_absorb2)
    then show ?thesis
      using f d lt Suc.hyps(2) [symmetric]
      by (subst retry_loop.simps) (auto simp: to_backoff_def retry_spec.simps [of "Suc k"] le_max_iff_disj)
  qed
qed

lemma retry_async_refines:
  assumes "policy_safe p"
  shows "\<exists>slept. retry_async p f s =
      (Returned (fst (retry_spec (unat (max_retries p)) f s)), snd (retry_spec (unat (max_retries p)) f s), slept) \<and>
    length slept \<le> unat (max_retries p) \<and> (\<forall>d \<in> set slept. d \<le> max (initial_interval p) (max_interval p))"
proof (cases "max_retries p = 0")
  case True
  then show ?thesis
    by (auto simp: retry_async_def retry_spec.simps [of 0] split: sum.splits prod.splits)
next
  case False
  have "initial_interval p \<le> from_secs 60" using assms by (simp add: policy_safe_def)
  from retry_loop_refines [OF assms _ this, of 0 f s] False show ?thesis
    by (simp add: retry_async_def Let_def to_backoff_def)
qed

section \<open>Properties\<close>



text \<open>
  Security errors are never retried: whatever the policy, an operation that fails with one is
  called once, nothing is slept, and the error is returned.
\<close>

lemma retry_security_once:
  assumes "operation s = (Inl e, s')" "is_security_error e"
  shows "retry_async p operation s = (Returned (Inl e), s', [])"
  using assms retryable_not_security [of e]
  by (auto simp: retry_async_def Let_def retry_loop.simps)

text \<open>
  The first wait is not bounded by \<^verbatim>\<open>max_interval\<close>: after a retryable failure the loop first
  sleeps for exactly \<^verbatim>\<open>initial_interval\<close>, however small \<^verbatim>\<open>max_interval\<close> is.
\<close>

lemma retry_first_wait:
  assumes "operation s = (Inl e, s')" "is_retryable e" "0 < max_retries p"
  shows "\<exists>slept. snd (snd (retry_async p operation s)) = initial_interval p # slept"
  using assms
  by (auto simp: retry_async_def Let_def to_backoff_def retry_loop.simps [of p _ operation 0]
      split: option.splits prod.splits)

end
