(* ===== verification/Conn_Pool.thy ===== *)
theory Conn_Pool
  imports Core_Types
begin

text \<open>
  \<^verbatim>\<open>crates/omnimesh-transport/src/connection.rs\<close>: the pool of connection records. The concurrent map
  is an association list in its iteration order; byte counters are 64-bit words that wrap as in a
  release build. \<^verbatim>\<open>insert\<close> reads the length and then writes, in two separate accesses to the map:
  \<open>pool_insert\<close> is the call on its own, \<open>pool_step\<close> the interleaving of the accesses of several
  tasks.
\<close>

section \<open>Operations\<close>

record ConnectionInfo =
  ci_peer_id :: PeerId
  ci_remote_addr :: SocketAddr
  ci_state :: ConnectionState
  connected_at :: u64
  bytes_sent :: u64
  bytes_received :: u64

record ConnectionPool =
  connections :: "(PeerId \<times> ConnectionInfo) list"
  max_connections :: nat

definition pool_new :: "nat \<Rightarrow> ConnectionPool" where
  "pool_new m = \<lparr>connections = [], max_connections = m\<rparr>"

definition pool_len :: "ConnectionPool \<Rightarrow> nat" where
  "pool_len p = length (connections p)"

definition pool_is_empty :: "ConnectionPool \<Rightarrow> bool" where
  "pool_is_empty p \<longleftrightarrow> connections p = []"

text \<open>The two halves of \<^verbatim>\<open>insert\<close>.\<close>

definition pool_full :: "ConnectionPool \<Rightarrow> bool" where
  "pool_full p \<longleftrightarrow> max_connections p \<le> pool_len p"

definition pool_commit :: "ConnectionInfo \<Rightarrow> ConnectionPool \<Rightarrow> ConnectionPool" where
  "pool_commit info p = p\<lparr>connections := AList.update (ci_peer_id info) info (connections p)\<rparr>"

definition pool_insert :: "ConnectionInfo \<Rightarrow> ConnectionPool \<Rightarrow> unit result \<times> ConnectionPool" where
  "pool_insert info p =
     (if pool_full p
      then (Inl (Connection (''connection pool full ('' @ show_nat (pool_len p) @ ''/'' @
              show_nat (max_connections p) @ '')'')), p)
      else (Inr (), pool_commit info p))"

definition pool_remove :: "PeerId \<Rightarrow> ConnectionPool \<Rightarrow> ConnectionInfo option \<times> ConnectionPool" where
  "pool_remove peer p = (map_of (connections p) peer, p\<lparr>connections := AList.delete peer (connections p)\<rparr>)"

definition pool_get :: "PeerId \<Rightarrow> ConnectionPool \<Rightarrow> ConnectionInfo option" where
  "pool_get peer p = map_of (connections p) peer"

definition pool_is_connected :: "PeerId \<Rightarrow> ConnectionPool \<Rightarrow> bool" where
  "pool_is_connected peer p =
     (case map_of (connections p) peer of Some e \<Rightarrow> ci_state e = Connected | None \<Rightarrow> False)"

definition connected_peers :: "ConnectionPool \<Rightarrow> PeerId list" where
  "connected_peers p = map fst (filter (\<lambda>(k, e). ci_state e = Connected) (connections p))"

text \<open>The \<^verbatim>\<open>get_mut\<close> access of the three updates: an absent peer changes nothing.\<close>

definition pool_modify :: "PeerId \<Rightarrow> (ConnectionInfo \<Rightarrow> ConnectionInfo) \<Rightarrow> ConnectionPool \<Rightarrow> ConnectionPool" where
  "pool_modify peer f p =
     (case map_of (connections p) peer of
        Some e \<Rightarrow> p\<lparr>connections := AList.update peer (f e) (connections p)\<rparr>
      | None \<Rightarrow> p)"

definition update_state :: "PeerId \<Rightarrow> ConnectionState \<Rightarrow> ConnectionPool \<Rightarrow> ConnectionPool" where
  "update_state peer st p = pool_modify peer (\<lambda>e. e\<lparr>ci_state := st\<rparr>) p"

definition record_bytes_sent :: "PeerId \<Rightarrow> u64 \<Rightarrow> ConnectionPool \<Rightarrow> ConnectionPool" where
  "record_bytes_sent peer n p = pool_modify peer (\<lambda>e. e\<lparr>bytes_sent := bytes_sent e + n\<rparr>) p"

definition record_bytes_received :: "PeerId \<Rightarrow> u64 \<Rightarrow> ConnectionPool \<Rightarrow> ConnectionPool" where
  "record_bytes_received peer n p = pool_modify peer (\<lambda>e. e\<lparr>bytes_received := bytes_received e + n\<rparr>) p"

section \<open>Laws\<close>

definition pool_wf :: "ConnectionPool \<Rightarrow> bool" where
  "pool_wf p \<longleftrightarrow> distinct (map fst (connections p)) \<and> list_all (\<lambda>(k, e). ci_peer_id e = k) (connections p)"

lemma length_update: "length (AList.update k v xs) = (if map_of xs k = None then Suc (length xs) else length xs)"
  by (induction xs) auto

lemma pool_wf_new [simp]: "pool_wf (pool_new m)"
  by (simp add: pool_wf_def pool_new_def)

lemma pool_wf_commit: "pool_wf p \<Longrightarrow> pool_wf (pool_commit info p)"
  by (auto simp: pool_wf_def pool_commit_def intro: list_all_update)

lemma pool_wf_insert: "pool_wf p \<Longrightarrow> pool_wf (snd (pool_insert info p))"
  by (simp add: pool_insert_def pool_wf_commit)

lemma pool_wf_remove: "pool_wf p \<Longrightarrow> pool_wf (snd (pool_remove peer p))"
  by (auto simp: pool_wf_def pool_remove_def intro: list_all_delete)

lemma pool_wf_modify:
  assumes "pool_wf p" "\<And>e. ci_peer_id (f e) = ci_peer_id e"
  shows "pool_wf (pool_modify peer f p)"
proof (cases "map_of (connections p) peer")
  case None
  with assms(1) show ?thesis by (simp add: pool_modify_def)
next
  case (Some e)
  then have "ci_peer_id (f e) = peer"
    using assms by (auto simp: pool_wf_def list_all_iff dest!: map_of_SomeD)
  with Some assms(1) show ?thesis by (auto simp: pool_wf_def pool_modify_def intro: list_all_update)
qed

lemma pool_get_commit: "pool_get q (pool_commit info p) = (if q = ci_peer_id info then Some info else pool_get q p)"
  by (simp add: pool_get_def pool_commit_def)

lemma pool_get_remove: "pool_get q (snd (pool_remove peer p)) = (if q = peer then None else pool_get q p)"
  by (simp add: pool_get_def pool_remove_def)

lemma pool_get_modify: "pool_get q (pool_modify peer f p) = (if q = peer then map_option f (pool_get q p) else pool_get q p)"
  by (simp add: pool_get_def pool_modify_def split: option.splits)

lemma pool_len_commit:
  "pool_len (pool_commit info p) = (if pool_get (ci_peer_id info) p = None then Suc (pool_len p) else pool_len p)"
  by (simp add: pool_len_def pool_commit_def length_update pool_get_def)

lemma in_connected_peers: "pool_wf p \<Longrightarrow> q \<in> set (connected_peers p) \<longleftrightarrow> pool_is_connected q p"
  unfolding connected_peers_def pool_is_connected_def
  by (auto simp: pool_wf_def image_iff split: option.splits dest: map_of_SomeD eq_key_imp_eq_value)

section \<open>Interleaved insertions\<close>

text \<open>
  \<open>pool_step k\<close> is one access by one of at most \<open>k\<close> tasks: a task that found room is pending until it
  commits; any other task may act in between.
\<close>

inductive pool_step :: "nat \<Rightarrow> ConnectionPool \<times> ConnectionInfo list \<Rightarrow> ConnectionPool \<times> ConnectionInfo list \<Rightarrow> bool"
  for k where
  check: "\<not> pool_full p \<Longrightarrow> length pend < k \<Longrightarrow> pool_step k (p, pend) (p, info # pend)"
| commit: "pool_step k (p, xs @ info # ys) (pool_commit info p, xs @ ys)"
| remove: "pool_step k (p, pend) (snd (pool_remove peer p), pend)"
| state: "pool_step k (p, pend) (update_state peer st p, pend)"
| sent: "pool_step k (p, pend) (record_bytes_sent peer n p, pend)"
| received: "pool_step k (p, pend) (record_bytes_received peer n p, pend)"

inductive pool_steps :: "nat \<Rightarrow> ConnectionPool \<times> ConnectionInfo list \<Rightarrow> ConnectionPool \<times> ConnectionInfo list \<Rightarrow> bool"
  for k where
  refl: "pool_steps k s s"
| step: "pool_steps k s s' \<Longrightarrow> pool_step k s' s'' \<Longrightarrow> pool_steps k s s''"

definition pool_bound :: "nat \<Rightarrow> nat \<Rightarrow> ConnectionPool \<times> ConnectionInfo list \<Rightarrow> bool" where
  "pool_bound k m s \<longleftrightarrow>
     max_connections (fst s) = m \<and> pool_wf (fst s) \<and> length (snd s) \<le> k \<and>
     pool_len (fst s) + length (snd s) \<le> m + k - 1"

lemma length_delete: "length (AList.delete k xs) \<le> length xs"
  by (simp add: AList.delete_eq)

lemma pool_len_remove: "pool_len (snd (pool_remove peer p)) \<le> pool_len p"
  using length_delete by (simp add: pool_len_def pool_remove_def)

lemma pool_len_modify: "pool_len (pool_modify peer f p) = pool_len p"
  by (auto simp: pool_len_def pool_modify_def length_update split: option.splits)

lemma pool_max_unchanged:
  "max_connections (pool_commit info p) = max_connections p"
  "max_connections (snd (pool_remove peer p)) = max_connections p"
  "max_connections (pool_modify peer f p) = max_connections p"
  by (auto simp: pool_commit_def pool_remove_def pool_modify_def split: option.splits)

lemma pool_bound_step: "pool_step k s s' \<Longrightarrow> pool_bound k m s \<Longrightarrow> pool_bound k m s'"
proof (induction rule: pool_step.induct)
  case (remove p pend peer)
  then show ?case using pool_len_remove [of peer p] by (auto simp: pool_bound_def pool_max_unchanged pool_wf_remove)
qed (auto simp: pool_bound_def pool_full_def pool_len_commit pool_max_unchanged pool_wf_commit update_state_def
      record_bytes_sent_def record_bytes_received_def pool_len_modify pool_wf_modify)

lemma pool_bound_steps: "pool_steps k s s' \<Longrightarrow> pool_bound k m s \<Longrightarrow> pool_bound k m s'"
  by (induction rule: pool_steps.induct) (auto intro: pool_bound_step)

section \<open>Properties\<close>

text \<open>
  C35. Capacity: with at most \<open>k\<close> tasks inserting at a time, a pool created for \<open>m\<close> connections never
  holds more than \<open>m + k - 1\<close>; a single task therefore keeps it within \<open>m\<close>.
\<close>

theorem pool_capacity:
  assumes "pool_steps k (pool_new m, []) (p, pend)" "0 < k"
  shows "pool_len p \<le> m + k - 1 \<and> distinct (map fst (connections p))"
proof -
  have "pool_bound k m (pool_new m, [])" using assms(2) by (simp add: pool_bound_def) (simp add: pool_new_def pool_len_def)
  from pool_bound_steps [OF assms(1) this] show ?thesis by (auto simp: pool_bound_def pool_wf_def)
qed

definition sample_info :: "u8 \<Rightarrow> ConnectionInfo" where
  "sample_info n = \<lparr>ci_peer_id = PeerId (replicate 32 n), ci_remote_addr = SocketAddrV4 [127, 0, 0, 1] 1000,
     ci_state = Connected, connected_at = 0, bytes_sent = 0, bytes_received = 0\<rparr>"

lemma sample_race:
  "pool_steps 2 (pool_new 1, []) (pool_commit (sample_info 1) (pool_commit (sample_info 2) (pool_new 1)), [])"
proof -
  have c1: "pool_step 2 (pool_new 1, []) (pool_new 1, [sample_info 1])"
    by (rule pool_step.check) (simp_all add: pool_new_def pool_full_def pool_len_def)
  have c2: "pool_step 2 (pool_new 1, [sample_info 1]) (pool_new 1, [sample_info 2, sample_info 1])"
    by (rule pool_step.check) (simp_all add: pool_new_def pool_full_def pool_len_def)
  have w2: "pool_step 2 (pool_new 1, [sample_info 2, sample_info 1]) (pool_commit (sample_info 2) (pool_new 1), [sample_info 1])"
    using pool_step.commit [of 2 "pool_new 1" "[]" "sample_info 2" "[sample_info 1]"] by simp
  have w1: "pool_step 2 (pool_commit (sample_info 2) (pool_new 1), [sample_info 1])
      (pool_commit (sample_info 1) (pool_commit (sample_info 2) (pool_new 1)), [])"
    using pool_step.commit [of 2 "pool_commit (sample_info 2) (pool_new 1)" "[]" "sample_info 1" "[]"] by simp
  show ?thesis by (rule pool_steps.step [OF pool_steps.step [OF pool_steps.step [OF pool_steps.step
          [OF pool_steps.refl c1] c2] w2] w1])
qed

theorem pool_capacity_witness:
  "pool_len (pool_commit (sample_info 1) (pool_commit (sample_info 2) (pool_new 1))) \<le> 1 + 2 - 1"
  using pool_capacity [OF sample_race] by simp

text \<open>
  The check and the insertion are not one atomic access: two tasks can bring a pool for one
  connection to two.
\<close>

lemma pool_overflow_race:
  "\<exists>p. pool_steps 2 (pool_new 1, []) (p, []) \<and> max_connections p < pool_len p"
  using sample_race
  by (intro exI [of _ "pool_commit (sample_info 1) (pool_commit (sample_info 2) (pool_new 1))"])
    (simp add: pool_len_commit pool_max_unchanged pool_get_commit,
     simp add: sample_info_def pool_new_def pool_len_def pool_get_def)

text \<open>
  Insertion: below capacity the record is found afterwards and no other changes; at capacity the
  call fails with a connection error and the pool is unchanged, even for a peer already in it.
\<close>

lemma pool_insert_spec:
  "(case pool_insert info p of
      (Inr _, p') \<Rightarrow> pool_len p < max_connections p \<and>
        (\<forall>q. pool_get q p' = (if q = ci_peer_id info then Some info else pool_get q p))
    | (Inl e, p') \<Rightarrow> max_connections p \<le> pool_len p \<and> p' = p \<and> is_retryable e)"
  by (auto simp: pool_insert_def pool_full_def pool_get_commit)

end
