(* ===== verification/Telemetry.thy ===== *)
theory Telemetry
  imports Core_Types
begin

text \<open>
  \<^verbatim>\<open>crates/omnimesh-core/src/telemetry.rs\<close>: the global logging of the process. The filters of the
  \<^verbatim>\<open>tracing-subscriber\<close> crate are a parameter, a type \<open>'f\<close> with its two constructors.
\<close>

section \<open>The global subscriber\<close>

text \<open>\<open>filter_parse\<close>: a filter from a string, failing on one it cannot parse; \<open>filter_new\<close>: one that ignores what it cannot parse.\<close>

record 'f filters =
  filter_parse :: "string \<Rightarrow> 'f option"
  filter_new :: "string \<Rightarrow> 'f"

record 'f subscriber =
  sub_filter :: 'f
  sub_json :: bool
  sub_flatten_event :: bool
  sub_target :: bool
  sub_thread_ids :: bool
  sub_file :: bool
  sub_line_number :: bool

text \<open>The tracing state of the process; \<open>leaked\<close> counts the spans that are never freed, \<open>entered\<close> are the open ones.\<close>

record 'f tracing =
  global_default :: "'f subscriber option"
  leaked :: nat
  entered :: "(string \<times> string) list"

definition tracing_start :: "'f tracing" where
  "tracing_start = \<lparr>global_default = None, leaked = 0, entered = []\<rparr>"

text \<open>\<^verbatim>\<open>EnvFilter::try_from_default_env\<close> reads \<^verbatim>\<open>RUST_LOG\<close>.\<close>

definition env_filter :: "'f filters \<Rightarrow> (string \<Rightarrow> string option) \<Rightarrow> string \<Rightarrow> 'f" where
  "env_filter fl env log_level =
     (case Option.bind (env ''RUST_LOG'') (filter_parse fl) of Some f \<Rightarrow> f | None \<Rightarrow> filter_new fl log_level)"

definition make_subscriber :: "'f \<Rightarrow> bool \<Rightarrow> 'f subscriber" where
  "make_subscriber f json =
     (if json
      then \<lparr>sub_filter = f, sub_json = True, sub_flatten_event = True, sub_target = True, sub_thread_ids = True,
            sub_file = True, sub_line_number = True\<rparr>
      else \<lparr>sub_filter = f, sub_json = False, sub_flatten_event = False, sub_target = True, sub_thread_ids = False,
            sub_file = False, sub_line_number = False\<rparr>)"

text \<open>\<^verbatim>\<open>init\<close> panics when the process has a subscriber.\<close>

definition telemetry_init ::
  "'f filters \<Rightarrow> (string \<Rightarrow> string option) \<Rightarrow> string \<Rightarrow> bool \<Rightarrow> 'f tracing \<Rightarrow> unit outcome \<times> 'f tracing" where
  "telemetry_init fl env log_level json t =
     (case global_default t of
        Some _ \<Rightarrow> (Panicked, t)
      | None \<Rightarrow> (Returned (Inr ()), t\<lparr>global_default := Some (make_subscriber (env_filter fl env log_level) json)\<rparr>))"

definition span :: "string \<Rightarrow> string \<Rightarrow> 'f tracing \<Rightarrow> 'f tracing" where
  "span subsystem operation t = t\<lparr>leaked := leaked t + 1, entered := (subsystem, operation) # entered t\<rparr>"

text \<open>Dropping the guard leaves the span, which stays allocated.\<close>

definition span_exit :: "'f tracing \<Rightarrow> 'f tracing" where
  "span_exit t = t\<lparr>entered := tl (entered t)\<rparr>"

section \<open>Properties\<close>

lemma telemetry_once:
  assumes "telemetry_init fl env level json t = (Returned (Inr ()), t')"
  shows "global_default t = None \<and> telemetry_init fl env' level' json' t' = (Panicked, t')"
  using assms by (auto simp: telemetry_init_def split: option.splits)

lemma rust_log_wins:
  assumes "env ''RUST_LOG'' = Some s" "filter_parse fl s = Some f" "global_default t = None"
  shows "\<exists>sub. global_default (snd (telemetry_init fl env level json t)) = Some sub \<and> sub_filter sub = f \<and> sub_json sub = json"
  using assms by (simp add: telemetry_init_def env_filter_def make_subscriber_def)

text \<open>Every span costs memory for the rest of the process, also after it was left.\<close>

lemma spans_leak: "leaked (fold (\<lambda>s t. span_exit (span (fst s) (snd s) t)) ss t) = leaked t + length ss"
  by (induction ss arbitrary: t) (simp_all add: span_def span_exit_def)

end
