(* ===== verification/Conn_Spec.thy ===== *)
theory Conn_Spec
  imports Core_Types
begin

text \<open>
  \<^verbatim>\<open>crates/omnimesh-transport/src/traits.rs\<close>: the interface of connections. A call that may wait gives an
  \<open>async\<close> result. The contract \<open>fifo_connection\<close> is about one direction of a connection: the sending end and
  the receiving end work on a shared world, which has a list of messages in transit. What both
  implementations of the trait promise is proved once for the contract: whatever the order of sends and
  receives, messages come out complete, once, and in the order in which they went in.
\<close>

datatype 'a async = Ready 'a | Blocked

text \<open>What a transport reports of its connections.\<close>

datatype TransportEvent =
    IncomingConnection "PeerId option" SocketAddr
  | ConnectionClosed PeerId string

section \<open>The contract\<close>

text \<open>
  \<open>ok\<close>: the messages the implementation can carry; \<open>full\<close>: a send has to wait. A receive that waits may
  change the world but not what is in transit.
\<close>

locale fifo_connection =
  fixes send :: "bytes \<Rightarrow> 'w \<Rightarrow> unit result async \<times> 'w" and recv :: "'w \<Rightarrow> bytes option result async \<times> 'w"
    and inv :: "'w \<Rightarrow> bool" and transit :: "'w \<Rightarrow> bytes list" and ok :: "bytes \<Rightarrow> bool" and full :: "'w \<Rightarrow> bool"
  assumes send_room: "inv w \<Longrightarrow> ok m \<Longrightarrow> \<not> full w \<Longrightarrow>
      \<exists>w'. send m w = (Ready (Inr ()), w') \<and> inv w' \<and> transit w' = transit w @ [m]"
    and send_full: "inv w \<Longrightarrow> full w \<Longrightarrow> send m w = (Blocked, w)"
    and recv_some: "inv w \<Longrightarrow> transit w = m # q \<Longrightarrow> \<exists>w'. recv w = (Ready (Inr (Some m)), w') \<and> inv w' \<and> transit w' = q"
    and recv_none: "inv w \<Longrightarrow> transit w = [] \<Longrightarrow> \<exists>w'. recv w = (Blocked, w') \<and> inv w' \<and> transit w' = []"

section \<open>Runs\<close>

text \<open>
  A run of the two ends: the messages whose send succeeded, the messages received, and whether a call
  reported an error or the end of the connection.
\<close>

datatype io_event = Put bytes | Get

record 'w io =
  io_world :: 'w
  io_sent :: "bytes list"
  io_got :: "bytes list"
  io_failed :: bool

fun io_step ::
  "(bytes \<Rightarrow> 'w \<Rightarrow> unit result async \<times> 'w) \<Rightarrow> ('w \<Rightarrow> bytes option result async \<times> 'w) \<Rightarrow> io_event \<Rightarrow> 'w io \<Rightarrow> 'w io" where
  "io_step send recv (Put m) s =
     (case send m (io_world s) of
        (Ready (Inr _), w) \<Rightarrow> s\<lparr>io_world := w, io_sent := io_sent s @ [m]\<rparr>
      | (Ready (Inl _), w) \<Rightarrow> s\<lparr>io_world := w, io_failed := True\<rparr>
      | (Blocked, w) \<Rightarrow> s\<lparr>io_world := w\<rparr>)"
| "io_step send recv Get s =
     (case recv (io_world s) of
        (Ready (Inr (Some m)), w) \<Rightarrow> s\<lparr>io_world := w, io_got := io_got s @ [m]\<rparr>
      | (Ready _, w) \<Rightarrow> s\<lparr>io_world := w, io_failed := True\<rparr>
      | (Blocked, w) \<Rightarrow> s\<lparr>io_world := w\<rparr>)"

definition io_run ::
  "(bytes \<Rightarrow> 'w \<Rightarrow> unit result async \<times> 'w) \<Rightarrow> ('w \<Rightarrow> bytes option result async \<times> 'w) \<Rightarrow> io_event list \<Rightarrow> 'w \<Rightarrow> 'w io" where
  "io_run send recv evs w = fold (io_step send recv) evs \<lparr>io_world = w, io_sent = [], io_got = [], io_failed = False\<rparr>"

definition puts :: "io_event list \<Rightarrow> bytes list" where
  "puts evs = concat (map (\<lambda>e. case e of Put m \<Rightarrow> [m] | Get \<Rightarrow> []) evs)"

lemma puts_simps [simp]: "puts [] = []" "puts (Put m # evs) = m # puts evs" "puts (Get # evs) = puts evs"
  "puts (xs @ ys) = puts xs @ puts ys" "puts (map Put ms) = ms" "puts (replicate n Get) = []"
  by (simp_all add: puts_def comp_def)

context fifo_connection
begin

definition fifo :: "'w io \<Rightarrow> bool" where
  "fifo s \<longleftrightarrow> inv (io_world s) \<and> \<not> io_failed s \<and> io_sent s = io_got s @ transit (io_world s)"

lemma fifo_step:
  assumes "fifo s" "list_all ok (puts [e])"
  shows "fifo (io_step send recv e s)"
proof (cases e)
  case (Put m)
  then show ?thesis
    using assms send_room [of "io_world s" m] send_full [of "io_world s" m] by (cases "full (io_world s)") (auto simp: fifo_def)
next
  case Get
  then show ?thesis using assms recv_some [of "io_world s"] recv_none [of "io_world s"]
    by (cases "transit (io_world s)") (force simp: fifo_def)+
qed

lemma fifo_fold: "fifo s \<Longrightarrow> list_all ok (puts evs) \<Longrightarrow> fifo (fold (io_step send recv) evs s)"
proof (induction evs arbitrary: s)
  case (Cons e evs)
  then show ?case using fifo_step [of s e] by (cases e) simp_all
qed simp

lemma run_fifo:
  assumes "inv w" "transit w = []" "list_all ok (puts evs)"
  shows "\<not> io_failed (io_run send recv evs w) \<and> inv (io_world (io_run send recv evs w)) \<and>
    io_sent (io_run send recv evs w) = io_got (io_run send recv evs w) @ transit (io_world (io_run send recv evs w))"
  using fifo_fold [of "\<lparr>io_world = w, io_sent = [], io_got = [], io_failed = False\<rparr>" evs] assms
  by (simp add: fifo_def io_run_def)

text \<open>Once everything is sent, as many receives as there are messages in transit take all of them.\<close>

lemma run_drain:
  "inv (io_world s) \<Longrightarrow> \<not> io_failed s \<Longrightarrow> n = length (transit (io_world s)) \<Longrightarrow>
     io_got (fold (io_step send recv) (replicate n Get) s) = io_got s @ transit (io_world s) \<and>
     \<not> io_failed (fold (io_step send recv) (replicate n Get) s)"
proof (induction n arbitrary: s)
  case (Suc n)
  then obtain m q where m: "transit (io_world s) = m # q" by (cases "transit (io_world s)") auto
  from recv_some [OF Suc.prems(1) m] obtain w where
    w: "recv (io_world s) = (Ready (Inr (Some m)), w)" "inv w" "transit w = q" by blast
  from Suc.IH [of "s\<lparr>io_world := w, io_got := io_got s @ [m]\<rparr>"] w m Suc.prems show ?case by simp
qed simp

end

end
