(* ===== verification/Byte_Order.thy ===== *)
theory Byte_Order
  imports Prelude
begin

text \<open>Splitting byte strings and reading them as numbers, least or most significant byte first.\<close>

fun le_nat :: "bytes \<Rightarrow> nat" where
  "le_nat [] = 0"
| "le_nat (b # bs) = unat b + 256 * le_nat bs"

fun nat_le :: "nat \<Rightarrow> nat \<Rightarrow> bytes" where
  "nat_le 0 n = []"
| "nat_le (Suc k) n = word_of_nat (n mod 256) # nat_le k (n div 256)"

fun be_nat :: "nat \<Rightarrow> bytes \<Rightarrow> nat" where
  "be_nat acc [] = acc"
| "be_nat acc (b # bs) = be_nat (256 * acc + unat b) bs"

primrec nat_be :: "nat \<Rightarrow> nat \<Rightarrow> bytes" where
  "nat_be 0 n = []"
| "nat_be (Suc k) n = nat_be k (n div 256) @ [word_of_nat (n mod 256)]"

fun chunks :: "nat \<Rightarrow> 'a list \<Rightarrow> 'a list list" where
  "chunks k xs = (if k = 0 \<or> xs = [] then [] else take k xs # chunks k (drop k xs))"

declare chunks.simps [simp del]

lemma length_nat_le [simp]: "length (nat_le k n) = k"
  by (induction k n rule: nat_le.induct) simp_all

lemma length_nat_be [simp]: "length (nat_be k n) = k"
  by (induction k arbitrary: n) simp_all

lemma unat_byte: "unat (word_of_nat (n mod 256) :: u8) = n mod 256"
  by (simp add: unat_of_nat)

lemma le_nat_nat_le: "n < 256 ^ k \<Longrightarrow> le_nat (nat_le k n) = n"
  by (induction k n rule: nat_le.induct) (auto simp: unat_byte less_mult_imp_div_less mult.commute)

lemma nat_le_le_nat: "length bs = k \<Longrightarrow> nat_le k (le_nat bs) = bs"
proof (induction bs arbitrary: k)
  case (Cons b bs)
  have "unat b < 256" using unsigned_less [of b, where 'a = nat] by simp
  with Cons show ?case by (cases k) auto
qed auto

lemma le_nat_less: "le_nat bs < 256 ^ length bs"
proof (induction bs)
  case (Cons b bs)
  have "unat b < 256" using unsigned_less [of b, where 'a = nat] by simp
  with Cons show ?case by simp
qed simp

lemma be_nat_append: "be_nat acc (xs @ ys) = be_nat (be_nat acc xs) ys"
  by (induction xs arbitrary: acc) simp_all

lemma be_nat_nat_be: "n < 256 ^ k \<Longrightarrow> be_nat 0 (nat_be k n) = n"
  by (induction k arbitrary: n) (auto simp: be_nat_append unat_byte less_mult_imp_div_less mult.commute)

end
