(* ===== verification/Socket_Addr.thy ===== *)
theory Socket_Addr
  imports Core_Types
begin

text \<open>
  The text format of \<^verbatim>\<open>std::net::SocketAddr\<close>, which the configuration, the transports and the
  command line rely on: the parser behind \<^verbatim>\<open>str::parse\<close> and the \<^verbatim>\<open>Display\<close> form. A parser takes
  the remaining input and gives a value and the rest, or \<open>None\<close>.
\<close>

type_synonym 'a parser = "string \<Rightarrow> ('a \<times> string) option"

section \<open>Parsing\<close>

definition to_digit :: "nat \<Rightarrow> char \<Rightarrow> nat option" where
  "to_digit radix c = (case hex_value c of Some d \<Rightarrow> if d < radix then Some d else None | None \<Rightarrow> None)"

fun read_digits :: "nat \<Rightarrow> string \<Rightarrow> nat list \<times> string" where
  "read_digits radix [] = ([], [])"
| "read_digits radix (c # cs) =
     (case to_digit radix c of
        None \<Rightarrow> ([], c # cs)
      | Some d \<Rightarrow> (case read_digits radix cs of (ds, rest) \<Rightarrow> (d # ds, rest)))"

definition digits_value :: "nat \<Rightarrow> nat list \<Rightarrow> nat" where
  "digits_value radix ds = foldl (\<lambda>n d. n * radix + d) 0 ds"

text \<open>
  All digits are taken; none, more than \<open>max_digits\<close>, a leading zero where it is not allowed, or a
  value above \<open>bound\<close> is a failure.
\<close>

definition read_number :: "nat \<Rightarrow> nat option \<Rightarrow> bool \<Rightarrow> nat \<Rightarrow> nat parser" where
  "read_number radix max_digits allow_zero_prefix bound s =
     (case read_digits radix s of (ds, rest) \<Rightarrow>
        if ds = [] \<or> (case max_digits of Some m \<Rightarrow> m < length ds | None \<Rightarrow> False)
          \<or> bound < digits_value radix ds
          \<or> (\<not> allow_zero_prefix \<and> hd ds = 0 \<and> 1 < length ds)
        then None else Some (digits_value radix ds, rest))"

fun read_char :: "char \<Rightarrow> string \<Rightarrow> string option" where
  "read_char c [] = None"
| "read_char c (x # xs) = (if x = c then Some xs else None)"

definition read_separator :: "char \<Rightarrow> nat \<Rightarrow> 'a parser \<Rightarrow> 'a parser" where
  "read_separator sep i p s =
     (if i = 0 then p s else case read_char sep s of None \<Rightarrow> None | Some s' \<Rightarrow> p s')"

fun read_octets :: "nat \<Rightarrow> nat \<Rightarrow> nat list parser" where
  "read_octets 0 i s = Some ([], s)"
| "read_octets (Suc n) i s =
     (case read_separator CHR ''.'' i (read_number 10 (Some 3) False 255) s of
        None \<Rightarrow> None
      | Some (x, s') \<Rightarrow>
          (case read_octets n (Suc i) s' of None \<Rightarrow> None | Some (xs, s'') \<Rightarrow> Some (x # xs, s'')))"

definition read_ipv4 :: "nat list parser" where
  "read_ipv4 s = read_octets 4 0 s"

text \<open>Up to \<open>n\<close> groups, the last two possibly as an embedded IPv4 address.\<close>

fun read_groups :: "nat \<Rightarrow> nat \<Rightarrow> string \<Rightarrow> nat list \<times> bool \<times> string" where
  "read_groups 0 i s = ([], False, s)"
| "read_groups (Suc n) i s =
     (case (if 0 < n then read_separator CHR '':'' i read_ipv4 s else None) of
        Some (v4, s') \<Rightarrow> ([v4 ! 0 * 256 + v4 ! 1, v4 ! 2 * 256 + v4 ! 3], True, s')
      | None \<Rightarrow>
          (case read_separator CHR '':'' i (read_number 16 (Some 4) True 65535) s of
             None \<Rightarrow> ([], False, s)
           | Some (x, s') \<Rightarrow> (case read_groups n (Suc i) s' of (xs, v4, s'') \<Rightarrow> (x # xs, v4, s''))))"

definition read_ipv6 :: "nat list parser" where
  "read_ipv6 s =
     (case read_groups 8 0 s of (head, head_ipv4, s1) \<Rightarrow>
        if length head = 8 then Some (head, s1)
        else if head_ipv4 then None
        else (case read_char CHR '':'' s1 of
               None \<Rightarrow> None
             | Some s2 \<Rightarrow>
                 (case read_char CHR '':'' s2 of
                    None \<Rightarrow> None
                  | Some s3 \<Rightarrow>
                      (case read_groups (8 - (length head + 1)) 0 s3 of (tail, _, s4) \<Rightarrow>
                         Some (head @ replicate (8 - length head - length tail) 0 @ tail, s4)))))"

definition octet :: "nat \<Rightarrow> u8" where
  "octet n = word_of_nat n"

definition group_octets :: "nat list \<Rightarrow> bytes" where
  "group_octets gs = concat (map (\<lambda>g. [octet (g div 256), octet (g mod 256)]) gs)"

definition read_port :: "nat parser" where
  "read_port s = (case read_char CHR '':'' s of None \<Rightarrow> None | Some s' \<Rightarrow> read_number 10 None True 65535 s')"

definition read_scope_id :: "nat parser" where
  "read_scope_id s = (case read_char CHR ''%'' s of None \<Rightarrow> None | Some s' \<Rightarrow> read_number 10 None True 4294967295 s')"

definition read_socket_addr_v4 :: "SocketAddr parser" where
  "read_socket_addr_v4 s =
     (case read_ipv4 s of
        None \<Rightarrow> None
      | Some (ip, s1) \<Rightarrow>
          (case read_port s1 of
             None \<Rightarrow> None
           | Some (port, s2) \<Rightarrow> Some (SocketAddrV4 (map octet ip) (word_of_nat port), s2)))"

definition read_socket_addr_v6 :: "SocketAddr parser" where
  "read_socket_addr_v6 s =
     (case read_char CHR ''['' s of
        None \<Rightarrow> None
      | Some s1 \<Rightarrow>
          (case read_ipv6 s1 of
             None \<Rightarrow> None
           | Some (ip, s2) \<Rightarrow>
               (case (case read_scope_id s2 of Some r \<Rightarrow> r | None \<Rightarrow> (0, s2)) of (scope, s3) \<Rightarrow>
                  (case read_char CHR '']'' s3 of
                     None \<Rightarrow> None
                   | Some s4 \<Rightarrow>
                       (case read_port s4 of
                          None \<Rightarrow> None
                        | Some (port, s5) \<Rightarrow>
                            Some (SocketAddrV6 (group_octets ip) (word_of_nat port) 0 (word_of_nat scope), s5))))))"

definition parse_socket_addr :: "string \<Rightarrow> SocketAddr option" where
  "parse_socket_addr s =
     (case (case read_socket_addr_v4 s of Some r \<Rightarrow> Some r | None \<Rightarrow> read_socket_addr_v6 s) of
        Some (a, []) \<Rightarrow> Some a
      | _ \<Rightarrow> None)"

section \<open>Printing\<close>

definition show_v4 :: "bytes \<Rightarrow> string" where
  "show_v4 bs =
     show_nat (unat (bs ! 0)) @ ''.'' @ show_nat (unat (bs ! 1)) @ ''.'' @
     show_nat (unat (bs ! 2)) @ ''.'' @ show_nat (unat (bs ! 3))"

fun show_hex :: "nat \<Rightarrow> string" where
  "show_hex n = (if n < 16 then [hex_digit n] else show_hex (n div 16) @ [hex_digit (n mod 16)])"

declare show_hex.simps [simp del]

fun join_with :: "string \<Rightarrow> string list \<Rightarrow> string" where
  "join_with sep [] = []"
| "join_with sep [x] = x"
| "join_with sep (x # y # xs) = x @ sep @ join_with sep (y # xs)"

fun octet_groups :: "bytes \<Rightarrow> nat list" where
  "octet_groups (a # b # bs) = (unat a * 256 + unat b) # octet_groups bs"
| "octet_groups _ = []"

text \<open>The first longest run of zero groups: its start and its length.\<close>

fun longest_zeros :: "nat list \<Rightarrow> nat \<Rightarrow> nat \<times> nat \<Rightarrow> nat \<times> nat \<Rightarrow> nat \<times> nat" where
  "longest_zeros [] i current best = best"
| "longest_zeros (g # gs) i current best =
     (if g = 0
      then let current = (if snd current = 0 then i else fst current, snd current + 1)
           in longest_zeros gs (i + 1) current (if snd best < snd current then current else best)
      else longest_zeros gs (i + 1) (0, 0) best)"

definition show_v6 :: "bytes \<Rightarrow> string" where
  "show_v6 bs =
     (let gs = octet_groups bs; hex = (\<lambda>xs. join_with '':'' (map show_hex xs)) in
      if take 6 gs = [0, 0, 0, 0, 0, 65535] then ''::ffff:'' @ show_v4 (drop 12 bs)
      else case longest_zeros gs 0 (0, 0) (0, 0) of (start, len) \<Rightarrow>
             if 1 < len then hex (take start gs) @ ''::'' @ hex (drop (start + len) gs) else hex gs)"

fun show_socket_addr :: "SocketAddr \<Rightarrow> string" where
  "show_socket_addr (SocketAddrV4 ip port) = show_v4 ip @ '':'' @ show_nat (unat port)"
| "show_socket_addr (SocketAddrV6 ip port flow scope) =
     ''['' @ show_v6 ip @ (if scope = 0 then [] else ''%'' @ show_nat (unat scope)) @ '']:'' @ show_nat (unat port)"

section \<open>Reading back what was printed\<close>

lemma to_digit_decimal: "d < 10 \<Longrightarrow> to_digit 10 (char_of (48 + d)) = Some d"
  by (auto simp: to_digit_def hex_value_def Let_def)

definition no_digit :: "string \<Rightarrow> bool" where
  "no_digit s \<longleftrightarrow> (case s of [] \<Rightarrow> True | c # cs \<Rightarrow> to_digit 10 c = None)"

lemma read_digits_stop: "no_digit s \<Longrightarrow> read_digits 10 s = ([], s)"
  by (cases s) (auto simp: no_digit_def)

lemma read_digits_append:
  "read_digits 10 (show_nat n @ s) = (case read_digits 10 s of (ds, rest) \<Rightarrow> (fst (read_digits 10 (show_nat n)) @ ds, rest))"
proof (induction n arbitrary: s rule: show_nat.induct)
  case (1 n)
  show ?case
  proof (cases "n < 10")
    case True
    then show ?thesis using to_digit_decimal [of n]
      by (simp add: show_nat.simps [of n] split: prod.splits)
  next
    case False
    have d: "to_digit 10 (char_of (48 + n mod 10)) = Some (n mod 10)" by (rule to_digit_decimal) simp
    show ?thesis using False 1 [of "char_of (48 + n mod 10) # s"] 1 [of "[char_of (48 + n mod 10)]"] d
      by (simp add: show_nat.simps [of n] split: prod.splits)
  qed
qed

definition show_digits :: "nat \<Rightarrow> nat list" where
  "show_digits n = fst (read_digits 10 (show_nat n))"

lemma show_digits_rec: "show_digits n = (if n < 10 then [n] else show_digits (n div 10) @ [n mod 10])"
  using to_digit_decimal [of n] to_digit_decimal [of "n mod 10"]
    read_digits_append [of "n div 10" "[char_of (48 + n mod 10)]"]
  by (auto simp: show_digits_def show_nat.simps [of n] split: prod.splits)

lemma show_digits_value: "digits_value 10 (show_digits n) = n"
  by (induction n rule: show_nat.induct) (subst show_digits_rec, auto simp: digits_value_def)

lemma show_digits_nonempty: "show_digits n \<noteq> []"
  by (subst show_digits_rec) auto

lemma show_digits_lead: "1 < length (show_digits n) \<Longrightarrow> hd (show_digits n) \<noteq> 0"
proof (induction n rule: show_nat.induct)
  case (1 n)
  show ?case
  proof (cases "n < 100")
    case True
    with 1 show ?thesis by (subst (asm) show_digits_rec, subst show_digits_rec)
        (auto simp: show_digits_rec [of "n div 10"])
  next
    case False
    then have "\<not> n < 10" "\<not> n div 10 < 10" by auto
    then have "1 < length (show_digits (n div 10))"
      using show_digits_nonempty [of "n div 10 div 10"]
      by (subst show_digits_rec) (auto simp: Suc_lessI)
    with 1 \<open>\<not> n < 10\<close> show ?thesis
      using show_digits_nonempty [of "n div 10"] by (subst show_digits_rec) auto
  qed
qed

lemma show_digits_length: "n < 10 ^ Suc k \<Longrightarrow> length (show_digits n) \<le> Suc k"
proof (induction k arbitrary: n)
  case 0
  then show ?case by (subst show_digits_rec) auto
next
  case (Suc k)
  then have "n div 10 < 10 ^ Suc k" by auto
  from Suc.IH [OF this] show ?case by (subst show_digits_rec) auto
qed

lemma read_number_show:
  assumes "no_digit s" "n \<le> bound" "case m of Some k \<Rightarrow> length (show_digits n) \<le> k | None \<Rightarrow> True"
  shows "read_number 10 m z bound (show_nat n @ s) = Some (n, s)"
  using assms show_digits_nonempty [of n] show_digits_lead [of n] show_digits_value [of n]
  by (auto simp: read_number_def read_digits_append read_digits_stop show_digits_def [symmetric] split: option.splits)

lemma parse_show_v4:
  "parse_socket_addr (show_socket_addr (SocketAddrV4 [a, b, c, d] p)) = Some (SocketAddrV4 [a, b, c, d] p)"
proof -
  have sep: "no_digit (CHR ''.'' # s)" "no_digit (CHR '':'' # s)" "no_digit []" for s
    by (simp_all add: no_digit_def to_digit_def hex_value_def)
  have len: "unat (x :: u8) \<le> 255" "length (show_digits (unat x)) \<le> 3" for x
    using unat_u8_less [of x] show_digits_length [of "unat x" 2] by auto
  have four: "(4 :: nat) = Suc (Suc (Suc (Suc 0)))" by simp
  have port: "unat p \<le> 65535" using unsigned_less [of p, where 'a = nat] by simp
  have "read_ipv4 (show_v4 [a, b, c, d] @ '':'' @ show_nat (unat p)) =
      Some ([unat a, unat b, unat c, unat d], '':'' @ show_nat (unat p))"
    unfolding read_ipv4_def four
    by (simp add: show_v4_def read_separator_def read_number_show sep len)
  moreover have "read_port ('':'' @ show_nat (unat p)) = Some (unat p, [])"
    using read_number_show [of "[]" "unat p" 65535 None True] port sep by (simp add: read_port_def)
  ultimately show ?thesis
    by (simp add: parse_socket_addr_def read_socket_addr_v4_def octet_def)
qed

end
