(* ===== verification/Quic_Conn.thy ===== *)
theory Quic_Conn
  imports Conn_Spec Byte_Order Socket_Addr
begin

text \<open>
  The connections of \<^verbatim>\<open>crates/omnimesh-transport/src/quic.rs\<close>: messages framed by their length on a stream.
  The quinn streams are byte queues; the faults that quinn may report are an argument. An operation that
  has to wait is \<open>Blocked\<close>; the state beside it is the one in which the connection is left when the waiting
  operation is cancelled, as \<^verbatim>\<open>tokio::select!\<close> in \<^verbatim>\<open>run_session_loop\<close> (SDK) cancels a pending \<^verbatim>\<open>recv\<close> when
  a message is to be sent.
\<close>

section \<open>QUIC connections\<close>

text \<open>
  \<open>q_in\<close> holds the bytes that have arrived and were not read, \<open>q_in_finished\<close> that the peer has ended
  its stream; \<open>q_out\<close> what was written. The two stream fields of the source are open or not.
\<close>

record QuicConnection =
  q_connected :: bool
  q_send_stream :: bool
  q_recv_stream :: bool
  q_out :: bytes
  q_in :: bytes
  q_in_finished :: bool

definition quic_fresh :: "bytes \<Rightarrow> bool \<Rightarrow> QuicConnection" where
  "quic_fresh arrived finished =
     \<lparr>q_connected = True, q_send_stream = False, q_recv_stream = False, q_out = [], q_in = arrived, q_in_finished = finished\<rparr>"

record quinn_faults =
  open_bi_fault :: "string option"
  write_len_fault :: "string option"
  write_data_fault :: "string option"
  accept_bi_fault :: "string option"
  read_fault :: "string option"

definition no_quinn_faults :: quinn_faults where
  "no_quinn_faults = \<lparr>open_bi_fault = None, write_len_fault = None, write_data_fault = None, accept_bi_fault = None, read_fault = None\<rparr>"

text \<open>\<^verbatim>\<open>(data.len() as u32).to_be_bytes()\<close>: the length is truncated to 32 bits.\<close>

definition length_prefix :: "bytes \<Rightarrow> bytes" where
  "length_prefix data = nat_be 4 (length data mod 2 ^ 32)"

definition quic_send :: "quinn_faults \<Rightarrow> bytes \<Rightarrow> QuicConnection \<Rightarrow> unit result \<times> QuicConnection" where
  "quic_send faults data c =
     (if \<not> q_connected c then (Inl (Connection ''not connected''), c)
      else case (if q_send_stream c then Inr c
                 else case open_bi_fault faults of
                        Some e \<Rightarrow> Inl e
                      | None \<Rightarrow> Inr (c\<lparr>q_send_stream := True, q_recv_stream := True\<rparr>)) of
             Inl e \<Rightarrow> (Inl (Connection (''open stream: '' @ e)), c)
           | Inr c \<Rightarrow>
               (case write_len_fault faults of
                  Some e \<Rightarrow> (Inl (Transport (''write len: '' @ e)), c)
                | None \<Rightarrow>
                    (let c = c\<lparr>q_out := q_out c @ length_prefix data\<rparr>
                     in case write_data_fault faults of
                          Some e \<Rightarrow> (Inl (Transport (''write data: '' @ e)), c)
                        | None \<Rightarrow> (Inr (), c\<lparr>q_out := q_out c @ data\<rparr>))))"

text \<open>
  \<^verbatim>\<open>read_exact\<close> on the bytes that have arrived. When they are too few they have moved to the buffer of the
  read in progress, and the state is the one in which the connection is left when that read is dropped.
\<close>

datatype read_exact = Got bytes | FinishedEarly | ReadError string | Waiting

definition stream_read :: "quinn_faults \<Rightarrow> nat \<Rightarrow> QuicConnection \<Rightarrow> read_exact \<times> QuicConnection" where
  "stream_read faults n c =
     (case read_fault faults of
        Some e \<Rightarrow> (ReadError e, c)
      | None \<Rightarrow>
          (if n \<le> length (q_in c) then (Got (take n (q_in c)), c\<lparr>q_in := drop n (q_in c)\<rparr>)
           else if q_in_finished c then (FinishedEarly, c\<lparr>q_in := []\<rparr>) else (Waiting, c\<lparr>q_in := []\<rparr>)))"

definition quic_recv :: "quinn_faults \<Rightarrow> QuicConnection \<Rightarrow> bytes option result async \<times> QuicConnection" where
  "quic_recv faults c =
     (if \<not> q_connected c then (Ready (Inr None), c)
      else case (if q_recv_stream c then Inr c
                 else case accept_bi_fault faults of
                        Some e \<Rightarrow> Inl e
                      | None \<Rightarrow> Inr (c\<lparr>q_send_stream := True, q_recv_stream := True\<rparr>)) of
             Inl e \<Rightarrow> (Ready (Inl (Connection (''accept stream: '' @ e))), c)
           | Inr c \<Rightarrow>
               (case stream_read faults 4 c of
                  (Waiting, c) \<Rightarrow> (Blocked, c)
                | (FinishedEarly, c) \<Rightarrow> (Ready (Inr None), c)
                | (ReadError e, c) \<Rightarrow> (Ready (Inl (Transport (''read len: '' @ e))), c)
                | (Got len_buf, c) \<Rightarrow>
                    (case stream_read faults (be_nat 0 len_buf) c of
                       (Waiting, c) \<Rightarrow> (Blocked, c)
                     | (FinishedEarly, c) \<Rightarrow> (Ready (Inl (Transport ''read data: stream finished early'')), c)
                     | (ReadError e, c) \<Rightarrow> (Ready (Inl (Transport (''read data: '' @ e))), c)
                     | (Got data, c) \<Rightarrow> (Ready (Inr (Some data)), c))))"

definition quic_close :: "QuicConnection \<Rightarrow> unit result \<times> QuicConnection" where
  "quic_close c = (Inr (), c\<lparr>q_connected := False\<rparr>)"

text \<open>\<open>close_reason\<close> is what quinn reports.\<close>

definition quic_is_connected :: "string option \<Rightarrow> QuicConnection \<Rightarrow> bool" where
  "quic_is_connected close_reason c \<longleftrightarrow> q_connected c \<and> close_reason = None"

section \<open>Framing\<close>

definition frame :: "bytes \<Rightarrow> bytes" where
  "frame data = length_prefix data @ data"

lemma be_length_prefix: "be_nat 0 (length_prefix data) = length data mod 2 ^ 32"
  unfolding length_prefix_def by (rule be_nat_nat_be) simp

lemma length_length_prefix [simp]: "length (length_prefix data) = 4"
  by (simp add: length_prefix_def)

definition open_streams :: "QuicConnection \<Rightarrow> QuicConnection" where
  "open_streams c = c\<lparr>q_send_stream := True, q_recv_stream := True\<rparr>"

lemma quic_send_ok:
  "q_connected c \<Longrightarrow> q_send_stream c = q_recv_stream c \<Longrightarrow>
     quic_send no_quinn_faults data c = (Inr (), (open_streams c)\<lparr>q_out := q_out c @ frame data\<rparr>)"
  by (cases c) (auto simp: quic_send_def no_quinn_faults_def open_streams_def Let_def frame_def)

lemma quic_recv_frame:
  assumes "q_connected c" "q_send_stream c = q_recv_stream c" "q_in c = frame data @ rest"
  shows "quic_recv no_quinn_faults c =
    (Ready (Inr (Some (take (length data mod 2 ^ 32) (data @ rest)))),
     (open_streams c)\<lparr>q_in := drop (length data mod 2 ^ 32) (data @ rest)\<rparr>)"
proof -
  have "length data mod 2 ^ 32 \<le> length data" by (rule mod_less_eq_dividend)
  with assms show ?thesis
    by (cases c) (simp add: quic_recv_def no_quinn_faults_def open_streams_def stream_read_def frame_def be_length_prefix)
qed

lemma open_streams_idem [simp]:
  "open_streams ((open_streams c)\<lparr>q_out := x\<rparr>) = (open_streams c)\<lparr>q_out := x\<rparr>"
  "open_streams ((open_streams c)\<lparr>q_in := y\<rparr>) = (open_streams c)\<lparr>q_in := y\<rparr>"
  by (simp_all add: open_streams_def)

lemma open_streams_fields [simp]:
  "q_connected (open_streams c) = q_connected c" "q_send_stream (open_streams c)" "q_recv_stream (open_streams c)"
  "q_out (open_streams c) = q_out c" "q_in (open_streams c) = q_in c" "q_in_finished (open_streams c) = q_in_finished c"
  by (simp_all add: open_streams_def)

section \<open>Frames\<close>

text \<open>The messages in a byte string that is cut at frame boundaries: the reference for \<open>quic_recv\<close>.\<close>

function deframe :: "bytes \<Rightarrow> bytes list" where
  "deframe bs =
     (let n = be_nat 0 (take 4 bs)
      in if length bs < 4 + n then [] else take n (drop 4 bs) # deframe (drop (4 + n) bs))"
  by pat_completeness auto
termination by (relation "measure length") auto

declare deframe.simps [simp del]

lemma deframe_short: "length bs < 4 \<Longrightarrow> deframe bs = []"
  by (subst deframe.simps) (simp add: Let_def)

lemma deframe_frame: "length m < 2 ^ 32 \<Longrightarrow> deframe (frame m @ rest) = m # deframe rest"
  by (subst deframe.simps) (simp add: Let_def frame_def be_length_prefix)

lemma deframe_frames: "list_all (\<lambda>m. length m < 2 ^ 32) ms \<Longrightarrow> deframe (concat (map frame ms)) = ms"
  by (induction ms) (simp_all add: deframe_frame deframe_short)

section \<open>A stream between two connections\<close>

text \<open>
  What the sender writes arrives at the receiver, in order: the world is the two connections, and a send
  hands the new bytes over.
\<close>

definition quic_pair_send :: "bytes \<Rightarrow> QuicConnection \<times> QuicConnection \<Rightarrow> unit result async \<times> QuicConnection \<times> QuicConnection" where
  "quic_pair_send m w =
     (case quic_send no_quinn_faults m (fst w) of
        (r, c) \<Rightarrow> (Ready r, c, (snd w)\<lparr>q_in := q_in (snd w) @ drop (length (q_out (fst w))) (q_out c)\<rparr>))"

definition quic_pair_recv :: "QuicConnection \<times> QuicConnection \<Rightarrow> bytes option result async \<times> QuicConnection \<times> QuicConnection" where
  "quic_pair_recv w = (case quic_recv no_quinn_faults (snd w) of (r, c) \<Rightarrow> (r, fst w, c))"

definition quic_live :: "QuicConnection \<Rightarrow> bool" where
  "quic_live c \<longleftrightarrow> q_connected c \<and> q_send_stream c = q_recv_stream c \<and> \<not> q_in_finished c"

definition quic_pair :: "QuicConnection \<times> QuicConnection \<Rightarrow> bool" where
  "quic_pair w \<longleftrightarrow> quic_live (fst w) \<and> quic_live (snd w) \<and>
     (\<exists>ms. list_all (\<lambda>m. length m < 2 ^ 32) ms \<and> q_in (snd w) = concat (map frame ms))"

lemma quic_live_open [simp]:
  "quic_live c \<Longrightarrow> quic_live ((open_streams c)\<lparr>q_in := x\<rparr>)" "quic_live c \<Longrightarrow> quic_live ((open_streams c)\<lparr>q_out := x\<rparr>)"
  "quic_live c \<Longrightarrow> quic_live (c\<lparr>q_in := x\<rparr>)" "quic_live c \<Longrightarrow> quic_live (open_streams c)"
  by (simp_all add: quic_live_def)

lemma quic_recv_idle: "quic_live c \<Longrightarrow> q_in c = [] \<Longrightarrow> quic_recv no_quinn_faults c = (Blocked, open_streams c)"
  by (cases c) (simp add: quic_live_def quic_recv_def no_quinn_faults_def stream_read_def open_streams_def)

interpretation quic: fifo_connection quic_pair_send quic_pair_recv quic_pair "\<lambda>w. deframe (q_in (snd w))" "\<lambda>m. length m < 2 ^ 32" "\<lambda>_. False"
proof (unfold_locales, goal_cases)
  case (1 w m)
  then obtain ms where ms: "list_all (\<lambda>m. length m < 2 ^ 32) ms" "q_in (snd w) = concat (map frame ms)"
    by (auto simp: quic_pair_def)
  let ?r = "(snd w)\<lparr>q_in := concat (map frame (ms @ [m]))\<rparr>"
  have "quic_pair_send m w = (Ready (Inr ()), (open_streams (fst w))\<lparr>q_out := q_out (fst w) @ frame m\<rparr>, ?r)"
    using 1 ms quic_send_ok [of "fst w" m] by (simp add: quic_pair_send_def quic_pair_def quic_live_def)
  moreover have "list_all (\<lambda>m. length m < 2 ^ 32) (ms @ [m])" using ms 1 by simp
  ultimately show ?case using 1 ms deframe_frames [of ms] deframe_frames [of "ms @ [m]"]
    unfolding quic_pair_def by (intro exI conjI) (assumption | simp del: map_append | rule exI [of _ "ms @ [m]"])+
next
  case (3 w m q)
  then obtain ms where ms: "list_all (\<lambda>m. length m < 2 ^ 32) ms" "q_in (snd w) = concat (map frame ms)"
    by (auto simp: quic_pair_def)
  with 3 have eq: "ms = m # q" using deframe_frames [of ms] by simp
  have "quic_pair_recv w = (Ready (Inr (Some m)), fst w, (open_streams (snd w))\<lparr>q_in := concat (map frame q)\<rparr>)"
    using 3 ms eq quic_recv_frame [of "snd w" m "concat (map frame q)"] by (simp add: quic_pair_recv_def quic_pair_def quic_live_def)
  with 3 ms eq deframe_frames [of q] show ?case unfolding quic_pair_def by auto
next
  case (4 w)
  then obtain ms where ms: "list_all (\<lambda>m. length m < 2 ^ 32) ms" "q_in (snd w) = concat (map frame ms)"
    by (auto simp: quic_pair_def)
  with 4 have "q_in (snd w) = []" using deframe_frames [of ms] by simp
  with 4 quic_recv_idle [of "snd w"] show ?case unfolding quic_pair_def quic_pair_recv_def by (auto simp: deframe_short)
qed simp

section \<open>Properties\<close>



text \<open>
  A message of 4 GiB or more is received cut to its length modulo \<open>2^32\<close>: the length prefix wraps.
\<close>

lemma quic_length_wraps:
  assumes "2 ^ 32 \<le> length m" "quic_live a" "quic_live b" "q_in b = []"
  shows "\<exists>w cut. quic_pair_send m (a, b) = (Ready (Inr ()), w) \<and> fst (quic_pair_recv w) = Ready (Inr (Some cut)) \<and>
      cut = take (length m mod 2 ^ 32) m \<and> cut \<noteq> m"
proof -
  let ?b = "b\<lparr>q_in := frame m\<rparr>"
  have lt: "length m mod 2 ^ 32 < length m" using assms(1) by (meson mod_less_divisor order_less_le_trans pos2 zero_less_power)
  then have "take (length m mod 2 ^ 32) m \<noteq> m" by (metis length_take min.absorb2 min.commute nat_less_le)
  moreover have "quic_pair_send m (a, b) = (Ready (Inr ()), (open_streams a)\<lparr>q_out := q_out a @ frame m\<rparr>, ?b)"
    using assms quic_send_ok [of a m] by (simp add: quic_pair_send_def quic_live_def)
  moreover have "fst (quic_recv no_quinn_faults ?b) = Ready (Inr (Some (take (length m mod 2 ^ 32) m)))"
    using quic_recv_frame [of ?b m "[]"] assms(3) by (simp add: quic_live_def)
  ultimately show ?thesis by (simp add: quic_pair_recv_def case_prod_beta)
qed



end
