(* ===== verification/Mock_Net.thy ===== *)
theory Mock_Net
  imports Conn_Spec Socket_Addr
begin

text \<open>
  \<^verbatim>\<open>crates/omnimesh-transport/src/mock.rs\<close>: the in-memory transport. The channels are lists in a world that
  the transports and connections share and refer to by position; dropping a value that owns the end of a
  channel is an operation of the model.
\<close>

section \<open>State\<close>

record MockConnection =
  mc_local_addr :: SocketAddr
  mc_remote_addr :: SocketAddr
  mc_tx :: nat
  mc_rx :: nat
  mc_connected :: bool

text \<open>
  The shared world: the registry, the accept channels of the listeners, and the pipes between
  connections. \<open>accepting\<close> tells whether the receiving end of a listener's channel still exists;
  \<open>tx_dropped\<close> and \<open>rx_dropped\<close> are the pipes whose sending or receiving end is gone.
\<close>

record mock_world =
  mw_listeners :: "SocketAddr \<rightharpoonup> nat"
  accept_queues :: "MockConnection list list"
  accepting :: "nat \<Rightarrow> bool"
  pipes :: "bytes list list"
  tx_dropped :: "nat list"
  rx_dropped :: "nat list"

record MockTransport =
  mt_local_addr :: "SocketAddr option"
  incoming_rx :: "nat option"

definition registry_new :: mock_world where
  "registry_new = \<lparr>mw_listeners = Map.empty, accept_queues = [], accepting = (\<lambda>_. False), pipes = [], tx_dropped = [], rx_dropped = []\<rparr>"

definition mock_new :: MockTransport where
  "mock_new = \<lparr>mt_local_addr = None, incoming_rx = None\<rparr>"

definition create_pair :: "mock_world \<times> MockTransport \<times> MockTransport" where
  "create_pair = (registry_new, mock_new, mock_new)"

section \<open>Dropping\<close>

definition mock_drop :: "MockConnection \<Rightarrow> mock_world \<Rightarrow> mock_world" where
  "mock_drop c w = w\<lparr>tx_dropped := mc_tx c # tx_dropped w, rx_dropped := mc_rx c # rx_dropped w\<rparr>"

text \<open>The receiving end of an accept channel goes with the connections that wait in it.\<close>

definition drop_listener :: "nat option \<Rightarrow> mock_world \<Rightarrow> mock_world" where
  "drop_listener ch w =
     (case ch of
        None \<Rightarrow> w
      | Some ch \<Rightarrow>
          fold mock_drop (accept_queues w ! ch)
            (w\<lparr>accepting := (accepting w)(ch := False), accept_queues := (accept_queues w)[ch := []]\<rparr>))"

section \<open>The transport\<close>

definition mock_listen :: "SocketAddr \<Rightarrow> MockTransport \<Rightarrow> mock_world \<Rightarrow> unit result \<times> MockTransport \<times> mock_world" where
  "mock_listen addr t w0 =
     (let w = drop_listener (incoming_rx t) w0; ch = length (accept_queues w)
      in (Inr (), t\<lparr>mt_local_addr := Some addr, incoming_rx := Some ch\<rparr>,
          w\<lparr>accept_queues := accept_queues w @ [[]], accepting := (accepting w)(ch := True),
            mw_listeners := (mw_listeners w)(addr \<mapsto> ch)\<rparr>))"

text \<open>The transport keeps a sender of its own channel, so the channel never ends while it listens.\<close>

definition mock_accept :: "MockTransport \<Rightarrow> mock_world \<Rightarrow> MockConnection result async \<times> mock_world" where
  "mock_accept t w =
     (case incoming_rx t of
        None \<Rightarrow> (Ready (Inl (Transport ''not listening'')), w)
      | Some ch \<Rightarrow>
          (case accept_queues w ! ch of
             [] \<Rightarrow> (Blocked, w)
           | conn # rest \<Rightarrow> (Ready (Inr conn), w\<lparr>accept_queues := (accept_queues w)[ch := rest]\<rparr>)))"

definition loopback_any :: SocketAddr where
  "loopback_any = SocketAddrV4 [127, 0, 0, 1] 0"

definition mock_connect :: "SocketAddr \<Rightarrow> MockTransport \<Rightarrow> mock_world \<Rightarrow> MockConnection result async \<times> mock_world" where
  "mock_connect addr t w =
     (let loc = (case mt_local_addr t of Some a \<Rightarrow> a | None \<Rightarrow> loopback_any);
          n = length (pipes w);
          our_conn = \<lparr>mc_local_addr = loc, mc_remote_addr = addr, mc_tx = n, mc_rx = n + 1, mc_connected = True\<rparr>;
          their_conn = \<lparr>mc_local_addr = addr, mc_remote_addr = loc, mc_tx = n + 1, mc_rx = n, mc_connected = True\<rparr>
      in case mw_listeners w addr of
           None \<Rightarrow> (Ready (Inl (Connection (''no listener at '' @ show_socket_addr addr))), w)
         | Some ch \<Rightarrow>
             (if \<not> accepting w ch then (Ready (Inl (Connection ''listener dropped'')), w)
              else if 32 \<le> length (accept_queues w ! ch) then (Blocked, w)
              else (Ready (Inr our_conn),
                    w\<lparr>pipes := pipes w @ [[], []],
                      accept_queues := (accept_queues w)[ch := accept_queues w ! ch @ [their_conn]]\<rparr>)))"

definition mock_shutdown :: "MockTransport \<Rightarrow> mock_world \<Rightarrow> unit result \<times> MockTransport \<times> mock_world" where
  "mock_shutdown t w =
     (Inr (), t\<lparr>mt_local_addr := None, incoming_rx := None\<rparr>,
      drop_listener (incoming_rx t)
        (w\<lparr>mw_listeners := (case mt_local_addr t of Some a \<Rightarrow> (mw_listeners w)(a := None) | None \<Rightarrow> mw_listeners w)\<rparr>))"

section \<open>Connections\<close>

text \<open>A pipe holds 256 messages.\<close>

definition mock_send :: "bytes \<Rightarrow> MockConnection \<Rightarrow> mock_world \<Rightarrow> unit result async \<times> mock_world" where
  "mock_send data c w =
     (if \<not> mc_connected c then (Ready (Inl (Connection ''not connected'')), w)
      else if mc_tx c \<in> set (rx_dropped w) then (Ready (Inl (Connection ''send channel closed'')), w)
      else if 256 \<le> length (pipes w ! mc_tx c) then (Blocked, w)
      else (Ready (Inr ()), w\<lparr>pipes := (pipes w)[mc_tx c := pipes w ! mc_tx c @ [data]]\<rparr>))"

definition mock_recv :: "MockConnection \<Rightarrow> mock_world \<Rightarrow> bytes option result async \<times> mock_world" where
  "mock_recv c w =
     (if \<not> mc_connected c then (Ready (Inr None), w)
      else case pipes w ! mc_rx c of
             [] \<Rightarrow> (if mc_rx c \<in> set (tx_dropped w) then (Ready (Inr None), w) else (Blocked, w))
           | d # rest \<Rightarrow> (Ready (Inr (Some d)), w\<lparr>pipes := (pipes w)[mc_rx c := rest]\<rparr>))"

definition mock_close :: "MockConnection \<Rightarrow> unit result \<times> MockConnection" where
  "mock_close c = (Inr (), c\<lparr>mc_connected := False\<rparr>)"

section \<open>The contract of connections\<close>

definition mock_ends :: "MockConnection \<Rightarrow> MockConnection \<Rightarrow> mock_world \<Rightarrow> bool" where
  "mock_ends c d w \<longleftrightarrow> mc_connected c \<and> mc_connected d \<and> mc_rx d = mc_tx c \<and> mc_tx c < length (pipes w) \<and>
     mc_tx c \<notin> set (tx_dropped w) \<and> mc_tx c \<notin> set (rx_dropped w)"

interpretation mock: fifo_connection "\<lambda>m. mock_send m c" "mock_recv d" "mock_ends c d" "\<lambda>w. pipes w ! mc_tx c" "\<lambda>_. True"
    "\<lambda>w. 256 \<le> length (pipes w ! mc_tx c)" for c d
  by unfold_locales (auto simp: mock_send_def mock_recv_def mock_ends_def)

text \<open>What has been sent is received even after the sender is gone; then the receiver sees the end.\<close>

lemma mock_drained:
  "mc_connected d \<Longrightarrow> pipes w ! mc_rx d = [] \<Longrightarrow> mc_rx d \<in> set (tx_dropped w) \<Longrightarrow> mock_recv d w = (Ready (Inr None), w)"
  by (simp add: mock_recv_def)

lemma mock_drop_keeps: "pipes (mock_drop c w) = pipes w"
  by (simp add: mock_drop_def)

text \<open>Listening at an address that is taken replaces the other listener without an error.\<close>

lemma mock_listen_takes_over:
  "mock_listen addr t w = (Inr (), t', w') \<Longrightarrow> mw_listeners w' addr = incoming_rx t'"
  by (auto simp: mock_listen_def Let_def)

section \<open>Properties\<close>

lemma drop_listener_frame [simp]:
  "pipes (drop_listener ch w) = pipes w" "length (accept_queues (drop_listener ch w)) = length (accept_queues w)"
  "mw_listeners (drop_listener ch w) = mw_listeners w"
proof -
  have "pipes (fold mock_drop cs w) = pipes w \<and> accept_queues (fold mock_drop cs w) = accept_queues w \<and>
      mw_listeners (fold mock_drop cs w) = mw_listeners w" for cs w
    by (induction cs arbitrary: w) (simp_all add: mock_drop_def)
  then show "pipes (drop_listener ch w) = pipes w" "length (accept_queues (drop_listener ch w)) = length (accept_queues w)"
    "mw_listeners (drop_listener ch w) = mw_listeners w"
    by (simp_all add: drop_listener_def split: option.splits)
qed

text \<open>No pipe beyond the existing ones is marked as dropped.\<close>

definition mock_wf :: "mock_world \<Rightarrow> bool" where
  "mock_wf w \<longleftrightarrow> list_all (list_all (\<lambda>c. mc_tx c < length (pipes w) \<and> mc_rx c < length (pipes w))) (accept_queues w) \<and>
     list_all (\<lambda>i. i < length (pipes w)) (tx_dropped w) \<and> list_all (\<lambda>i. i < length (pipes w)) (rx_dropped w)"

lemma mock_wf_drop: "mock_wf w \<Longrightarrow> mc_tx c < length (pipes w) \<Longrightarrow> mc_rx c < length (pipes w) \<Longrightarrow> mock_wf (mock_drop c w)"
  by (simp add: mock_wf_def mock_drop_def)

lemma mock_wf_drop_all:
  "mock_wf w \<Longrightarrow> list_all (\<lambda>c. mc_tx c < length (pipes w) \<and> mc_rx c < length (pipes w)) cs \<Longrightarrow> mock_wf (fold mock_drop cs w)"
  by (induction cs arbitrary: w) (simp_all add: mock_wf_drop mock_drop_keeps)

lemma mock_wf_drop_listener:
  assumes "mock_wf w" "\<And>i. ch = Some i \<Longrightarrow> i < length (accept_queues w)"
  shows "mock_wf (drop_listener ch w)"
proof (cases ch)
  case (Some i)
  let ?w = "w\<lparr>accepting := (accepting w)(i := False), accept_queues := (accept_queues w)[i := []]\<rparr>"
  have "mock_wf ?w" using assms(1) by (auto simp: mock_wf_def list_all_iff dest!: set_update_subset_insert [THEN subsetD])
  moreover have "list_all (\<lambda>c. mc_tx c < length (pipes ?w) \<and> mc_rx c < length (pipes ?w)) (accept_queues w ! i)"
    using assms Some nth_mem [of i "accept_queues w"] by (auto simp: mock_wf_def list_all_iff)
  ultimately show ?thesis using Some mock_wf_drop_all by (simp add: drop_listener_def)
qed (simp add: drop_listener_def assms)

text \<open>A client and a server that meet hold the two ends of a new, empty connection.\<close>

lemma mock_meet:
  assumes "mock_wf w" "\<forall>i. incoming_rx server = Some i \<longrightarrow> i < length (accept_queues w)"
    and "mock_listen addr server w = (Inr (), server', w1)"
  shows "\<exists>ours theirs w2 w3.
    mock_connect addr client w1 = (Ready (Inr ours), w2) \<and> mock_accept server' w2 = (Ready (Inr theirs), w3) \<and>
    mc_remote_addr ours = addr \<and> mc_local_addr theirs = addr \<and>
    mock_ends ours theirs w3 \<and> mock_ends theirs ours w3 \<and> mc_tx ours \<noteq> mc_tx theirs \<and>
    pipes w3 ! mc_tx ours = [] \<and> pipes w3 ! mc_tx theirs = []"
proof -
  let ?n = "length (pipes w)" and ?loc = "case mt_local_addr client of Some a \<Rightarrow> a | None \<Rightarrow> loopback_any"
  define ours where "ours = \<lparr>mc_local_addr = ?loc, mc_remote_addr = addr, mc_tx = ?n, mc_rx = ?n + 1, mc_connected = True\<rparr>"
  define theirs where "theirs = \<lparr>mc_local_addr = addr, mc_remote_addr = ?loc, mc_tx = ?n + 1, mc_rx = ?n, mc_connected = True\<rparr>"
  define v where "v = drop_listener (incoming_rx server) w"
  have wf: "mock_wf v" using assms(1,2) by (auto simp: v_def intro!: mock_wf_drop_listener)
  have v: "pipes v = pipes w" by (simp add: v_def)
  from assms(3) obtain w2 w3 where c: "mock_connect addr client w1 = (Ready (Inr ours), w2)"
    and a: "mock_accept server' w2 = (Ready (Inr theirs), w3)" and p: "pipes w3 = pipes w @ [[], []]"
      "tx_dropped w3 = tx_dropped v" "rx_dropped w3 = rx_dropped v"
    by (auto simp: mock_listen_def mock_connect_def mock_accept_def Let_def ours_def theirs_def v simp flip: v_def)
  have ends: "mock_ends ours theirs w3" "mock_ends theirs ours w3"
    using wf p v by (auto simp: mock_ends_def ours_def theirs_def mock_wf_def list_all_iff)
  have empty: "pipes w3 ! mc_tx ours = []" "pipes w3 ! mc_tx theirs = []" using p by (simp_all add: ours_def theirs_def nth_append)
  from c a ends empty show ?thesis by (auto simp: ours_def theirs_def)
qed

text \<open>
  The mock transport connects and delivers: a client connecting to the address a server listens on
  and the server accepting get the two ends of one connection; whatever the order of sends and receives,
  in each direction no call fails and the messages received are the first of those sent, in order, the
  others being in the pipe.
\<close>

lemma mock_delivers:
  assumes "mock_wf w" "\<forall>i. incoming_rx server = Some i \<longrightarrow> i < length (accept_queues w)"
    and "mock_listen addr server w = (Inr (), server', w1)"
  shows "\<exists>ours theirs w2 w3.
    mock_connect addr client w1 = (Ready (Inr ours), w2) \<and> mock_accept server' w2 = (Ready (Inr theirs), w3) \<and>
    mc_remote_addr ours = addr \<and> mc_local_addr theirs = addr \<and>
    (let s = io_run (\<lambda>m. mock_send m ours) (mock_recv theirs) evs w3 in
       \<not> io_failed s \<and> io_sent s = io_got s @ pipes (io_world s) ! mc_tx ours) \<and>
    (let s = io_run (\<lambda>m. mock_send m theirs) (mock_recv ours) evs w3 in
       \<not> io_failed s \<and> io_sent s = io_got s @ pipes (io_world s) ! mc_tx theirs)"
proof -
  from mock_meet [OF assms] obtain ours theirs w2 w3 where
    m: "mock_connect addr client w1 = (Ready (Inr ours), w2)" "mock_accept server' w2 = (Ready (Inr theirs), w3)"
      "mc_remote_addr ours = addr" "mc_local_addr theirs = addr"
    and ends: "mock_ends ours theirs w3" "mock_ends theirs ours w3"
    and empty: "pipes w3 ! mc_tx ours = []" "pipes w3 ! mc_tx theirs = []" by blast
  have all: "list_all (\<lambda>_. True) (puts evs)" by (simp add: list_all_iff)
  from mock.run_fifo [OF ends(1) empty(1) all] mock.run_fifo [OF ends(2) empty(2) all] m show ?thesis
    by (auto simp: Let_def)
qed

end
