(* ===== verification/Chacha_Poly.thy ===== *)
theory Chacha_Poly
  imports Byte_Order
begin

unbundle bit_operations_syntax

text \<open>
  ChaCha20-Poly1305 (RFC 8439), with and without associated data, the algorithm behind the
  \<^verbatim>\<open>chacha20poly1305\<close> crate. The cipher is a parameter of the model of \<^verbatim>\<open>omnimesh-crypto\<close>; this
  theory gives the instance on which its contract is discharged.
\<close>

section \<open>ChaCha20\<close>

definition quarter_round :: "nat \<Rightarrow> nat \<Rightarrow> nat \<Rightarrow> nat \<Rightarrow> u32 list \<Rightarrow> u32 list" where
  "quarter_round i j k l st =
     (let a = st ! i; b = st ! j; c = st ! k; d = st ! l;
          a = a + b; d = word_rotl 16 (d XOR a); c = c + d; b = word_rotl 12 (b XOR c);
          a = a + b; d = word_rotl 8 (d XOR a); c = c + d; b = word_rotl 7 (b XOR c)
      in st[i := a, j := b, k := c, l := d])"

definition double_round :: "u32 list \<Rightarrow> u32 list" where
  "double_round st =
     quarter_round 3 4 9 14 (quarter_round 2 7 8 13 (quarter_round 1 6 11 12 (quarter_round 0 5 10 15
       (quarter_round 3 7 11 15 (quarter_round 2 6 10 14 (quarter_round 1 5 9 13 (quarter_round 0 4 8 12 st)))))))"

definition le_words :: "bytes \<Rightarrow> u32 list" where
  "le_words bs = map (\<lambda>c. word_of_nat (le_nat c)) (chunks 4 bs)"

definition chacha20_block :: "bytes \<Rightarrow> nat \<Rightarrow> bytes \<Rightarrow> bytes" where
  "chacha20_block key counter nonce =
     (let st = take 16 ([1634760805, 857760878, 2036477234, 1797285236] @ le_words key @
                [word_of_nat counter] @ le_words nonce @ replicate 16 0)
      in concat (map (\<lambda>w. nat_le 4 (unat w)) (map2 (+) ((double_round ^^ 10) st) st)))"

definition keystream :: "bytes \<Rightarrow> bytes \<Rightarrow> nat \<Rightarrow> bytes" where
  "keystream key nonce n = concat (map (\<lambda>i. chacha20_block key (Suc i) nonce) [0 ..< n])"

definition chacha20_xor :: "bytes \<Rightarrow> bytes \<Rightarrow> bytes \<Rightarrow> bytes" where
  "chacha20_xor key nonce msg = map2 (XOR) msg (keystream key nonce (length msg div 64 + 1))"

section \<open>Poly1305\<close>

definition poly1305 :: "bytes \<Rightarrow> bytes \<Rightarrow> bytes" where
  "poly1305 key msg =
     (let r = nat (int (le_nat (take 16 key)) AND 21267647620597763993911028882763415551);
          s = le_nat (drop 16 key);
          acc = foldl (\<lambda>a c. ((a + le_nat (c @ [1])) * r) mod (2 ^ 130 - 5)) 0 (chunks 16 msg)
      in nat_le 16 ((acc + s) mod 2 ^ 128))"

definition pad16 :: "bytes \<Rightarrow> bytes" where
  "pad16 bs = bs @ replicate ((16 - length bs mod 16) mod 16) 0"

definition mac_tag :: "bytes \<Rightarrow> bytes \<Rightarrow> bytes \<Rightarrow> bytes \<Rightarrow> bytes" where
  "mac_tag key nonce aad ct =
     poly1305 (take 32 (chacha20_block key 0 nonce))
       (pad16 aad @ pad16 ct @ nat_le 8 (length aad) @ nat_le 8 (length ct))"

section \<open>The cipher\<close>

definition chapoly_seal_ad :: "bytes \<Rightarrow> bytes \<Rightarrow> bytes \<Rightarrow> bytes \<Rightarrow> string + bytes" where
  "chapoly_seal_ad key nonce aad msg =
     (if 2 ^ 32 - 1 \<le> length msg div 64 then Inl ''aead::Error''
      else let ct = chacha20_xor key nonce msg in Inr (ct @ mac_tag key nonce aad ct))"

definition chapoly_open_ad :: "bytes \<Rightarrow> bytes \<Rightarrow> bytes \<Rightarrow> bytes \<Rightarrow> string + bytes" where
  "chapoly_open_ad key nonce aad c =
     (if length c < 16 \<or> 2 ^ 32 - 1 \<le> (length c - 16) div 64 then Inl ''aead::Error''
      else let ct = take (length c - 16) c; tag = drop (length c - 16) c
           in if mac_tag key nonce aad ct = tag then Inr (chacha20_xor key nonce ct) else Inl ''aead::Error'')"

text \<open>Without associated data.\<close>

definition chapoly_seal :: "bytes \<Rightarrow> bytes \<Rightarrow> bytes \<Rightarrow> string + bytes" where
  "chapoly_seal key nonce msg = chapoly_seal_ad key nonce [] msg"

definition chapoly_open :: "bytes \<Rightarrow> bytes \<Rightarrow> bytes \<Rightarrow> string + bytes" where
  "chapoly_open key nonce c = chapoly_open_ad key nonce [] c"

lemma length_quarter_round [simp]: "length (quarter_round i j k l st) = length st"
  by (simp add: quarter_round_def Let_def)

lemma length_double_round [simp]: "length (double_round st) = length st"
  by (simp add: double_round_def)

lemma length_rounds [simp]: "length ((double_round ^^ n) st) = length st"
  by (induction n) simp_all

lemma length_serialise: "length (concat (map (\<lambda>w. nat_le 4 (unat w)) ws)) = 4 * length ws"
  by (induction ws) simp_all

lemma length_chacha20_block: "length (chacha20_block key counter nonce) = 64"
  by (simp add: chacha20_block_def Let_def length_serialise del: map_map)

lemma length_keystream: "length (keystream key nonce n) = 64 * n"
  by (simp add: keystream_def length_concat comp_def length_chacha20_block sum_list_triv)

lemma length_chacha20_xor [simp]: "length (chacha20_xor key nonce msg) = length msg"
  by (simp add: chacha20_xor_def length_keystream)

lemma xor_twice: "map2 (XOR) (map2 (XOR) xs ks) ks = take (length ks) (xs :: bytes)"
  by (induction xs ks rule: list_induct2') (simp_all add: xor.assoc)

lemma chacha20_xor_twice: "chacha20_xor key nonce (chacha20_xor key nonce msg) = msg"
  by (simp add: chacha20_xor_def length_keystream xor_twice)

lemma length_mac_tag [simp]: "length (mac_tag key nonce aad ct) = 16"
  by (simp add: mac_tag_def poly1305_def Let_def)

lemma chapoly_open_seal_ad:
  "chapoly_seal_ad key nonce aad msg = Inr c \<Longrightarrow> chapoly_open_ad key nonce aad c = Inr msg"
  by (auto simp: chapoly_seal_ad_def chapoly_open_ad_def Let_def chacha20_xor_twice split: if_splits)

lemma chapoly_seal_open_ad:
  "chapoly_open_ad key nonce aad c = Inr msg \<Longrightarrow> chapoly_seal_ad key nonce aad msg = Inr c"
  by (auto simp: chapoly_seal_ad_def chapoly_open_ad_def Let_def chacha20_xor_twice split: if_splits)

lemma chapoly_seal_ad_length: "chapoly_seal_ad key nonce aad msg = Inr c \<Longrightarrow> length c = length msg + 16"
  by (auto simp: chapoly_seal_ad_def Let_def split: if_splits)

lemma chapoly_seal_ad_ok: "length msg < 2 ^ 32 \<Longrightarrow> \<exists>c. chapoly_seal_ad key nonce aad msg = Inr c"
  by (auto simp: chapoly_seal_ad_def Let_def)

lemmas chapoly_open_seal = chapoly_open_seal_ad [where aad = "[]", folded chapoly_seal_def chapoly_open_def]
lemmas chapoly_seal_open = chapoly_seal_open_ad [where aad = "[]", folded chapoly_seal_def chapoly_open_def]
lemmas chapoly_seal_length = chapoly_seal_ad_length [where aad = "[]", folded chapoly_seal_def]

end
