(* ===== verification/Sha_Hkdf.thy ===== *)
theory Sha_Hkdf
  imports Byte_Order
begin

unbundle bit_operations_syntax

text \<open>
  SHA-256 (FIPS 180-4), HMAC (RFC 2104) and HKDF (RFC 5869), the algorithms behind the \<^verbatim>\<open>sha2\<close> and
  \<^verbatim>\<open>hkdf\<close> crates. Key derivation is a parameter of the model of \<^verbatim>\<open>omnimesh-crypto\<close>; this theory gives
  the instance on which its contract is discharged.
\<close>

section \<open>SHA-256\<close>

definition sha_init :: "u32 list" where
  "sha_init =
    [
     1779033703, 3144134277, 1013904242, 2773480762, 1359893119, 2600822924, 528734635,
     1541459225]"

definition sha_k :: "u32 list" where
  "sha_k =
    [
     1116352408, 1899447441, 3049323471, 3921009573, 961987163, 1508970993, 2453635748,
     2870763221, 3624381080, 310598401, 607225278, 1426881987, 1925078388, 2162078206,
     2614888103, 3248222580, 3835390401, 4022224774, 264347078, 604807628, 770255983,
     1249150122, 1555081692, 1996064986, 2554220882, 2821834349, 2952996808, 3210313671,
     3336571891, 3584528711, 113926993, 338241895, 666307205, 773529912, 1294757372,
     1396182291, 1695183700, 1986661051, 2177026350, 2456956037, 2730485921, 2820302411,
     3259730800, 3345764771, 3516065817, 3600352804, 4094571909, 275423344, 430227734,
     506948616, 659060556, 883997877, 958139571, 1322822218, 1537002063, 1747873779,
     1955562222, 2024104815, 2227730452, 2361852424, 2428436474, 2756734187, 3204031479,
     3329325298]"

definition sha_pad :: "bytes \<Rightarrow> bytes" where
  "sha_pad m = m @ [128] @ replicate ((119 - length m mod 64) mod 64) 0 @ nat_be 8 (8 * length m)"

definition small_sigma0 :: "u32 \<Rightarrow> u32" where
  "small_sigma0 x = word_rotr 7 x XOR word_rotr 18 x XOR drop_bit 3 x"

definition small_sigma1 :: "u32 \<Rightarrow> u32" where
  "small_sigma1 x = word_rotr 17 x XOR word_rotr 19 x XOR drop_bit 10 x"

primrec schedule :: "nat \<Rightarrow> u32 list \<Rightarrow> u32 list" where
  "schedule 0 w = w"
| "schedule (Suc n) w =
     (let i = length w in
      schedule n (w @ [small_sigma1 (w ! (i - 2)) + w ! (i - 7) + small_sigma0 (w ! (i - 15)) + w ! (i - 16)]))"

definition sha_round :: "u32 list \<Rightarrow> u32 \<times> u32 \<Rightarrow> u32 list" where
  "sha_round st kw =
     (let a = st ! 0; b = st ! 1; c = st ! 2; d = st ! 3; e = st ! 4; f = st ! 5; g = st ! 6; h = st ! 7;
          t1 = h + (word_rotr 6 e XOR word_rotr 11 e XOR word_rotr 25 e) + ((e AND f) XOR (NOT e AND g)) + fst kw + snd kw;
          t2 = (word_rotr 2 a XOR word_rotr 13 a XOR word_rotr 22 a) + ((a AND b) XOR (a AND c) XOR (b AND c))
      in [t1 + t2, a, b, c, d + t1, e, f, g])"

definition compress :: "u32 list \<Rightarrow> bytes \<Rightarrow> u32 list" where
  "compress st block =
     (let w = schedule 48 (map (\<lambda>c. word_of_nat (be_nat 0 c)) (chunks 4 block))
      in map2 (+) st (foldl sha_round st (zip sha_k w)))"

definition sha256 :: "bytes \<Rightarrow> bytes" where
  "sha256 m = take 32 (concat (map (\<lambda>w. nat_be 4 (unat w)) (foldl compress sha_init (chunks 64 (sha_pad m)))) @ replicate 32 0)"

section \<open>HMAC and HKDF\<close>

definition hmac :: "bytes \<Rightarrow> bytes \<Rightarrow> bytes" where
  "hmac key m =
     (let k0 = (if 64 < length key then sha256 key else key); k = k0 @ replicate (64 - length k0) 0
      in sha256 (map (\<lambda>b. b XOR 92) k @ sha256 (map (\<lambda>b. b XOR 54) k @ m)))"

primrec hkdf_blocks :: "nat \<Rightarrow> nat \<Rightarrow> bytes \<Rightarrow> bytes \<Rightarrow> bytes \<Rightarrow> bytes" where
  "hkdf_blocks 0 i prk info prev = []"
| "hkdf_blocks (Suc n) i prk info prev =
     (let t = hmac prk (prev @ info @ [word_of_nat i]) in t @ hkdf_blocks n (Suc i) prk info t)"

definition hkdf_expand :: "bytes option \<Rightarrow> bytes \<Rightarrow> bytes \<Rightarrow> nat \<Rightarrow> string + bytes" where
  "hkdf_expand salt ikm info n =
     (let prk = hmac (case salt of Some s \<Rightarrow> s | None \<Rightarrow> replicate 32 0) ikm
      in if 8160 < n then Inl ''invalid number of blocks, too large output''
         else Inr (take n (hkdf_blocks ((n + 31) div 32) 1 prk info [])))"

lemma length_sha256 [simp]: "length (sha256 m) = 32"
  by (simp add: sha256_def)

lemma length_hmac [simp]: "length (hmac key m) = 32"
  by (simp add: hmac_def Let_def)

lemma length_hkdf_blocks [simp]: "length (hkdf_blocks n i prk info prev) = 32 * n"
  by (induction n arbitrary: i prev) (simp_all add: Let_def)

lemma hkdf_expand_ok: "n \<le> 8160 \<Longrightarrow> \<exists>out. hkdf_expand salt ikm info n = Inr out \<and> length out = n"
  by (simp add: hkdf_expand_def Let_def)

end
