(* ===== verification/Crypto_Ops.thy ===== *)
theory Crypto_Ops
  imports Chacha_Poly Sha_Hkdf Core_Types
begin

text \<open>
  \<^verbatim>\<open>crates/omnimesh-crypto/src/aead.rs\<close> and \<^verbatim>\<open>kdf.rs\<close>: the wire format of encrypted messages and the
  derivation of keys. The ciphers of the \<^verbatim>\<open>chacha20poly1305\<close> crate and the extract-and-expand of the
  \<^verbatim>\<open>hkdf\<close> crate are parameters with the contracts \<open>aead_cipher\<close> and \<open>key_derivation\<close>, both discharged
  on the algorithms of the RFCs. A random nonce is an argument.
\<close>

type_synonym cipher = "bytes \<Rightarrow> bytes \<Rightarrow> bytes \<Rightarrow> string + bytes"
type_synonym expander = "bytes option \<Rightarrow> bytes \<Rightarrow> bytes \<Rightarrow> nat \<Rightarrow> string + bytes"

section \<open>Authenticated encryption\<close>

definition NONCE_SIZE :: nat where "NONCE_SIZE = 12"
definition TAG_SIZE :: nat where "TAG_SIZE = 16"

text \<open>\<^verbatim>\<open>ChaCha20Poly1305::new_from_slice\<close>: only the length of the key is checked.\<close>

definition cipher_init :: "bytes \<Rightarrow> string + unit" where
  "cipher_init key = (if length key = 32 then Inr () else Inl ''Invalid Length'')"

definition encrypt_with_nonce :: "cipher \<Rightarrow> bytes \<Rightarrow> bytes \<Rightarrow> bytes \<Rightarrow> bytes result" where
  "encrypt_with_nonce seal key nonce_bytes plaintext =
     (case cipher_init key of
        Inl e \<Rightarrow> Inl (Crypto (''cipher init: '' @ e))
      | Inr _ \<Rightarrow>
          (case seal key nonce_bytes plaintext of
             Inl e \<Rightarrow> Inl (Crypto (''encryption failed: '' @ e))
           | Inr ciphertext \<Rightarrow> Inr (nonce_bytes @ ciphertext)))"

text \<open>\<^verbatim>\<open>encrypt\<close> is the same with the nonce drawn at random, here \<open>rand\<close>.\<close>

definition encrypt :: "cipher \<Rightarrow> bytes \<Rightarrow> bytes \<Rightarrow> bytes \<Rightarrow> bytes result" where
  "encrypt seal rand key plaintext =
     (case cipher_init key of
        Inl e \<Rightarrow> Inl (Crypto (''cipher init: '' @ e))
      | Inr _ \<Rightarrow>
          (case seal key rand plaintext of
             Inl e \<Rightarrow> Inl (Crypto (''encryption failed: '' @ e))
           | Inr ciphertext \<Rightarrow> Inr (rand @ ciphertext)))"

definition decrypt :: "cipher \<Rightarrow> bytes \<Rightarrow> bytes \<Rightarrow> bytes result" where
  "decrypt open_cipher key data =
     (if length data < NONCE_SIZE + TAG_SIZE
      then Inl (Crypto (''ciphertext too short: '' @ show_nat (length data) @ '' bytes (minimum '' @
             show_nat (NONCE_SIZE + TAG_SIZE) @ '')''))
      else case cipher_init key of
             Inl e \<Rightarrow> Inl (Crypto (''cipher init: '' @ e))
           | Inr _ \<Rightarrow>
               (case open_cipher key (take NONCE_SIZE data) (drop NONCE_SIZE data) of
                  Inl _ \<Rightarrow> Inl (Crypto ''decryption failed: invalid key or corrupted data'')
                | Inr plaintext \<Rightarrow> Inr plaintext))"

locale aead_cipher =
  fixes seal open_cipher :: cipher
  assumes open_seal: "seal key nonce msg = Inr c \<Longrightarrow> open_cipher key nonce c = Inr msg"
    and seal_open: "open_cipher key nonce c = Inr msg \<Longrightarrow> seal key nonce msg = Inr c"
    and seal_length: "seal key nonce msg = Inr c \<Longrightarrow> length c = length msg + TAG_SIZE"
begin

lemma encrypt_length: "encrypt seal rand key msg = Inr d \<Longrightarrow> length d = length rand + length msg + TAG_SIZE"
  by (auto simp: encrypt_def dest: seal_length split: sum.splits)

lemma decrypt_encrypt:
  "length rand = NONCE_SIZE \<Longrightarrow> encrypt seal rand key msg = Inr d \<Longrightarrow> decrypt open_cipher key d = Inr msg"
  by (auto simp: encrypt_def decrypt_def dest: seal_length open_seal split: sum.splits)

text \<open>Only what was sealed under the same key and nonce is accepted.\<close>

lemma decrypt_only_sealed:
  "decrypt open_cipher key d = Inr msg \<Longrightarrow> encrypt seal (take NONCE_SIZE d) key msg = Inr d"
  using seal_open [of key "take NONCE_SIZE d" "drop NONCE_SIZE d" msg]
  by (auto simp: encrypt_def decrypt_def split: sum.splits if_splits)

end

interpretation chapoly: aead_cipher chapoly_seal chapoly_open
  by unfold_locales (auto simp: TAG_SIZE_def dest: chapoly_open_seal chapoly_seal_open chapoly_seal_length)

section \<open>Key derivation\<close>

definition ascii :: "string \<Rightarrow> bytes" where
  "ascii s = map (\<lambda>c. word_of_nat (of_char c)) s"

definition TRANSPORT :: bytes where "TRANSPORT = ascii ''omnimesh-transport-v1''"
definition SESSION_RATCHET :: bytes where "SESSION_RATCHET = ascii ''omnimesh-session-ratchet-v1''"
definition KEYSTORE :: bytes where "KEYSTORE = ascii ''omnimesh-keystore-v1''"
definition NOISE_PROLOGUE :: bytes where "NOISE_PROLOGUE = ascii ''omnimesh-noise-prologue-v1''"
definition MESSAGE_AUTH :: bytes where "MESSAGE_AUTH = ascii ''omnimesh-message-auth-v1''"

definition derive_key :: "expander \<Rightarrow> bytes \<Rightarrow> bytes option \<Rightarrow> bytes \<Rightarrow> nat \<Rightarrow> bytes result" where
  "derive_key hkdf ikm salt info output_len =
     (if output_len = 0 then Inl (KeyDerivation ''output length must be > 0'')
      else if 255 * 32 < output_len
      then Inl (KeyDerivation (''output length '' @ show_nat output_len @ '' exceeds HKDF-SHA256 maximum (8160)''))
      else case hkdf salt ikm info output_len of
             Inl e \<Rightarrow> Inl (KeyDerivation (''HKDF expand failed: '' @ e))
           | Inr out \<Rightarrow> Inr out)"

definition derive_key_256 :: "expander \<Rightarrow> bytes \<Rightarrow> bytes option \<Rightarrow> bytes \<Rightarrow> bytes result" where
  "derive_key_256 hkdf ikm salt info =
     (case derive_key hkdf ikm salt info 32 of Inl e \<Rightarrow> Inl e | Inr derived \<Rightarrow> Inr derived)"

definition derive_key_pair :: "expander \<Rightarrow> bytes \<Rightarrow> bytes option \<Rightarrow> bytes \<Rightarrow> (bytes \<times> bytes) result" where
  "derive_key_pair hkdf ikm salt info =
     (case derive_key hkdf ikm salt info 64 of
        Inl e \<Rightarrow> Inl e
      | Inr derived \<Rightarrow> Inr (take 32 derived, drop 32 derived))"

definition ratchet_key :: "expander \<Rightarrow> bytes \<Rightarrow> bytes result" where
  "ratchet_key hkdf current_key = derive_key_256 hkdf current_key None SESSION_RATCHET"

locale key_derivation =
  fixes hkdf :: expander
  assumes expand_ok: "n \<le> 8160 \<Longrightarrow> \<exists>out. hkdf salt ikm info n = Inr out \<and> length out = n"
begin

lemma derive_key_spec:
  "(if 0 < n \<and> n \<le> 8160 then \<exists>out. derive_key hkdf ikm salt info n = Inr out \<and> length out = n
    else \<exists>e. derive_key hkdf ikm salt info n = Inl (KeyDerivation e))"
  using expand_ok [of n salt ikm info] by (auto simp: derive_key_def)

lemma derive_key_256_ok: "\<exists>k. derive_key_256 hkdf ikm salt info = Inr k \<and> length k = 32"
  using derive_key_spec [of 32 ikm salt info] by (auto simp: derive_key_256_def)

lemma derive_key_pair_ok: "\<exists>a b. derive_key_pair hkdf ikm salt info = Inr (a, b) \<and> length a = 32 \<and> length b = 32"
  using derive_key_spec [of 64 ikm salt info] by (auto simp: derive_key_pair_def)

lemma ratchet_key_ok: "\<exists>k. ratchet_key hkdf key = Inr k \<and> length k = 32"
  unfolding ratchet_key_def by (rule derive_key_256_ok)

end

interpretation hkdf_sha: key_derivation hkdf_expand
  by unfold_locales (rule hkdf_expand_ok)

section \<open>Properties\<close>

text \<open>
  C24. Encryption and decryption invert each other: decrypting what \<^verbatim>\<open>encrypt\<close> returned (with its
  12-byte nonce in front) gives the plaintext, the message is 28 bytes longer than the plaintext,
  and conversely \<^verbatim>\<open>decrypt\<close> accepts nothing but such messages.
\<close>

theorem aead_round_trip:
  assumes "aead_cipher seal open_cipher" "length rand = NONCE_SIZE" "encrypt seal rand key msg = Inr d"
  shows "decrypt open_cipher key d = Inr msg \<and> length d = length msg + 28 \<and>
    (\<forall>d' msg'. decrypt open_cipher key d' = Inr msg' \<longrightarrow> encrypt seal (take NONCE_SIZE d') key msg' = Inr d')"
proof (intro conjI allI impI)
  show "decrypt open_cipher key d = Inr msg" by (rule aead_cipher.decrypt_encrypt [OF assms])
  show "length d = length msg + 28"
    using aead_cipher.encrypt_length [OF assms(1,3)] assms(2) by (simp add: NONCE_SIZE_def TAG_SIZE_def)
qed (rule aead_cipher.decrypt_only_sealed [OF assms(1)])

theorem aead_round_trip_witness:
  "\<exists>d. encrypt chapoly_seal (replicate 12 7) (replicate 32 1) [104, 105] = Inr d \<and>
     decrypt chapoly_open (replicate 32 1) d = Inr [104, 105] \<and> length d = 30"
proof -
  obtain d where d: "encrypt chapoly_seal (replicate 12 7) (replicate 32 1) [104, 105] = Inr d"
    by (simp add: encrypt_def cipher_init_def chapoly_seal_def chapoly_seal_ad_def Let_def)
  note trip = aead_round_trip [OF chapoly.aead_cipher_axioms _ d]
  show ?thesis using d trip [THEN conjunct1] trip [THEN conjunct2, THEN conjunct1] by (simp add: NONCE_SIZE_def)
qed

end
