(* ===== verification/Identity.thy ===== *)
theory Identity
  imports Crypto_Ops
begin

text \<open>
  \<^verbatim>\<open>crates/omnimesh-identity\<close> without the key store: key pairs (\<^verbatim>\<open>keypair.rs\<close>), peer identifiers
  (\<^verbatim>\<open>peer_id.rs\<close>) and virtual addresses (\<^verbatim>\<open>virtual_ip.rs\<close>). The Ed25519 operations of \<^verbatim>\<open>ed25519-dalek\<close>
  are the fields of the record \<open>ed25519\<close>, an argument of the definitions.
\<close>

section \<open>Key pairs\<close>

text \<open>A signing key is determined by its 32-byte seed.\<close>

record Keypair =
  kp_seed :: bytes

record PublicKey =
  pk_bytes :: bytes

record Signature =
  sig_bytes :: bytes

text \<open>
  \<open>dalek_public\<close>: \<^verbatim>\<open>SigningKey::verifying_key\<close>; \<open>dalek_sign\<close>: \<^verbatim>\<open>SigningKey::sign\<close>; \<open>dalek_point\<close>:
  \<^verbatim>\<open>VerifyingKey::from_bytes\<close>; \<open>dalek_verify\<close>: \<^verbatim>\<open>VerifyingKey::verify\<close>.
\<close>

record ed25519 =
  dalek_public :: "bytes \<Rightarrow> bytes"
  dalek_sign :: "bytes \<Rightarrow> bytes \<Rightarrow> bytes"
  dalek_point :: "bytes \<Rightarrow> string + unit"
  dalek_verify :: "bytes \<Rightarrow> bytes \<Rightarrow> bytes \<Rightarrow> string + unit"

text \<open>\<open>rand\<close> are the bytes drawn from the operating system.\<close>

definition generate :: "bytes \<Rightarrow> Keypair" where
  "generate rand = \<lparr>kp_seed = rand\<rparr>"

definition from_seed :: "bytes \<Rightarrow> Keypair" where
  "from_seed s = \<lparr>kp_seed = s\<rparr>"

definition seed :: "Keypair \<Rightarrow> bytes" where
  "seed kp = kp_seed kp"

definition public_key :: "ed25519 \<Rightarrow> Keypair \<Rightarrow> PublicKey" where
  "public_key ed kp = \<lparr>pk_bytes = dalek_public ed (kp_seed kp)\<rparr>"

definition sign :: "ed25519 \<Rightarrow> Keypair \<Rightarrow> bytes \<Rightarrow> Signature" where
  "sign ed kp message = \<lparr>sig_bytes = dalek_sign ed (kp_seed kp) message\<rparr>"

definition public_key_verify :: "ed25519 \<Rightarrow> PublicKey \<Rightarrow> bytes \<Rightarrow> Signature \<Rightarrow> unit result" where
  "public_key_verify ed pk message sig =
     (case dalek_point ed (pk_bytes pk) of
        Inl e \<Rightarrow> Inl (Identity (''invalid public key: '' @ e))
      | Inr _ \<Rightarrow>
          (case dalek_verify ed (pk_bytes pk) message (sig_bytes sig) of
             Inl e \<Rightarrow> Inl (Identity (''signature verification failed: '' @ e))
           | Inr u \<Rightarrow> Inr u))"

definition keypair_verify :: "ed25519 \<Rightarrow> Keypair \<Rightarrow> bytes \<Rightarrow> Signature \<Rightarrow> unit result" where
  "keypair_verify ed kp message sig = public_key_verify ed (public_key ed kp) message sig"

definition public_key_to_hex :: "(bytes \<Rightarrow> string) \<Rightarrow> PublicKey \<Rightarrow> string" where
  "public_key_to_hex hex_encode pk = hex_encode (pk_bytes pk)"

definition public_key_from_bytes :: "bytes \<Rightarrow> PublicKey" where
  "public_key_from_bytes bs = \<lparr>pk_bytes = bs\<rparr>"

definition public_key_as_bytes :: "PublicKey \<Rightarrow> bytes" where
  "public_key_as_bytes pk = pk_bytes pk"

definition signature_from_bytes :: "bytes \<Rightarrow> Signature" where
  "signature_from_bytes bs = \<lparr>sig_bytes = bs\<rparr>"

definition signature_as_bytes :: "Signature \<Rightarrow> bytes" where
  "signature_as_bytes s = sig_bytes s"

text \<open>The \<^verbatim>\<open>Debug\<close> forms, on one line: the derived one of a public key, and the hand-written one of a key pair.\<close>

fun commas :: "string list \<Rightarrow> string" where
  "commas [] = []"
| "commas [x] = x"
| "commas (x # xs) = x @ '', '' @ commas xs"

definition debug_public_key :: "PublicKey \<Rightarrow> string" where
  "debug_public_key pk = ''PublicKey { bytes: ['' @ commas (map (\<lambda>b. show_nat (unat b)) (pk_bytes pk)) @ ''] }''"

definition debug_keypair :: "ed25519 \<Rightarrow> Keypair \<Rightarrow> string" where
  "debug_keypair ed kp =
     ''Keypair { public_key: '' @ debug_public_key (public_key ed kp) @
     '', secret: '' @ [CHR 0x22] @ ''[REDACTED]'' @ [CHR 0x22] @ '' }''"

text \<open>
  The hand-written serialisation of signatures: the byte string on the way out, and on the way in a
  byte vector whose length is checked (the left value is the message of the custom error).
\<close>

definition signature_serialize :: "Signature \<Rightarrow> bytes" where
  "signature_serialize s = sig_bytes s"

definition signature_deserialize :: "bytes \<Rightarrow> string + Signature" where
  "signature_deserialize bs =
     (if length bs \<noteq> 64 then Inl (''expected 64 bytes for Signature, got '' @ show_nat (length bs))
      else Inr \<lparr>sig_bytes = bs\<rparr>)"

section \<open>Peer identifiers\<close>

definition public_key_to_peer_id :: "PublicKey \<Rightarrow> PeerId" where
  "public_key_to_peer_id pk = from_bytes (pk_bytes pk)"

definition keypair_to_peer_id :: "ed25519 \<Rightarrow> Keypair \<Rightarrow> PeerId" where
  "keypair_to_peer_id ed kp = public_key_to_peer_id (public_key ed kp)"

definition peer_id_from_public_key_bytes :: "bytes \<Rightarrow> PeerId" where
  "peer_id_from_public_key_bytes bs = from_bytes bs"

section \<open>Virtual addresses\<close>

record VirtualIp =
  vip_addr :: bytes

definition ULA_PREFIX :: bytes where
  "ULA_PREFIX = [0xfd, 0x4f, 0x4d, 0x00]"

definition from_peer_id :: "PeerId \<Rightarrow> VirtualIp" where
  "from_peer_id p = \<lparr>vip_addr = ULA_PREFIX @ take 12 (as_bytes p)\<rparr>"

definition is_omnimesh_address :: "bytes \<Rightarrow> bool" where
  "is_omnimesh_address octets \<longleftrightarrow> take 4 octets = ULA_PREFIX"

section \<open>Properties\<close>

text \<open>
  Every virtual address has 16 octets and lies in the OmniMesh range; it is determined by the
  first 12 bytes of the peer identifier and no more, so two peers share an address exactly when
  these bytes agree.
\<close>

lemma virtual_ip_range:
  assumes "peer_wf p" "peer_wf q"
  shows "length (vip_addr (from_peer_id p)) = 16 \<and> is_omnimesh_address (vip_addr (from_peer_id p)) \<and>
    (from_peer_id p = from_peer_id q \<longleftrightarrow> take 12 (as_bytes p) = take 12 (as_bytes q))"
  using assms by (simp add: from_peer_id_def is_omnimesh_address_def ULA_PREFIX_def peer_wf_def)

end
