(* ===== verification/Peer_Cache.thy ===== *)
theory Peer_Cache
  imports Core_Types
begin

text \<open>
  \<^verbatim>\<open>crates/omnimesh-discovery/src/cache.rs\<close>: the registry of discovered addresses. An instant is a
  number of nanoseconds on the monotonic clock and is passed to every operation that reads the
  clock. The concurrent map is an association list in its iteration order. The abstraction of a
  cache is the expiry of each address of each peer.
\<close>

type_synonym instant = nat

section \<open>Operations\<close>

record CachedAddress =
  ca_addr :: SocketAddr
  expires_at :: instant

type_synonym peer_cache = "(PeerId \<times> CachedAddress list) list"

definition DEFAULT_TTL :: nat where
  "DEFAULT_TTL = 1800 * 1000000000"

definition cache_new :: peer_cache where
  "cache_new = []"

definition insert_with_ttl :: "instant \<Rightarrow> PeerId \<Rightarrow> SocketAddr \<Rightarrow> nat \<Rightarrow> peer_cache \<Rightarrow> peer_cache" where
  "insert_with_ttl now peer_id addr ttl c =
     (let entry = \<lparr>ca_addr = addr, expires_at = now + ttl\<rparr>;
          l = (case map_of c peer_id of Some l \<Rightarrow> l | None \<Rightarrow> [])
      in AList.update peer_id (filter (\<lambda>x. ca_addr x \<noteq> addr) l @ [entry]) c)"

definition cache_insert :: "instant \<Rightarrow> PeerId \<Rightarrow> SocketAddr \<Rightarrow> peer_cache \<Rightarrow> peer_cache" where
  "cache_insert now peer_id addr c = insert_with_ttl now peer_id addr DEFAULT_TTL c"

text \<open>Each insertion of \<^verbatim>\<open>insert_many\<close> reads the clock anew.\<close>

fun insert_many :: "PeerId \<Rightarrow> (instant \<times> SocketAddr) list \<Rightarrow> peer_cache \<Rightarrow> peer_cache" where
  "insert_many peer_id [] c = c"
| "insert_many peer_id ((now, addr) # addrs) c = insert_many peer_id addrs (cache_insert now peer_id addr c)"

definition active :: "instant \<Rightarrow> CachedAddress list \<Rightarrow> SocketAddr list" where
  "active now l = map ca_addr (filter (\<lambda>x. now < expires_at x) l)"

definition lookup :: "instant \<Rightarrow> PeerId \<Rightarrow> peer_cache \<Rightarrow> SocketAddr list" where
  "lookup now peer_id c = (case map_of c peer_id of Some l \<Rightarrow> active now l | None \<Rightarrow> [])"

definition cache_remove :: "PeerId \<Rightarrow> peer_cache \<Rightarrow> peer_cache" where
  "cache_remove peer_id c = AList.delete peer_id c"

definition prune :: "instant \<Rightarrow> peer_cache \<Rightarrow> peer_cache" where
  "prune now c =
     filter (\<lambda>(p, l). l \<noteq> []) (map (\<lambda>(p, l). (p, filter (\<lambda>x. now < expires_at x) l)) c)"

definition all_peers :: "instant \<Rightarrow> peer_cache \<Rightarrow> (PeerId \<times> SocketAddr list) list" where
  "all_peers now c = filter (\<lambda>(p, addrs). addrs \<noteq> []) (map (\<lambda>(p, l). (p, active now l)) c)"

section \<open>Well-formed caches and their abstraction\<close>

definition cache_wf :: "peer_cache \<Rightarrow> bool" where
  "cache_wf c \<longleftrightarrow> distinct (map fst c) \<and> list_all (\<lambda>(p, l). distinct (map ca_addr l)) c"

definition expiry :: "peer_cache \<Rightarrow> PeerId \<Rightarrow> SocketAddr \<Rightarrow> instant option" where
  "expiry c p a =
     (case map_of c p of
        Some l \<Rightarrow> map_of (map (\<lambda>x. (ca_addr x, expires_at x)) l) a
      | None \<Rightarrow> None)"

lemma cache_wf_new [simp]: "cache_wf cache_new"
  by (simp add: cache_wf_def cache_new_def)

lemma cache_wfD: "cache_wf c \<Longrightarrow> map_of c p = Some l \<Longrightarrow> distinct (map ca_addr l)"
  by (auto simp: cache_wf_def list_all_iff dest!: map_of_SomeD)

lemma distinct_filter_addr: "distinct (map ca_addr l) \<Longrightarrow> distinct (map ca_addr (filter P l))"
  by (induction l) auto

lemma distinct_refresh:
  "distinct (map ca_addr l) \<Longrightarrow> distinct (map ca_addr (filter (\<lambda>x. ca_addr x \<noteq> a) l @ [\<lparr>ca_addr = a, expires_at = t\<rparr>]))"
  by (auto simp: distinct_filter_addr)

lemma cache_wf_insert: "cache_wf c \<Longrightarrow> cache_wf (insert_with_ttl now p a ttl c)"
  using cache_wfD [of c p]
  by (cases "map_of c p")
    (auto simp: cache_wf_def insert_with_ttl_def Let_def distinct_filter_addr intro!: list_all_update)

lemma cache_wf_remove: "cache_wf c \<Longrightarrow> cache_wf (cache_remove p c)"
  by (simp add: cache_wf_def cache_remove_def list_all_delete)

lemma map_fst_prune: "map fst (prune now c) = map fst (filter (\<lambda>(p, l). filter (\<lambda>x. now < expires_at x) l \<noteq> []) c)"
  by (induction c) (auto simp: prune_def)

lemma cache_wf_prune: "cache_wf c \<Longrightarrow> cache_wf (prune now c)"
  unfolding cache_wf_def map_fst_prune
  by (auto simp: prune_def list_all_iff distinct_map_filter distinct_filter_addr)

lemma in_active_iff:
  "distinct (map ca_addr l) \<Longrightarrow>
     a \<in> set (active now l) \<longleftrightarrow> (\<exists>t. map_of (map (\<lambda>x. (ca_addr x, expires_at x)) l) a = Some t \<and> now < t)"
  by (induction l) (auto simp: active_def)

lemma in_lookup_iff: "cache_wf c \<Longrightarrow> a \<in> set (lookup now p c) \<longleftrightarrow> (\<exists>t. expiry c p a = Some t \<and> now < t)"
  using cache_wfD [of c p] by (auto simp: lookup_def expiry_def in_active_iff split: option.splits)

lemma distinct_active: "distinct (map ca_addr l) \<Longrightarrow> distinct (active now l)"
  unfolding active_def by (rule distinct_filter_addr)

lemma distinct_lookup: "cache_wf c \<Longrightarrow> distinct (lookup now p c)"
  using cache_wfD [of c p] by (auto simp: lookup_def distinct_active split: option.splits)

lemma map_of_refresh:
  "map_of (map (\<lambda>x. (ca_addr x, expires_at x)) (filter (\<lambda>x. ca_addr x \<noteq> a) l @ [\<lparr>ca_addr = a, expires_at = t\<rparr>])) b =
     (if b = a then Some t else map_of (map (\<lambda>x. (ca_addr x, expires_at x)) l) b)"
  by (induction l) auto

lemma expiry_insert:
  "expiry (insert_with_ttl now p a ttl c) q b = (if q = p \<and> b = a then Some (now + ttl) else expiry c q b)"
  by (cases "map_of c p") (auto simp: expiry_def insert_with_ttl_def Let_def map_of_refresh simp del: map_append filter.simps)

lemma expiry_remove: "expiry (cache_remove p c) q b = (if q = p then None else expiry c q b)"
  by (simp add: expiry_def cache_remove_def)

lemma active_filter: "now \<le> t \<Longrightarrow> active t (filter (\<lambda>x. now < expires_at x) l) = active t l"
  by (induction l) (auto simp: active_def)

lemma lookup_Cons: "lookup t q ((p, l) # c) = (if q = p then active t l else lookup t q c)"
  by (simp add: lookup_def)

lemma lookup_fresh: "p \<notin> fst ` set c \<Longrightarrow> lookup t p c = []"
  by (simp add: lookup_def map_of_eq_None_iff [THEN iffD2])

lemma prune_keys: "fst ` set (prune now c) \<subseteq> fst ` set c"
  by (auto simp: prune_def image_iff) force

lemma lookup_prune:
  assumes "distinct (map fst c)" "now \<le> t"
  shows "lookup t q (prune now c) = lookup t q c"
  using assms(1)
proof (induction c)
  case Nil
  then show ?case by (simp add: prune_def)
next
  case (Cons e c)
  obtain p l where e: "e = (p, l)" by (cases e)
  let ?k = "filter (\<lambda>x. now < expires_at x) l"
  have split: "prune now (e # c) = (if ?k = [] then prune now c else (p, ?k) # prune now c)"
    by (simp add: prune_def e)
  have dead: "active t l = []" if "?k = []" using active_filter [OF assms(2), of l] that by (simp add: active_def)
  have fresh: "lookup t p (prune now c) = []"
    using Cons.prems prune_keys [of now c] by (intro lookup_fresh) (auto simp: e)
  show ?case using Cons split dead fresh active_filter [OF assms(2), of l] by (simp add: e lookup_Cons)
qed

lemma in_all_peers_iff:
  "distinct (map fst c) \<Longrightarrow> (p, addrs) \<in> set (all_peers now c) \<longleftrightarrow> addrs = lookup now p c \<and> addrs \<noteq> []"
  by (auto simp: all_peers_def lookup_def split: option.splits dest: map_of_SomeD eq_key_imp_eq_value)

section \<open>Runs and their specification\<close>

datatype cache_op = Insert instant PeerId SocketAddr nat | Remove PeerId | Prune instant

fun cache_apply :: "cache_op \<Rightarrow> peer_cache \<Rightarrow> peer_cache" where
  "cache_apply (Insert now p a ttl) c = insert_with_ttl now p a ttl c"
| "cache_apply (Remove p) c = cache_remove p c"
| "cache_apply (Prune now) c = prune now c"

text \<open>The specification keeps one expiry per peer and address; pruning is not visible in it.\<close>

fun spec_apply :: "cache_op \<Rightarrow> (PeerId \<Rightarrow> SocketAddr \<Rightarrow> instant option) \<Rightarrow> PeerId \<Rightarrow> SocketAddr \<Rightarrow> instant option" where
  "spec_apply (Insert now p a ttl) m = m(p := (m p)(a := Some (now + ttl)))"
| "spec_apply (Remove p) m = m(p := (\<lambda>a. None))"
| "spec_apply (Prune now) m = m"

fun pruned_by :: "instant \<Rightarrow> cache_op \<Rightarrow> bool" where
  "pruned_by t (Prune now) = (now \<le> t)"
| "pruned_by t _ = True"

definition shows_expiry :: "instant \<Rightarrow> peer_cache \<Rightarrow> (PeerId \<Rightarrow> SocketAddr \<Rightarrow> instant option) \<Rightarrow> bool" where
  "shows_expiry t c m \<longleftrightarrow> cache_wf c \<and> (\<forall>p a. a \<in> set (lookup t p c) \<longleftrightarrow> (\<exists>e. m p a = Some e \<and> t < e))"

lemma in_lookup_insert:
  "cache_wf c \<Longrightarrow> b \<in> set (lookup t q (insert_with_ttl now p a ttl c)) \<longleftrightarrow>
     (if q = p \<and> b = a then t < now + ttl else b \<in> set (lookup t q c))"
  by (simp add: in_lookup_iff cache_wf_insert expiry_insert)

lemma in_lookup_remove:
  "cache_wf c \<Longrightarrow> b \<in> set (lookup t q (cache_remove p c)) \<longleftrightarrow> q \<noteq> p \<and> b \<in> set (lookup t q c)"
  by (simp add: in_lookup_iff cache_wf_remove expiry_remove)

lemma cache_wf_apply: "cache_wf c \<Longrightarrow> cache_wf (cache_apply op c)"
  by (cases op) (simp_all add: cache_wf_insert cache_wf_remove cache_wf_prune)

lemma lookup_prune_wf: "cache_wf c \<Longrightarrow> now \<le> t \<Longrightarrow> lookup t q (prune now c) = lookup t q c"
  by (simp add: lookup_prune cache_wf_def)

lemma shows_expiry_step:
  assumes "shows_expiry t c m" "pruned_by t op"
  shows "shows_expiry t (cache_apply op c) (spec_apply op m)"
proof -
  have wf: "cache_wf c" and iff: "\<And>p a. a \<in> set (lookup t p c) \<longleftrightarrow> (\<exists>e. m p a = Some e \<and> t < e)"
    using assms(1) by (auto simp: shows_expiry_def)
  have "a \<in> set (lookup t p (cache_apply op c)) \<longleftrightarrow> (\<exists>e. spec_apply op m p a = Some e \<and> t < e)" for p a
    using assms(2) wf by (cases op) (simp_all add: in_lookup_insert in_lookup_remove lookup_prune_wf iff)
  with wf show ?thesis by (simp add: shows_expiry_def cache_wf_apply)
qed

lemma shows_expiry_run:
  "list_all (pruned_by t) ops \<Longrightarrow> shows_expiry t c m \<Longrightarrow>
     shows_expiry t (fold cache_apply ops c) (fold spec_apply ops m)"
  by (induction ops arbitrary: c m) (auto intro: shows_expiry_step)

lemma shows_expiry_new: "shows_expiry t cache_new (\<lambda>p a. None)"
  by (simp add: shows_expiry_def) (simp add: lookup_def cache_new_def)

section \<open>Properties\<close>

text \<open>
  C13. Refinement: after any sequence of insertions, removals and prunings (pruned no later than
  \<open>t\<close>), a lookup at time \<open>t\<close> lists, without duplicates, exactly the addresses whose last insertion
  for that peer has not expired and was not removed since.
\<close>

theorem cache_refines_spec:
  assumes "list_all (pruned_by t) ops"
  shows "distinct (lookup t p (fold cache_apply ops cache_new)) \<and>
    (a \<in> set (lookup t p (fold cache_apply ops cache_new)) \<longleftrightarrow>
      (\<exists>e. fold spec_apply ops (\<lambda>p a. None) p a = Some e \<and> t < e))"
  using shows_expiry_run [OF assms shows_expiry_new] by (auto simp: shows_expiry_def distinct_lookup)

theorem cache_refines_spec_witness:
  "SocketAddrV4 [127, 0, 0, 1] 80 \<in> set (lookup 7 (PeerId [1]) (fold cache_apply
      [Insert 0 (PeerId [1]) (SocketAddrV4 [127, 0, 0, 1] 80) 5, Insert 3 (PeerId [1]) (SocketAddrV4 [127, 0, 0, 1] 80) 5,
       Prune 6] cache_new))"
  using cache_refines_spec [of 7 "[Insert 0 (PeerId [1]) (SocketAddrV4 [127, 0, 0, 1] 80) 5,
       Insert 3 (PeerId [1]) (SocketAddrV4 [127, 0, 0, 1] 80) 5, Prune 6]" "PeerId [1]" "SocketAddrV4 [127, 0, 0, 1] 80"]
  by simp

text \<open>
  \<^verbatim>\<open>all_peers\<close> agrees with \<^verbatim>\<open>lookup\<close>: on every cache that operations produce it lists a peer
  with exactly the addresses a lookup gives, and only the peers with at least one.
\<close>

lemma all_peers_lookup:
  "(p, addrs) \<in> set (all_peers now (fold cache_apply ops cache_new)) \<longleftrightarrow>
     addrs = lookup now p (fold cache_apply ops cache_new) \<and> addrs \<noteq> []"
proof -
  have "cache_wf (fold cache_apply ops c)" if "cache_wf c" for c
    using that by (induction ops arbitrary: c) (simp_all add: cache_wf_apply)
  from this [OF cache_wf_new] show ?thesis by (intro in_all_peers_iff) (simp add: cache_wf_def)
qed

end
