(* ===== verification/Config_Model.thy ===== *)
theory Config_Model
  imports Socket_Addr
begin

text \<open>
  \<^verbatim>\<open>crates/omnimesh-core/src/config.rs\<close> for Unix targets: the configuration records, their defaults,
  loading from a TOML file and the environment overrides. The environment is a lookup function, the
  file system a record of the two calls made, and a fresh UUID (36 ASCII characters) an argument.
  The \<^verbatim>\<open>toml\<close> crate is a parameter that turns a document into a table, in which a section or a field
  may be missing; the \<^verbatim>\<open>serde(default)\<close> attributes of the source are the \<open>fill\<close> functions.
\<close>

type_synonym path = string
type_synonym env = "string \<Rightarrow> string option"

section \<open>Records\<close>

record NodeConfig =
  nc_name :: string
  data_dir :: path
  relay_enabled :: bool
  nc_max_connections :: u64

record TransportConfig =
  listen_addr :: SocketAddr
  bootstrap_nodes :: "string list"
  connect_timeout_ms :: u64
  keepalive_secs :: u64

record IdentityConfig =
  key_path :: path
  auto_rotate :: bool
  rotation_interval_hours :: u64

record TelemetryConfig =
  log_level :: string
  json_logs :: bool
  metrics_enabled :: bool
  metrics_endpoint :: "string option"

record StorageConfig =
  db_path :: path
  max_size_mb :: u64

record Config =
  cfg_node :: NodeConfig
  cfg_transport :: TransportConfig
  cfg_identity :: IdentityConfig
  cfg_telemetry :: TelemetryConfig
  cfg_storage :: StorageConfig

section \<open>Defaults\<close>

datatype target_os = MacOS | OtherUnix

text \<open>\<^verbatim>\<open>PathBuf::join\<close> on Unix.\<close>

definition path_join :: "path \<Rightarrow> path \<Rightarrow> path" where
  "path_join p q =
     (if q \<noteq> [] \<and> hd q = CHR ''/'' then q
      else if p = [] \<or> last p = CHR ''/'' then p @ q
      else p @ ''/'' @ q)"

definition dirs_default :: "target_os \<Rightarrow> env \<Rightarrow> string \<Rightarrow> path" where
  "dirs_default os env app =
     (let home = (case env ''HOME'' of Some h \<Rightarrow> h | None \<Rightarrow> ''.'') in
      case os of
        MacOS \<Rightarrow> path_join (path_join (path_join home ''Library'') ''Application Support'') app
      | OtherUnix \<Rightarrow> path_join (path_join (path_join home ''.local'') ''share'') app)"

definition default_node_name :: "string \<Rightarrow> string" where
  "default_node_name uuid = ''omnimesh-'' @ take 8 uuid"

definition default_data_dir :: "target_os \<Rightarrow> env \<Rightarrow> path" where
  "default_data_dir os env = dirs_default os env ''omnimesh''"

definition default_max_connections :: u64 where "default_max_connections = 256"

definition default_listen_addr :: SocketAddr where
  "default_listen_addr = the (parse_socket_addr ''0.0.0.0:4433'')"

definition default_connect_timeout :: u64 where "default_connect_timeout = 10000"

definition default_keepalive :: u64 where "default_keepalive = 15"

definition default_key_path :: "target_os \<Rightarrow> env \<Rightarrow> path" where
  "default_key_path os env = path_join (dirs_default os env ''omnimesh'') ''identity.key''"

definition default_rotation_interval :: u64 where "default_rotation_interval = 720"

definition default_log_level :: string where "default_log_level = ''info''"

definition default_db_path :: "target_os \<Rightarrow> env \<Rightarrow> path" where
  "default_db_path os env = path_join (dirs_default os env ''omnimesh'') ''state.redb''"

definition default_max_db_size :: u64 where "default_max_db_size = 512"

definition NodeConfig_default :: "target_os \<Rightarrow> env \<Rightarrow> string \<Rightarrow> NodeConfig" where
  "NodeConfig_default os env uuid =
     \<lparr>nc_name = default_node_name uuid, data_dir = default_data_dir os env, relay_enabled = False,
      nc_max_connections = default_max_connections\<rparr>"

definition TransportConfig_default :: TransportConfig where
  "TransportConfig_default =
     \<lparr>listen_addr = default_listen_addr, bootstrap_nodes = [],
      connect_timeout_ms = default_connect_timeout, keepalive_secs = default_keepalive\<rparr>"

definition IdentityConfig_default :: "target_os \<Rightarrow> env \<Rightarrow> IdentityConfig" where
  "IdentityConfig_default os env =
     \<lparr>key_path = default_key_path os env, auto_rotate = False,
      rotation_interval_hours = default_rotation_interval\<rparr>"

definition TelemetryConfig_default :: TelemetryConfig where
  "TelemetryConfig_default =
     \<lparr>log_level = default_log_level, json_logs = False, metrics_enabled = False, metrics_endpoint = None\<rparr>"

definition StorageConfig_default :: "target_os \<Rightarrow> env \<Rightarrow> StorageConfig" where
  "StorageConfig_default os env = \<lparr>db_path = default_db_path os env, max_size_mb = default_max_db_size\<rparr>"

definition Config_default :: "target_os \<Rightarrow> env \<Rightarrow> string \<Rightarrow> Config" where
  "Config_default os env uuid =
     \<lparr>cfg_node = NodeConfig_default os env uuid, cfg_transport = TransportConfig_default,
      cfg_identity = IdentityConfig_default os env, cfg_telemetry = TelemetryConfig_default,
      cfg_storage = StorageConfig_default os env\<rparr>"

section \<open>Deserialisation\<close>

text \<open>What a TOML document sets: every section and every field is optional.\<close>

record NodeTable =
  t_name :: "string option"
  t_data_dir :: "path option"
  t_relay_enabled :: "bool option"
  t_max_connections :: "u64 option"

record TransportTable =
  t_listen_addr :: "SocketAddr option"
  t_bootstrap_nodes :: "string list option"
  t_connect_timeout_ms :: "u64 option"
  t_keepalive_secs :: "u64 option"

record IdentityTable =
  t_key_path :: "path option"
  t_auto_rotate :: "bool option"
  t_rotation_interval_hours :: "u64 option"

record TelemetryTable =
  t_log_level :: "string option"
  t_json_logs :: "bool option"
  t_metrics_enabled :: "bool option"
  t_metrics_endpoint :: "string option"

record StorageTable =
  t_db_path :: "path option"
  t_max_size_mb :: "u64 option"

record ConfigTable =
  t_node :: "NodeTable option"
  t_transport :: "TransportTable option"
  t_identity :: "IdentityTable option"
  t_telemetry :: "TelemetryTable option"
  t_storage :: "StorageTable option"

abbreviation or_default :: "'a option \<Rightarrow> 'a \<Rightarrow> 'a" where
  "or_default x d \<equiv> (case x of Some v \<Rightarrow> v | None \<Rightarrow> d)"

definition fill_node :: "target_os \<Rightarrow> env \<Rightarrow> string \<Rightarrow> NodeTable \<Rightarrow> NodeConfig" where
  "fill_node os env uuid t =
     \<lparr>nc_name = or_default (t_name t) (default_node_name uuid),
      data_dir = or_default (t_data_dir t) (default_data_dir os env),
      relay_enabled = or_default (t_relay_enabled t) False,
      nc_max_connections = or_default (t_max_connections t) default_max_connections\<rparr>"

definition fill_transport :: "TransportTable \<Rightarrow> TransportConfig" where
  "fill_transport t =
     \<lparr>listen_addr = or_default (t_listen_addr t) default_listen_addr,
      bootstrap_nodes = or_default (t_bootstrap_nodes t) [],
      connect_timeout_ms = or_default (t_connect_timeout_ms t) default_connect_timeout,
      keepalive_secs = or_default (t_keepalive_secs t) default_keepalive\<rparr>"

definition fill_identity :: "target_os \<Rightarrow> env \<Rightarrow> IdentityTable \<Rightarrow> IdentityConfig" where
  "fill_identity os env t =
     \<lparr>key_path = or_default (t_key_path t) (default_key_path os env),
      auto_rotate = or_default (t_auto_rotate t) False,
      rotation_interval_hours = or_default (t_rotation_interval_hours t) default_rotation_interval\<rparr>"

definition fill_telemetry :: "TelemetryTable \<Rightarrow> TelemetryConfig" where
  "fill_telemetry t =
     \<lparr>log_level = or_default (t_log_level t) default_log_level,
      json_logs = or_default (t_json_logs t) False,
      metrics_enabled = or_default (t_metrics_enabled t) False,
      metrics_endpoint = t_metrics_endpoint t\<rparr>"

definition fill_storage :: "target_os \<Rightarrow> env \<Rightarrow> StorageTable \<Rightarrow> StorageConfig" where
  "fill_storage os env t =
     \<lparr>db_path = or_default (t_db_path t) (default_db_path os env),
      max_size_mb = or_default (t_max_size_mb t) default_max_db_size\<rparr>"

definition fill_config :: "target_os \<Rightarrow> env \<Rightarrow> string \<Rightarrow> ConfigTable \<Rightarrow> Config" where
  "fill_config os env uuid t =
     \<lparr>cfg_node = (case t_node t of Some x \<Rightarrow> fill_node os env uuid x | None \<Rightarrow> NodeConfig_default os env uuid),
      cfg_transport = (case t_transport t of Some x \<Rightarrow> fill_transport x | None \<Rightarrow> TransportConfig_default),
      cfg_identity = (case t_identity t of Some x \<Rightarrow> fill_identity os env x | None \<Rightarrow> IdentityConfig_default os env),
      cfg_telemetry = (case t_telemetry t of Some x \<Rightarrow> fill_telemetry x | None \<Rightarrow> TelemetryConfig_default),
      cfg_storage = (case t_storage t of Some x \<Rightarrow> fill_storage os env x | None \<Rightarrow> StorageConfig_default os env)\<rparr>"

section \<open>Loading\<close>

record file_system =
  fs_exists :: "path \<Rightarrow> bool"
  fs_read_to_string :: "path \<Rightarrow> string + string"

type_synonym toml_parser = "string \<Rightarrow> string + ConfigTable"

definition from_file :: "toml_parser \<Rightarrow> file_system \<Rightarrow> target_os \<Rightarrow> env \<Rightarrow> string \<Rightarrow> path \<Rightarrow> Config result" where
  "from_file toml fs os env uuid p =
     (case fs_read_to_string fs p of
        Inl e \<Rightarrow> Inl (Config (''failed to read config file '' @ p @ '': '' @ e))
      | Inr content \<Rightarrow>
          (case toml content of
             Inl e \<Rightarrow> Inl (Config (''invalid config TOML: '' @ e))
           | Inr t \<Rightarrow> Inr (fill_config os env uuid t)))"

definition apply_env_overrides :: "env \<Rightarrow> Config \<Rightarrow> Config" where
  "apply_env_overrides env c0 =
     (let c1 = (case env ''OMNIMESH_NODE_NAME'' of
                  Some val \<Rightarrow> c0\<lparr>cfg_node := (cfg_node c0)\<lparr>nc_name := val\<rparr>\<rparr> | None \<Rightarrow> c0);
          c2 = (case env ''OMNIMESH_TRANSPORT_LISTEN_ADDR'' of
                  Some val \<Rightarrow>
                    (case parse_socket_addr val of
                       Some addr \<Rightarrow> c1\<lparr>cfg_transport := (cfg_transport c1)\<lparr>listen_addr := addr\<rparr>\<rparr>
                     | None \<Rightarrow> c1)
                | None \<Rightarrow> c1);
          c3 = (case env ''OMNIMESH_LOG_LEVEL'' of
                  Some val \<Rightarrow> c2\<lparr>cfg_telemetry := (cfg_telemetry c2)\<lparr>log_level := val\<rparr>\<rparr> | None \<Rightarrow> c2)
      in case env ''OMNIMESH_DATA_DIR'' of
           Some val \<Rightarrow> c3\<lparr>cfg_node := (cfg_node c3)\<lparr>data_dir := val\<rparr>\<rparr> | None \<Rightarrow> c3)"

definition load :: "toml_parser \<Rightarrow> file_system \<Rightarrow> target_os \<Rightarrow> env \<Rightarrow> string \<Rightarrow> path option \<Rightarrow> Config result" where
  "load toml fs os env uuid p =
     (case (case p of
              Some q \<Rightarrow> if fs_exists fs q then from_file toml fs os env uuid q
                        else Inr (Config_default os env uuid)
            | None \<Rightarrow> Inr (Config_default os env uuid)) of
        Inl e \<Rightarrow> Inl e
      | Inr c \<Rightarrow> Inr (apply_env_overrides env c))"

definition to_toml :: "(Config \<Rightarrow> string + string) \<Rightarrow> Config \<Rightarrow> string result" where
  "to_toml toml_to_string_pretty c =
     (case toml_to_string_pretty c of
        Inl e \<Rightarrow> Inl (Config (''failed to serialize config: '' @ e))
      | Inr s \<Rightarrow> Inr s)"

section \<open>Precedence\<close>

definition empty_table :: ConfigTable where
  "empty_table = \<lparr>t_node = None, t_transport = None, t_identity = None, t_telemetry = None, t_storage = None\<rparr>"

lemma fill_empty: "fill_config os env uuid empty_table = Config_default os env uuid"
  by (simp add: fill_config_def empty_table_def Config_default_def)

text \<open>The table the file contributes: that of the file when the path exists, else the empty one.\<close>

definition file_table :: "toml_parser \<Rightarrow> file_system \<Rightarrow> path option \<Rightarrow> ConfigTable option" where
  "file_table toml fs p =
     (case p of
        Some q \<Rightarrow>
          (if fs_exists fs q
           then case fs_read_to_string fs q of
                  Inl _ \<Rightarrow> None
                | Inr content \<Rightarrow> (case toml content of Inl _ \<Rightarrow> None | Inr t \<Rightarrow> Some t)
           else Some empty_table)
      | None \<Rightarrow> Some empty_table)"

lemma load_file_table:
  "load toml fs os env uuid p =
     (case file_table toml fs p of
        Some t \<Rightarrow> Inr (apply_env_overrides env (fill_config os env uuid t))
      | None \<Rightarrow> load toml fs os env uuid p)"
  by (auto simp: load_def file_table_def from_file_def fill_empty split: option.splits sum.splits)

definition first_some :: "'a option list \<Rightarrow> 'a \<Rightarrow> 'a" where
  "first_some xs d = (case filter (\<lambda>x. x \<noteq> None) xs of [] \<Rightarrow> d | x # _ \<Rightarrow> the x)"

lemma fill_fields:
  "nc_name (cfg_node (fill_config os env uuid t)) =
     first_some [Option.bind (t_node t) t_name] (default_node_name uuid)"
  "data_dir (cfg_node (fill_config os env uuid t)) =
     first_some [Option.bind (t_node t) t_data_dir] (default_data_dir os env)"
  "log_level (cfg_telemetry (fill_config os env uuid t)) =
     first_some [Option.bind (t_telemetry t) t_log_level] default_log_level"
  "listen_addr (cfg_transport (fill_config os env uuid t)) =
     first_some [Option.bind (t_transport t) t_listen_addr] default_listen_addr"
  by (auto simp: fill_config_def fill_node_def fill_telemetry_def fill_transport_def NodeConfig_default_def
      TelemetryConfig_default_def TransportConfig_default_def first_some_def split: option.splits)

lemma first_some_chain: "first_some [x] (first_some [y] d) = first_some [x, y] d"
  by (cases x; cases y) (auto simp: first_some_def)

lemma override_sections:
  "cfg_node (apply_env_overrides env c) =
     (cfg_node c)\<lparr>nc_name := first_some [env ''OMNIMESH_NODE_NAME''] (nc_name (cfg_node c)),
                  data_dir := first_some [env ''OMNIMESH_DATA_DIR''] (data_dir (cfg_node c))\<rparr>"
  "cfg_transport (apply_env_overrides env c) =
     (cfg_transport c)\<lparr>listen_addr :=
        first_some [Option.bind (env ''OMNIMESH_TRANSPORT_LISTEN_ADDR'') parse_socket_addr] (listen_addr (cfg_transport c))\<rparr>"
  "cfg_telemetry (apply_env_overrides env c) =
     (cfg_telemetry c)\<lparr>log_level := first_some [env ''OMNIMESH_LOG_LEVEL''] (log_level (cfg_telemetry c))\<rparr>"
  "cfg_identity (apply_env_overrides env c) = cfg_identity c"
  "cfg_storage (apply_env_overrides env c) = cfg_storage c"
  by (auto simp: apply_env_overrides_def Let_def first_some_def split: option.splits)

text \<open>The address literal parses, so its \<^verbatim>\<open>unwrap\<close> does not panic.\<close>

lemma default_listen_addr_parses: "parse_socket_addr ''0.0.0.0:4433'' = Some (SocketAddrV4 [0, 0, 0, 0] 4433)"
  using parse_show_v4 [of 0 0 0 0 4433] by (simp add: show_v4_def show_nat.simps char_of_def bit_0)

section \<open>Properties\<close>

text \<open>
  C30. Precedence: when the file can be used (it is absent, or readable and valid), \<^verbatim>\<open>load\<close> succeeds,
  and each overridable setting comes from its environment variable if that is set (and, for the
  listen address, parses), else from the file if it sets the field, else from the default; the other
  settings come from the file and the defaults alone.
\<close>

theorem load_precedence:
  assumes "file_table toml fs p = Some t"
  shows "\<exists>c. load toml fs os env uuid p = Inr c \<and>
    nc_name (cfg_node c) =
      first_some [env ''OMNIMESH_NODE_NAME'', Option.bind (t_node t) t_name] (default_node_name uuid) \<and>
    data_dir (cfg_node c) =
      first_some [env ''OMNIMESH_DATA_DIR'', Option.bind (t_node t) t_data_dir] (default_data_dir os env) \<and>
    log_level (cfg_telemetry c) =
      first_some [env ''OMNIMESH_LOG_LEVEL'', Option.bind (t_telemetry t) t_log_level] default_log_level \<and>
    listen_addr (cfg_transport c) =
      first_some [Option.bind (env ''OMNIMESH_TRANSPORT_LISTEN_ADDR'') parse_socket_addr,
        Option.bind (t_transport t) t_listen_addr] default_listen_addr \<and>
    cfg_identity c = cfg_identity (fill_config os env uuid t) \<and>
    cfg_storage c = cfg_storage (fill_config os env uuid t) \<and>
    cfg_node c = (cfg_node (fill_config os env uuid t))\<lparr>nc_name := nc_name (cfg_node c), data_dir := data_dir (cfg_node c)\<rparr> \<and>
    cfg_transport c = (cfg_transport (fill_config os env uuid t))\<lparr>listen_addr := listen_addr (cfg_transport c)\<rparr> \<and>
    cfg_telemetry c = (cfg_telemetry (fill_config os env uuid t))\<lparr>log_level := log_level (cfg_telemetry c)\<rparr>"
  using assms load_file_table [of toml fs os env uuid p]
  by (auto simp: override_sections fill_fields first_some_chain)

theorem load_precedence_witness:
  "\<exists>c. load (\<lambda>s. Inr (empty_table\<lparr>t_telemetry := Some \<lparr>t_log_level = Some ''debug'', t_json_logs = None,
          t_metrics_enabled = None, t_metrics_endpoint = None\<rparr>\<rparr>))
       \<lparr>fs_exists = (\<lambda>p. True), fs_read_to_string = (\<lambda>p. Inr [])\<rparr> OtherUnix
       [''OMNIMESH_NODE_NAME'' \<mapsto> ''alpha''] ''0123456789'' (Some ''node.toml'') = Inr c \<and>
     nc_name (cfg_node c) = ''alpha'' \<and> log_level (cfg_telemetry c) = ''debug''"
  using load_precedence [of "\<lambda>s. Inr (empty_table\<lparr>t_telemetry := Some \<lparr>t_log_level = Some ''debug'', t_json_logs = None,
          t_metrics_enabled = None, t_metrics_endpoint = None\<rparr>\<rparr>)"
       "\<lparr>fs_exists = (\<lambda>p. True), fs_read_to_string = (\<lambda>p. Inr [])\<rparr>" "Some ''node.toml''" _
       OtherUnix "[''OMNIMESH_NODE_NAME'' \<mapsto> ''alpha'']" "''0123456789''"]
  by (auto simp: file_table_def first_some_def empty_table_def)

text \<open>
  Loading fails exactly when a file is named that exists but
  cannot be read or is not valid TOML for this configuration; a missing file is not an error.
\<close>

lemma load_fails_iff:
  "(\<exists>e. load toml fs os env uuid p = Inl e) \<longleftrightarrow>
     (\<exists>q. p = Some q \<and> fs_exists fs q \<and>
       (case fs_read_to_string fs q of Inl _ \<Rightarrow> True | Inr content \<Rightarrow> (\<exists>e. toml content = Inl e)))"
  by (auto simp: load_def from_file_def split: option.splits sum.splits)

end
