(* ===== verification/Discovery.thy ===== *)
theory Discovery
  imports Identity Peer_Cache Config_Model
begin

text \<open>
  \<^verbatim>\<open>crates/omnimesh-discovery/src/key_conv.rs\<close> and \<^verbatim>\<open>service.rs\<close>: conversions between OmniMesh and
  libp2p identities, conversions between socket addresses and multiaddresses, and the background
  task that turns discovery events into cache entries. The libp2p swarm is outside the model: its
  events are the input of the task and the calls made to it are logged. The key codec of libp2p is a
  parameter with the contract \<open>libp2p_identity\<close>. All clock readings during one event are one instant.
\<close>

section \<open>Identities\<close>

text \<open>A libp2p peer identifier is a multihash; code 0 is the identity hash.\<close>

record Multihash =
  mh_code :: u64
  mh_digest :: bytes

datatype libp2p_key = Ed25519Key bytes | OtherKey bytes

record libp2p_codec =
  ed_keypair_decode :: "bytes \<Rightarrow> string + bytes"
  ed_public_decode :: "bytes \<Rightarrow> string + bytes"
  peer_id_of_key :: "libp2p_key \<Rightarrow> Multihash"
  protobuf_decode :: "bytes \<Rightarrow> string + libp2p_key"

definition to_libp2p_keypair :: "libp2p_codec \<Rightarrow> ed25519 \<Rightarrow> Keypair \<Rightarrow> bytes result" where
  "to_libp2p_keypair lib ed kp =
     (let raw_bytes = seed kp @ pk_bytes (public_key ed kp)
      in case ed_keypair_decode lib raw_bytes of
           Inl e \<Rightarrow> Inl (Identity (''failed to decode libp2p ed25519 keypair: '' @ e))
         | Inr k \<Rightarrow> Inr k)"

definition to_libp2p_peer_id :: "libp2p_codec \<Rightarrow> PeerId \<Rightarrow> Multihash result" where
  "to_libp2p_peer_id lib p =
     (case ed_public_decode lib (as_bytes p) of
        Inl e \<Rightarrow> Inl (Identity (''invalid ed25519 public key bytes: '' @ e))
      | Inr k \<Rightarrow> Inr (peer_id_of_key lib (Ed25519Key k)))"

definition from_libp2p_peer_id :: "libp2p_codec \<Rightarrow> Multihash \<Rightarrow> PeerId result" where
  "from_libp2p_peer_id lib mh =
     (if mh_code mh \<noteq> 0
      then Inl (Identity (''cannot extract public key from non-identity libp2p PeerId (code: '' @
             show_nat (unat (mh_code mh)) @ '')''))
      else case protobuf_decode lib (mh_digest mh) of
             Inl e \<Rightarrow> Inl (Identity (''failed to decode libp2p public key protobuf: '' @ e))
           | Inr (OtherKey _) \<Rightarrow> Inl (Identity ''libp2p public key is not Ed25519'')
           | Inr (Ed25519Key k) \<Rightarrow> Inr (from_bytes k))"

locale libp2p_identity =
  fixes lib :: libp2p_codec
  assumes public_decode: "ed_public_decode lib bs = Inr k \<Longrightarrow> k = bs"
    and identity_hash: "length k = 32 \<Longrightarrow> mh_code (peer_id_of_key lib (Ed25519Key k)) = 0"
    and digest_decode: "length k = 32 \<Longrightarrow> protobuf_decode lib (mh_digest (peer_id_of_key lib (Ed25519Key k))) = Inr (Ed25519Key k)"
begin

lemma peer_id_round_trip:
  "peer_wf p \<Longrightarrow> to_libp2p_peer_id lib p = Inr m \<Longrightarrow> from_libp2p_peer_id lib m = Inr p"
  by (auto simp: to_libp2p_peer_id_def from_libp2p_peer_id_def peer_wf_def from_bytes_def identity_hash digest_decode
      dest!: public_decode split: sum.splits)

lemma peer_id_inj:
  "peer_wf p \<Longrightarrow> peer_wf q \<Longrightarrow> to_libp2p_peer_id lib p = Inr m \<Longrightarrow> to_libp2p_peer_id lib q = Inr m \<Longrightarrow> p = q"
  using peer_id_round_trip [of p m] peer_id_round_trip [of q m] by simp

end

text \<open>
  The format of the libp2p specification: an Ed25519 key is the protobuf message \<^verbatim>\<open>08 01 12 20\<close>
  followed by the key, and as it is at most 42 bytes long, its peer identifier is its identity hash.
  Whether 32 bytes are a point of the curve is a test that the codec is given.
\<close>

definition spec_codec :: "(bytes \<Rightarrow> bool) \<Rightarrow> libp2p_codec" where
  "spec_codec on_curve =
     \<lparr>ed_keypair_decode = (\<lambda>bs. if length bs = 64 then Inr bs else Inl ''invalid length''),
      ed_public_decode = (\<lambda>bs. if length bs = 32 \<and> on_curve bs then Inr bs else Inl ''invalid point''),
      peer_id_of_key = (\<lambda>k. case k of
         Ed25519Key bs \<Rightarrow> \<lparr>mh_code = 0, mh_digest = [8, 1, 18, 32] @ bs\<rparr>
       | OtherKey bs \<Rightarrow> \<lparr>mh_code = 18, mh_digest = sha256 bs\<rparr>),
      protobuf_decode = (\<lambda>bs. if take 4 bs = [8, 1, 18, 32] \<and> length bs = 36 then Inr (Ed25519Key (drop 4 bs))
         else Inl ''unknown key'')\<rparr>"

interpretation spec_id: libp2p_identity "spec_codec on_curve"
  by unfold_locales (auto simp: spec_codec_def split: if_splits)

section \<open>Multiaddresses\<close>

datatype Protocol =
  Ip4 bytes | Ip6 bytes | Tcp u16 | Udp u16 | P2p Multihash | OtherProtocol string

type_synonym Multiaddr = "Protocol list"

text \<open>One iteration of the loop over the protocols.\<close>

fun scan_protocol :: "Protocol \<Rightarrow> IpAddr option \<times> u16 option \<Rightarrow> IpAddr option \<times> u16 option" where
  "scan_protocol (Ip4 a) (ip, port) = (Some (V4 a), port)"
| "scan_protocol (Ip6 a) (ip, port) = (Some (V6 a), port)"
| "scan_protocol (Tcp p) (ip, port) = (ip, Some p)"
| "scan_protocol (Udp p) (ip, port) = (ip, Some p)"
| "scan_protocol _ (ip, port) = (ip, port)"

definition multiaddr_to_socket_addr :: "Multiaddr \<Rightarrow> SocketAddr option" where
  "multiaddr_to_socket_addr ma =
     (case fold scan_protocol ma (None, None) of
        (Some ip, Some port) \<Rightarrow> Some (socket_addr_new ip port)
      | _ \<Rightarrow> None)"

definition socket_addr_to_multiaddr :: "SocketAddr \<Rightarrow> Multiaddr" where
  "socket_addr_to_multiaddr addr =
     [case socket_ip addr of V4 a \<Rightarrow> Ip4 a | V6 a \<Rightarrow> Ip6 a, Udp (socket_port addr)]"

lemma multiaddr_round_trip:
  "multiaddr_to_socket_addr (socket_addr_to_multiaddr addr) = Some (socket_addr_new (socket_ip addr) (socket_port addr))"
  by (cases addr) (simp_all add: multiaddr_to_socket_addr_def socket_addr_to_multiaddr_def)

text \<open>The converter does not distinguish a TCP port from a UDP port.\<close>

lemma tcp_as_udp: "multiaddr_to_socket_addr [Ip4 a, Tcp p] = multiaddr_to_socket_addr [Ip4 a, Udp p]"
  by (simp add: multiaddr_to_socket_addr_def)

section \<open>The background task\<close>

datatype DiscoveryCommand = Bootstrap | RegisterLocalAddr SocketAddr

datatype swarm_call =
  ListenOn Multiaddr | KadAddAddress Multihash Multiaddr | KadBootstrap | Dial Multihash | AddExternalAddress Multiaddr

datatype discovery_event =
    PruneTick
  | Command "DiscoveryCommand option"
  | MdnsDiscovered "(Multihash \<times> Multiaddr) list"
  | IdentifyReceived Multihash "Multiaddr list"
  | KadClosestPeers "(Multihash \<times> Multiaddr list) list"
  | OtherSwarmEvent

record discovery =
  d_cache :: peer_cache
  d_calls :: "swarm_call list"

text \<open>The nested \<^verbatim>\<open>if let\<close> that all three event handlers share.\<close>

definition cache_announced :: "libp2p_codec \<Rightarrow> instant \<Rightarrow> Multihash \<Rightarrow> Multiaddr \<Rightarrow> peer_cache \<Rightarrow> peer_cache" where
  "cache_announced lib now peer ma c =
     (case multiaddr_to_socket_addr ma of
        None \<Rightarrow> c
      | Some addr \<Rightarrow>
          (case from_libp2p_peer_id lib peer of
             Inl _ \<Rightarrow> c
           | Inr omni_peer_id \<Rightarrow> cache_insert now omni_peer_id addr c))"

fun discovery_step :: "libp2p_codec \<Rightarrow> instant \<times> discovery_event \<Rightarrow> discovery \<Rightarrow> discovery" where
  "discovery_step lib (now, PruneTick) d = d\<lparr>d_cache := prune now (d_cache d)\<rparr>"
| "discovery_step lib (now, Command (Some Bootstrap)) d = d\<lparr>d_calls := d_calls d @ [KadBootstrap]\<rparr>"
| "discovery_step lib (now, Command (Some (RegisterLocalAddr addr))) d =
     d\<lparr>d_calls := d_calls d @ [AddExternalAddress (socket_addr_to_multiaddr addr)]\<rparr>"
| "discovery_step lib (now, Command None) d = d"
| "discovery_step lib (now, MdnsDiscovered l) d =
     fold (\<lambda>(peer, ma) d. d\<lparr>d_calls := d_calls d @ [KadAddAddress peer ma, Dial peer],
                             d_cache := cache_announced lib now peer ma (d_cache d)\<rparr>) l d"
| "discovery_step lib (now, IdentifyReceived peer addrs) d =
     fold (\<lambda>ma d. d\<lparr>d_calls := d_calls d @ [KadAddAddress peer ma],
                     d_cache := cache_announced lib now peer ma (d_cache d)\<rparr>) addrs d"
| "discovery_step lib (now, KadClosestPeers peers) d =
     fold (\<lambda>(peer, addrs) d. fold (\<lambda>ma d. d\<lparr>d_cache := cache_announced lib now peer ma (d_cache d)\<rparr>) addrs d) peers d"
| "discovery_step lib (now, OtherSwarmEvent) d = d"

text \<open>The bootstrap nodes of the configuration: those that parse and end in a peer identifier.\<close>

definition seed_bootstrap :: "(string \<Rightarrow> Multiaddr option) \<Rightarrow> Config \<Rightarrow> swarm_call list" where
  "seed_bootstrap parse_multiaddr config =
     concat (map (\<lambda>s. case parse_multiaddr s of
                        None \<Rightarrow> []
                      | Some ma \<Rightarrow>
                          (if ma = [] then []
                           else case last ma of P2p peer \<Rightarrow> [KadAddAddress peer ma] | _ \<Rightarrow> []))
       (bootstrap_nodes (cfg_transport config)))"

section \<open>What the task puts into the cache\<close>

fun announces :: "discovery_event \<Rightarrow> (Multihash \<times> Multiaddr) list" where
  "announces (MdnsDiscovered l) = l"
| "announces (IdentifyReceived peer addrs) = map (\<lambda>ma. (peer, ma)) addrs"
| "announces (KadClosestPeers peers) = concat (map (\<lambda>(peer, addrs). map (\<lambda>ma. (peer, ma)) addrs) peers)"
| "announces _ = []"

definition cache_all :: "libp2p_codec \<Rightarrow> instant \<Rightarrow> (Multihash \<times> Multiaddr) list \<Rightarrow> peer_cache \<Rightarrow> peer_cache" where
  "cache_all lib now l c = fold (\<lambda>(peer, ma). cache_announced lib now peer ma) l c"

lemma cache_all_append: "cache_all lib now (xs @ ys) c = cache_all lib now ys (cache_all lib now xs c)"
  by (simp add: cache_all_def)

lemma mdns_cache:
  "d_cache (fold (\<lambda>(peer, ma) d. d\<lparr>d_calls := d_calls d @ [KadAddAddress peer ma, Dial peer],
      d_cache := cache_announced lib now peer ma (d_cache d)\<rparr>) l d) = cache_all lib now l (d_cache d)"
  by (induction l arbitrary: d) (auto simp: cache_all_def)

lemma identify_cache:
  "d_cache (fold (\<lambda>ma d. d\<lparr>d_calls := d_calls d @ [KadAddAddress peer ma],
      d_cache := cache_announced lib now peer ma (d_cache d)\<rparr>) addrs d) =
   cache_all lib now (map (\<lambda>ma. (peer, ma)) addrs) (d_cache d)"
  by (induction addrs arbitrary: d) (auto simp: cache_all_def)

lemma closest_cache_one:
  "d_cache (fold (\<lambda>ma d. d\<lparr>d_cache := cache_announced lib now peer ma (d_cache d)\<rparr>) addrs d) =
   cache_all lib now (map (\<lambda>ma. (peer, ma)) addrs) (d_cache d)"
  by (induction addrs arbitrary: d) (auto simp: cache_all_def)

lemma closest_cache:
  "d_cache (fold (\<lambda>(peer, addrs) d. fold (\<lambda>ma d. d\<lparr>d_cache := cache_announced lib now peer ma (d_cache d)\<rparr>) addrs d) peers d) =
   cache_all lib now (announces (KadClosestPeers peers)) (d_cache d)"
  by (induction peers arbitrary: d) (auto simp: cache_all_append closest_cache_one cache_all_def [of _ _ "[]"])

lemma discovery_step_cache:
  "d_cache (discovery_step lib (now, ev) d) =
     (if ev = PruneTick then prune now (d_cache d) else cache_all lib now (announces ev) (d_cache d))"
  by (cases "(lib, (now, ev), d)" rule: discovery_step.cases)
    (auto simp: mdns_cache identify_cache closest_cache cache_all_def [of _ _ "[]"] simp del: announces.simps(3))

definition announced_at :: "libp2p_codec \<Rightarrow> (instant \<times> discovery_event) list \<Rightarrow> PeerId \<Rightarrow> SocketAddr \<Rightarrow> instant \<Rightarrow> bool" where
  "announced_at lib evs p a t \<longleftrightarrow>
     (\<exists>ev peer ma. (t, ev) \<in> set evs \<and> (peer, ma) \<in> set (announces ev) \<and>
        multiaddr_to_socket_addr ma = Some a \<and> from_libp2p_peer_id lib peer = Inr p)"

definition cache_sound :: "libp2p_codec \<Rightarrow> (instant \<times> discovery_event) list \<Rightarrow> peer_cache \<Rightarrow> bool" where
  "cache_sound lib evs c \<longleftrightarrow>
     cache_wf c \<and> (\<forall>p a e. expiry c p a = Some e \<longrightarrow> (\<exists>t. announced_at lib evs p a t \<and> e = t + DEFAULT_TTL))"

lemma expiry_prune: "cache_wf c \<Longrightarrow> expiry (prune now c) p a = Some e \<Longrightarrow> expiry c p a = Some e"
proof -
  assume wf: "cache_wf c" and e: "expiry (prune now c) p a = Some e"
  from e obtain l where l: "(p, l) \<in> set (prune now c)" "map_of (map (\<lambda>x. (ca_addr x, expires_at x)) l) a = Some e"
    by (auto simp: expiry_def split: option.splits dest: map_of_SomeD)
  then obtain l0 where l0: "(p, l0) \<in> set c" "l = filter (\<lambda>x. now < expires_at x) l0" by (auto simp: prune_def)
  have m: "map_of c p = Some l0" using l0 wf by (simp add: cache_wf_def)
  have "(a, e) \<in> set (map (\<lambda>x. (ca_addr x, expires_at x)) l0)" using l(2) l0(2) by (auto dest!: map_of_SomeD)
  moreover have "distinct (map fst (map (\<lambda>x. (ca_addr x, expires_at x)) l0))"
    using cache_wfD [OF wf m] by (simp add: comp_def)
  ultimately show ?thesis using m by (simp add: expiry_def)
qed

lemma cache_sound_prune: "cache_sound lib evs c \<Longrightarrow> cache_sound lib evs (prune now c)"
  by (auto simp: cache_sound_def cache_wf_prune dest: expiry_prune)

lemma cache_sound_all:
  "cache_sound lib evs c \<Longrightarrow> (now, ev) \<in> set evs \<Longrightarrow> set l \<subseteq> set (announces ev) \<Longrightarrow>
     cache_sound lib evs (cache_all lib now l c)"
proof (induction l arbitrary: c)
  case Nil
  then show ?case by (simp add: cache_all_def)
next
  case (Cons x l)
  obtain peer ma where x: "x = (peer, ma)" by (cases x)
  have "cache_sound lib evs (cache_announced lib now peer ma c)"
  proof (cases "multiaddr_to_socket_addr ma")
    case None
    with Cons.prems show ?thesis by (simp add: cache_announced_def)
  next
    case (Some a)
    show ?thesis
    proof (cases "from_libp2p_peer_id lib peer")
      case (Inl e)
      with Some Cons.prems show ?thesis by (simp add: cache_announced_def)
    next
      case (Inr p)
      have "announced_at lib evs p a now" using Some Inr Cons.prems x by (auto simp: announced_at_def)
      with Some Inr Cons.prems show ?thesis
        by (auto simp: cache_announced_def cache_sound_def cache_insert_def cache_wf_insert expiry_insert split: if_splits)
    qed
  qed
  with Cons.IH Cons.prems x show ?case by (simp add: cache_all_def)
qed

lemma cache_sound_mono: "cache_sound lib evs c \<Longrightarrow> set evs \<subseteq> set evs' \<Longrightarrow> cache_sound lib evs' c"
  unfolding cache_sound_def announced_at_def by blast

lemma discovery_run_sound:
  "cache_sound lib evs0 (d_cache d) \<Longrightarrow>
     cache_sound lib (evs0 @ evs) (d_cache (fold (discovery_step lib) evs d))"
proof (induction evs arbitrary: evs0 d)
  case Nil
  then show ?case by simp
next
  case (Cons e evs)
  obtain now ev where e: "e = (now, ev)" by (cases e)
  have "cache_sound lib (evs0 @ [e]) (d_cache (discovery_step lib e d))"
    unfolding e discovery_step_cache
    using cache_sound_mono [OF Cons.prems, of "evs0 @ [(now, ev)]"]
    by (auto intro!: cache_sound_prune cache_sound_all [where ev = ev])
  from Cons.IH [OF this] show ?case by simp
qed

section \<open>Properties\<close>

text \<open>
  C20. Soundness of discovery: every address that a lookup of the cache gives for a peer was announced
  for that very peer by an event the task processed, less than the 30-minute lifetime ago.
\<close>

theorem discovery_sound:
  assumes "a \<in> set (lookup t p (d_cache (fold (discovery_step lib) evs \<lparr>d_cache = cache_new, d_calls = calls\<rparr>)))"
  shows "\<exists>t0. announced_at lib evs p a t0 \<and> t < t0 + DEFAULT_TTL"
proof -
  have "cache_sound lib [] cache_new" by (simp add: cache_sound_def) (simp add: expiry_def cache_new_def)
  then have "cache_sound lib evs (d_cache (fold (discovery_step lib) evs \<lparr>d_cache = cache_new, d_calls = calls\<rparr>))"
    using discovery_run_sound [of lib "[]" "\<lparr>d_cache = cache_new, d_calls = calls\<rparr>" evs] by simp
  with assms show ?thesis unfolding cache_sound_def by (auto simp: in_lookup_iff) (metis)
qed

theorem discovery_sound_witness:
  "\<exists>t0. announced_at (spec_codec (\<lambda>_. True))
      [(5, MdnsDiscovered [(\<lparr>mh_code = 0, mh_digest = [8, 1, 18, 32] @ replicate 32 7\<rparr>, [Ip4 [10, 0, 0, 1], Udp 4433])])]
      (PeerId (replicate 32 7)) (SocketAddrV4 [10, 0, 0, 1] 4433) t0 \<and> 6 < t0 + DEFAULT_TTL"
  by (rule discovery_sound [where calls = "[]"])
    (simp add: cache_announced_def multiaddr_to_socket_addr_def from_libp2p_peer_id_def spec_codec_def from_bytes_def
      cache_insert_def insert_with_ttl_def lookup_def cache_new_def active_def DEFAULT_TTL_def Let_def)

text \<open>
  Peer identifiers survive the conversion to libp2p and back, so no two valid identifiers become
  one libp2p peer.
\<close>

lemma libp2p_peer_id_round_trip:
  assumes "libp2p_identity lib" "peer_wf p" "to_libp2p_peer_id lib p = Inr m"
  shows "from_libp2p_peer_id lib m = Inr p \<and>
    (\<forall>q. peer_wf q \<longrightarrow> to_libp2p_peer_id lib q = Inr m \<longrightarrow> q = p)"
  using libp2p_identity.peer_id_round_trip [OF assms] libp2p_identity.peer_id_inj [OF assms(1) _ assms(2) _ assms(3)]
  by blast

end
