(* ===== verification/Endpoints.thy ===== *)
theory Endpoints
  imports Quic_Conn Mock_Net Discovery
begin

text \<open>
  The endpoints a node opens when it starts: \<^verbatim>\<open>QuicTransport\<close> of
  \<^verbatim>\<open>crates/omnimesh-transport/src/quic.rs\<close> and the handle \<^verbatim>\<open>DiscoveryService\<close> of
  \<^verbatim>\<open>crates/omnimesh-discovery/src/service.rs\<close>. The quinn endpoints, the generation of certificates and the
  libp2p swarm are parameters.
\<close>

section \<open>The QUIC transport\<close>

text \<open>
  The client side accepts every certificate: \<open>tls_verifier\<close> is the trait \<^verbatim>\<open>ServerCertVerifier\<close> of rustls, whose
  arguments are a certificate chain with the server's name, or a signed message.
\<close>

datatype SignatureScheme =
  ECDSA_NISTP256_SHA256 | ECDSA_NISTP384_SHA384 | RSA_PSS_SHA256 | RSA_PSS_SHA384 | RSA_PSS_SHA512 | ED25519

record tls_verifier =
  verify_server_cert :: "bytes \<Rightarrow> bytes list \<Rightarrow> string \<Rightarrow> bytes \<Rightarrow> nat \<Rightarrow> string + unit"
  verify_tls12_signature :: "bytes \<Rightarrow> bytes \<Rightarrow> bytes \<Rightarrow> string + unit"
  verify_tls13_signature :: "bytes \<Rightarrow> bytes \<Rightarrow> bytes \<Rightarrow> string + unit"
  supported_verify_schemes :: "SignatureScheme list"

definition SkipServerVerification :: tls_verifier where
  "SkipServerVerification =
     \<lparr>verify_server_cert = (\<lambda>end_entity intermediates server_name ocsp_response now. Inr ()),
      verify_tls12_signature = (\<lambda>message cert dss. Inr ()),
      verify_tls13_signature = (\<lambda>message cert dss. Inr ()),
      supported_verify_schemes =
        [ECDSA_NISTP256_SHA256, ECDSA_NISTP384_SHA384, RSA_PSS_SHA256, RSA_PSS_SHA384, RSA_PSS_SHA512, ED25519]\<rparr>"

record client_config =
  cc_verifier :: tls_verifier
  cc_client_auth :: bool

text \<open>
  \<open>'ep\<close> is quinn's endpoint. Binding and connecting give an error or a result; accepting may wait and
  gives nothing when the endpoint is closed.
\<close>

record 'ep quinn =
  rcgen_cert :: "string + unit"
  rustls_key :: "string + unit"
  server_config_new :: "string + unit"
  client_config_new :: "string + unit"
  endpoint_server :: "SocketAddr \<Rightarrow> string + 'ep"
  endpoint_client :: "SocketAddr \<Rightarrow> string + 'ep"
  endpoint_local_addr :: "'ep \<Rightarrow> string + SocketAddr"
  endpoint_accept :: "'ep \<Rightarrow> (string + QuicConnection) option async"
  endpoint_connect :: "client_config \<Rightarrow> 'ep \<Rightarrow> SocketAddr \<Rightarrow> string + (string + QuicConnection)"

record 'ep QuicTransport =
  qt_endpoint :: "'ep option"
  qt_local_addr :: "SocketAddr option"

definition quic_new :: "'ep QuicTransport" where
  "quic_new = \<lparr>qt_endpoint = None, qt_local_addr = None\<rparr>"

definition make_server_config :: "'ep quinn \<Rightarrow> unit result" where
  "make_server_config q =
     (case rcgen_cert q of
        Inl e \<Rightarrow> Inl (Transport (''cert generation: '' @ e))
      | Inr _ \<Rightarrow>
     (case rustls_key q of
        Inl e \<Rightarrow> Inl (Transport (''key serialization: '' @ e))
      | Inr _ \<Rightarrow>
     (case server_config_new q of
        Inl e \<Rightarrow> Inl (Transport (''server config: '' @ e))
      | Inr _ \<Rightarrow> Inr ())))"

text \<open>A configuration that rustls refuses is a panic (\<open>None\<close>).\<close>

definition make_client_config :: "'ep quinn \<Rightarrow> client_config option" where
  "make_client_config q =
     (case client_config_new q of
        Inl _ \<Rightarrow> None
      | Inr _ \<Rightarrow> Some \<lparr>cc_verifier = SkipServerVerification, cc_client_auth = False\<rparr>)"

definition quic_listen :: "'ep quinn \<Rightarrow> 'ep QuicTransport \<Rightarrow> SocketAddr \<Rightarrow> unit result \<times> 'ep QuicTransport" where
  "quic_listen q t addr =
     (case make_server_config q of
        Inl e \<Rightarrow> (Inl e, t)
      | Inr _ \<Rightarrow>
     (case endpoint_server q addr of
        Inl e \<Rightarrow> (Inl (Transport (''bind failed: '' @ e)), t)
      | Inr endpoint \<Rightarrow>
     (case endpoint_local_addr q endpoint of
        Inl e \<Rightarrow> (Inl (Transport (''local addr: '' @ e)), t)
      | Inr local \<Rightarrow> (Inr (), t\<lparr>qt_endpoint := Some endpoint, qt_local_addr := Some local\<rparr>))))"

text \<open>The connection that quinn gives is wrapped with its streams closed.\<close>

definition quic_wrap :: "QuicConnection \<Rightarrow> QuicConnection" where
  "quic_wrap c = c\<lparr>q_connected := True, q_send_stream := False, q_recv_stream := False\<rparr>"

definition quic_accept :: "'ep quinn \<Rightarrow> 'ep QuicTransport \<Rightarrow> QuicConnection result async" where
  "quic_accept q t =
     (case qt_endpoint t of
        None \<Rightarrow> Ready (Inl (Transport ''not listening''))
      | Some endpoint \<Rightarrow>
     (case endpoint_accept q endpoint of
        Blocked \<Rightarrow> Blocked
      | Ready None \<Rightarrow> Ready (Inl (Transport ''endpoint closed''))
      | Ready (Some (Inl e)) \<Rightarrow> Ready (Inl (Connection (''accept failed: '' @ e)))
      | Ready (Some (Inr connection)) \<Rightarrow> Ready (Inr (quic_wrap connection))))"

definition any_addr :: SocketAddr where
  "any_addr = SocketAddrV4 [0, 0, 0, 0] 0"

definition quic_connect :: "'ep quinn \<Rightarrow> SocketAddr \<Rightarrow> 'ep QuicTransport \<Rightarrow> QuicConnection outcome \<times> 'ep QuicTransport" where
  "quic_connect q addr t =
     (case (case qt_endpoint t of
              Some ep \<Rightarrow> Inr (ep, t)
            | None \<Rightarrow>
                (case endpoint_client q any_addr of
                   Inl e \<Rightarrow> Inl e
                 | Inr ep \<Rightarrow> Inr (ep, t\<lparr>qt_endpoint := Some ep\<rparr>))) of
        Inl e \<Rightarrow> (Returned (Inl (Transport (''client bind: '' @ e))), t)
      | Inr (endpoint, t) \<Rightarrow>
          (case make_client_config q of
             None \<Rightarrow> (Panicked, t)
           | Some config \<Rightarrow>
               (case endpoint_connect q config endpoint addr of
                  Inl e \<Rightarrow> (Returned (Inl (Connection (''connect init: '' @ e))), t)
                | Inr (Inl e) \<Rightarrow> (Returned (Inl (Connection (''connect failed: '' @ e))), t)
                | Inr (Inr connection) \<Rightarrow> (Returned (Inr (quic_wrap connection)), t))))"

definition quic_shutdown :: "'ep QuicTransport \<Rightarrow> unit result \<times> 'ep QuicTransport" where
  "quic_shutdown t = (Inr (), t\<lparr>qt_endpoint := None, qt_local_addr := None\<rparr>)"

text \<open>
  The life of the transport: an address is reported exactly between a successful \<open>quic_listen\<close> and a
  shutdown, and while one is reported there is an endpoint to accept on.
\<close>

datatype quic_op = Q_Listen SocketAddr | Q_Connect SocketAddr | Q_Shutdown

fun quic_op_step :: "'ep quinn \<Rightarrow> quic_op \<Rightarrow> 'ep QuicTransport \<Rightarrow> 'ep QuicTransport" where
  "quic_op_step q (Q_Listen a) t = snd (quic_listen q t a)"
| "quic_op_step q (Q_Connect a) t = snd (quic_connect q a t)"
| "quic_op_step q Q_Shutdown t = snd (quic_shutdown t)"

definition quic_wf :: "'ep quinn \<Rightarrow> 'ep QuicTransport \<Rightarrow> bool" where
  "quic_wf q t \<longleftrightarrow>
     (case qt_local_addr t of
        None \<Rightarrow> True
      | Some a \<Rightarrow> (\<exists>ep. qt_endpoint t = Some ep \<and> endpoint_local_addr q ep = Inr a))"

lemma quic_op_wf: "quic_wf q t \<Longrightarrow> quic_wf q (quic_op_step q op t)"
  by (cases op) (auto simp: quic_wf_def quic_listen_def quic_connect_def quic_shutdown_def split: sum.splits option.splits)

lemma quic_life: "quic_wf q (fold (quic_op_step q) ops quic_new)"
proof -
  have "quic_wf q t \<Longrightarrow> quic_wf q (fold (quic_op_step q) ops t)" for t
    by (induction ops arbitrary: t) (simp_all add: quic_op_wf)
  then show ?thesis by (simp add: quic_wf_def quic_new_def)
qed

lemma quic_reports_address:
  "quic_listen q t addr = (Inr (), t') \<Longrightarrow> \<exists>ep a. endpoint_server q addr = Inr ep \<and> endpoint_local_addr q ep = Inr a \<and> qt_local_addr t' = Some a"
  by (auto simp: quic_listen_def split: sum.splits)

text \<open>
  A transport that was shut down can still connect: it opens an endpoint of its own for it.
\<close>

lemma quic_connects_closed:
  assumes "endpoint_client q any_addr = Inr ep" "client_config_new q = Inr ()"
    and "\<And>config. endpoint_connect q config ep addr = Inr (Inr c)"
  shows "quic_connect q addr (snd (quic_shutdown t)) = (Returned (Inr (quic_wrap c)), \<lparr>qt_endpoint = Some ep, qt_local_addr = None\<rparr>)"
  using assms by (cases t) (simp add: quic_connect_def quic_shutdown_def make_client_config_def)

lemma quic_closed: "quic_accept q (snd (quic_shutdown t)) = Ready (Inl (Transport ''not listening''))"
  by (simp add: quic_accept_def quic_shutdown_def)

section \<open>The discovery service\<close>

text \<open>The swarm's construction may fail at three points; parsing the listening address cannot.\<close>

record swarm_faults =
  tcp_fault :: "string option"
  behaviour_fault :: "string option"
  listen_fault :: "string option"

record DiscoveryService =
  ds_task :: discovery
  ds_queue :: "DiscoveryCommand list"

definition CMD_CAPACITY :: nat where "CMD_CAPACITY = 64"

definition discovery_service_new ::
  "libp2p_codec \<Rightarrow> ed25519 \<Rightarrow> (string \<Rightarrow> Multiaddr option) \<Rightarrow> swarm_faults \<Rightarrow> Config \<Rightarrow> Keypair \<Rightarrow> u16 \<Rightarrow> DiscoveryService result" where
  "discovery_service_new lib ed parse_multiaddr faults config keypair port =
     (case to_libp2p_keypair lib ed keypair of
        Inl e \<Rightarrow> Inl e
      | Inr _ \<Rightarrow>
     (case tcp_fault faults of
        Some e \<Rightarrow> Inl (Discovery (''failed to configure TCP transport: '' @ e))
      | None \<Rightarrow>
     (case behaviour_fault faults of
        Some e \<Rightarrow> Inl (Discovery (''failed to construct behaviour: '' @ e))
      | None \<Rightarrow>
     (case listen_fault faults of
        Some e \<Rightarrow> Inl (Discovery (''failed to listen on discovery port: '' @ e))
      | None \<Rightarrow>
          Inr \<lparr>ds_task = \<lparr>d_cache = cache_new, d_calls = ListenOn [Ip4 [0, 0, 0, 0], Tcp port] # seed_bootstrap parse_multiaddr config\<rparr>,
               ds_queue = [Bootstrap]\<rparr>))))"

text \<open>
  A command waits while the channel is full. The task ends only when the service is dropped, so its end
  of the channel is open as long as there is a handle.
\<close>

definition discovery_command :: "DiscoveryCommand \<Rightarrow> DiscoveryService \<Rightarrow> unit result async \<times> DiscoveryService" where
  "discovery_command cmd s =
     (if length (ds_queue s) < CMD_CAPACITY then (Ready (Inr ()), s\<lparr>ds_queue := ds_queue s @ [cmd]\<rparr>) else (Blocked, s))"

definition discovery_lookup :: "instant \<Rightarrow> PeerId \<Rightarrow> DiscoveryService \<Rightarrow> SocketAddr list" where
  "discovery_lookup now peer_id s = lookup now peer_id (d_cache (ds_task s))"

definition discovery_all_peers :: "instant \<Rightarrow> DiscoveryService \<Rightarrow> (PeerId \<times> SocketAddr list) list" where
  "discovery_all_peers now s = all_peers now (d_cache (ds_task s))"

definition bootstrap :: "DiscoveryService \<Rightarrow> unit result async \<times> DiscoveryService" where
  "bootstrap = discovery_command Bootstrap"

definition register_local_address :: "SocketAddr \<Rightarrow> DiscoveryService \<Rightarrow> unit result async \<times> DiscoveryService" where
  "register_local_address addr = discovery_command (RegisterLocalAddr addr)"

text \<open>A turn of the task on its command channel.\<close>

definition command_turn :: "libp2p_codec \<Rightarrow> instant \<Rightarrow> DiscoveryService \<Rightarrow> DiscoveryService" where
  "command_turn lib now s =
     (case ds_queue s of
        [] \<Rightarrow> s
      | cmd # rest \<Rightarrow> s\<lparr>ds_task := discovery_step lib (now, Command (Some cmd)) (ds_task s), ds_queue := rest\<rparr>)"

definition call_of :: "DiscoveryCommand \<Rightarrow> swarm_call" where
  "call_of cmd = (case cmd of Bootstrap \<Rightarrow> KadBootstrap | RegisterLocalAddr a \<Rightarrow> AddExternalAddress (socket_addr_to_multiaddr a))"

text \<open>Commands reach the swarm in the order given, and none is lost.\<close>

lemma commands_reach_swarm:
  "(command_turn lib now ^^ length (ds_queue s)) s =
     s\<lparr>ds_task := (ds_task s)\<lparr>d_calls := d_calls (ds_task s) @ map call_of (ds_queue s)\<rparr>, ds_queue := []\<rparr>"
proof (induction "ds_queue s" arbitrary: s)
  case Nil
  then show ?case by simp
next
  case (Cons cmd rest)
  let ?s = "command_turn lib now s"
  have s: "ds_queue s = cmd # rest" using Cons.hyps(2) by simp
  then have t: "?s = s\<lparr>ds_task := (ds_task s)\<lparr>d_calls := d_calls (ds_task s) @ [call_of cmd]\<rparr>, ds_queue := rest\<rparr>"
    by (cases cmd) (simp_all add: command_turn_def call_of_def)
  with Cons.hyps(1) [of ?s] s show ?case by (simp add: funpow_Suc_right del: funpow.simps)
qed

end
