(* ===== verification/Dyn_Layer.thy ===== *)
theory Dyn_Layer
  imports Endpoints
begin

text \<open>
  The object-safe wrappers \<^verbatim>\<open>DynConnection\<close> and \<^verbatim>\<open>DynTransport\<close> of \<^verbatim>\<open>crates/omnimesh-sdk/src/lib.rs\<close>, through
  which a node uses its transport and its connections. A boxed value is one of the two implementations of
  the traits; the mock implementation works on its shared world, the QUIC one on quinn's endpoints. What a
  connection promises is kept behind the box.
\<close>

section \<open>Boxed connections\<close>

datatype dyn_conn = Dyn_Mock MockConnection | Dyn_Quic QuicConnection

fun dyn_send :: "quinn_faults \<Rightarrow> bytes \<Rightarrow> dyn_conn \<Rightarrow> mock_world \<Rightarrow> unit result async \<times> dyn_conn \<times> mock_world" where
  "dyn_send faults data (Dyn_Mock c) w = (case mock_send data c w of (r, w) \<Rightarrow> (r, Dyn_Mock c, w))"
| "dyn_send faults data (Dyn_Quic c) w = (case quic_send faults data c of (r, c) \<Rightarrow> (Ready r, Dyn_Quic c, w))"

fun dyn_recv :: "quinn_faults \<Rightarrow> dyn_conn \<Rightarrow> mock_world \<Rightarrow> bytes option result async \<times> dyn_conn \<times> mock_world" where
  "dyn_recv faults (Dyn_Mock c) w = (case mock_recv c w of (r, w) \<Rightarrow> (r, Dyn_Mock c, w))"
| "dyn_recv faults (Dyn_Quic c) w = (case quic_recv faults c of (r, c) \<Rightarrow> (r, Dyn_Quic c, w))"

fun dyn_close :: "dyn_conn \<Rightarrow> unit result \<times> dyn_conn" where
  "dyn_close (Dyn_Mock c) = map_prod id Dyn_Mock (mock_close c)"
| "dyn_close (Dyn_Quic c) = map_prod id Dyn_Quic (quic_close c)"

text \<open>\<open>remote\<close> and \<open>reason\<close> are what quinn reports of a connection.\<close>

fun dyn_remote_addr :: "(QuicConnection \<Rightarrow> SocketAddr) \<Rightarrow> dyn_conn \<Rightarrow> SocketAddr" where
  "dyn_remote_addr remote (Dyn_Mock c) = mc_remote_addr c"
| "dyn_remote_addr remote (Dyn_Quic c) = remote c"

fun dyn_is_connected :: "string option \<Rightarrow> dyn_conn \<Rightarrow> bool" where
  "dyn_is_connected reason (Dyn_Mock c) = mc_connected c"
| "dyn_is_connected reason (Dyn_Quic c) = quic_is_connected reason c"

section \<open>Boxed transports\<close>

datatype 'ep dyn_transport = Dyn_MockT MockTransport | Dyn_QuicT "'ep QuicTransport"

fun dyn_listen :: "'ep quinn \<Rightarrow> SocketAddr \<Rightarrow> 'ep dyn_transport \<Rightarrow> mock_world \<Rightarrow> unit result \<times> 'ep dyn_transport \<times> mock_world" where
  "dyn_listen q addr (Dyn_MockT t) w = (case mock_listen addr t w of (r, t, w) \<Rightarrow> (r, Dyn_MockT t, w))"
| "dyn_listen q addr (Dyn_QuicT t) w = (case quic_listen q t addr of (r, t) \<Rightarrow> (r, Dyn_QuicT t, w))"

fun dyn_accept :: "'ep quinn \<Rightarrow> 'ep dyn_transport \<Rightarrow> mock_world \<Rightarrow> dyn_conn result async \<times> mock_world" where
  "dyn_accept q (Dyn_MockT t) w = (case mock_accept t w of (r, w) \<Rightarrow> (map_async (map_sum id Dyn_Mock) r, w))"
| "dyn_accept q (Dyn_QuicT t) w = (map_async (map_sum id Dyn_Quic) (quic_accept q t), w)"

fun dyn_connect ::
  "'ep quinn \<Rightarrow> SocketAddr \<Rightarrow> 'ep dyn_transport \<Rightarrow> mock_world \<Rightarrow> dyn_conn outcome async \<times> 'ep dyn_transport \<times> mock_world" where
  "dyn_connect q addr (Dyn_MockT t) w =
     (case mock_connect addr t w of (r, w) \<Rightarrow> (map_async (Returned \<circ> map_sum id Dyn_Mock) r, Dyn_MockT t, w))"
| "dyn_connect q addr (Dyn_QuicT t) w =
     (case quic_connect q addr t of (r, t) \<Rightarrow> (Ready (map_outcome Dyn_Quic r), Dyn_QuicT t, w))"

fun dyn_shutdown :: "'ep dyn_transport \<Rightarrow> mock_world \<Rightarrow> unit result \<times> 'ep dyn_transport \<times> mock_world" where
  "dyn_shutdown (Dyn_MockT t) w = (case mock_shutdown t w of (r, t, w) \<Rightarrow> (r, Dyn_MockT t, w))"
| "dyn_shutdown (Dyn_QuicT t) w = (case quic_shutdown t of (r, t) \<Rightarrow> (r, Dyn_QuicT t, w))"

fun dyn_local_addr :: "'ep dyn_transport \<Rightarrow> SocketAddr option" where
  "dyn_local_addr (Dyn_MockT t) = mt_local_addr t"
| "dyn_local_addr (Dyn_QuicT t) = qt_local_addr t"

section \<open>The contract behind the box\<close>

text \<open>
  The two boxed ends of a connection and the world between them. What a QUIC end writes arrives at the
  other end.
\<close>

type_synonym dyn_link = "dyn_conn \<times> dyn_conn \<times> mock_world"

fun arrived :: "dyn_conn \<Rightarrow> dyn_conn \<Rightarrow> dyn_conn \<Rightarrow> dyn_conn" where
  "arrived (Dyn_Quic before) (Dyn_Quic after) (Dyn_Quic d) =
     Dyn_Quic (d\<lparr>q_in := q_in d @ drop (length (q_out before)) (q_out after)\<rparr>)"
| "arrived before after d = d"

definition link_send :: "bytes \<Rightarrow> dyn_link \<Rightarrow> unit result async \<times> dyn_link" where
  "link_send m l =
     (case l of (c, d, w) \<Rightarrow> (case dyn_send no_quinn_faults m c w of (r, c', w) \<Rightarrow> (r, c', arrived c c' d, w)))"

definition link_recv :: "dyn_link \<Rightarrow> bytes option result async \<times> dyn_link" where
  "link_recv l = (case l of (c, d, w) \<Rightarrow> (case dyn_recv no_quinn_faults d w of (r, d, w) \<Rightarrow> (r, c, d, w)))"

fun link_ok :: "dyn_link \<Rightarrow> bool" where
  "link_ok (Dyn_Mock c, Dyn_Mock d, w) = mock_ends c d w"
| "link_ok (Dyn_Quic c, Dyn_Quic d, w) = quic_pair (c, d)"
| "link_ok _ = False"

fun link_transit :: "dyn_link \<Rightarrow> bytes list" where
  "link_transit (Dyn_Mock c, d, w) = pipes w ! mc_tx c"
| "link_transit (c, Dyn_Quic d, w) = deframe (q_in d)"
| "link_transit _ = []"

fun link_full :: "dyn_link \<Rightarrow> bool" where
  "link_full (Dyn_Mock c, d, w) = (256 \<le> length (pipes w ! mc_tx c))"
| "link_full _ = False"

lemma link_quic:
  "link_send m (Dyn_Quic c, Dyn_Quic d, w) =
     (case quic_pair_send m (c, d) of (r, c', d') \<Rightarrow> (r, Dyn_Quic c', Dyn_Quic d', w))"
  "link_recv (Dyn_Quic c, Dyn_Quic d, w) = (case quic_pair_recv (c, d) of (r, c', d') \<Rightarrow> (r, Dyn_Quic c', Dyn_Quic d', w))"
  by (simp_all add: link_send_def link_recv_def quic_pair_send_def quic_pair_recv_def split: prod.splits)

lemma link_mock:
  "link_send m (Dyn_Mock c, Dyn_Mock d, w) = (case mock_send m c w of (r, w') \<Rightarrow> (r, Dyn_Mock c, Dyn_Mock d, w'))"
  "link_recv (Dyn_Mock c, Dyn_Mock d, w) = (case mock_recv d w of (r, w') \<Rightarrow> (r, Dyn_Mock c, Dyn_Mock d, w'))"
  by (simp_all add: link_send_def link_recv_def split: prod.splits)

lemma link_cases:
  assumes "link_ok l"
  obtains (mock) c d w where "l = (Dyn_Mock c, Dyn_Mock d, w)" "mock_ends c d w"
    | (quic) c d w where "l = (Dyn_Quic c, Dyn_Quic d, w)" "quic_pair (c, d)"
  using assms by (cases l rule: link_ok.cases) auto

interpretation boxed: fifo_connection link_send link_recv link_ok link_transit "\<lambda>m. length m < 2 ^ 32" link_full
proof (unfold_locales, goal_cases)
  case (1 l m)
  from 1(1) show ?case
  proof (cases rule: link_cases)
    case (mock c d w)
    with mock.send_room [of c d w m] 1(3) show ?thesis by (auto simp: link_mock)
  next
    case (quic c d w)
    with quic.send_room [of "(c, d)" m] 1(2) show ?thesis by (auto simp: link_quic)
  qed
next
  case (2 l m)
  from 2(1) show ?case by (cases rule: link_cases) (use 2(2) mock.send_full in \<open>auto simp: link_mock\<close>)
next
  case (3 l m q)
  from 3(1) show ?case
  proof (cases rule: link_cases)
    case (mock c d w)
    with mock.recv_some [of c d w m q] 3(2) show ?thesis by (auto simp: link_mock)
  next
    case (quic c d w)
    with quic.recv_some [of "(c, d)" m q] 3(2) show ?thesis by (auto simp: link_quic)
  qed
next
  case (4 l)
  from 4(1) show ?case
  proof (cases rule: link_cases)
    case (mock c d w)
    with mock.recv_none [of c d w] 4(2) show ?thesis by (auto simp: link_mock)
  next
    case (quic c d w)
    with quic.recv_none [of "(c, d)"] 4(2) show ?thesis by (auto simp: link_quic)
  qed
qed

lemma boxed_fifo:
  assumes "link_ok l" "link_transit l = []" "list_all (\<lambda>m. length m < 2 ^ 32) (puts evs)"
  shows "\<not> io_failed (io_run link_send link_recv evs l) \<and>
    io_sent (io_run link_send link_recv evs l) = io_got (io_run link_send link_recv evs l) @ link_transit (io_world (io_run link_send link_recv evs l))"
  using boxed.run_fifo [OF assms] by simp

text \<open>Closing one end of a mock connection is not noticed at the other: it can still send, and its receives wait.\<close>

lemma mock_close_unnoticed:
  assumes "mock_ends d c w" "length (pipes w ! mc_tx d) < 256" "mock_ends c d w" "pipes w ! mc_tx c = []"
  shows "fst (mock_send m d w) = Ready (Inr ()) \<and> fst (mock_recv d w) = Blocked \<and> fst (mock_recv (snd (mock_close c)) w) = Ready (Inr None)"
  using assms by (simp add: mock_ends_def mock_send_def mock_recv_def mock_close_def)

end
