(* ===== verification/Accept_Lock.thy ===== *)
theory Accept_Lock
  imports Main
begin

text \<open>
  The lock around a node's transport (\<^verbatim>\<open>crates/omnimesh-sdk/src/lib.rs\<close>): \<^verbatim>\<open>run_accept_loop\<close> holds it for the
  whole time it waits in \<^verbatim>\<open>accept\<close>, \<^verbatim>\<open>connect_addr\<close> needs it to connect, \<^verbatim>\<open>shutdown\<close> to close the transport.
  The tokio mutex serves its waiters in the order in which they came.
\<close>

section \<open>The lock\<close>

datatype task = Accept_Task | Connect_Call nat | Shutdown_Call

text \<open>
  \<open>holder\<close>: the task with the guard; \<open>waiters\<close>: the tasks in \<^verbatim>\<open>lock().await\<close>; \<open>returned\<close>: the calls that are
  done with the transport; \<open>signalled\<close>: the shutdown signal was sent.
\<close>

record lock_state =
  holder :: "task option"
  waiters :: "task list"
  returned :: "task list"
  signalled :: bool

definition acquire :: "task \<Rightarrow> lock_state \<Rightarrow> lock_state" where
  "acquire t s = (if holder s = None then s\<lparr>holder := Some t\<rparr> else s\<lparr>waiters := waiters s @ [t]\<rparr>)"

definition release :: "lock_state \<Rightarrow> lock_state" where
  "release s =
     (case waiters s of
        [] \<Rightarrow> s\<lparr>holder := None\<rparr>
      | t # ts \<Rightarrow> s\<lparr>holder := Some t, waiters := ts\<rparr>)"

text \<open>A node as \<^verbatim>\<open>build\<close> leaves it, once its accept loop has run.\<close>

definition lock_start :: lock_state where
  "lock_start = acquire Accept_Task \<lparr>holder = None, waiters = [], returned = [], signalled = False\<rparr>"

section \<open>Steps\<close>

datatype lock_event = Call nat | Connected nat | Inbound | Signal | Accept_Stops | Closed

text \<open>
  \<open>Call\<close>, \<open>Connected\<close>: \<^verbatim>\<open>connect_addr\<close> asks for the lock, and has connected and drops it. \<open>Inbound\<close>: a connection is accepted, the
  guard dropped, and the loop locks again. \<open>Signal\<close>: \<^verbatim>\<open>shutdown\<close> sends the signal and asks for the lock;
  \<open>Accept_Stops\<close>: the loop ends on the signal; \<open>Closed\<close>: the transport is shut down.
\<close>

inductive lock_step :: "lock_state \<Rightarrow> lock_event \<Rightarrow> lock_state \<Rightarrow> bool" where
  call: "lock_step s (Call k) (acquire (Connect_Call k) s)"
| connected: "holder s = Some (Connect_Call k) \<Longrightarrow>
    lock_step s (Connected k) (release (s\<lparr>returned := returned s @ [Connect_Call k]\<rparr>))"
| inbound: "holder s = Some Accept_Task \<Longrightarrow> lock_step s Inbound (acquire Accept_Task (release s))"
| signal: "\<not> signalled s \<Longrightarrow> lock_step s Signal (acquire Shutdown_Call (s\<lparr>signalled := True\<rparr>))"
| accept_stops: "holder s = Some Accept_Task \<Longrightarrow> signalled s \<Longrightarrow> lock_step s Accept_Stops (release s)"
| shut: "holder s = Some Shutdown_Call \<Longrightarrow> lock_step s Closed (release (s\<lparr>returned := returned s @ [Shutdown_Call]\<rparr>))"

inductive lock_run :: "lock_state \<Rightarrow> lock_event list \<Rightarrow> lock_state \<Rightarrow> bool" where
  run_nil: "lock_run s [] s"
| run_cons: "lock_step s e s1 \<Longrightarrow> lock_run s1 es s2 \<Longrightarrow> lock_run s (e # es) s2"

inductive_cases lock_stepE: "lock_step s e s'"

lemma lock_fields [simp]:
  "returned (acquire t s) = returned s" "returned (release s) = returned s"
  "signalled (acquire t s) = signalled s" "signalled (release s) = signalled s"
  by (simp_all add: acquire_def release_def split: list.splits)

lemma run_append: "lock_run s es s1 \<Longrightarrow> lock_run s1 fs s2 \<Longrightarrow> lock_run s (es @ fs) s2"
  by (induction rule: lock_run.induct) (auto intro: run_cons)

section \<open>Waiting\<close>

text \<open>While the accept loop waits, other steps than an inbound connection or the signal only add waiters.\<close>

lemma accept_holds:
  assumes "lock_step s e s'" "holder s = Some Accept_Task" "\<not> signalled s" "e \<noteq> Inbound" "e \<noteq> Signal"
  shows "\<exists>k. e = Call k \<and> s' = s\<lparr>waiters := waiters s @ [Connect_Call k]\<rparr>"
  using assms by (elim lock_stepE) (auto simp: acquire_def)

definition calls :: "lock_event list \<Rightarrow> task list" where
  "calls es = concat (map (\<lambda>e. case e of Call k \<Rightarrow> [Connect_Call k] | _ \<Rightarrow> []) es)"

lemma accept_holds_run:
  "lock_run s es s' \<Longrightarrow> holder s = Some Accept_Task \<Longrightarrow> \<not> signalled s \<Longrightarrow> Inbound \<notin> set es \<Longrightarrow> Signal \<notin> set es \<Longrightarrow>
     s' = s\<lparr>waiters := waiters s @ calls es\<rparr>"
proof (induction rule: lock_run.induct)
  case (run_nil s)
  then show ?case by (simp add: calls_def)
next
  case (run_cons s e s1 es s2)
  then obtain k where "e = Call k" "s1 = s\<lparr>waiters := waiters s @ [Connect_Call k]\<rparr>" using accept_holds [of s e s1] by auto
  with run_cons show ?case by (simp add: calls_def)
qed

text \<open>The waiting calls are served in order once the lock is free.\<close>

lemma serve:
  "holder s = Some (Connect_Call k) \<Longrightarrow> waiters s = map Connect_Call ks @ [t] \<Longrightarrow>
     lock_run s (map Connected (k # ks)) (s\<lparr>returned := returned s @ map Connect_Call (k # ks), holder := Some t, waiters := []\<rparr>)"
proof (induction ks arbitrary: k s)
  case Nil
  then show ?case using connected [of s k] by (auto simp: release_def intro: run_cons run_nil)
next
  case (Cons j ks)
  let ?s = "s\<lparr>returned := returned s @ [Connect_Call k], holder := Some (Connect_Call j), waiters := map Connect_Call ks @ [t]\<rparr>"
  have "lock_step s (Connected k) ?s" using connected [OF Cons.prems(1)] Cons.prems(2) by (simp add: release_def)
  moreover have "lock_run ?s (map Connected (j # ks))
      (?s\<lparr>returned := returned ?s @ map Connect_Call (j # ks), holder := Some t, waiters := []\<rparr>)"
    by (rule Cons.IH) simp_all
  ultimately show ?case by (auto intro: run_cons)
qed

section \<open>Properties\<close>



text \<open>A shutdown is not held up: the signal ends the accept loop, and the transport is closed after the calls that wait.\<close>

lemma shutdown_gets_lock:
  assumes "holder s = Some Accept_Task" "\<not> signalled s" "waiters s = []"
  shows "\<exists>s'. lock_run s [Signal, Accept_Stops, Closed] s' \<and> returned s' = returned s @ [Shutdown_Call] \<and> holder s' = None"
proof -
  let ?s1 = "s\<lparr>signalled := True, waiters := [Shutdown_Call]\<rparr>" and ?s2 = "s\<lparr>signalled := True, holder := Some Shutdown_Call, waiters := []\<rparr>"
  have "lock_step s Signal ?s1" using signal [OF assms(2)] assms by (simp add: acquire_def)
  moreover have "lock_step ?s1 Accept_Stops ?s2" using accept_stops [of ?s1] assms by (simp add: release_def)
  moreover have "lock_step ?s2 Closed (?s2\<lparr>returned := returned s @ [Shutdown_Call], holder := None\<rparr>)"
    using shut [of ?s2] assms by (simp add: release_def)
  ultimately have "lock_run s [Signal, Accept_Stops, Closed] (?s2\<lparr>returned := returned s @ [Shutdown_Call], holder := None\<rparr>)"
    by (blast intro: run_cons run_nil)
  then show ?thesis by fastforce
qed

end
