(* ===== verification/Noise.thy ===== *)
theory Noise
  imports Crypto_Ops
begin

text \<open>
  \<^verbatim>\<open>crates/omnimesh-crypto/src/noise.rs\<close>: the wrapper around the \<^verbatim>\<open>snow\<close> crate's Noise sessions. The
  operations of the crate that the wrapper calls are the fields of the record \<open>snow\<close>, an argument of
  the definitions; what the crate documents of a pair of sessions is the contract \<open>snow_xx\<close>, which
  \<open>Noise_Spec\<close> discharges on the Noise protocol's own handshake.
\<close>

section \<open>The snow crate\<close>

datatype Role = Initiator | Responder

text \<open>
  \<open>sn_parse\<close>: \<^verbatim>\<open>str::parse::<NoiseParams>\<close>; \<open>sn_build\<close>: the builder with the static private key and the
  random bytes of the ephemeral key; \<open>sn_write\<close>, \<open>sn_read\<close>, \<open>sn_finished\<close>, \<open>sn_remote_static\<close>,
  \<open>sn_transport\<close>: the methods of \<^verbatim>\<open>HandshakeState\<close>; \<open>sn_seal\<close>, \<open>sn_open\<close>: \<^verbatim>\<open>write_message\<close> and
  \<^verbatim>\<open>read_message\<close> of \<^verbatim>\<open>TransportState\<close>. An error is its display form.
\<close>

record ('hs, 'ts) snow =
  sn_parse :: "string \<Rightarrow> string + string"
  sn_build :: "string \<Rightarrow> Role \<Rightarrow> bytes \<Rightarrow> bytes \<Rightarrow> string + 'hs"
  sn_write :: "bytes \<Rightarrow> 'hs \<Rightarrow> (string + bytes) \<times> 'hs"
  sn_read :: "bytes \<Rightarrow> 'hs \<Rightarrow> (string + bytes) \<times> 'hs"
  sn_finished :: "'hs \<Rightarrow> bool"
  sn_remote_static :: "'hs \<Rightarrow> bytes option"
  sn_transport :: "'hs \<Rightarrow> string + 'ts"
  sn_seal :: "bytes \<Rightarrow> 'ts \<Rightarrow> (string + bytes) \<times> 'ts"
  sn_open :: "bytes \<Rightarrow> 'ts \<Rightarrow> (string + bytes) \<times> 'ts"

section \<open>Operations\<close>

definition NOISE_PATTERN :: string where "NOISE_PATTERN = ''Noise_XX_25519_ChaChaPoly_BLAKE2s''"

definition MAX_HANDSHAKE_MSG :: nat where "MAX_HANDSHAKE_MSG = 65535"

record 'hs NoiseHandshake =
  hs_state :: 'hs
  hs_role :: Role

record 'ts NoiseTransport =
  ts_state :: 'ts
  remote_static :: "bytes option"

definition with_keypair :: "('hs, 'ts) snow \<Rightarrow> bytes \<Rightarrow> Role \<Rightarrow> bytes \<Rightarrow> 'hs NoiseHandshake result" where
  "with_keypair sn rand role private_key =
     (case sn_parse sn NOISE_PATTERN of
        Inl e \<Rightarrow> Inl (Handshake (''invalid noise params: '' @ e))
      | Inr params \<Rightarrow>
          (case sn_build sn params role private_key rand of
             Inl e \<Rightarrow> Inl (Handshake (''init failed: '' @ e))
           | Inr st \<Rightarrow> Inr \<lparr>hs_state = st, hs_role = role\<rparr>))"

text \<open>\<^verbatim>\<open>NoiseHandshake::new\<close>: the static key is drawn at random too.\<close>

definition handshake_new :: "('hs, 'ts) snow \<Rightarrow> bytes \<Rightarrow> bytes \<Rightarrow> Role \<Rightarrow> 'hs NoiseHandshake result" where
  "handshake_new sn private_key rand role = with_keypair sn rand role private_key"

definition write_message :: "('hs, 'ts) snow \<Rightarrow> bytes \<Rightarrow> 'hs NoiseHandshake \<Rightarrow> bytes result \<times> 'hs NoiseHandshake" where
  "write_message sn payload h =
     (case sn_write sn payload (hs_state h) of
        (Inl e, st) \<Rightarrow> (Inl (Handshake (''write failed: '' @ e)), h\<lparr>hs_state := st\<rparr>)
      | (Inr msg, st) \<Rightarrow> (Inr msg, h\<lparr>hs_state := st\<rparr>))"

definition read_message :: "('hs, 'ts) snow \<Rightarrow> bytes \<Rightarrow> 'hs NoiseHandshake \<Rightarrow> bytes result \<times> 'hs NoiseHandshake" where
  "read_message sn msg h =
     (case sn_read sn msg (hs_state h) of
        (Inl e, st) \<Rightarrow> (Inl (Handshake (''read failed: '' @ e)), h\<lparr>hs_state := st\<rparr>)
      | (Inr payload, st) \<Rightarrow> (Inr payload, h\<lparr>hs_state := st\<rparr>))"

definition is_finished :: "('hs, 'ts) snow \<Rightarrow> 'hs NoiseHandshake \<Rightarrow> bool" where
  "is_finished sn h = sn_finished sn (hs_state h)"

definition noise_role :: "'hs NoiseHandshake \<Rightarrow> Role" where
  "noise_role h = hs_role h"

text \<open>\<^verbatim>\<open>copy_from_slice\<close> into the 32-byte array panics on any other length.\<close>

definition into_transport :: "('hs, 'ts) snow \<Rightarrow> 'hs NoiseHandshake \<Rightarrow> 'ts NoiseTransport outcome" where
  "into_transport sn h =
     (if \<not> sn_finished sn (hs_state h) then Returned (Inl (Handshake ''handshake not yet complete''))
      else if (case sn_remote_static sn (hs_state h) of Some rs \<Rightarrow> length rs \<noteq> 32 | None \<Rightarrow> False) then Panicked
      else case sn_transport sn (hs_state h) of
             Inl e \<Rightarrow> Returned (Inl (Handshake (''transport mode failed: '' @ e)))
           | Inr st \<Rightarrow> Returned (Inr \<lparr>ts_state = st, remote_static = sn_remote_static sn (hs_state h)\<rparr>))"

definition noise_encrypt :: "('hs, 'ts) snow \<Rightarrow> bytes \<Rightarrow> 'ts NoiseTransport \<Rightarrow> bytes result \<times> 'ts NoiseTransport" where
  "noise_encrypt sn plaintext t =
     (case sn_seal sn plaintext (ts_state t) of
        (Inl e, st) \<Rightarrow> (Inl (Crypto (''noise encrypt: '' @ e)), t\<lparr>ts_state := st\<rparr>)
      | (Inr c, st) \<Rightarrow> (Inr c, t\<lparr>ts_state := st\<rparr>))"

definition noise_decrypt :: "('hs, 'ts) snow \<Rightarrow> bytes \<Rightarrow> 'ts NoiseTransport \<Rightarrow> bytes result \<times> 'ts NoiseTransport" where
  "noise_decrypt sn ciphertext t =
     (case sn_open sn ciphertext (ts_state t) of
        (Inl e, st) \<Rightarrow> (Inl (Crypto (''noise decrypt: '' @ e)), t\<lparr>ts_state := st\<rparr>)
      | (Inr p, st) \<Rightarrow> (Inr p, t\<lparr>ts_state := st\<rparr>))"

definition remote_static_key :: "'ts NoiseTransport \<Rightarrow> bytes option" where
  "remote_static_key t = remote_static t"

section \<open>The contract\<close>

text \<open>
  What the crate documents of a pair of sessions. \<open>tx\<close> and \<open>rx\<close> are the sending and the receiving
  cipher of a session, \<open>left\<close> the number of messages a cipher can still protect, \<open>pub\<close> the public
  key of a private key. The three messages of the XX pattern carry their payloads and end in two
  transports whose ciphers match crosswise; a message sealed by a cipher is opened by the matching
  cipher of the other side, and both advance; a message of Noise has at most 65535 bytes; a message that is refused changes nothing.
\<close>

definition max_payload :: nat where "max_payload = 65535 - 96"

definition linked :: "('ts \<Rightarrow> 'd) \<Rightarrow> ('ts \<Rightarrow> 'd) \<Rightarrow> 'ts NoiseTransport \<Rightarrow> 'ts NoiseTransport \<Rightarrow> bool" where
  "linked tx rx a b \<longleftrightarrow> tx (ts_state a) = rx (ts_state b) \<and> tx (ts_state b) = rx (ts_state a)"

lemma linked_sym: "linked tx rx a b \<Longrightarrow> linked tx rx b a"
  by (simp add: linked_def)

locale snow_xx =
  fixes sn :: "('hs, 'ts) snow" and tx rx :: "'ts \<Rightarrow> 'd" and left :: "'d \<Rightarrow> nat" and pub :: "bytes \<Rightarrow> bytes"
  assumes pattern_ok: "\<exists>params. sn_parse sn NOISE_PATTERN = Inr params"
    and exchange: "sn_parse sn NOISE_PATTERN = Inr params \<Longrightarrow>
      list_all (\<lambda>k. length k = 32) [ki, ei, kr, er] \<Longrightarrow> list_all (\<lambda>p. length p \<le> max_payload) [p1, p2, p3] \<Longrightarrow>
      \<exists>i0 r0 m1 i1 r1 m2 r2 i2 m3 i3 r3 ti tr.
        sn_build sn params Initiator ki ei = Inr i0 \<and> \<not> sn_finished sn i0 \<and>
        sn_build sn params Responder kr er = Inr r0 \<and> \<not> sn_finished sn r0 \<and>
        sn_write sn p1 i0 = (Inr m1, i1) \<and> \<not> sn_finished sn i1 \<and>
        sn_read sn m1 r0 = (Inr p1, r1) \<and> \<not> sn_finished sn r1 \<and>
        sn_write sn p2 r1 = (Inr m2, r2) \<and> \<not> sn_finished sn r2 \<and>
        sn_read sn m2 i1 = (Inr p2, i2) \<and> \<not> sn_finished sn i2 \<and>
        sn_write sn p3 i2 = (Inr m3, i3) \<and> sn_finished sn i3 \<and>
        sn_read sn m3 r2 = (Inr p3, r3) \<and> sn_finished sn r3 \<and>
        sn_transport sn i3 = Inr ti \<and> sn_remote_static sn i3 = Some (pub kr) \<and>
        sn_transport sn r3 = Inr tr \<and> sn_remote_static sn r3 = Some (pub ki) \<and>
        tx ti = rx tr \<and> tx tr = rx ti \<and> left (tx ti) = 2 ^ 64 - 1 \<and> left (tx tr) = 2 ^ 64 - 1"
    and pub_length: "length k = 32 \<Longrightarrow> length (pub k) = 32"
    and seal_ok: "length p \<le> 65519 \<Longrightarrow> 0 < left (tx a) \<Longrightarrow>
      \<exists>c a'. sn_seal sn p a = (Inr c, a') \<and> length c = length p + 16 \<and> rx a' = rx a \<and> left (tx a') = left (tx a) - 1"
    and seal_open: "sn_seal sn p a = (Inr c, a') \<Longrightarrow> rx b = tx a \<Longrightarrow>
      \<exists>b'. sn_open sn c b = (Inr p, b') \<and> rx b' = tx a' \<and> tx b' = tx b"
    and seal_size: "sn_seal sn p a = (Inr c, a') \<Longrightarrow> length p \<le> 65519 \<and> length c = length p + 16 \<and> rx a' = rx a"
    and seal_refused: "sn_seal sn p a = (Inl e, a') \<Longrightarrow> a' = a"
    and open_refused: "sn_open sn c b = (Inl e, b') \<Longrightarrow> b' = b"
begin

lemma transfer:
  assumes "linked tx rx a b" "length p \<le> 65519" "0 < left (tx (ts_state a))"
  shows "\<exists>c a' b'. noise_encrypt sn p a = (Inr c, a') \<and> noise_decrypt sn c b = (Inr p, b') \<and> linked tx rx a' b' \<and>
    length c = length p + 16 \<and> left (tx (ts_state a')) = left (tx (ts_state a)) - 1 \<and> tx (ts_state b') = tx (ts_state b)"
proof -
  from seal_ok [OF assms(2,3)] obtain c s where s: "sn_seal sn p (ts_state a) = (Inr c, s)" "length c = length p + 16"
    "rx s = rx (ts_state a)" "left (tx s) = left (tx (ts_state a)) - 1" by blast
  from seal_open [OF s(1), of "ts_state b"] assms(1) obtain r where
    r: "sn_open sn c (ts_state b) = (Inr p, r)" "rx r = tx s" "tx r = tx (ts_state b)" by (auto simp: linked_def)
  show ?thesis using s r assms(1) by (simp add: noise_encrypt_def noise_decrypt_def linked_def)
qed

lemma encrypt_size: "noise_encrypt sn p a = (Inr c, a') \<Longrightarrow> length p \<le> 65519 \<and> length c = length p + 16"
  by (auto simp: noise_encrypt_def dest: seal_size split: prod.splits sum.splits)

lemma encrypt_refused: "noise_encrypt sn p a = (Inl e, a') \<Longrightarrow> a' = a"
  by (auto simp: noise_encrypt_def dest: seal_refused split: prod.splits sum.splits)

lemma decrypt_refused: "noise_decrypt sn c b = (Inl e, b') \<Longrightarrow> b' = b"
  by (auto simp: noise_decrypt_def dest: open_refused split: prod.splits sum.splits)

end

end
