(* ===== verification/Bincode.thy ===== *)
theory Bincode
  imports Byte_Order Crypto_Ops
begin

text \<open>
  The contract of message codecs, and the encodings of the \<^verbatim>\<open>bincode\<close> crate (version 1: fixed-width
  little-endian integers, 64-bit lengths, 32-bit enum tags, trailing bytes ignored) on which the
  contract is discharged for each message type in the theory of that type. A decoder takes the
  remaining input and gives a value and the rest.
\<close>

section \<open>The contract\<close>

type_synonym 'a encoder = "'a \<Rightarrow> bytes"
type_synonym 'a decoder = "bytes \<Rightarrow> string + 'a"

locale codec =
  fixes ok :: "'a \<Rightarrow> bool" and enc :: "'a encoder" and dec :: "'a decoder"
  assumes dec_enc: "ok x \<Longrightarrow> dec (enc x) = Inr x"
begin

lemma enc_inj: "ok x \<Longrightarrow> ok y \<Longrightarrow> enc x = enc y \<Longrightarrow> x = y"
  by (metis dec_enc sum.inject(2))

end

section \<open>Primitive encodings\<close>

type_synonym 'a pdec = "bytes \<Rightarrow> ('a \<times> bytes) option"

definition finish :: "'a pdec \<Rightarrow> 'a decoder" where
  "finish pd bs = (case pd bs of Some (x, rest) \<Rightarrow> Inr x | None \<Rightarrow> Inl ''io error: unexpected end of file'')"

definition take_bytes :: "nat \<Rightarrow> bytes pdec" where
  "take_bytes n bs = (if length bs < n then None else Some (take n bs, drop n bs))"

definition enc_int :: "nat \<Rightarrow> nat \<Rightarrow> bytes" where
  "enc_int k n = nat_le k n"

definition dec_int :: "nat \<Rightarrow> nat pdec" where
  "dec_int k bs = (case take_bytes k bs of None \<Rightarrow> None | Some (x, rest) \<Rightarrow> Some (le_nat x, rest))"

definition enc_u64 :: "u64 \<Rightarrow> bytes" where "enc_u64 w = enc_int 8 (unat w)"
definition enc_u32 :: "u32 \<Rightarrow> bytes" where "enc_u32 w = enc_int 4 (unat w)"
definition enc_u16 :: "u16 \<Rightarrow> bytes" where "enc_u16 w = enc_int 2 (unat w)"

definition dec_u64 :: "u64 pdec" where
  "dec_u64 bs = (case dec_int 8 bs of None \<Rightarrow> None | Some (n, rest) \<Rightarrow> Some (word_of_nat n, rest))"
definition dec_u32 :: "u32 pdec" where
  "dec_u32 bs = (case dec_int 4 bs of None \<Rightarrow> None | Some (n, rest) \<Rightarrow> Some (word_of_nat n, rest))"
definition dec_u16 :: "u16 pdec" where
  "dec_u16 bs = (case dec_int 2 bs of None \<Rightarrow> None | Some (n, rest) \<Rightarrow> Some (word_of_nat n, rest))"

definition enc_vec :: "bytes \<Rightarrow> bytes" where
  "enc_vec v = enc_int 8 (length v) @ v"

definition dec_vec :: "bytes pdec" where
  "dec_vec bs = (case dec_int 8 bs of None \<Rightarrow> None | Some (n, rest) \<Rightarrow> take_bytes n rest)"

definition bytes_string :: "bytes \<Rightarrow> string" where
  "bytes_string bs = map (\<lambda>b. char_of (unat b)) bs"

definition enc_string :: "string \<Rightarrow> bytes" where
  "enc_string s = enc_vec (ascii s)"

definition dec_string :: "string pdec" where
  "dec_string bs = (case dec_vec bs of None \<Rightarrow> None | Some (v, rest) \<Rightarrow> Some (bytes_string v, rest))"

text \<open>A length that a 64-bit machine can hold.\<close>

definition fits :: "'a list \<Rightarrow> bool" where
  "fits xs \<longleftrightarrow> length xs < 256 ^ 8"

section \<open>Reading back\<close>

lemma take_bytes_append [simp]: "length v = n \<Longrightarrow> take_bytes n (v @ rest) = Some (v, rest)"
  by (auto simp: take_bytes_def)

lemma dec_int_enc: "n < 256 ^ k \<Longrightarrow> dec_int k (enc_int k n @ rest) = Some (n, rest)"
  unfolding dec_int_def enc_int_def by (subst take_bytes_append) (simp_all add: le_nat_nat_le)

lemma dec_u64_enc [simp]: "dec_u64 (enc_u64 w @ rest) = Some (w, rest)"
  using dec_int_enc [of "unat w" 8 rest] unsigned_less [of w, where 'a = nat] by (simp add: dec_u64_def enc_u64_def)

lemma dec_u32_enc [simp]: "dec_u32 (enc_u32 w @ rest) = Some (w, rest)"
  using dec_int_enc [of "unat w" 4 rest] unsigned_less [of w, where 'a = nat] by (simp add: dec_u32_def enc_u32_def)

lemma dec_u16_enc [simp]: "dec_u16 (enc_u16 w @ rest) = Some (w, rest)"
  using dec_int_enc [of "unat w" 2 rest] unsigned_less [of w, where 'a = nat] by (simp add: dec_u16_def enc_u16_def)

lemma dec_vec_enc [simp]: "fits v \<Longrightarrow> dec_vec (enc_vec v @ rest) = Some (v, rest)"
  by (simp add: dec_vec_def enc_vec_def dec_int_enc fits_def)

lemma bytes_string_ascii [simp]: "bytes_string (ascii s) = s"
  by (induction s) (simp_all add: bytes_string_def ascii_def unat_of_nat)

lemma fits_ascii [simp]: "fits (ascii s) = fits s"
  by (simp add: fits_def ascii_def)

lemma dec_string_enc [simp]: "fits s \<Longrightarrow> dec_string (enc_string s @ rest) = Some (s, rest)"
  by (simp add: dec_string_def enc_string_def)

lemma take_bytes_some: "take_bytes n bs = Some (v, rest) \<longleftrightarrow> bs = v @ rest \<and> length v = n"
  by (auto simp: take_bytes_def)

lemma dec_vec_some: "dec_vec bs = Some (v, rest) \<longleftrightarrow> bs = enc_vec v @ rest \<and> fits v"
proof
  assume "dec_vec bs = Some (v, rest)"
  then obtain x where x: "bs = x @ v @ rest" "length x = 8" "le_nat x = length v"
    by (auto simp: dec_vec_def dec_int_def take_bytes_some split: option.splits)
  then have "enc_int 8 (length v) = x" unfolding enc_int_def using nat_le_le_nat [of x 8] by simp
  moreover have "le_nat x < 256 ^ 8" using le_nat_less [of x] x(2) by simp
  ultimately show "bs = enc_vec v @ rest \<and> fits v" using x by (simp add: enc_vec_def fits_def)
qed simp

lemma finish_enc: "pd (bs @ []) = Some (x, rest) \<Longrightarrow> finish pd bs = Inr x"
  by (simp add: finish_def)

end
