(* ===== verification/Wire.thy ===== *)
theory Wire
  imports Noise Bincode Router
begin

text \<open>
  The messages that nodes exchange (\<^verbatim>\<open>crates/omnimesh-sdk/src/lib.rs\<close> and \<^verbatim>\<open>LinkStateUpdate\<close> of the
  router) and their serialisation. The serialisers are the fields of the record \<open>codecs\<close>, an argument
  of the operations that call them; their contract \<open>wire_codec\<close> is discharged on the bincode
  encodings.
\<close>

section \<open>Messages\<close>

record WirePacket =
  magic :: bytes
  wp_version :: bytes
  packet_type :: u8
  wp_payload :: bytes

record ServicePayload =
  service_id :: string
  sp_payload :: bytes

record HandshakePayload =
  hello_version :: ProtocolVersion
  hello_peer_id :: PeerId

text \<open>The literals of every packet the SDK builds.\<close>

definition MAGIC :: bytes where "MAGIC = ascii ''OMSH''"

definition make_packet :: "u8 \<Rightarrow> bytes \<Rightarrow> WirePacket" where
  "make_packet ptype payload = \<lparr>magic = MAGIC, wp_version = [0, 1, 0], packet_type = ptype, wp_payload = payload\<rparr>"

section \<open>The contract\<close>

definition packet_ok :: "WirePacket \<Rightarrow> bool" where
  "packet_ok p \<longleftrightarrow> length (magic p) = 4 \<and> length (wp_version p) = 3 \<and> fits (wp_payload p)"

definition service_ok :: "ServicePayload \<Rightarrow> bool" where
  "service_ok p \<longleftrightarrow> fits (service_id p) \<and> fits (sp_payload p)"

definition hello_ok :: "HandshakePayload \<Rightarrow> bool" where
  "hello_ok p \<longleftrightarrow> peer_wf (hello_peer_id p)"

definition update_ok :: "LinkStateUpdate \<Rightarrow> bool" where
  "update_ok u \<longleftrightarrow> peer_wf (source u) \<and> peer_wf (destination u)"

record codecs =
  c_packet :: "WirePacket encoder"
  d_packet :: "WirePacket decoder"
  c_service :: "ServicePayload encoder"
  d_service :: "ServicePayload decoder"
  c_hello :: "HandshakePayload encoder"
  d_hello :: "HandshakePayload decoder"
  c_update :: "LinkStateUpdate encoder"
  d_update :: "LinkStateUpdate decoder"
  c_time :: "u64 encoder"
  d_time :: "u64 decoder"

locale wire_codec =
  packet: codec packet_ok "c_packet cs" "d_packet cs" +
  service: codec service_ok "c_service cs" "d_service cs" +
  hello: codec hello_ok "c_hello cs" "d_hello cs" +
  update: codec update_ok "c_update cs" "d_update cs" +
  time: codec "\<lambda>_. True" "c_time cs" "d_time cs"
  for cs :: codecs +
  assumes hello_size: "hello_ok h \<Longrightarrow> length (c_hello cs h) = 38"
    and update_size: "update_ok u \<Longrightarrow> length (c_update cs u) = 112"
    and time_size: "length (c_time cs t) = 8"
    and service_size: "length (c_service cs p) = 16 + length (service_id p) + length (sp_payload p)"
begin

lemma packet_trip: "fits payload \<Longrightarrow> d_packet cs (c_packet cs (make_packet ptype payload)) = Inr (make_packet ptype payload)"
  by (rule packet.dec_enc) (simp add: packet_ok_def make_packet_def MAGIC_def ascii_def)

lemma hello_trip: "hello_ok h \<Longrightarrow> d_hello cs (c_hello cs h) = Inr h"
  by (rule hello.dec_enc)

lemma service_trip: "service_ok p \<Longrightarrow> d_service cs (c_service cs p) = Inr p"
  by (rule service.dec_enc)

lemma update_trip: "update_ok u \<Longrightarrow> d_update cs (c_update cs u) = Inr u"
  by (rule update.dec_enc)

lemma time_trip: "d_time cs (c_time cs t) = Inr t"
  by (rule time.dec_enc) simp

end

section \<open>Bincode\<close>

definition enc_packet :: "WirePacket encoder" where
  "enc_packet p = magic p @ wp_version p @ packet_type p # enc_vec (wp_payload p)"

definition dec_packet :: "WirePacket pdec" where
  "dec_packet bs =
     (case take_bytes 4 bs of None \<Rightarrow> None | Some (m, bs) \<Rightarrow>
     (case take_bytes 3 bs of None \<Rightarrow> None | Some (v, bs) \<Rightarrow>
     (case bs of [] \<Rightarrow> None | t # bs \<Rightarrow>
     (case dec_vec bs of None \<Rightarrow> None | Some (p, bs) \<Rightarrow>
        Some (\<lparr>magic = m, wp_version = v, packet_type = t, wp_payload = p\<rparr>, bs)))))"

definition enc_service :: "ServicePayload encoder" where
  "enc_service p = enc_string (service_id p) @ enc_vec (sp_payload p)"

definition dec_service :: "ServicePayload pdec" where
  "dec_service bs =
     (case dec_string bs of None \<Rightarrow> None | Some (i, bs) \<Rightarrow>
     (case dec_vec bs of None \<Rightarrow> None | Some (p, bs) \<Rightarrow> Some (\<lparr>service_id = i, sp_payload = p\<rparr>, bs)))"

definition enc_hello :: "HandshakePayload encoder" where
  "enc_hello h =
     enc_u16 (major (hello_version h)) @ enc_u16 (minor (hello_version h)) @ enc_u16 (patch (hello_version h)) @
     as_bytes (hello_peer_id h)"

definition dec_hello :: "HandshakePayload pdec" where
  "dec_hello bs =
     (case dec_u16 bs of None \<Rightarrow> None | Some (a, bs) \<Rightarrow>
     (case dec_u16 bs of None \<Rightarrow> None | Some (b, bs) \<Rightarrow>
     (case dec_u16 bs of None \<Rightarrow> None | Some (c, bs) \<Rightarrow>
     (case take_bytes 32 bs of None \<Rightarrow> None | Some (p, bs) \<Rightarrow>
        Some (\<lparr>hello_version = \<lparr>major = a, minor = b, patch = c\<rparr>, hello_peer_id = PeerId p\<rparr>, bs)))))"

definition enc_metrics :: "LinkMetrics encoder" where
  "enc_metrics m = enc_u64 (latency_ms m) @ enc_u64 (bandwidth_kbps m) @ enc_u64 (loss_rate m) @ enc_u64 (relay_cost m)"

definition dec_metrics :: "LinkMetrics pdec" where
  "dec_metrics bs =
     (case dec_u64 bs of None \<Rightarrow> None | Some (a, bs) \<Rightarrow>
     (case dec_u64 bs of None \<Rightarrow> None | Some (b, bs) \<Rightarrow>
     (case dec_u64 bs of None \<Rightarrow> None | Some (c, bs) \<Rightarrow>
     (case dec_u64 bs of None \<Rightarrow> None | Some (d, bs) \<Rightarrow>
        Some (\<lparr>latency_ms = a, bandwidth_kbps = b, loss_rate = c, relay_cost = d\<rparr>, bs)))))"

definition enc_update :: "LinkStateUpdate encoder" where
  "enc_update u =
     as_bytes (source u) @ as_bytes (destination u) @ enc_metrics (metrics u) @ enc_u64 (seqno u) @ enc_u64 (timestamp u)"

definition dec_update :: "LinkStateUpdate pdec" where
  "dec_update bs =
     (case take_bytes 32 bs of None \<Rightarrow> None | Some (s, bs) \<Rightarrow>
     (case take_bytes 32 bs of None \<Rightarrow> None | Some (d, bs) \<Rightarrow>
     (case dec_metrics bs of None \<Rightarrow> None | Some (m, bs) \<Rightarrow>
     (case dec_u64 bs of None \<Rightarrow> None | Some (q, bs) \<Rightarrow>
     (case dec_u64 bs of None \<Rightarrow> None | Some (t, bs) \<Rightarrow>
        Some (\<lparr>source = PeerId s, destination = PeerId d, metrics = m, seqno = q, timestamp = t\<rparr>, bs))))))"

definition bincode_codecs :: codecs where
  "bincode_codecs =
     \<lparr>c_packet = enc_packet, d_packet = finish dec_packet, c_service = enc_service, d_service = finish dec_service,
      c_hello = enc_hello, d_hello = finish dec_hello, c_update = enc_update, d_update = finish dec_update,
      c_time = enc_u64, d_time = finish dec_u64\<rparr>"

lemma dec_packet_enc: "packet_ok p \<Longrightarrow> dec_packet (enc_packet p @ rest) = Some (p, rest)"
  by (simp add: packet_ok_def dec_packet_def enc_packet_def)

text \<open>
  A byte string decodes to a packet exactly when it starts with four bytes of magic, three of version, one
  of type, the payload's length in eight bytes, the least significant first, and the payload.
\<close>

lemma packet_wire_format:
  "dec_packet bs = Some (p, rest) \<longleftrightarrow> packet_ok p \<and>
     bs = magic p @ wp_version p @ [packet_type p] @ nat_le 8 (length (wp_payload p)) @ wp_payload p @ rest"
proof
  assume "dec_packet bs = Some (p, rest)"
  then show "packet_ok p \<and> bs = magic p @ wp_version p @ [packet_type p] @ nat_le 8 (length (wp_payload p)) @ wp_payload p @ rest"
    by (auto simp: dec_packet_def take_bytes_some packet_ok_def dec_vec_some enc_vec_def enc_int_def split: option.splits list.splits)
next
  assume "packet_ok p \<and> bs = magic p @ wp_version p @ [packet_type p] @ nat_le 8 (length (wp_payload p)) @ wp_payload p @ rest"
  then show "dec_packet bs = Some (p, rest)" using dec_packet_enc [of p rest] by (simp add: enc_packet_def enc_vec_def enc_int_def)
qed

lemma dec_service_enc: "service_ok p \<Longrightarrow> dec_service (enc_service p @ rest) = Some (p, rest)"
  by (simp add: service_ok_def dec_service_def enc_service_def)

lemma dec_hello_enc: "hello_ok p \<Longrightarrow> dec_hello (enc_hello p @ rest) = Some (p, rest)"
  by (simp add: hello_ok_def peer_wf_def dec_hello_def enc_hello_def)

lemma dec_metrics_enc [simp]: "dec_metrics (enc_metrics m @ rest) = Some (m, rest)"
  by (simp add: dec_metrics_def enc_metrics_def)

lemma dec_update_enc: "update_ok u \<Longrightarrow> dec_update (enc_update u @ rest) = Some (u, rest)"
  by (simp add: update_ok_def peer_wf_def dec_update_def enc_update_def)

lemma enc_sizes:
  "length (enc_u64 w) = 8" "length (enc_u16 v) = 2" "length (enc_vec x) = 8 + length x" "length (enc_string t) = 8 + length t"
  by (simp_all add: enc_u64_def enc_u16_def enc_int_def enc_vec_def enc_string_def ascii_def)

lemma message_sizes:
  "hello_ok h \<Longrightarrow> length (enc_hello h) = 38" "update_ok u \<Longrightarrow> length (enc_update u) = 112"
  "length (enc_service p) = 16 + length (service_id p) + length (sp_payload p)"
  by (simp_all add: enc_hello_def enc_update_def enc_metrics_def enc_service_def enc_sizes hello_ok_def update_ok_def peer_wf_def)

lemmas whole_messages = dec_packet_enc [where rest = "[]", simplified] dec_service_enc [where rest = "[]", simplified]
  dec_hello_enc [where rest = "[]", simplified] dec_update_enc [where rest = "[]", simplified]
  dec_u64_enc [where rest = "[]", simplified]

interpretation bin: wire_codec bincode_codecs
  by unfold_locales (simp_all add: bincode_codecs_def finish_def whole_messages message_sizes enc_sizes)

end
