(* ===== verification/Noise_Spec.thy ===== *)
theory Noise_Spec
  imports Noise
begin

text \<open>
  The handshake pattern XX of the Noise protocol framework (revision 34) with ChaCha20-Poly1305 and
  SHA-256, over a Diffie-Hellman function given as an argument: the cipher state, the symmetric state
  and the handshake state with its three messages, and the transports they end in. It is the
  specification that the \<^verbatim>\<open>snow\<close> crate implements, and discharges the contract \<open>snow_xx\<close> for every
  Diffie-Hellman function with the contract \<open>diffie_hellman\<close>; exponentiation modulo \<open>2^255 - 19\<close>
  is one. The program's pattern names X25519 and BLAKE2s; the contract mentions neither the group nor the
  hash, and the instance shows that it can hold.
\<close>

section \<open>Cipher states\<close>

record cipher_state =
  cs_key :: bytes
  cs_n :: u64

definition noise_nonce :: "u64 \<Rightarrow> bytes" where
  "noise_nonce n = replicate 4 0 @ nat_le 8 (unat n)"

definition cs_seal :: "bytes \<Rightarrow> bytes \<Rightarrow> cipher_state \<Rightarrow> (string + bytes) \<times> cipher_state" where
  "cs_seal ad p cs =
     (if cs_n cs = - 1 then (Inl ''state error: Exhausted'', cs)
      else case chapoly_seal_ad (cs_key cs) (noise_nonce (cs_n cs)) ad p of
             Inl e \<Rightarrow> (Inl ''input error'', cs)
           | Inr c \<Rightarrow> (Inr c, cs\<lparr>cs_n := cs_n cs + 1\<rparr>))"

definition cs_open :: "bytes \<Rightarrow> bytes \<Rightarrow> cipher_state \<Rightarrow> (string + bytes) \<times> cipher_state" where
  "cs_open ad c cs =
     (if cs_n cs = - 1 then (Inl ''state error: Exhausted'', cs)
      else case chapoly_open_ad (cs_key cs) (noise_nonce (cs_n cs)) ad c of
             Inl e \<Rightarrow> (Inl ''decrypt error'', cs)
           | Inr p \<Rightarrow> (Inr p, cs\<lparr>cs_n := cs_n cs + 1\<rparr>))"

definition cs_left :: "cipher_state \<Rightarrow> nat" where
  "cs_left cs = unat (- 1 - cs_n cs)"

lemma cs_open_seal: "cs_seal ad p cs = (Inr c, cs') \<Longrightarrow> cs_open ad c cs = (Inr p, cs')"
  by (auto simp: cs_seal_def cs_open_def dest: chapoly_open_seal_ad split: if_splits sum.splits)

lemma cs_refused:
  "cs_seal ad p cs = (Inl e, cs') \<Longrightarrow> cs' = cs" "cs_open ad c cs = (Inl e, cs') \<Longrightarrow> cs' = cs"
  by (auto simp: cs_seal_def cs_open_def split: if_splits sum.splits)

lemma cs_seal_ok:
  assumes "length p < 2 ^ 32" "0 < cs_left cs"
  shows "\<exists>c. cs_seal ad p cs = (Inr c, cs\<lparr>cs_n := cs_n cs + 1\<rparr>) \<and> length c = length p + 16"
proof -
  have "cs_n cs \<noteq> - 1" using assms(2) by (auto simp: cs_left_def)
  then show ?thesis
    using chapoly_seal_ad_ok [OF assms(1), of "cs_key cs" "noise_nonce (cs_n cs)" ad]
    by (auto simp: cs_seal_def chapoly_seal_ad_length)
qed

lemma cs_left_next: "0 < cs_left cs \<Longrightarrow> cs_left (cs\<lparr>cs_n := cs_n cs + 1\<rparr>) = cs_left cs - 1"
proof -
  assume "0 < cs_left cs"
  then have "- 1 - cs_n cs \<noteq> 0" by (auto simp: cs_left_def)
  then have "unat ((- 1 - cs_n cs) - 1) = cs_left cs - 1" unfolding cs_left_def by (rule unat_minus_one)
  then show ?thesis by (simp add: cs_left_def algebra_simps)
qed

section \<open>Symmetric states\<close>

text \<open>Before the first Diffie-Hellman result is mixed in, the cipher has no key and payloads are sent in the clear.\<close>

record symmetric_state =
  ss_ck :: bytes
  ss_h :: bytes
  ss_cipher :: "cipher_state option"

definition hkdf2 :: "bytes \<Rightarrow> bytes \<Rightarrow> bytes \<times> bytes" where
  "hkdf2 ck ikm =
     (let tmp = hmac ck ikm; o1 = hmac tmp [1]; o2 = hmac tmp (o1 @ [2]) in (o1, o2))"

definition mix_hash :: "bytes \<Rightarrow> symmetric_state \<Rightarrow> symmetric_state" where
  "mix_hash data ss = ss\<lparr>ss_h := sha256 (ss_h ss @ data)\<rparr>"

definition mix_key :: "bytes \<Rightarrow> symmetric_state \<Rightarrow> symmetric_state" where
  "mix_key ikm ss =
     (case hkdf2 (ss_ck ss) ikm of (ck, k) \<Rightarrow> ss\<lparr>ss_ck := ck, ss_cipher := Some \<lparr>cs_key = k, cs_n = 0\<rparr>\<rparr>)"

definition initialize_symmetric :: "string \<Rightarrow> symmetric_state" where
  "initialize_symmetric name =
     (let h = (if length name \<le> 32 then ascii name @ replicate (32 - length name) 0 else sha256 (ascii name))
      in \<lparr>ss_ck = h, ss_h = h, ss_cipher = None\<rparr>)"

definition encrypt_and_hash :: "bytes \<Rightarrow> symmetric_state \<Rightarrow> string + bytes \<times> symmetric_state" where
  "encrypt_and_hash p ss =
     (case ss_cipher ss of
        None \<Rightarrow> Inr (p, mix_hash p ss)
      | Some cs \<Rightarrow>
          (case cs_seal (ss_h ss) p cs of
             (Inl e, _) \<Rightarrow> Inl e
           | (Inr c, cs') \<Rightarrow> Inr (c, mix_hash c (ss\<lparr>ss_cipher := Some cs'\<rparr>))))"

definition decrypt_and_hash :: "bytes \<Rightarrow> symmetric_state \<Rightarrow> string + bytes \<times> symmetric_state" where
  "decrypt_and_hash c ss =
     (case ss_cipher ss of
        None \<Rightarrow> Inr (c, mix_hash c ss)
      | Some cs \<Rightarrow>
          (case cs_open (ss_h ss) c cs of
             (Inl e, _) \<Rightarrow> Inl e
           | (Inr p, cs') \<Rightarrow> Inr (p, mix_hash c (ss\<lparr>ss_cipher := Some cs'\<rparr>))))"

definition split_keys :: "symmetric_state \<Rightarrow> cipher_state \<times> cipher_state" where
  "split_keys ss =
     (case hkdf2 (ss_ck ss) [] of (k1, k2) \<Rightarrow> (\<lparr>cs_key = k1, cs_n = 0\<rparr>, \<lparr>cs_key = k2, cs_n = 0\<rparr>))"

lemma mix_cipher [simp]:
  "ss_cipher (mix_hash d ss) = ss_cipher ss"
  "ss_cipher (mix_key ikm ss) = Some \<lparr>cs_key = snd (hkdf2 (ss_ck ss) ikm), cs_n = 0\<rparr>"
  by (simp_all add: mix_hash_def mix_key_def split: prod.splits)

lemma hash_transfer:
  assumes "ss_cipher ss = Some cs" "cs_n cs \<noteq> - 1" "length p < 2 ^ 32"
  shows "\<exists>c ss'. encrypt_and_hash p ss = Inr (c, ss') \<and> decrypt_and_hash c ss = Inr (p, ss') \<and>
    length c = length p + 16 \<and> ss_cipher ss' = Some (cs\<lparr>cs_n := cs_n cs + 1\<rparr>)"
proof -
  have "0 < cs_left cs" using assms(2) by (simp add: cs_left_def unat_gt_0)
  from cs_seal_ok [OF assms(3) this, of "ss_h ss"] obtain c where
    c: "cs_seal (ss_h ss) p cs = (Inr c, cs\<lparr>cs_n := cs_n cs + 1\<rparr>)" "length c = length p + 16" by blast
  with cs_open_seal [OF c(1)] assms(1) show ?thesis by (simp add: encrypt_and_hash_def decrypt_and_hash_def)
qed

section \<open>The handshake\<close>

text \<open>\<open>hp\<close> counts the messages processed. A failing operation leaves the state as it was.\<close>

record handshake_state =
  h_role :: Role
  hp :: nat
  h_s :: bytes
  h_e :: bytes
  h_rs :: "bytes option"
  h_re :: "bytes option"
  h_sym :: symmetric_state

definition xx_start :: "string \<Rightarrow> Role \<Rightarrow> bytes \<Rightarrow> bytes \<Rightarrow> handshake_state" where
  "xx_start name role s e =
     \<lparr>h_role = role, hp = 0, h_s = s, h_e = e, h_rs = None, h_re = None,
      h_sym = mix_hash [] (initialize_symmetric name)\<rparr>"

lemma hp_xx_start [simp]: "hp (xx_start name role s e) = 0"
  by (simp add: xx_start_def)

type_synonym pub_fun = "bytes \<Rightarrow> bytes"
type_synonym dh_fun = "bytes \<Rightarrow> bytes \<Rightarrow> bytes"

definition sized :: "bytes \<Rightarrow> handshake_state \<Rightarrow> handshake_state \<Rightarrow> (string + bytes) \<times> handshake_state" where
  "sized m h' h = (if 65535 < length m then (Inl ''input error'', h) else (Inr m, h'))"

text \<open>Message 1: \<open>e\<close>.\<close>

definition write1 :: "pub_fun \<Rightarrow> bytes \<Rightarrow> handshake_state \<Rightarrow> (string + bytes) \<times> handshake_state" where
  "write1 pub p h =
     (case encrypt_and_hash p (mix_hash (pub (h_e h)) (h_sym h)) of
        Inl e \<Rightarrow> (Inl e, h)
      | Inr (c, ss) \<Rightarrow> sized (pub (h_e h) @ c) (h\<lparr>hp := 1, h_sym := ss\<rparr>) h)"

definition read1 :: "bytes \<Rightarrow> handshake_state \<Rightarrow> (string + bytes) \<times> handshake_state" where
  "read1 m h =
     (if length m < 32 then (Inl ''input error'', h)
      else case decrypt_and_hash (drop 32 m) (mix_hash (take 32 m) (h_sym h)) of
             Inl e \<Rightarrow> (Inl e, h)
           | Inr (p, ss) \<Rightarrow> (Inr p, h\<lparr>hp := 1, h_re := Some (take 32 m), h_sym := ss\<rparr>))"

text \<open>Message 2: \<open>e, ee, s, es\<close>.\<close>

definition write2 :: "pub_fun \<Rightarrow> dh_fun \<Rightarrow> bytes \<Rightarrow> handshake_state \<Rightarrow> (string + bytes) \<times> handshake_state" where
  "write2 pub dh p h =
     (case h_re h of
        None \<Rightarrow> (Inl ''state error'', h)
      | Some re \<Rightarrow>
          (case encrypt_and_hash (pub (h_s h)) (mix_key (dh (h_e h) re) (mix_hash (pub (h_e h)) (h_sym h))) of
             Inl e \<Rightarrow> (Inl e, h)
           | Inr (cs, ss) \<Rightarrow>
               (case encrypt_and_hash p (mix_key (dh (h_s h) re) ss) of
                  Inl e \<Rightarrow> (Inl e, h)
                | Inr (c, ss) \<Rightarrow> sized (pub (h_e h) @ cs @ c) (h\<lparr>hp := 2, h_sym := ss\<rparr>) h)))"

definition read2 :: "dh_fun \<Rightarrow> bytes \<Rightarrow> handshake_state \<Rightarrow> (string + bytes) \<times> handshake_state" where
  "read2 dh m h =
     (if length m < 80 then (Inl ''input error'', h)
      else case decrypt_and_hash (take 48 (drop 32 m)) (mix_key (dh (h_e h) (take 32 m)) (mix_hash (take 32 m) (h_sym h))) of
             Inl e \<Rightarrow> (Inl e, h)
           | Inr (rs, ss) \<Rightarrow>
               (case decrypt_and_hash (drop 80 m) (mix_key (dh (h_e h) rs) ss) of
                  Inl e \<Rightarrow> (Inl e, h)
                | Inr (p, ss) \<Rightarrow> (Inr p, h\<lparr>hp := 2, h_re := Some (take 32 m), h_rs := Some rs, h_sym := ss\<rparr>)))"

text \<open>Message 3: \<open>s, se\<close>.\<close>

definition write3 :: "pub_fun \<Rightarrow> dh_fun \<Rightarrow> bytes \<Rightarrow> handshake_state \<Rightarrow> (string + bytes) \<times> handshake_state" where
  "write3 pub dh p h =
     (case h_re h of
        None \<Rightarrow> (Inl ''state error'', h)
      | Some re \<Rightarrow>
          (case encrypt_and_hash (pub (h_s h)) (h_sym h) of
             Inl e \<Rightarrow> (Inl e, h)
           | Inr (cs, ss) \<Rightarrow>
               (case encrypt_and_hash p (mix_key (dh (h_s h) re) ss) of
                  Inl e \<Rightarrow> (Inl e, h)
                | Inr (c, ss) \<Rightarrow> sized (cs @ c) (h\<lparr>hp := 3, h_sym := ss\<rparr>) h)))"

definition read3 :: "dh_fun \<Rightarrow> bytes \<Rightarrow> handshake_state \<Rightarrow> (string + bytes) \<times> handshake_state" where
  "read3 dh m h =
     (if length m < 48 then (Inl ''input error'', h)
      else case decrypt_and_hash (take 48 m) (h_sym h) of
             Inl e \<Rightarrow> (Inl e, h)
           | Inr (rs, ss) \<Rightarrow>
               (case decrypt_and_hash (drop 48 m) (mix_key (dh (h_e h) rs) ss) of
                  Inl e \<Rightarrow> (Inl e, h)
                | Inr (p, ss) \<Rightarrow> (Inr p, h\<lparr>hp := 3, h_rs := Some rs, h_sym := ss\<rparr>)))"

definition xx_write :: "pub_fun \<Rightarrow> dh_fun \<Rightarrow> bytes \<Rightarrow> handshake_state \<Rightarrow> (string + bytes) \<times> handshake_state" where
  "xx_write pub dh p h =
     (if h_role h = Initiator \<and> hp h = 0 then write1 pub p h
      else if h_role h = Responder \<and> hp h = 1 then write2 pub dh p h
      else if h_role h = Initiator \<and> hp h = 2 then write3 pub dh p h
      else (Inl ''state error'', h))"

definition xx_read :: "dh_fun \<Rightarrow> bytes \<Rightarrow> handshake_state \<Rightarrow> (string + bytes) \<times> handshake_state" where
  "xx_read dh m h =
     (if 65535 < length m then (Inl ''input error'', h)
      else if h_role h = Responder \<and> hp h = 0 then read1 m h
      else if h_role h = Initiator \<and> hp h = 1 then read2 dh m h
      else if h_role h = Responder \<and> hp h = 2 then read3 dh m h
      else (Inl ''state error'', h))"

text \<open>The transports: the initiator sends with the first key of the split, the responder with the second.\<close>

record transport_state =
  tr_tx :: cipher_state
  tr_rx :: cipher_state

definition xx_transport :: "handshake_state \<Rightarrow> string + transport_state" where
  "xx_transport h =
     (if hp h \<noteq> 3 then Inl ''state error: HandshakeNotFinished''
      else case split_keys (h_sym h) of
             (a, b) \<Rightarrow> Inr (if h_role h = Initiator then \<lparr>tr_tx = a, tr_rx = b\<rparr> else \<lparr>tr_tx = b, tr_rx = a\<rparr>))"

definition tr_seal :: "bytes \<Rightarrow> transport_state \<Rightarrow> (string + bytes) \<times> transport_state" where
  "tr_seal p t =
     (if 65535 < length p + 16 then (Inl ''input error'', t)
      else case cs_seal [] p (tr_tx t) of (r, cs) \<Rightarrow> (r, t\<lparr>tr_tx := cs\<rparr>))"

definition tr_open :: "bytes \<Rightarrow> transport_state \<Rightarrow> (string + bytes) \<times> transport_state" where
  "tr_open c t =
     (if 65535 < length c then (Inl ''input error'', t)
      else case cs_open [] c (tr_rx t) of (r, cs) \<Rightarrow> (r, t\<lparr>tr_rx := cs\<rparr>))"

definition spec_snow :: "pub_fun \<Rightarrow> dh_fun \<Rightarrow> (handshake_state, transport_state) snow" where
  "spec_snow pub dh =
     \<lparr>sn_parse = (\<lambda>s. if s = NOISE_PATTERN then Inr s else Inl ''pattern error''),
      sn_build = (\<lambda>name role s e. if length s = 32 then Inr (xx_start name role s e) else Inl ''input error''),
      sn_write = xx_write pub dh, sn_read = xx_read dh, sn_finished = (\<lambda>h. hp h = 3), sn_remote_static = h_rs,
      sn_transport = xx_transport, sn_seal = tr_seal, sn_open = tr_open\<rparr>"

section \<open>The three messages\<close>

locale diffie_hellman =
  fixes pub :: pub_fun and dh :: dh_fun
  assumes dh_comm: "dh a (pub b) = dh b (pub a)"
    and pub_length: "length (pub a) = 32"
begin

lemma message1:
  assumes "h_role i = Initiator" "hp i = 0" "h_role r = Responder" "hp r = 0" "h_sym i = h_sym r"
    "ss_cipher (h_sym r) = None" "length p \<le> max_payload"
  shows "\<exists>m i' r'. xx_write pub dh p i = (Inr m, i') \<and> xx_read dh m r = (Inr p, r') \<and>
    i' = i\<lparr>hp := 1, h_sym := h_sym r'\<rparr> \<and> r' = r\<lparr>hp := 1, h_re := Some (pub (h_e i)), h_sym := h_sym r'\<rparr>"
  using assms
  by (simp add: xx_write_def xx_read_def write1_def read1_def sized_def encrypt_and_hash_def decrypt_and_hash_def
      pub_length max_payload_def)

lemma message2:
  assumes "h_role i = Initiator" "hp i = 1" "h_role r = Responder" "hp r = 1" "h_sym i = h_sym r"
    "h_re r = Some (pub (h_e i))" "length p \<le> max_payload"
  shows "\<exists>m i' r'. xx_write pub dh p r = (Inr m, r') \<and> xx_read dh m i = (Inr p, i') \<and>
    r' = r\<lparr>hp := 2, h_sym := h_sym i'\<rparr> \<and>
    i' = i\<lparr>hp := 2, h_re := Some (pub (h_e r)), h_rs := Some (pub (h_s r)), h_sym := h_sym i'\<rparr> \<and>
    (\<exists>cs. ss_cipher (h_sym i') = Some cs \<and> cs_n cs = 1)"
proof -
  define s0 where "s0 = mix_key (dh (h_e r) (pub (h_e i))) (mix_hash (pub (h_e r)) (h_sym r))"
  have "ss_cipher s0 = Some \<lparr>cs_key = snd (hkdf2 (ss_ck (mix_hash (pub (h_e r)) (h_sym r))) (dh (h_e r) (pub (h_e i)))), cs_n = 0\<rparr>"
    by (simp add: s0_def)
  from hash_transfer [OF this, of "pub (h_s r)"] obtain cs s1 where
    s1: "encrypt_and_hash (pub (h_s r)) s0 = Inr (cs, s1)" "decrypt_and_hash cs s0 = Inr (pub (h_s r), s1)" "length cs = 48"
    by (auto simp: pub_length)
  define s1' where "s1' = mix_key (dh (h_s r) (pub (h_e i))) s1"
  have "ss_cipher s1' = Some \<lparr>cs_key = snd (hkdf2 (ss_ck s1) (dh (h_s r) (pub (h_e i)))), cs_n = 0\<rparr>" by (simp add: s1'_def)
  from hash_transfer [OF this, of p] assms(7) obtain c s2 where
    s2: "encrypt_and_hash p s1' = Inr (c, s2)" "decrypt_and_hash c s1' = Inr (p, s2)" "length c = length p + 16"
      "\<exists>cs. ss_cipher s2 = Some cs \<and> cs_n cs = 1" by (auto simp: max_payload_def)
  have same: "dh (h_e i) (pub (h_e r)) = dh (h_e r) (pub (h_e i))" "dh (h_e i) (pub (h_s r)) = dh (h_s r) (pub (h_e i))"
    by (rule dh_comm)+
  show ?thesis using assms s1 s2 unfolding s0_def s1'_def
    by (simp add: xx_write_def xx_read_def write2_def read2_def sized_def pub_length max_payload_def same)
qed

lemma message3:
  assumes "h_role i = Initiator" "hp i = 2" "h_role r = Responder" "hp r = 2" "h_sym i = h_sym r"
    "h_re i = Some (pub (h_e r))" "ss_cipher (h_sym r) = Some k" "cs_n k = 1" "length p \<le> max_payload"
  shows "\<exists>m i' r'. xx_write pub dh p i = (Inr m, i') \<and> xx_read dh m r = (Inr p, r') \<and>
    i' = i\<lparr>hp := 3, h_sym := h_sym r'\<rparr> \<and> r' = r\<lparr>hp := 3, h_rs := Some (pub (h_s i)), h_sym := h_sym r'\<rparr>"
proof -
  from hash_transfer [OF assms(7), of "pub (h_s i)"] assms(8) obtain cs s1 where
    s1: "encrypt_and_hash (pub (h_s i)) (h_sym r) = Inr (cs, s1)" "decrypt_and_hash cs (h_sym r) = Inr (pub (h_s i), s1)"
      "length cs = 48"
    by (auto simp: pub_length)
  define s1' where "s1' = mix_key (dh (h_s i) (pub (h_e r))) s1"
  have "ss_cipher s1' = Some \<lparr>cs_key = snd (hkdf2 (ss_ck s1) (dh (h_s i) (pub (h_e r)))), cs_n = 0\<rparr>" by (simp add: s1'_def)
  from hash_transfer [OF this, of p] assms(9) obtain c s2 where
    s2: "encrypt_and_hash p s1' = Inr (c, s2)" "decrypt_and_hash c s1' = Inr (p, s2)" "length c = length p + 16"
    by (auto simp: max_payload_def)
  have same: "dh (h_e r) (pub (h_s i)) = dh (h_s i) (pub (h_e r))" by (rule dh_comm)
  show ?thesis using assms s1 s2 unfolding s1'_def
    by (simp add: xx_write_def xx_read_def write3_def read3_def sized_def pub_length max_payload_def same)
qed

lemma exchange_spec:
  fixes p1 p2 p3 ki ei kr er :: bytes
  assumes "list_all (\<lambda>k. length k = 32) [ki, ei, kr, er]" "list_all (\<lambda>p. length p \<le> max_payload) [p1, p2, p3]"
  shows "\<exists>i0 r0 m1 i1 r1 m2 r2 i2 m3 i3 r3 ti tr.
    sn_build (spec_snow pub dh) name Initiator ki ei = Inr i0 \<and> \<not> sn_finished (spec_snow pub dh) i0 \<and>
    sn_build (spec_snow pub dh) name Responder kr er = Inr r0 \<and> \<not> sn_finished (spec_snow pub dh) r0 \<and>
    sn_write (spec_snow pub dh) p1 i0 = (Inr m1, i1) \<and> \<not> sn_finished (spec_snow pub dh) i1 \<and>
    sn_read (spec_snow pub dh) m1 r0 = (Inr p1, r1) \<and> \<not> sn_finished (spec_snow pub dh) r1 \<and>
    sn_write (spec_snow pub dh) p2 r1 = (Inr m2, r2) \<and> \<not> sn_finished (spec_snow pub dh) r2 \<and>
    sn_read (spec_snow pub dh) m2 i1 = (Inr p2, i2) \<and> \<not> sn_finished (spec_snow pub dh) i2 \<and>
    sn_write (spec_snow pub dh) p3 i2 = (Inr m3, i3) \<and> sn_finished (spec_snow pub dh) i3 \<and>
    sn_read (spec_snow pub dh) m3 r2 = (Inr p3, r3) \<and> sn_finished (spec_snow pub dh) r3 \<and>
    sn_transport (spec_snow pub dh) i3 = Inr ti \<and> sn_remote_static (spec_snow pub dh) i3 = Some (pub kr) \<and>
    sn_transport (spec_snow pub dh) r3 = Inr tr \<and> sn_remote_static (spec_snow pub dh) r3 = Some (pub ki) \<and>
    tr_tx ti = tr_rx tr \<and> tr_tx tr = tr_rx ti \<and> cs_left (tr_tx ti) = 2 ^ 64 - 1 \<and> cs_left (tr_tx tr) = 2 ^ 64 - 1"
proof -
  let ?i = "xx_start name Initiator ki ei" and ?r = "xx_start name Responder kr er"
  from message1 [of ?i ?r p1] assms(2) obtain m1 i1 r1 where s1: "xx_write pub dh p1 ?i = (Inr m1, i1)"
    "xx_read dh m1 ?r = (Inr p1, r1)" "i1 = ?i\<lparr>hp := 1, h_sym := h_sym r1\<rparr>"
    "r1 = ?r\<lparr>hp := 1, h_re := Some (pub ei), h_sym := h_sym r1\<rparr>"
    by (auto simp: xx_start_def initialize_symmetric_def Let_def)
  have f1: "h_role i1 = Initiator" "hp i1 = 1" "h_e i1 = ei" "h_s i1 = ki" "h_sym i1 = h_sym r1"
    "h_role r1 = Responder" "hp r1 = 1" "h_e r1 = er" "h_s r1 = kr" "h_re r1 = Some (pub ei)"
    by (subst s1, simp add: xx_start_def)+
  from message2 [of i1 r1 p2] f1 assms(2) obtain m2 i2 r2 k where s2: "xx_write pub dh p2 r1 = (Inr m2, r2)"
    "xx_read dh m2 i1 = (Inr p2, i2)" "r2 = r1\<lparr>hp := 2, h_sym := h_sym i2\<rparr>"
    "i2 = i1\<lparr>hp := 2, h_re := Some (pub er), h_rs := Some (pub kr), h_sym := h_sym i2\<rparr>"
    "ss_cipher (h_sym i2) = Some k" "cs_n k = 1" by auto
  have f2: "h_role i2 = Initiator" "hp i2 = 2" "h_s i2 = ki" "h_re i2 = Some (pub er)" "h_rs i2 = Some (pub kr)"
    "h_role r2 = Responder" "hp r2 = 2" "h_e r2 = er" "h_sym i2 = h_sym r2"
    by (subst s2, simp add: f1)+
  from message3 [of i2 r2 k p3] f2 s2(5,6) assms(2) obtain m3 i3 r3 where s3: "xx_write pub dh p3 i2 = (Inr m3, i3)"
    "xx_read dh m3 r2 = (Inr p3, r3)" "i3 = i2\<lparr>hp := 3, h_sym := h_sym r3\<rparr>"
    "r3 = r2\<lparr>hp := 3, h_rs := Some (pub ki), h_sym := h_sym r3\<rparr>" by auto
  have f3: "h_role i3 = Initiator" "hp i3 = 3" "h_rs i3 = Some (pub kr)" "h_role r3 = Responder" "hp r3 = 3"
    "h_rs r3 = Some (pub ki)" "h_sym i3 = h_sym r3"
    by (subst s3, simp add: f2)+
  have n: "unat (- 1 :: u64) = 2 ^ 64 - 1" by (simp add: unsigned_minus_1_eq_mask mask_eq_exp_minus_1)
  obtain ti tr where t: "xx_transport i3 = Inr ti" "xx_transport r3 = Inr tr" "tr_tx ti = tr_rx tr" "tr_tx tr = tr_rx ti"
    "cs_left (tr_tx ti) = 2 ^ 64 - 1" "cs_left (tr_tx tr) = 2 ^ 64 - 1"
    using f3 by (simp add: xx_transport_def split_keys_def cs_left_def n case_prod_beta)
  show ?thesis
    by (rule exI [of _ ?i], rule exI [of _ ?r], rule exI [of _ m1], rule exI [of _ i1], rule exI [of _ r1],
        rule exI [of _ m2], rule exI [of _ r2], rule exI [of _ i2], rule exI [of _ m3], rule exI [of _ i3],
        rule exI [of _ r3], rule exI [of _ ti], rule exI [of _ tr])
      (use assms(1) s1(1,2) s2(1,2) s3(1,2) f1 f2 f3 t in \<open>simp add: spec_snow_def\<close>)
qed

lemma seal_spec_ok:
  assumes "length p \<le> 65519" "0 < cs_left (tr_tx a)"
  shows "\<exists>c a'. sn_seal (spec_snow pub dh) p a = (Inr c, a') \<and> length c = length p + 16 \<and>
    tr_rx a' = tr_rx a \<and> cs_left (tr_tx a') = cs_left (tr_tx a) - 1"
proof -
  have "length p < 2 ^ 32" using assms(1) by simp
  from cs_seal_ok [OF this assms(2), of "[]"] assms(1) cs_left_next [OF assms(2)] show ?thesis
    by (auto simp: spec_snow_def tr_seal_def)
qed

lemma seal_size_spec:
  assumes "sn_seal (spec_snow pub dh) p a = (Inr c, a')"
  shows "length p \<le> 65519 \<and> length c = length p + 16 \<and> tr_rx a' = tr_rx a"
proof -
  from assms have s: "cs_seal [] p (tr_tx a) = (Inr c, tr_tx a')" and l: "length p + 16 \<le> 65535" "tr_rx a' = tr_rx a"
    by (auto simp: spec_snow_def tr_seal_def split: if_splits prod.splits)
  from s have "length c = length p + 16" by (auto simp: cs_seal_def dest: chapoly_seal_ad_length split: if_splits sum.splits)
  with l show ?thesis by simp
qed

lemma seal_open_spec:
  assumes "sn_seal (spec_snow pub dh) p a = (Inr c, a')" "tr_rx b = tr_tx a"
  shows "\<exists>b'. sn_open (spec_snow pub dh) c b = (Inr p, b') \<and> tr_rx b' = tr_tx a' \<and> tr_tx b' = tr_tx b"
proof -
  from assms(1) have s: "cs_seal [] p (tr_tx a) = (Inr c, tr_tx a')"
    by (auto simp: spec_snow_def tr_seal_def split: if_splits prod.splits)
  with seal_size_spec [OF assms(1)] cs_open_seal [OF s] assms(2) show ?thesis by (simp add: spec_snow_def tr_open_def)
qed

lemma refused_spec:
  "sn_seal (spec_snow pub dh) p a = (Inl e, a') \<Longrightarrow> a' = a"
  "sn_open (spec_snow pub dh) c b = (Inl e, b') \<Longrightarrow> b' = b"
  by (auto simp: spec_snow_def tr_seal_def tr_open_def dest: cs_refused split: if_splits prod.splits)

end

sublocale diffie_hellman \<subseteq> spec: snow_xx "spec_snow pub dh" tr_tx tr_rx cs_left pub
proof (unfold_locales, goal_cases)
  case 1
  show ?case by (simp add: spec_snow_def)
next
  case 2
  from 2(2,3) show ?case by (rule exchange_spec)
qed (erule (1) seal_spec_ok seal_open_spec | erule refused_spec seal_size_spec | rule pub_length)+

section \<open>A Diffie-Hellman function\<close>

definition field_prime :: nat where "field_prime = 2 ^ 255 - 19"

definition modp_pub :: pub_fun where
  "modp_pub k = nat_le 32 (9 ^ le_nat k mod field_prime)"

definition modp_dh :: dh_fun where
  "modp_dh k u = nat_le 32 (le_nat u ^ le_nat k mod field_prime)"

interpretation modp: diffie_hellman modp_pub modp_dh
proof unfold_locales
  fix a b
  have lt: "x mod field_prime < 256 ^ 32" for x :: nat
    using mod_less_divisor [of field_prime x] by (simp add: field_prime_def)
  have swap: "(9 ^ le_nat b) ^ le_nat a = ((9 :: nat) ^ le_nat a) ^ le_nat b"
    by (simp flip: power_mult add: mult.commute)
  show "modp_dh a (modp_pub b) = modp_dh b (modp_pub a)"
    unfolding modp_dh_def modp_pub_def le_nat_nat_le [OF lt] power_mod swap ..
  show "length (modp_pub a) = 32" by (simp add: modp_pub_def)
qed

abbreviation ref_snow :: "(handshake_state, transport_state) snow" where
  "ref_snow \<equiv> spec_snow modp_pub modp_dh"

end
