(* ===== verification/Handshake_Run.thy ===== *)
theory Handshake_Run
  imports Wire Noise_Spec Conn_Spec
begin

text \<open>
  \<^verbatim>\<open>perform_handshake\<close> of \<^verbatim>\<open>crates/omnimesh-sdk/src/lib.rs\<close>: the loop that runs a Noise handshake over a
  connection and exchanges protocol versions and peer identifiers in its payloads. The connection is
  the list of the results of its receives and the function that says whether a send succeeds; when
  the results are used up the handshake waits.
\<close>

section \<open>The loop\<close>

text \<open>The end of the function, after the loop.\<close>

definition hs_conclude ::
  "('hs, 'ts) snow \<Rightarrow> 'hs NoiseHandshake \<Rightarrow> PeerId option \<Rightarrow> ('ts NoiseTransport \<times> PeerId) outcome" where
  "hs_conclude sn h remote =
     (case into_transport sn h of
        Panicked \<Rightarrow> Panicked
      | Returned (Inl e) \<Rightarrow> Returned (Inl e)
      | Returned (Inr t) \<Rightarrow>
          (case remote of
             None \<Rightarrow> Returned (Inl (Handshake ''handshake completed without remote peer id''))
           | Some remote_id \<Rightarrow> Returned (Inr (t, remote_id))))"

text \<open>Receiving and checking the payload of the other side, which both roles do.\<close>

definition hs_receive ::
  "('hs, 'ts) snow \<Rightarrow> codecs \<Rightarrow> bytes option result \<Rightarrow> 'hs NoiseHandshake \<Rightarrow> PeerId result \<times> 'hs NoiseHandshake" where
  "hs_receive sn cs received h =
     (case received of
        Inl e \<Rightarrow> (Inl e, h)
      | Inr None \<Rightarrow> (Inl (Handshake ''closed during handshake''), h)
      | Inr (Some reply) \<Rightarrow>
          (case read_message sn reply h of
             (Inl e, h) \<Rightarrow> (Inl e, h)
           | (Inr payload, h) \<Rightarrow>
               (case d_hello cs payload of
                  Inl e \<Rightarrow> (Inl (Serialization (''handshake payload: '' @ e)), h)
                | Inr remote_payload \<Rightarrow>
                    if \<not> is_compatible_with CURRENT (hello_version remote_payload)
                    then (Inl (ProtocolMismatch (display_version CURRENT) (display_version (hello_version remote_payload))), h)
                    else (Inr (hello_peer_id remote_payload), h))))"

text \<open>Writing the own payload, which both roles do; the list holds the message when it was sent.\<close>

definition hs_transmit ::
  "('hs, 'ts) snow \<Rightarrow> codecs \<Rightarrow> (bytes \<Rightarrow> unit result) \<Rightarrow> PeerId \<Rightarrow> 'hs NoiseHandshake \<Rightarrow>
     unit result \<times> bytes list \<times> 'hs NoiseHandshake" where
  "hs_transmit sn cs put local_id h =
     (case write_message sn (c_hello cs \<lparr>hello_version = CURRENT, hello_peer_id = local_id\<rparr>) h of
        (Inl e, h) \<Rightarrow> (Inl e, [], h)
      | (Inr msg, h) \<Rightarrow> (case put msg of Inl e \<Rightarrow> (Inl e, [], h) | Inr _ \<Rightarrow> (Inr (), [msg], h)))"

type_synonym 'ts hs_result = "('ts NoiseTransport \<times> PeerId) outcome async \<times> bytes list"

fun hs_loop ::
  "('hs, 'ts) snow \<Rightarrow> codecs \<Rightarrow> (bytes \<Rightarrow> unit result) \<Rightarrow> PeerId \<Rightarrow> 'hs NoiseHandshake \<Rightarrow> PeerId option \<Rightarrow>
     bytes option result list \<Rightarrow> 'ts hs_result" where
  "hs_loop sn cs put local_id h remote received =
     (if is_finished sn h then (Ready (hs_conclude sn h remote), [])
      else case hs_role h of
        Initiator \<Rightarrow>
          (case hs_transmit sn cs put local_id h of
             (Inl e, sent, h) \<Rightarrow> (Ready (Returned (Inl e)), sent)
           | (Inr _, sent, h) \<Rightarrow>
               if is_finished sn h then (Ready (hs_conclude sn h remote), sent)
               else (case received of
                       [] \<Rightarrow> (Blocked, sent)
                     | r # rs \<Rightarrow>
                         (case hs_receive sn cs r h of
                            (Inl e, h) \<Rightarrow> (Ready (Returned (Inl e)), sent)
                          | (Inr peer, h) \<Rightarrow>
                              (case hs_loop sn cs put local_id h (Some peer) rs of (res, out) \<Rightarrow> (res, sent @ out)))))
      | Responder \<Rightarrow>
          (case received of
             [] \<Rightarrow> (Blocked, [])
           | r # rs \<Rightarrow>
               (case hs_receive sn cs r h of
                  (Inl e, h) \<Rightarrow> (Ready (Returned (Inl e)), [])
                | (Inr peer, h) \<Rightarrow>
                    if is_finished sn h then (Ready (hs_conclude sn h (Some peer)), [])
                    else (case hs_transmit sn cs put local_id h of
                            (Inl e, sent, h) \<Rightarrow> (Ready (Returned (Inl e)), sent)
                          | (Inr _, sent, h) \<Rightarrow>
                              (case hs_loop sn cs put local_id h (Some peer) rs of (res, out) \<Rightarrow> (res, sent @ out))))))"

declare hs_loop.simps [simp del]

definition perform_handshake ::
  "('hs, 'ts) snow \<Rightarrow> codecs \<Rightarrow> (bytes \<Rightarrow> unit result) \<Rightarrow> 'hs NoiseHandshake \<Rightarrow> PeerId \<Rightarrow>
     bytes option result list \<Rightarrow> 'ts hs_result" where
  "perform_handshake sn cs put h local_id received = hs_loop sn cs put local_id h None received"

section \<open>Two sides\<close>

lemma hs_receive_hello:
  assumes "wire_codec cs" "peer_wf peer"
    "sn_read sn m (hs_state h) = (Inr (c_hello cs \<lparr>hello_version = CURRENT, hello_peer_id = peer\<rparr>), st)"
  shows "hs_receive sn cs (Inr (Some m)) h = (Inr peer, h\<lparr>hs_state := st\<rparr>)"
  using wire_codec.hello_trip [OF assms(1), of "\<lparr>hello_version = CURRENT, hello_peer_id = peer\<rparr>"] assms(2,3)
  by (simp add: hs_receive_def read_message_def hello_ok_def is_compatible_with_def)

lemma hs_transmit_hello:
  assumes "sn_write sn (c_hello cs \<lparr>hello_version = CURRENT, hello_peer_id = me\<rparr>) (hs_state h) = (Inr m, st)"
  shows "hs_transmit sn cs (\<lambda>_. Inr ()) me h = (Inr (), [m], h\<lparr>hs_state := st\<rparr>)"
  using assms by (simp add: hs_transmit_def write_message_def)

text \<open>
  A run of one side: the messages it has read, with their payloads, each written or read from the state
  the previous message led to.
\<close>

inductive hs_run ::
  "('hs, 'ts) snow \<Rightarrow> codecs \<Rightarrow> PeerId \<Rightarrow> 'hs NoiseHandshake \<Rightarrow> (bytes \<times> HandshakePayload) list \<Rightarrow> 'hs NoiseHandshake \<Rightarrow> bool"
  for sn cs me where
  run_done: "hs_run sn cs me h [] h"
| run_wrote: "write_message sn (c_hello cs \<lparr>hello_version = CURRENT, hello_peer_id = me\<rparr>) h = (Inr w, h1) \<Longrightarrow>
    hs_run sn cs me h1 ms h' \<Longrightarrow> hs_run sn cs me h ms h'"
| run_read: "read_message sn m h = (Inr p, h1) \<Longrightarrow> d_hello cs p = Inr hello \<Longrightarrow> is_compatible_with CURRENT (hello_version hello) \<Longrightarrow>
    hs_run sn cs me h1 ms h' \<Longrightarrow> hs_run sn cs me h ((m, hello) # ms) h'"

text \<open>A successful end: a complete run whose last payload announced \<open>peer\<close>, or, without one, \<open>remote\<close>.\<close>

definition hs_ends ::
  "('hs, 'ts) snow \<Rightarrow> codecs \<Rightarrow> PeerId \<Rightarrow> 'hs NoiseHandshake \<Rightarrow> PeerId option \<Rightarrow> bytes option result list \<Rightarrow>
     'ts NoiseTransport \<Rightarrow> PeerId \<Rightarrow> bool" where
  "hs_ends sn cs me h remote received t peer \<longleftrightarrow>
     (\<exists>ms h'. hs_run sn cs me h ms h' \<and> is_finished sn h' \<and> into_transport sn h' = Returned (Inr t) \<and>
        map (\<lambda>x. Inr (Some (fst x))) ms = take (length ms) received \<and>
        (if ms = [] then remote = Some peer else hello_peer_id (snd (last ms)) = peer))"

lemma ends_conclude:
  "hs_conclude sn h remote = Returned (Inr (t, peer)) \<Longrightarrow> is_finished sn h \<Longrightarrow> hs_ends sn cs me h remote received t peer"
  unfolding hs_ends_def
  by (rule exI [of _ "[]"], rule exI [of _ h]) (auto simp: hs_conclude_def run_done split: outcome.splits sum.splits option.splits)

lemma ends_wrote:
  assumes "hs_transmit sn cs put me h = (Inr u, sent, h1)" "hs_ends sn cs me h1 remote received t peer"
  shows "hs_ends sn cs me h remote received t peer"
proof -
  from assms(1) obtain w where w: "write_message sn (c_hello cs \<lparr>hello_version = CURRENT, hello_peer_id = me\<rparr>) h = (Inr w, h1)"
    by (auto simp: hs_transmit_def split: prod.splits sum.splits)
  from assms(2) show ?thesis unfolding hs_ends_def using run_wrote [OF w] by blast
qed

lemma ends_read:
  assumes "hs_receive sn cs r h = (Inr p, h1)" "hs_ends sn cs me h1 (Some p) rs t peer"
  shows "hs_ends sn cs me h remote (r # rs) t peer"
proof -
  from assms(1) obtain m pl hello where m: "r = Inr (Some m)" "read_message sn m h = (Inr pl, h1)" "d_hello cs pl = Inr hello"
    "is_compatible_with CURRENT (hello_version hello)" "hello_peer_id hello = p"
    by (auto simp: hs_receive_def split: sum.splits option.splits prod.splits if_splits)
  from assms(2) obtain ms h' where "hs_run sn cs me h1 ms h'" "is_finished sn h'" "into_transport sn h' = Returned (Inr t)"
    "map (\<lambda>x. Inr (Some (fst x))) ms = take (length ms) rs" "if ms = [] then Some p = Some peer else hello_peer_id (snd (last ms)) = peer"
    unfolding hs_ends_def by blast
  with m show ?thesis unfolding hs_ends_def
    by (intro exI [of _ "(m, hello) # ms"] exI [of _ h']) (simp add: run_read [OF m(2-4)] split: if_splits)
qed

lemma hs_loop_ends:
  "hs_loop sn cs put me h remote received = (Ready (Returned (Inr (t, peer))), out) \<Longrightarrow> hs_ends sn cs me h remote received t peer"
proof (induction received arbitrary: h remote out)
  case Nil
  then show ?case
    by (subst (asm) hs_loop.simps)
      (auto dest!: ends_conclude [where received = "[]" and cs = cs and me = me] dest: ends_wrote
        split: Role.splits prod.splits sum.splits if_splits)
next
  case (Cons r rs)
  show ?case
  proof (cases "is_finished sn h")
    case True
    with Cons.prems show ?thesis by (subst (asm) hs_loop.simps) (auto intro: ends_conclude)
  next
    case False
    show ?thesis
    proof (cases "hs_role h")
      case Initiator
      with Cons.prems False obtain u sent h1 where w: "hs_transmit sn cs put me h = (Inr u, sent, h1)"
        by (subst (asm) hs_loop.simps) (auto split: prod.splits sum.splits)
      have "hs_ends sn cs me h1 remote (r # rs) t peer"
      proof (cases "is_finished sn h1")
        case True
        with Cons.prems False Initiator w show ?thesis by (subst (asm) hs_loop.simps) (auto intro: ends_conclude)
      next
        case unfinished: False
        with Cons.prems False Initiator w obtain p h2 o2 where "hs_receive sn cs r h1 = (Inr p, h2)"
          "hs_loop sn cs put me h2 (Some p) rs = (Ready (Returned (Inr (t, peer))), o2)"
          by (subst (asm) hs_loop.simps) (auto split: prod.splits sum.splits)
        then show ?thesis using Cons.IH ends_read by blast
      qed
      with w show ?thesis by (rule ends_wrote)
    next
      case Responder
      with Cons.prems False obtain p h1 where p: "hs_receive sn cs r h = (Inr p, h1)"
        by (subst (asm) hs_loop.simps) (auto split: prod.splits sum.splits)
      have "hs_ends sn cs me h1 (Some p) rs t peer"
      proof (cases "is_finished sn h1")
        case True
        with Cons.prems False Responder p show ?thesis by (subst (asm) hs_loop.simps) (auto intro: ends_conclude)
      next
        case unfinished: False
        with Cons.prems False Responder p obtain u sent h2 o2 where "hs_transmit sn cs put me h1 = (Inr u, sent, h2)"
          "hs_loop sn cs put me h2 (Some p) rs = (Ready (Returned (Inr (t, peer))), o2)"
          by (subst (asm) hs_loop.simps) (auto split: prod.splits sum.splits)
        then show ?thesis using Cons.IH ends_wrote by blast
      qed
      with p show ?thesis by (rule ends_read)
    qed
  qed
qed

lemma handshake_pair:
  assumes "snow_xx sn tx rx left pub" "wire_codec cs"
    and "list_all (\<lambda>k. length k = 32) [ki, ei, kr, er]" "peer_wf id_i" "peer_wf id_r"
  shows "\<exists>hi hr m1 m2 m3 ti tr.
    with_keypair sn ei Initiator ki = Inr hi \<and> with_keypair sn er Responder kr = Inr hr \<and>
    perform_handshake sn cs (\<lambda>_. Inr ()) hi id_i [Inr (Some m2)] = (Ready (Returned (Inr (ti, id_r))), [m1, m3]) \<and>
    perform_handshake sn cs (\<lambda>_. Inr ()) hr id_r [Inr (Some m1), Inr (Some m3)] = (Ready (Returned (Inr (tr, id_i))), [m2]) \<and>
    linked tx rx ti tr \<and> remote_static ti = Some (pub kr) \<and> remote_static tr = Some (pub ki) \<and>
    left (tx (ts_state ti)) = 2 ^ 64 - 1 \<and> left (tx (ts_state tr)) = 2 ^ 64 - 1"
proof -
  let ?hello = "\<lambda>peer. c_hello cs \<lparr>hello_version = CURRENT, hello_peer_id = peer\<rparr>"
  have small: "peer_wf peer \<Longrightarrow> length (?hello peer) \<le> max_payload" for peer
    using wire_codec.hello_size [OF assms(2), of "\<lparr>hello_version = CURRENT, hello_peer_id = peer\<rparr>"]
    by (simp add: hello_ok_def max_payload_def)
  obtain params where params: "sn_parse sn NOISE_PATTERN = Inr params" using snow_xx.pattern_ok [OF assms(1)] by blast
  have small3: "list_all (\<lambda>p. length p \<le> max_payload) [?hello id_i, ?hello id_r, ?hello id_i]" using small assms(4,5) by simp
  obtain i0 r0 m1 i1 r1 m2 r2 i2 m3 i3 r3 ti tr where
    b: "sn_build sn params Initiator ki ei = Inr i0" "sn_build sn params Responder kr er = Inr r0"
    and f: "\<not> sn_finished sn i0" "\<not> sn_finished sn r0" "\<not> sn_finished sn i1" "\<not> sn_finished sn r1" "\<not> sn_finished sn r2"
      "\<not> sn_finished sn i2" "sn_finished sn i3" "sn_finished sn r3"
    and w: "sn_write sn (?hello id_i) i0 = (Inr m1, i1)" "sn_write sn (?hello id_r) r1 = (Inr m2, r2)"
      "sn_write sn (?hello id_i) i2 = (Inr m3, i3)"
    and r: "sn_read sn m1 r0 = (Inr (?hello id_i), r1)" "sn_read sn m2 i1 = (Inr (?hello id_r), i2)"
      "sn_read sn m3 r2 = (Inr (?hello id_i), r3)"
    and t: "sn_transport sn i3 = Inr ti" "sn_remote_static sn i3 = Some (pub kr)" "sn_transport sn r3 = Inr tr"
      "sn_remote_static sn r3 = Some (pub ki)" "tx ti = rx tr" "tx tr = rx ti"
      "left (tx ti) = 2 ^ 64 - 1" "left (tx tr) = 2 ^ 64 - 1"
    using snow_xx.exchange [OF assms(1) params assms(3) small3] by metis
  have pk: "length (pub ki) = 32" "length (pub kr) = 32" using snow_xx.pub_length [OF assms(1)] assms(3) by simp_all
  note step = hs_loop.simps is_finished_def hs_receive_hello [OF assms(2,4)] hs_receive_hello [OF assms(2,5)]
    hs_transmit_hello hs_conclude_def into_transport_def perform_handshake_def
  let ?hi = "\<lparr>hs_state = i0, hs_role = Initiator\<rparr>" and ?hr = "\<lparr>hs_state = r0, hs_role = Responder\<rparr>"
  let ?ti = "\<lparr>ts_state = ti, remote_static = Some (pub kr)\<rparr>" and ?tr = "\<lparr>ts_state = tr, remote_static = Some (pub ki)\<rparr>"
  have ri: "perform_handshake sn cs (\<lambda>_. Inr ()) ?hi id_i [Inr (Some m2)] = (Ready (Returned (Inr (?ti, id_r))), [m1, m3])"
    using f w r t pk by (simp add: step)
  have rr: "perform_handshake sn cs (\<lambda>_. Inr ()) ?hr id_r [Inr (Some m1), Inr (Some m3)] =
      (Ready (Returned (Inr (?tr, id_i))), [m2])"
    using f w r t pk by (simp add: step)
  have kp: "with_keypair sn ei Initiator ki = Inr ?hi" "with_keypair sn er Responder kr = Inr ?hr"
    using params b by (simp_all add: with_keypair_def)
  have lk: "linked tx rx ?ti ?tr" using t by (simp add: linked_def)
  show ?thesis
    by (rule exI [of _ ?hi], rule exI [of _ ?hr], rule exI [of _ m1], rule exI [of _ m2], rule exI [of _ m3],
        rule exI [of _ ?ti], rule exI [of _ ?tr]) (use ri rr kp lk t(7,8) in simp)
qed

section \<open>Properties\<close>

text \<open>
  C3. The handshake succeeds between two nodes: over a connection that delivers, the initiator and the
  responder exchange three messages and both end with a transport whose ciphers match and with the peer
  identifier the other side announced, each knowing the other's static key. The announced identifier
  is not tied to the static key: any two identifiers are accepted.
\<close>

theorem handshake_completes:
  assumes "snow_xx sn tx rx left pub" "wire_codec cs"
    and "list_all (\<lambda>k. length k = 32) [ki, ei, kr, er]" "peer_wf id_i" "peer_wf id_r"
  shows "\<exists>hi hr m1 m2 m3 ti tr.
    with_keypair sn ei Initiator ki = Inr hi \<and> with_keypair sn er Responder kr = Inr hr \<and>
    perform_handshake sn cs (\<lambda>_. Inr ()) hi id_i [Inr (Some m2)] = (Ready (Returned (Inr (ti, id_r))), [m1, m3]) \<and>
    perform_handshake sn cs (\<lambda>_. Inr ()) hr id_r [Inr (Some m1), Inr (Some m3)] = (Ready (Returned (Inr (tr, id_i))), [m2]) \<and>
    linked tx rx ti tr \<and> remote_static ti = Some (pub kr) \<and> remote_static tr = Some (pub ki) \<and>
    left (tx (ts_state ti)) = 2 ^ 64 - 1 \<and> left (tx (ts_state tr)) = 2 ^ 64 - 1"
  using assms by (rule handshake_pair)

theorem handshake_completes_witness:
  "\<exists>hi hr m1 m2 m3 ti tr.
    with_keypair ref_snow (replicate 32 1) Initiator (replicate 32 2) = Inr hi \<and>
    with_keypair ref_snow (replicate 32 3) Responder (replicate 32 4) = Inr hr \<and>
    perform_handshake ref_snow bincode_codecs (\<lambda>_. Inr ()) hi (PeerId (replicate 32 7)) [Inr (Some m2)] =
      (Ready (Returned (Inr (ti, PeerId (replicate 32 8)))), [m1, m3]) \<and>
    perform_handshake ref_snow bincode_codecs (\<lambda>_. Inr ()) hr (PeerId (replicate 32 8)) [Inr (Some m1), Inr (Some m3)] =
      (Ready (Returned (Inr (tr, PeerId (replicate 32 7)))), [m2]) \<and> linked tr_tx tr_rx ti tr"
  using handshake_completes [OF modp.spec.snow_xx_axioms bin.wire_codec_axioms, of "replicate 32 2" "replicate 32 1"
      "replicate 32 4" "replicate 32 3" "PeerId (replicate 32 7)" "PeerId (replicate 32 8)"]
  by (simp add: peer_wf_def) blast

text \<open>
  C16. A handshake that succeeds has checked the other side: it is a run of the protocol from the given
  state to a finished one, whose transport is returned; the messages read are the first ones received, each
  announced a protocol version of the own major number, and the identifier returned is that of the last.
\<close>

theorem handshake_sound:
  assumes "perform_handshake sn cs put h me received = (Ready (Returned (Inr (t, peer))), out)"
  shows "\<exists>ms h'. hs_run sn cs me h ms h' \<and> is_finished sn h' \<and> into_transport sn h' = Returned (Inr t) \<and>
    ms \<noteq> [] \<and> map (\<lambda>x. Inr (Some (fst x))) ms = take (length ms) received \<and>
    list_all (\<lambda>x. major (hello_version (snd x)) = major CURRENT) ms \<and> hello_peer_id (snd (last ms)) = peer"
proof -
  have v: "hs_run sn cs me k ms k' \<Longrightarrow> list_all (\<lambda>x. major (hello_version (snd x)) = major CURRENT) ms" for k ms k'
    by (induction rule: hs_run.induct) (auto simp: is_compatible_with_def)
  from hs_loop_ends [OF assms [unfolded perform_handshake_def]] obtain ms h' where e: "hs_run sn cs me h ms h'" "is_finished sn h'"
    "into_transport sn h' = Returned (Inr t)" "map (\<lambda>x. Inr (Some (fst x))) ms = take (length ms) received"
    "if ms = [] then None = Some peer else hello_peer_id (snd (last ms)) = peer"
    unfolding hs_ends_def by blast
  then show ?thesis using v [OF e(1)] by (intro exI [of _ ms] exI [of _ h']) (auto split: if_splits)
qed

theorem handshake_sound_witness:
  "\<exists>hi received t out. perform_handshake ref_snow bincode_codecs (\<lambda>_. Inr ()) hi (PeerId (replicate 32 7)) received =
      (Ready (Returned (Inr (t, PeerId (replicate 32 8)))), out) \<and>
    (\<exists>ms h'. hs_run ref_snow bincode_codecs (PeerId (replicate 32 7)) hi ms h' \<and> is_finished ref_snow h' \<and> ms \<noteq> [] \<and>
      hello_peer_id (snd (last ms)) = PeerId (replicate 32 8))"
proof -
  obtain hi m2 ti out where
    run: "perform_handshake ref_snow bincode_codecs (\<lambda>_. Inr ()) hi (PeerId (replicate 32 7)) [Inr (Some m2)] =
      (Ready (Returned (Inr (ti, PeerId (replicate 32 8)))), out)"
    using handshake_pair [OF modp.spec.snow_xx_axioms bin.wire_codec_axioms, of "replicate 32 2" "replicate 32 1"
        "replicate 32 4" "replicate 32 3" "PeerId (replicate 32 7)" "PeerId (replicate 32 8)"]
    by (auto simp: peer_wf_def)
  from handshake_sound [OF run] show ?thesis
    by (intro exI [of _ hi] exI [of _ "[Inr (Some m2)]"] exI [of _ ti] exI [of _ out]) (use run in blast)
qed

end
