(* ===== verification/Services.thy ===== *)
theory Services
  imports Bincode
begin

text \<open>
  \<^verbatim>\<open>crates/omnimesh-service/src/lib.rs\<close>: the chat, RPC and publish/subscribe services. A service is a
  state; sending through the \<^verbatim>\<open>MessageSender\<close> is the list of outgoing messages an operation returns,
  handing a value to a local channel is a log of the state. The codecs are parameters with the
  contract \<open>codec\<close>, discharged on the bincode encodings of the messages.
\<close>

section \<open>Outgoing messages\<close>

datatype outgoing =
    SendMessage PeerId string bytes
  | BroadcastMessage string bytes

section \<open>Chat\<close>

record ChatMessage =
  cm_text :: string

text \<open>\<open>chat_delivered\<close> are the values handed to the broadcast channel.\<close>

record ChatService =
  chat_delivered :: "(PeerId \<times> string) list"

definition chat_new :: ChatService where
  "chat_new = \<lparr>chat_delivered = []\<rparr>"

definition format_message :: "ChatMessage encoder \<Rightarrow> string \<Rightarrow> bytes" where
  "format_message ser t = ser \<lparr>cm_text = t\<rparr>"

definition send_chat :: "ChatMessage encoder \<Rightarrow> string \<Rightarrow> outgoing list" where
  "send_chat ser t = [BroadcastMessage ''chat'' (format_message ser t)]"

definition chat_handle_message :: "ChatMessage decoder \<Rightarrow> PeerId \<Rightarrow> bytes \<Rightarrow> ChatService \<Rightarrow> unit result \<times> ChatService" where
  "chat_handle_message de from payload s =
     (case de payload of
        Inl e \<Rightarrow> (Inl (Serialization (''chat deserialize: '' @ e)), s)
      | Inr msg \<Rightarrow> (Inr (), s\<lparr>chat_delivered := chat_delivered s @ [(from, cm_text msg)]\<rparr>))"

section \<open>RPC\<close>

datatype RpcMessage =
    Request u64 string bytes
  | Response u64 "string + bytes"

text \<open>
  \<open>pending_requests\<close> are the identifiers whose caller still waits; \<open>answered\<close> is the log of values
  sent to waiting callers. The application handler is a function.
\<close>

record RpcService =
  pending_requests :: "u64 list"
  next_request_id :: u64
  answered :: "(u64 \<times> (string + bytes)) list"

type_synonym rpc_handler = "PeerId \<Rightarrow> string \<Rightarrow> bytes \<Rightarrow> bytes result"

definition rpc_new :: RpcService where
  "rpc_new = \<lparr>pending_requests = [], next_request_id = 1, answered = []\<rparr>"

definition create_request :: "RpcMessage encoder \<Rightarrow> string \<Rightarrow> bytes \<Rightarrow> RpcService \<Rightarrow> (u64 \<times> bytes) \<times> RpcService" where
  "create_request ser meth request s =
     (let request_id = next_request_id s
      in ((request_id, ser (Request request_id meth request)),
          s\<lparr>next_request_id := next_request_id s + 1,
            pending_requests := List.insert request_id (pending_requests s)\<rparr>))"

text \<open>The part of \<^verbatim>\<open>call\<close> up to the wait, and the part after the response has arrived.\<close>

definition call_start :: "RpcMessage encoder \<Rightarrow> PeerId \<Rightarrow> string \<Rightarrow> bytes \<Rightarrow> RpcService \<Rightarrow> (u64 \<times> outgoing list) \<times> RpcService" where
  "call_start ser to meth request s =
     (case create_request ser meth request s of
        ((request_id, bs), s') \<Rightarrow> ((request_id, [SendMessage to ''rpc'' bs]), s'))"

definition call_finish :: "string + bytes \<Rightarrow> bytes result" where
  "call_finish response = (case response of Inl e \<Rightarrow> Inl (Service (''RPC error: '' @ e)) | Inr v \<Rightarrow> Inr v)"

definition rpc_respond :: "rpc_handler \<Rightarrow> PeerId \<Rightarrow> u64 \<Rightarrow> string \<Rightarrow> bytes \<Rightarrow> RpcMessage" where
  "rpc_respond handler from request_id meth req_payload =
     Response request_id (case handler from meth req_payload of Inr res \<Rightarrow> Inr res | Inl err \<Rightarrow> Inl (display_error err))"

definition rpc_handle_message ::
  "RpcMessage encoder \<Rightarrow> RpcMessage decoder \<Rightarrow> rpc_handler \<Rightarrow> PeerId \<Rightarrow> bytes \<Rightarrow> RpcService \<Rightarrow>
     unit result \<times> outgoing list \<times> RpcService" where
  "rpc_handle_message ser de handler from payload s =
     (case de payload of
        Inl e \<Rightarrow> (Inl (Serialization (''rpc deserialize: '' @ e)), [], s)
      | Inr (Request request_id meth req_payload) \<Rightarrow>
          (Inr (), [SendMessage from ''rpc'' (ser (rpc_respond handler from request_id meth req_payload))], s)
      | Inr (Response request_id res_payload) \<Rightarrow>
          (Inr (), [],
           if request_id \<in> set (pending_requests s)
           then s\<lparr>pending_requests := remove1 request_id (pending_requests s),
                  answered := answered s @ [(request_id, res_payload)]\<rparr>
           else s))"

section \<open>Publish and subscribe\<close>

record PubSubMessage =
  ps_topic :: string
  ps_payload :: bytes

text \<open>Each subscription is an unbounded queue with a number; its contents are what was sent to it.\<close>

record PubSubService =
  subscriptions :: "string \<rightharpoonup> nat list"
  queues :: "bytes list list"

definition pubsub_new :: PubSubService where
  "pubsub_new = \<lparr>subscriptions = Map.empty, queues = []\<rparr>"

definition subscribe :: "string \<Rightarrow> PubSubService \<Rightarrow> nat \<times> PubSubService" where
  "subscribe topic s =
     (let q = length (queues s); subs = (case subscriptions s topic of Some l \<Rightarrow> l | None \<Rightarrow> [])
      in (q, s\<lparr>queues := queues s @ [[]], subscriptions := (subscriptions s)(topic \<mapsto> subs @ [q])\<rparr>))"

definition format_publish :: "PubSubMessage encoder \<Rightarrow> string \<Rightarrow> bytes \<Rightarrow> bytes" where
  "format_publish ser topic payload = ser \<lparr>ps_topic = topic, ps_payload = payload\<rparr>"

definition publish :: "PubSubMessage encoder \<Rightarrow> string \<Rightarrow> bytes \<Rightarrow> outgoing list" where
  "publish ser topic payload = [BroadcastMessage ''pubsub'' (format_publish ser topic payload)]"

definition queue_send :: "bytes \<Rightarrow> nat \<Rightarrow> bytes list list \<Rightarrow> bytes list list" where
  "queue_send v q qs = (if q < length qs then qs[q := qs ! q @ [v]] else qs)"

definition pubsub_handle_message :: "PubSubMessage decoder \<Rightarrow> PeerId \<Rightarrow> bytes \<Rightarrow> PubSubService \<Rightarrow> unit result \<times> PubSubService" where
  "pubsub_handle_message de from payload s =
     (case de payload of
        Inl e \<Rightarrow> (Inl (Serialization (''pubsub deserialize: '' @ e)), s)
      | Inr msg \<Rightarrow>
          (Inr (),
           case subscriptions s (ps_topic msg) of
             Some subs \<Rightarrow> s\<lparr>queues := fold (queue_send (ps_payload msg)) subs (queues s)\<rparr>
           | None \<Rightarrow> s))"

section \<open>Encodings\<close>

definition enc_chat :: "ChatMessage encoder" where "enc_chat m = enc_string (cm_text m)"

definition dec_chat :: "ChatMessage pdec" where
  "dec_chat bs = (case dec_string bs of None \<Rightarrow> None | Some (t, rest) \<Rightarrow> Some (\<lparr>cm_text = t\<rparr>, rest))"

definition enc_rpc :: "RpcMessage encoder" where
  "enc_rpc m =
     (case m of
        Request i meth p \<Rightarrow> enc_u32 0 @ enc_u64 i @ enc_string meth @ enc_vec p
      | Response i r \<Rightarrow>
          enc_u32 1 @ enc_u64 i @ (case r of Inr v \<Rightarrow> enc_u32 0 @ enc_vec v | Inl e \<Rightarrow> enc_u32 1 @ enc_string e))"

definition dec_rpc_request :: "RpcMessage pdec" where
  "dec_rpc_request bs =
     (case dec_u64 bs of None \<Rightarrow> None | Some (i, bs) \<Rightarrow>
     (case dec_string bs of None \<Rightarrow> None | Some (meth, bs) \<Rightarrow>
     (case dec_vec bs of None \<Rightarrow> None | Some (p, bs) \<Rightarrow> Some (Request i meth p, bs))))"

definition dec_rpc_response :: "RpcMessage pdec" where
  "dec_rpc_response bs =
     (case dec_u64 bs of None \<Rightarrow> None | Some (i, bs) \<Rightarrow>
     (case dec_u32 bs of None \<Rightarrow> None | Some (tag, bs) \<Rightarrow>
      if tag = 0 then (case dec_vec bs of None \<Rightarrow> None | Some (v, bs) \<Rightarrow> Some (Response i (Inr v), bs))
      else if tag = 1 then (case dec_string bs of None \<Rightarrow> None | Some (e, bs) \<Rightarrow> Some (Response i (Inl e), bs))
      else None))"

definition dec_rpc :: "RpcMessage pdec" where
  "dec_rpc bs =
     (case dec_u32 bs of None \<Rightarrow> None | Some (tag, bs) \<Rightarrow>
      if tag = 0 then dec_rpc_request bs else if tag = 1 then dec_rpc_response bs else None)"

definition enc_pubsub :: "PubSubMessage encoder" where
  "enc_pubsub m = enc_string (ps_topic m) @ enc_vec (ps_payload m)"

definition dec_pubsub :: "PubSubMessage pdec" where
  "dec_pubsub bs =
     (case dec_string bs of None \<Rightarrow> None | Some (t, bs) \<Rightarrow>
     (case dec_vec bs of None \<Rightarrow> None | Some (p, bs) \<Rightarrow> Some (\<lparr>ps_topic = t, ps_payload = p\<rparr>, bs)))"

fun rpc_fits :: "RpcMessage \<Rightarrow> bool" where
  "rpc_fits (Request i meth p) = (fits meth \<and> fits p)"
| "rpc_fits (Response i (Inr v)) = fits v"
| "rpc_fits (Response i (Inl e)) = fits e"

lemma dec_chat_enc: "fits (cm_text m) \<Longrightarrow> dec_chat (enc_chat m @ rest) = Some (m, rest)"
  by (simp add: dec_chat_def enc_chat_def)

lemma dec_rpc_enc: "rpc_fits m \<Longrightarrow> dec_rpc (enc_rpc m @ rest) = Some (m, rest)"
  by (induction m rule: rpc_fits.induct)
    (simp_all add: dec_rpc_def enc_rpc_def dec_rpc_request_def dec_rpc_response_def)

lemma dec_pubsub_enc:
  "fits (ps_topic m) \<and> fits (ps_payload m) \<Longrightarrow> dec_pubsub (enc_pubsub m @ rest) = Some (m, rest)"
  by (simp add: dec_pubsub_def enc_pubsub_def)

interpretation chat_codec: codec "\<lambda>m. fits (cm_text m)" enc_chat "finish dec_chat"
  by unfold_locales (rule finish_enc, rule dec_chat_enc)

interpretation rpc_codec: codec rpc_fits enc_rpc "finish dec_rpc"
  by unfold_locales (rule finish_enc, rule dec_rpc_enc)

interpretation pubsub_codec: codec "\<lambda>m. fits (ps_topic m) \<and> fits (ps_payload m)" enc_pubsub "finish dec_pubsub"
  by unfold_locales (rule finish_enc, rule dec_pubsub_enc)

section \<open>Delivery to subscribers\<close>

lemma length_queue_send [simp]: "length (queue_send v q qs) = length qs"
  by (simp add: queue_send_def)

lemma length_fold_send [simp]: "length (fold (queue_send v) subs qs) = length qs"
  by (induction subs arbitrary: qs) simp_all

lemma fold_send_nth:
  "distinct subs \<Longrightarrow> q < length qs \<Longrightarrow>
     fold (queue_send v) subs qs ! q = (if q \<in> set subs then qs ! q @ [v] else qs ! q)"
  by (induction subs arbitrary: qs) (auto simp: queue_send_def nth_list_update)

definition pubsub_wf :: "PubSubService \<Rightarrow> bool" where
  "pubsub_wf s \<longleftrightarrow>
     (\<forall>t subs. subscriptions s t = Some subs \<longrightarrow> distinct subs \<and> (\<forall>q \<in> set subs. q < length (queues s))) \<and>
     (\<forall>t t' subs subs' q. subscriptions s t = Some subs \<longrightarrow> subscriptions s t' = Some subs' \<longrightarrow>
        q \<in> set subs \<longrightarrow> q \<in> set subs' \<longrightarrow> t = t')"

datatype pubsub_op = Subscribe string | Incoming PeerId bytes

fun pubsub_apply :: "PubSubMessage decoder \<Rightarrow> pubsub_op \<Rightarrow> PubSubService \<Rightarrow> PubSubService" where
  "pubsub_apply de (Subscribe t) s = snd (subscribe t s)"
| "pubsub_apply de (Incoming from payload) s = snd (pubsub_handle_message de from payload s)"

text \<open>The payloads that a sequence of operations brings for a topic.\<close>

fun topic_payloads :: "PubSubMessage decoder \<Rightarrow> string \<Rightarrow> pubsub_op list \<Rightarrow> bytes list" where
  "topic_payloads de t [] = []"
| "topic_payloads de t (Incoming from payload # ops) =
     (case de payload of
        Inr msg \<Rightarrow> (if ps_topic msg = t then ps_payload msg # topic_payloads de t ops else topic_payloads de t ops)
      | Inl _ \<Rightarrow> topic_payloads de t ops)"
| "topic_payloads de t (Subscribe t' # ops) = topic_payloads de t ops"

lemma pubsub_wf_new: "pubsub_wf pubsub_new"
  by (simp add: pubsub_wf_def pubsub_new_def)

lemma pubsub_wf_subscribe:
  assumes "pubsub_wf s"
  shows "pubsub_wf (snd (subscribe t s))"
proof -
  have r: "subscriptions s t' = Some subs \<Longrightarrow> q \<in> set subs \<Longrightarrow> q < length (queues s)" for t' subs q
    using assms by (auto simp: pubsub_wf_def)
  have fresh: "subscriptions s t' = Some subs \<Longrightarrow> length (queues s) \<notin> set subs" for t' subs using r by blast
  show ?thesis
    using assms fresh
    by (cases "subscriptions s t") (auto simp: pubsub_wf_def subscribe_def Let_def less_SucI split: if_splits)
qed

lemma pubsub_wf_handle: "pubsub_wf s \<Longrightarrow> pubsub_wf (snd (pubsub_handle_message de from payload s))"
  by (auto simp: pubsub_wf_def pubsub_handle_message_def split: sum.splits option.splits)

lemma pubsub_wf_apply: "pubsub_wf s \<Longrightarrow> pubsub_wf (pubsub_apply de op s)"
  by (cases op) (simp_all add: pubsub_wf_subscribe pubsub_wf_handle)

lemma pubsub_wf_run: "pubsub_wf s \<Longrightarrow> pubsub_wf (fold (pubsub_apply de) ops s)"
  by (induction ops arbitrary: s) (simp_all add: pubsub_wf_apply)

definition listens :: "nat \<Rightarrow> string \<Rightarrow> PubSubService \<Rightarrow> bool" where
  "listens q t s \<longleftrightarrow> (\<exists>subs. subscriptions s t = Some subs \<and> q \<in> set subs)"

lemma listens_subscribe: "listens q t s \<Longrightarrow> listens q t (snd (subscribe t' s))"
  by (auto simp: listens_def subscribe_def Let_def)

lemma listens_handle: "listens q t s \<Longrightarrow> listens q t (snd (pubsub_handle_message de from payload s))"
  by (auto simp: listens_def pubsub_handle_message_def split: sum.splits option.splits)

lemma handle_queue:
  assumes "pubsub_wf s" "listens q t s"
  shows "queues (snd (pubsub_handle_message de from payload s)) ! q =
    queues s ! q @ topic_payloads de t [Incoming from payload]"
proof (cases "de payload")
  case (Inl e)
  then show ?thesis by (simp add: pubsub_handle_message_def)
next
  case (Inr msg)
  from assms obtain subs where t: "subscriptions s t = Some subs" "q \<in> set subs" "q < length (queues s)" "distinct subs"
    by (auto simp: listens_def pubsub_wf_def)
  have only: "q \<notin> set subs'" if "subscriptions s t' = Some subs'" "t' \<noteq> t" for t' subs'
    using assms(1) that t unfolding pubsub_wf_def by blast
  have dist: "distinct subs'" if "subscriptions s t' = Some subs'" for t' subs'
    using assms(1) that by (auto simp: pubsub_wf_def)
  show ?thesis using Inr t only dist
    by (auto simp: pubsub_handle_message_def fold_send_nth split: option.splits)
qed

lemma run_queue:
  "pubsub_wf s \<Longrightarrow> listens q t s \<Longrightarrow>
     queues (fold (pubsub_apply de) ops s) ! q = queues s ! q @ topic_payloads de t ops"
proof (induction ops arbitrary: s)
  case Nil
  then show ?case by simp
next
  case (Cons op ops)
  show ?case
  proof (cases op)
    case (Subscribe t')
    have "q < length (queues s)" using Cons.prems by (auto simp: listens_def pubsub_wf_def)
    then have "queues (snd (subscribe t' s)) ! q = queues s ! q" by (simp add: subscribe_def Let_def nth_append)
    with Subscribe Cons show ?thesis by (simp add: pubsub_wf_subscribe listens_subscribe)
  next
    case (Incoming src payload)
    have "topic_payloads de t (op # ops) = topic_payloads de t [Incoming src payload] @ topic_payloads de t ops"
      by (simp add: Incoming split: sum.splits)
    with Incoming Cons handle_queue [of s q t de src payload] show ?thesis
      by (simp add: pubsub_wf_handle listens_handle del: topic_payloads.simps)
  qed
qed

section \<open>Properties\<close>

text \<open>
  C18. A subscriber receives exactly the payloads published on its topic after it subscribed, in the
  order in which they arrive, whatever other subscriptions and messages there are; messages that do
  not decode are not delivered.
\<close>

theorem pubsub_delivers:
  "case subscribe t (fold (pubsub_apply de) before pubsub_new) of
     (q, s) \<Rightarrow> queues (fold (pubsub_apply de) after s) ! q = topic_payloads de t after"
proof -
  let ?s0 = "fold (pubsub_apply de) before pubsub_new"
  obtain q s where qs: "subscribe t ?s0 = (q, s)" by (cases "subscribe t ?s0")
  have wf: "pubsub_wf s"
    using pubsub_wf_subscribe [OF pubsub_wf_run [OF pubsub_wf_new], of t de before] qs by simp
  have "listens q t s" "queues s ! q = []" using qs by (auto simp: subscribe_def Let_def listens_def)
  with run_queue [OF wf, of q t de after] qs show ?thesis by simp
qed

text \<open>
  A remote call returns what the remote handler computed: the request the caller sends makes the
  callee answer the caller, that answer completes the pending call with the handler's value (or the
  text of its error), and a repetition of the answer changes nothing.
\<close>

lemma rpc_round_trip:
  assumes "codec ok ser de" "distinct (pending_requests s)"
    and "ok (Request (next_request_id s) meth req)"
    and "ok (rpc_respond handler caller (next_request_id s) meth req)"
  shows "\<exists>i request answer s1 s2.
    call_start ser callee meth req s = ((i, [SendMessage callee ''rpc'' request]), s1) \<and>
    rpc_handle_message ser de handler caller request t = (Inr (), [SendMessage caller ''rpc'' answer], t) \<and>
    rpc_handle_message ser de handler' callee answer s1 = (Inr (), [], s2) \<and>
    answered s2 = answered s @ [(i, case handler caller meth req of Inr v \<Rightarrow> Inr v | Inl e \<Rightarrow> Inl (display_error e))] \<and>
    i \<notin> set (pending_requests s2) \<and>
    rpc_handle_message ser de handler' callee answer s2 = (Inr (), [], s2)"
proof -
  note trip = codec.dec_enc [OF assms(1)]
  show ?thesis using assms(2) trip [OF assms(3)] trip [OF assms(4)]
    by (simp add: call_start_def create_request_def Let_def rpc_handle_message_def) (simp add: rpc_respond_def)
qed

text \<open>
  A response is matched by its number alone: whoever sends it, a response carrying the number of
  a pending call completes that call.
\<close>

lemma rpc_response_from_anyone:
  assumes "de payload = Inr (Response i r)" "i \<in> set (pending_requests s)"
  shows "answered (snd (snd (rpc_handle_message ser de handler anyone payload s))) = answered s @ [(i, r)]"
  using assms by (simp add: rpc_handle_message_def)

end
