(* ===== verification/Sdk_Node.thy ===== *)
theory Sdk_Node
  imports Handshake_Run Services Discovery
begin

text \<open>
  \<^verbatim>\<open>crates/omnimesh-sdk/src/lib.rs\<close>: the node that ties the layers together. What the node shares between
  its tasks is one record; a task is the function of one of its turns. A session lives in a store and
  is named by its position there, because the table of sessions and the session's own loop share it.
  The snow crate, the serialisers, the transport and the services are fields of the environment.
\<close>

section \<open>State\<close>

text \<open>
  \<open>write_queue\<close>: the bounded channel between \<^verbatim>\<open>write_tx\<close> and \<^verbatim>\<open>write_rx\<close>; \<open>loop_running\<close>: the session's
  loop has not ended, so its receiver exists; \<open>conn_out\<close>: what the loop has sent on the connection; \<open>subscribed\<close>:
  its receiver for the shutdown signal is older than the signal, so that the signal reaches it.
\<close>

record 'ts Session =
  s_peer :: PeerId
  write_queue :: "bytes list"
  s_transport :: "'ts NoiseTransport"
  loop_running :: bool
  conn_out :: "bytes list"
  subscribed :: bool

text \<open>\<open>om_spawned\<close>: messages that services have handed to the node in tasks of their own.\<close>

record ('ts, 'svc) OmniMesh =
  om_keypair :: Keypair
  om_peer_id :: PeerId
  om_vip :: VirtualIp
  om_cache :: peer_cache
  om_router :: Router
  om_sessions :: "(PeerId \<times> nat) list"
  om_store :: "'ts Session list"
  om_services :: "(string \<times> 'svc) list"
  om_spawned :: "outgoing list"
  om_shutdown_sent :: bool
  om_running :: bool

text \<open>A connection as the handshake uses it: what it will receive, and whether a send succeeds.\<close>

record peer_conn =
  conn_received :: "bytes option result list"
  conn_put :: "bytes \<Rightarrow> unit result"

record ('hs, 'ts, 'svc) env =
  sdk_snow :: "('hs, 'ts) snow"
  sdk_codecs :: codecs
  sdk_ed :: ed25519
  sdk_hex :: "bytes \<Rightarrow> string"
  sdk_dial :: "SocketAddr \<Rightarrow> peer_conn outcome"
  sdk_rand :: "SocketAddr \<Rightarrow> bytes"
  sdk_handle :: "'svc \<Rightarrow> PeerId \<Rightarrow> bytes \<Rightarrow> unit result \<times> outgoing list \<times> 'svc"

definition register_service :: "string \<Rightarrow> 'svc \<Rightarrow> ('ts, 'svc) OmniMesh \<Rightarrow> ('ts, 'svc) OmniMesh" where
  "register_service service svc n = n\<lparr>om_services := AList.update service svc (om_services n)\<rparr>"

section \<open>Sessions\<close>

definition session_at :: "('ts, 'svc) OmniMesh \<Rightarrow> nat \<Rightarrow> 'ts Session" where
  "session_at n i = om_store n ! i"

definition map_session :: "nat \<Rightarrow> ('ts Session \<Rightarrow> 'ts Session) \<Rightarrow> ('ts, 'svc) OmniMesh \<Rightarrow> ('ts, 'svc) OmniMesh" where
  "map_session i f n = n\<lparr>om_store := (om_store n)[i := f (om_store n ! i)]\<rparr>"

text \<open>A new session under the peer's identifier; an earlier one is no longer in the table.\<close>

definition install_session :: "PeerId \<Rightarrow> 'ts NoiseTransport \<Rightarrow> ('ts, 'svc) OmniMesh \<Rightarrow> ('ts, 'svc) OmniMesh" where
  "install_session peer t n =
     n\<lparr>om_store := om_store n @ [\<lparr>s_peer = peer, write_queue = [], s_transport = t, loop_running = True, conn_out = [],
         subscribed = (\<not> om_shutdown_sent n)\<rparr>],
       om_sessions := AList.update peer (length (om_store n)) (om_sessions n)\<rparr>"

definition connect_addr ::
  "('hs, 'ts, 'svc) env \<Rightarrow> SocketAddr \<Rightarrow> ('ts, 'svc) OmniMesh \<Rightarrow> PeerId outcome async \<times> ('ts, 'svc) OmniMesh" where
  "connect_addr env addr n =
     (case sdk_dial env addr of
        Panicked \<Rightarrow> (Ready Panicked, n)
      | Returned (Inl e) \<Rightarrow> (Ready (Returned (Inl e)), n)
      | Returned (Inr conn) \<Rightarrow>
          (case with_keypair (sdk_snow env) (sdk_rand env addr) Initiator (seed (om_keypair n)) of
             Inl e \<Rightarrow> (Ready (Returned (Inl e)), n)
           | Inr h \<Rightarrow>
               (case fst (perform_handshake (sdk_snow env) (sdk_codecs env) (conn_put conn) h (om_peer_id n) (conn_received conn)) of
                  Blocked \<Rightarrow> (Blocked, n)
                | Ready Panicked \<Rightarrow> (Ready Panicked, n)
                | Ready (Returned (Inl e)) \<Rightarrow> (Ready (Returned (Inl e)), n)
                | Ready (Returned (Inr (t, remote_peer_id))) \<Rightarrow>
                    (Ready (Returned (Inr remote_peer_id)), install_session remote_peer_id t n))))"

text \<open>The loop of \<^verbatim>\<open>connect_peer\<close> over the addresses, with the last error.\<close>

fun try_addrs ::
  "('hs, 'ts, 'svc) env \<Rightarrow> SocketAddr list \<Rightarrow> OmniMeshError option \<Rightarrow> ('ts, 'svc) OmniMesh \<Rightarrow>
     unit outcome async \<times> ('ts, 'svc) OmniMesh" where
  "try_addrs env [] last_err n =
     (Ready (Returned (Inl (case last_err of Some e \<Rightarrow> e | None \<Rightarrow> Connection ''failed to connect to peer addresses''))), n)"
| "try_addrs env (addr # addrs) last_err n =
     (case connect_addr env addr n of
        (Ready (Returned (Inr _)), n) \<Rightarrow> (Ready (Returned (Inr ())), n)
      | (Ready (Returned (Inl e)), n) \<Rightarrow> try_addrs env addrs (Some e) n
      | (Ready Panicked, n) \<Rightarrow> (Ready Panicked, n)
      | (Blocked, n) \<Rightarrow> (Blocked, n))"

definition connect_peer ::
  "('hs, 'ts, 'svc) env \<Rightarrow> instant \<Rightarrow> PeerId \<Rightarrow> ('ts, 'svc) OmniMesh \<Rightarrow> unit outcome async \<times> ('ts, 'svc) OmniMesh" where
  "connect_peer env now peer n =
     (if map_of (om_sessions n) peer \<noteq> None then (Ready (Returned (Inr ())), n)
      else let addrs = lookup now peer (om_cache n)
           in if addrs = []
              then (Ready (Returned (Inl (Discovery (''no addresses found for peer '' @ to_hex (sdk_hex env) peer)))), n)
              else try_addrs env addrs None n)"

section \<open>Sending\<close>

definition QUEUE_CAPACITY :: nat where "QUEUE_CAPACITY = 100"

text \<open>\<^verbatim>\<open>session.write_tx.send(..).await\<close>: an error when the loop has ended, and a wait when the channel is full.\<close>

definition write_send :: "nat \<Rightarrow> bytes \<Rightarrow> ('ts, 'svc) OmniMesh \<Rightarrow> unit result async \<times> ('ts, 'svc) OmniMesh" where
  "write_send i bytes n =
     (if \<not> loop_running (session_at n i) then (Ready (Inl (Connection ''session write channel closed'')), n)
      else if QUEUE_CAPACITY \<le> length (write_queue (session_at n i)) then (Blocked, n)
      else (Ready (Inr ()), map_session i (\<lambda>s. s\<lparr>write_queue := write_queue s @ [bytes]\<rparr>) n))"

text \<open>The transport of a session, locked for one operation.\<close>

definition seal_for :: "('hs, 'ts, 'svc) env \<Rightarrow> nat \<Rightarrow> bytes \<Rightarrow> ('ts, 'svc) OmniMesh \<Rightarrow> bytes result \<times> ('ts, 'svc) OmniMesh" where
  "seal_for env i plain n =
     (case noise_encrypt (sdk_snow env) plain (s_transport (session_at n i)) of
        (r, t) \<Rightarrow> (r, map_session i (\<lambda>s. s\<lparr>s_transport := t\<rparr>) n))"

definition open_for :: "('hs, 'ts, 'svc) env \<Rightarrow> nat \<Rightarrow> bytes \<Rightarrow> ('ts, 'svc) OmniMesh \<Rightarrow> bytes result \<times> ('ts, 'svc) OmniMesh" where
  "open_for env i payload n =
     (case noise_decrypt (sdk_snow env) payload (s_transport (session_at n i)) of
        (r, t) \<Rightarrow> (r, map_session i (\<lambda>s. s\<lparr>s_transport := t\<rparr>) n))"

text \<open>Encrypting, packing and queueing, which all senders do.\<close>

definition send_packet ::
  "('hs, 'ts, 'svc) env \<Rightarrow> u8 \<Rightarrow> bytes \<Rightarrow> nat \<Rightarrow> ('ts, 'svc) OmniMesh \<Rightarrow> unit result async \<times> ('ts, 'svc) OmniMesh" where
  "send_packet env ptype plain i n =
     (case seal_for env i plain n of
        (Inl e, n) \<Rightarrow> (Ready (Inl e), n)
      | (Inr encrypted, n) \<Rightarrow> write_send i (c_packet (sdk_codecs env) (make_packet ptype encrypted)) n)"

definition send_to_peer ::
  "('hs, 'ts, 'svc) env \<Rightarrow> instant \<Rightarrow> PeerId \<Rightarrow> string \<Rightarrow> bytes \<Rightarrow> ('ts, 'svc) OmniMesh \<Rightarrow>
     unit outcome async \<times> ('ts, 'svc) OmniMesh" where
  "send_to_peer env now to service payload n =
     (case (if map_of (om_sessions n) to = None then connect_peer env now to n else (Ready (Returned (Inr ())), n)) of
        (Ready (Returned (Inr _)), n) \<Rightarrow>
          (case map_of (om_sessions n) to of
             None \<Rightarrow>
               (Ready (Returned (Inl (Connection (''no active session to peer '' @ to_hex (sdk_hex env) to)))), n)
           | Some i \<Rightarrow>
               (case send_packet env 2 (c_service (sdk_codecs env) \<lparr>service_id = service, sp_payload = payload\<rparr>) i n of
                  (Ready r, n) \<Rightarrow> (Ready (Returned r), n)
                | (Blocked, n) \<Rightarrow> (Blocked, n)))
      | (r, n) \<Rightarrow> (r, n))"

text \<open>The loops over all sessions ignore errors, and wait where a channel is full.\<close>

fun send_all ::
  "('hs, 'ts, 'svc) env \<Rightarrow> u8 \<Rightarrow> bytes \<Rightarrow> nat list \<Rightarrow> ('ts, 'svc) OmniMesh \<Rightarrow> unit async \<times> ('ts, 'svc) OmniMesh" where
  "send_all env ptype plain [] n = (Ready (), n)"
| "send_all env ptype plain (i # is) n =
     (case send_packet env ptype plain i n of
        (Ready _, n) \<Rightarrow> send_all env ptype plain is n
      | (Blocked, n) \<Rightarrow> (Blocked, n))"

definition broadcast_to_peers ::
  "('hs, 'ts, 'svc) env \<Rightarrow> string \<Rightarrow> bytes \<Rightarrow> ('ts, 'svc) OmniMesh \<Rightarrow> unit result async \<times> ('ts, 'svc) OmniMesh" where
  "broadcast_to_peers env service payload n =
     (case send_all env 2 (c_service (sdk_codecs env) \<lparr>service_id = service, sp_payload = payload\<rparr>) (map snd (om_sessions n)) n of
        (Ready _, n) \<Rightarrow> (Ready (Inr ()), n)
      | (Blocked, n) \<Rightarrow> (Blocked, n))"

text \<open>One tick of \<^verbatim>\<open>run_probing_loop\<close>.\<close>

definition probing_tick ::
  "('hs, 'ts, 'svc) env \<Rightarrow> u64 \<Rightarrow> ('ts, 'svc) OmniMesh \<Rightarrow> unit async \<times> ('ts, 'svc) OmniMesh" where
  "probing_tick env now_ms n = send_all env 6 (c_time (sdk_codecs env) now_ms) (map snd (om_sessions n)) n"

text \<open>One tick of \<^verbatim>\<open>run_gossip_loop\<close>: for every peer, its link's state to all sessions.\<close>

fun gossip_peers ::
  "('hs, 'ts, 'svc) env \<Rightarrow> u64 \<Rightarrow> PeerId list \<Rightarrow> ('ts, 'svc) OmniMesh \<Rightarrow> unit async \<times> ('ts, 'svc) OmniMesh" where
  "gossip_peers env now [] n = (Ready (), n)"
| "gossip_peers env now (peer # peers) n =
     (case get_link_state_update peer now (om_router n) of
        (None, r) \<Rightarrow> gossip_peers env now peers (n\<lparr>om_router := r\<rparr>)
      | (Some update, r) \<Rightarrow>
          (case send_all env 3 (c_update (sdk_codecs env) update) (map snd (om_sessions n)) (n\<lparr>om_router := r\<rparr>) of
             (Ready _, n) \<Rightarrow> gossip_peers env now peers n
           | (Blocked, n) \<Rightarrow> (Blocked, n)))"

definition gossip_tick ::
  "('hs, 'ts, 'svc) env \<Rightarrow> u64 \<Rightarrow> ('ts, 'svc) OmniMesh \<Rightarrow> unit async \<times> ('ts, 'svc) OmniMesh" where
  "gossip_tick env now n = gossip_peers env now (map fst (om_sessions n)) n"

section \<open>Receiving\<close>

text \<open>The branches of \<^verbatim>\<open>handle_wire_packet\<close>, after the packet was decoded and its magic checked.\<close>

definition handle_data ::
  "('hs, 'ts, 'svc) env \<Rightarrow> PeerId \<Rightarrow> bytes \<Rightarrow> nat \<Rightarrow> ('ts, 'svc) OmniMesh \<Rightarrow> bytes option result \<times> ('ts, 'svc) OmniMesh" where
  "handle_data env from payload i n =
     (case open_for env i payload n of
        (Inl e, n) \<Rightarrow> (Inl e, n)
      | (Inr decrypted, n) \<Rightarrow>
          (case d_service (sdk_codecs env) decrypted of
             Inl e \<Rightarrow> (Inl (Serialization (''service payload deserialize: '' @ e)), n)
           | Inr sp \<Rightarrow>
               (case map_of (om_services n) (service_id sp) of
                  None \<Rightarrow> (Inr None, n)
                | Some svc \<Rightarrow>
                    (case sdk_handle env svc from (sp_payload sp) of
                       (r, spawned, svc) \<Rightarrow>
                         (map_sum id (\<lambda>_. None) r,
                          n\<lparr>om_services := AList.update (service_id sp) svc (om_services n),
                            om_spawned := om_spawned n @ spawned\<rparr>)))))"

definition handle_control ::
  "('hs, 'ts, 'svc) env \<Rightarrow> bytes \<Rightarrow> nat \<Rightarrow> ('ts, 'svc) OmniMesh \<Rightarrow> bytes option result \<times> ('ts, 'svc) OmniMesh" where
  "handle_control env payload i n =
     (case open_for env i payload n of
        (Inl e, n) \<Rightarrow> (Inl e, n)
      | (Inr decrypted, n) \<Rightarrow>
          (Inr None,
           case d_update (sdk_codecs env) decrypted of
             Inl _ \<Rightarrow> n
           | Inr update \<Rightarrow> n\<lparr>om_router := snd (process_link_state_update update (om_router n))\<rparr>))"

definition handle_ping ::
  "('hs, 'ts, 'svc) env \<Rightarrow> bytes \<Rightarrow> nat \<Rightarrow> ('ts, 'svc) OmniMesh \<Rightarrow> bytes option result \<times> ('ts, 'svc) OmniMesh" where
  "handle_ping env payload i n =
     (case open_for env i payload n of
        (Inl e, n) \<Rightarrow> (Inl e, n)
      | (Inr decrypted, n) \<Rightarrow>
          (case seal_for env i decrypted n of
             (Inl e, n) \<Rightarrow> (Inl e, n)
           | (Inr encrypted, n) \<Rightarrow> (Inr (Some (c_packet (sdk_codecs env) (make_packet 7 encrypted))), n)))"

definition handle_pong ::
  "('hs, 'ts, 'svc) env \<Rightarrow> u64 \<Rightarrow> PeerId \<Rightarrow> bytes \<Rightarrow> nat \<Rightarrow> ('ts, 'svc) OmniMesh \<Rightarrow> bytes option result \<times> ('ts, 'svc) OmniMesh" where
  "handle_pong env now_ms from payload i n =
     (case open_for env i payload n of
        (Inl e, n) \<Rightarrow> (Inl e, n)
      | (Inr decrypted, n) \<Rightarrow>
          (Inr None,
           case d_time (sdk_codecs env) decrypted of
             Inl _ \<Rightarrow> n
           | Inr sent_time_ms \<Rightarrow>
               if sent_time_ms \<le> now_ms
               then n\<lparr>om_router := record_latency from (f64_of_int (uint (now_ms - sent_time_ms))) (om_router n)\<rparr>
               else n))"

definition handle_wire_packet ::
  "('hs, 'ts, 'svc) env \<Rightarrow> u64 \<Rightarrow> PeerId \<Rightarrow> bytes \<Rightarrow> nat \<Rightarrow> ('ts, 'svc) OmniMesh \<Rightarrow> bytes option result \<times> ('ts, 'svc) OmniMesh" where
  "handle_wire_packet env now_ms from bytes i n =
     (case d_packet (sdk_codecs env) bytes of
        Inl e \<Rightarrow> (Inl (Serialization (''packet deserialize: '' @ e)), n)
      | Inr packet \<Rightarrow>
          if magic packet \<noteq> MAGIC then (Inl (InvalidPacket ''invalid packet magic''), n)
          else if packet_type packet = 2 then handle_data env from (wp_payload packet) i n
          else if packet_type packet = 3 then handle_control env (wp_payload packet) i n
          else if packet_type packet = 6 then handle_ping env (wp_payload packet) i n
          else if packet_type packet = 7 then handle_pong env now_ms from (wp_payload packet) i n
          else (Inr None, n))"

section \<open>Tasks\<close>

text \<open>One accepted connection of \<^verbatim>\<open>run_accept_loop\<close>; a panic or an error ends only the connection's task.\<close>

definition accept_step ::
  "('hs, 'ts, 'svc) env \<Rightarrow> bytes \<Rightarrow> peer_conn result \<Rightarrow> ('ts, 'svc) OmniMesh \<Rightarrow> ('ts, 'svc) OmniMesh" where
  "accept_step env rand accepted n =
     (case accepted of
        Inl _ \<Rightarrow> n
      | Inr conn \<Rightarrow>
          (case with_keypair (sdk_snow env) rand Responder (seed (om_keypair n)) of
             Inl _ \<Rightarrow> n
           | Inr h \<Rightarrow>
               (case fst (perform_handshake (sdk_snow env) (sdk_codecs env) (conn_put conn) h
                        (keypair_to_peer_id (sdk_ed env) (om_keypair n)) (conn_received conn)) of
                  Ready (Returned (Inr (t, remote_peer_id))) \<Rightarrow> install_session remote_peer_id t n
                | _ \<Rightarrow> n)))"

text \<open>
  A turn of \<^verbatim>\<open>run_session_loop\<close>: one of the three branches of its \<^verbatim>\<open>select!\<close>. \<open>put\<close> is the result of a
  send on the connection. The channel reports its end when it is empty and the session is no longer in
  the table, which holds the only sender.
\<close>

datatype session_event = Outgoing | Incoming "bytes option result" | Shutdown_Signal

definition stop_session :: "nat \<Rightarrow> ('ts, 'svc) OmniMesh \<Rightarrow> ('ts, 'svc) OmniMesh" where
  "stop_session i n = map_session i (\<lambda>s. s\<lparr>loop_running := False\<rparr>) n"

definition conn_send ::
  "(bytes \<Rightarrow> unit result) \<Rightarrow> bytes \<Rightarrow> nat \<Rightarrow> ('ts, 'svc) OmniMesh \<Rightarrow> ('ts, 'svc) OmniMesh" where
  "conn_send put bytes i n =
     (case put bytes of
        Inl _ \<Rightarrow> stop_session i n
      | Inr _ \<Rightarrow> map_session i (\<lambda>s. s\<lparr>conn_out := conn_out s @ [bytes]\<rparr>) n)"

definition session_step ::
  "('hs, 'ts, 'svc) env \<Rightarrow> (bytes \<Rightarrow> unit result) \<Rightarrow> u64 \<Rightarrow> session_event \<Rightarrow> nat \<Rightarrow>
     ('ts, 'svc) OmniMesh \<Rightarrow> ('ts, 'svc) OmniMesh" where
  "session_step env put now_ms ev i n =
     (if \<not> loop_running (session_at n i) then n
      else case ev of
        Outgoing \<Rightarrow>
          (case write_queue (session_at n i) of
             b # q \<Rightarrow> conn_send put b i (map_session i (\<lambda>s. s\<lparr>write_queue := q\<rparr>) n)
           | [] \<Rightarrow> if i \<in> set (map snd (om_sessions n)) then n else stop_session i n)
      | Incoming (Inr (Some bytes)) \<Rightarrow>
          (case handle_wire_packet env now_ms (s_peer (session_at n i)) bytes i n of
             (Inr (Some reply), n) \<Rightarrow> conn_send put reply i n
           | (_, n) \<Rightarrow> n)
      | Incoming _ \<Rightarrow> stop_session i n
      | Shutdown_Signal \<Rightarrow> if om_shutdown_sent n \<and> subscribed (session_at n i) then stop_session i n else n)"

text \<open>A task in which a service sends, such as the answer to a remote call; its result is ignored.\<close>

definition spawned_step :: "('hs, 'ts, 'svc) env \<Rightarrow> instant \<Rightarrow> ('ts, 'svc) OmniMesh \<Rightarrow> ('ts, 'svc) OmniMesh" where
  "spawned_step env now n =
     (case om_spawned n of
        [] \<Rightarrow> n
      | SendMessage to service payload # rest \<Rightarrow>
          snd (send_to_peer env now to service payload (n\<lparr>om_spawned := rest\<rparr>))
      | BroadcastMessage service payload # rest \<Rightarrow>
          snd (broadcast_to_peers env service payload (n\<lparr>om_spawned := rest\<rparr>)))"

text \<open>\<open>transport_result\<close> is what shutting the transport down returns.\<close>

definition sdk_shutdown :: "unit result \<Rightarrow> ('ts, 'svc) OmniMesh \<Rightarrow> unit result \<times> ('ts, 'svc) OmniMesh" where
  "sdk_shutdown transport_result n =
     (if \<not> om_running n then (Inr (), n)
      else (transport_result, n\<lparr>om_running := False, om_shutdown_sent := True, om_sessions := []\<rparr>))"

section \<open>The builder\<close>

record 'tr OmniMeshBuilder =
  b_config :: Config
  b_keypair :: "Keypair option"
  b_transport :: "'tr option"

text \<open>\<open>cfg\<close> is the default configuration.\<close>

definition builder_new :: "Config \<Rightarrow> 'tr OmniMeshBuilder" where
  "builder_new cfg = \<lparr>b_config = cfg, b_keypair = None, b_transport = None\<rparr>"

definition builder_config :: "Config \<Rightarrow> 'tr OmniMeshBuilder \<Rightarrow> 'tr OmniMeshBuilder" where
  "builder_config cfg b = b\<lparr>b_config := cfg\<rparr>"

definition builder_keypair :: "Keypair \<Rightarrow> 'tr OmniMeshBuilder \<Rightarrow> 'tr OmniMeshBuilder" where
  "builder_keypair kp b = b\<lparr>b_keypair := Some kp\<rparr>"

definition builder_transport :: "'tr \<Rightarrow> 'tr OmniMeshBuilder \<Rightarrow> 'tr OmniMeshBuilder" where
  "builder_transport t b = b\<lparr>b_transport := Some t\<rparr>"

lemmas builder_defs = builder_new_def builder_config_def builder_keypair_def builder_transport_def

text \<open>
  \<open>listen\<close> and \<open>local_addr\<close> are the transport's operations, \<open>discovery_new\<close> the construction of the
  discovery service; the commands given to it are returned beside the node.
\<close>

definition build ::
  "ed25519 \<Rightarrow> bytes \<Rightarrow> ('tr \<Rightarrow> SocketAddr \<Rightarrow> unit result \<times> 'tr) \<Rightarrow> ('tr \<Rightarrow> SocketAddr option) \<Rightarrow>
     (Config \<Rightarrow> Keypair \<Rightarrow> u16 \<Rightarrow> unit result) \<Rightarrow> 'tr OmniMeshBuilder \<Rightarrow>
     (('ts, 'svc) OmniMesh \<times> DiscoveryCommand list) result" where
  "build ed rand listen local_addr discovery_new b =
     (let keypair = (case b_keypair b of Some k \<Rightarrow> k | None \<Rightarrow> generate rand);
          peer_id = keypair_to_peer_id ed keypair
      in case b_transport b of
           None \<Rightarrow> Inl (Config ''missing required transport layer configuration'')
         | Some transport \<Rightarrow>
             (case listen transport (listen_addr (cfg_transport (b_config b))) of
                (Inl e, _) \<Rightarrow> Inl e
              | (Inr _, transport) \<Rightarrow>
                  (case discovery_new (b_config b) keypair 0 of
                     Inl e \<Rightarrow> Inl e
                   | Inr _ \<Rightarrow>
                       Inr (\<lparr>om_keypair = keypair, om_peer_id = peer_id, om_vip = from_peer_id peer_id, om_cache = cache_new,
                             om_router = router_new peer_id, om_sessions = [], om_store = [], om_services = [],
                             om_spawned = [], om_shutdown_sent = False, om_running = True\<rparr>,
                            case local_addr transport of Some a \<Rightarrow> [RegisterLocalAddr a] | None \<Rightarrow> []))))"

section \<open>The services of the workspace\<close>

text \<open>The services behind \<^verbatim>\<open>dyn Service\<close>, each with its serialiser.\<close>

datatype mesh_service = ChatSvc ChatService | RpcSvc rpc_handler RpcService | PubSubSvc PubSubService

fun mesh_handle :: "mesh_service \<Rightarrow> PeerId \<Rightarrow> bytes \<Rightarrow> unit result \<times> outgoing list \<times> mesh_service" where
  "mesh_handle (ChatSvc s) from payload =
     (case chat_handle_message (finish dec_chat) from payload s of (r, s) \<Rightarrow> (r, [], ChatSvc s))"
| "mesh_handle (RpcSvc handler s) from payload =
     (case rpc_handle_message enc_rpc (finish dec_rpc) handler from payload s of (r, out, s) \<Rightarrow> (r, out, RpcSvc handler s))"
| "mesh_handle (PubSubSvc s) from payload =
     (case pubsub_handle_message (finish dec_pubsub) from payload s of (r, s) \<Rightarrow> (r, [], PubSubSvc s))"

end
