(* ===== verification/Sdk_Links.thy ===== *)
theory Sdk_Links
  imports Sdk_Node
begin

text \<open>
  Two nodes with matching transports: what becomes at one end of the packets the other end sends, one
  by one or to all sessions. The delivery of messages to services is stated against a specification
  that knows no packets.
\<close>

section \<open>The store of sessions\<close>

lemma session_at_map:
  "i < length (om_store n) \<Longrightarrow> session_at (map_session i f n) j = (if j = i then f (session_at n i) else session_at n j)"
  by (simp add: session_at_def map_session_def)

lemma map_session_frame [simp]:
  "om_sessions (map_session i f n) = om_sessions n" "om_services (map_session i f n) = om_services n"
  "om_router (map_session i f n) = om_router n" "om_spawned (map_session i f n) = om_spawned n"
  "om_peer_id (map_session i f n) = om_peer_id n" "om_keypair (map_session i f n) = om_keypair n"
  "om_vip (map_session i f n) = om_vip n" "om_running (map_session i f n) = om_running n"
  "length (om_store (map_session i f n)) = length (om_store n)"
  by (simp_all add: map_session_def)

lemma session_at_frame [simp]:
  "session_at (n\<lparr>om_router := r\<rparr>) i = session_at n i"
  "session_at (n\<lparr>om_services := svs\<rparr>) i = session_at n i"
  "session_at (n\<lparr>om_spawned := sp\<rparr>) i = session_at n i"
  by (simp_all add: session_at_def)

section \<open>Two ends of a session\<close>

text \<open>
  Session \<open>i\<close> of the node \<open>a\<close> and session \<open>j\<close> of the node \<open>b\<close> belong together and nothing is under way
  from \<open>a\<close> to \<open>b\<close> or back; \<open>room\<close> packets can be queued and sealed at \<open>a\<close>.
\<close>

definition paired ::
  "('ts \<Rightarrow> 'd) \<Rightarrow> ('ts \<Rightarrow> 'd) \<Rightarrow> nat \<Rightarrow> ('ts, 'svc) OmniMesh \<Rightarrow> nat \<Rightarrow> ('ts, 'svc) OmniMesh \<Rightarrow> bool" where
  "paired tx rx i a j b \<longleftrightarrow>
     i < length (om_store a) \<and> j < length (om_store b) \<and>
     linked tx rx (s_transport (session_at a i)) (s_transport (session_at b j))"

definition room :: "('ts \<Rightarrow> 'd) \<Rightarrow> ('d \<Rightarrow> nat) \<Rightarrow> nat \<Rightarrow> nat \<Rightarrow> ('ts, 'svc) OmniMesh \<Rightarrow> bool" where
  "room tx left k i a \<longleftrightarrow>
     loop_running (session_at a i) \<and> length (write_queue (session_at a i)) + k \<le> QUEUE_CAPACITY \<and>
     k \<le> left (tx (ts_state (s_transport (session_at a i))))"

lemma packet_sent:
  assumes sn: "snow_xx (sdk_snow env) tx rx left pub" "sdk_snow env' = sdk_snow env" and cs: "wire_codec (sdk_codecs env)"
    and p: "paired tx rx i a j b" and r: "room tx left (Suc k) i a" and len: "length plain \<le> 65519"
  shows "\<exists>c w a' t. send_packet env ptype plain i a = (Ready (Inr ()), a') \<and>
    write_queue (session_at a' i) = write_queue (session_at a i) @ [w] \<and>
    om_router a' = om_router a \<and> om_sessions a' = om_sessions a \<and> room tx left k i a' \<and>
    d_packet (sdk_codecs env) w = Inr (make_packet ptype c) \<and>
    open_for env' j c b = (Inr plain, map_session j (\<lambda>s. s\<lparr>s_transport := t\<rparr>) b) \<and>
    paired tx rx i a' j (map_session j (\<lambda>s. s\<lparr>s_transport := t\<rparr>) b) \<and>
    tx (ts_state t) = tx (ts_state (s_transport (session_at b j)))"
proof -
  let ?a = "s_transport (session_at a i)" and ?b = "s_transport (session_at b j)"
  have "0 < left (tx (ts_state ?a))" using r by (simp add: room_def)
  from snow_xx.transfer [OF sn(1), of ?a ?b, OF _ len this] p obtain c ta tb where
    t: "noise_encrypt (sdk_snow env) plain ?a = (Inr c, ta)" "noise_decrypt (sdk_snow env) c ?b = (Inr plain, tb)"
      "linked tx rx ta tb" "left (tx (ts_state ta)) = left (tx (ts_state ?a)) - 1" "tx (ts_state tb) = tx (ts_state ?b)"
    and c: "length c = length plain + 16"
    unfolding paired_def by blast
  have i: "i < length (om_store a)" "j < length (om_store b)" using p by (simp_all add: paired_def)
  have "fits c" using c len by (simp add: fits_def)
  then have w: "d_packet (sdk_codecs env) (c_packet (sdk_codecs env) (make_packet ptype c)) = Inr (make_packet ptype c)"
    by (rule wire_codec.packet_trip [OF cs])
  let ?w = "c_packet (sdk_codecs env) (make_packet ptype c)"
  let ?a' = "map_session i (\<lambda>s. s\<lparr>write_queue := write_queue s @ [?w]\<rparr>) (map_session i (\<lambda>s. s\<lparr>s_transport := ta\<rparr>) a)"
  show ?thesis
    by (rule exI [of _ c], rule exI [of _ ?w], rule exI [of _ ?a'], rule exI [of _ tb])
      (use t i r w sn(2) in \<open>auto simp: send_packet_def seal_for_def open_for_def write_send_def session_at_map
         room_def paired_def QUEUE_CAPACITY_def\<close>)
qed

section \<open>Delivery of messages\<close>

text \<open>The specification: a message goes to the service it names, and to nothing else.\<close>

definition deliver ::
  "('svc \<Rightarrow> PeerId \<Rightarrow> bytes \<Rightarrow> unit result \<times> outgoing list \<times> 'svc) \<Rightarrow> PeerId \<Rightarrow> string \<times> bytes \<Rightarrow>
     (string \<times> 'svc) list \<times> outgoing list \<Rightarrow> (string \<times> 'svc) list \<times> outgoing list" where
  "deliver handle from m st =
     (case map_of (fst st) (fst m) of
        None \<Rightarrow> st
      | Some svc \<Rightarrow>
          (case handle svc from (snd m) of
             (_, spawned, svc') \<Rightarrow> (AList.update (fst m) svc' (fst st), snd st @ spawned)))"

definition message_ok :: "string \<times> bytes \<Rightarrow> bool" where
  "message_ok m \<longleftrightarrow> 16 + length (fst m) + length (snd m) \<le> 65519"

definition send_each :: "('hs, 'ts, 'svc) env \<Rightarrow> instant \<Rightarrow> PeerId \<Rightarrow> (string \<times> bytes) list \<Rightarrow> ('ts, 'svc) OmniMesh \<Rightarrow> ('ts, 'svc) OmniMesh" where
  "send_each env now to ms a = fold (\<lambda>m a. snd (send_to_peer env now to (fst m) (snd m) a)) ms a"

definition receive_each :: "('hs, 'ts, 'svc) env \<Rightarrow> u64 \<Rightarrow> PeerId \<Rightarrow> nat \<Rightarrow> bytes list \<Rightarrow> ('ts, 'svc) OmniMesh \<Rightarrow> ('ts, 'svc) OmniMesh" where
  "receive_each env now from j ws b = fold (\<lambda>w b. snd (handle_wire_packet env now from w j b)) ws b"

lemma data_step:
  assumes sn: "snow_xx (sdk_snow env) tx rx left pub" "sdk_snow env' = sdk_snow env"
    and cs: "wire_codec (sdk_codecs env)" "sdk_codecs env' = sdk_codecs env"
    and p: "paired tx rx i a j b" and r: "room tx left (Suc k) i a" and s: "map_of (om_sessions a) to = Some i"
    and ok: "message_ok m"
  shows "\<exists>w a' b'. send_to_peer env now to (fst m) (snd m) a = (Ready (Returned (Inr ())), a') \<and>
    write_queue (session_at a' i) = write_queue (session_at a i) @ [w] \<and> om_sessions a' = om_sessions a \<and>
    handle_wire_packet env' now' sender w j b =
      (case map_of (om_services b) (fst m) of
         None \<Rightarrow> Inr None
       | Some svc \<Rightarrow> map_sum id (\<lambda>_. None) (fst (sdk_handle env' svc sender (snd m))), b') \<and>
    (om_services b', om_spawned b') = deliver (sdk_handle env') sender m (om_services b, om_spawned b) \<and>
    om_router b' = om_router b \<and> room tx left k i a' \<and> paired tx rx i a' j b'"
proof -
  let ?sp = "\<lparr>service_id = fst m, sp_payload = snd m\<rparr>"
  let ?plain = "c_service (sdk_codecs env) ?sp"
  have len: "length ?plain \<le> 65519" using wire_codec.service_size [OF cs(1), of ?sp] ok by (simp add: message_ok_def)
  have fit: "service_ok ?sp" using ok by (simp add: service_ok_def fits_def message_ok_def)
  from packet_sent [OF sn cs(1) p r len, of 2] obtain w c a' t where
    w: "send_packet env 2 ?plain i a = (Ready (Inr ()), a')" "write_queue (session_at a' i) = write_queue (session_at a i) @ [w]"
      "om_sessions a' = om_sessions a" "room tx left k i a'" "d_packet (sdk_codecs env) w = Inr (make_packet 2 c)"
      "open_for env' j c b = (Inr ?plain, map_session j (\<lambda>s. s\<lparr>s_transport := t\<rparr>) b)"
      "paired tx rx i a' j (map_session j (\<lambda>s. s\<lparr>s_transport := t\<rparr>) b)" by blast
  show ?thesis
    using w s cs(2) wire_codec.service_trip [OF cs(1) fit]
    by (auto simp: send_to_peer_def handle_wire_packet_def handle_data_def make_packet_def deliver_def paired_def
        split: option.splits prod.splits)
qed

lemma messages_in_order:
  assumes sn: "snow_xx (sdk_snow env) tx rx left pub" "sdk_snow env' = sdk_snow env"
    and cs: "wire_codec (sdk_codecs env)" "sdk_codecs env' = sdk_codecs env"
  shows "paired tx rx i a j b \<Longrightarrow> room tx left (length ms) i a \<Longrightarrow> map_of (om_sessions a) to = Some i \<Longrightarrow>
    list_all message_ok ms \<Longrightarrow>
    \<exists>ws. write_queue (session_at (send_each env now to ms a) i) = write_queue (session_at a i) @ ws \<and> length ws = length ms \<and>
      (om_services (receive_each env' now' sender j ws b), om_spawned (receive_each env' now' sender j ws b)) =
        fold (deliver (sdk_handle env') sender) ms (om_services b, om_spawned b) \<and>
      om_router (receive_each env' now' sender j ws b) = om_router b \<and>
      paired tx rx i (send_each env now to ms a) j (receive_each env' now' sender j ws b)"
proof (induction ms arbitrary: a b)
  case Nil
  then show ?case by (intro exI [of _ "[]"]) (simp add: send_each_def receive_each_def)
next
  case (Cons m ms)
  from Cons.prems have r: "room tx left (Suc (length ms)) i a" and m: "message_ok m" and ms: "list_all message_ok ms" by simp_all
  from data_step [OF sn cs Cons.prems(1) r Cons.prems(3) m, of now now' sender] obtain w a' b' where
    step: "snd (send_to_peer env now to (fst m) (snd m) a) = a'" "write_queue (session_at a' i) = write_queue (session_at a i) @ [w]"
      "om_sessions a' = om_sessions a" "snd (handle_wire_packet env' now' sender w j b) = b'"
      "(om_services b', om_spawned b') = deliver (sdk_handle env') sender m (om_services b, om_spawned b)"
      "om_router b' = om_router b" "room tx left (length ms) i a'" "paired tx rx i a' j b'" by fastforce
  from Cons.IH [OF step(8,7) _ ms] step(3) Cons.prems(3) obtain ws where
    ws: "write_queue (session_at (send_each env now to ms a') i) = write_queue (session_at a' i) @ ws" "length ws = length ms"
      "(om_services (receive_each env' now' sender j ws b'), om_spawned (receive_each env' now' sender j ws b')) =
         fold (deliver (sdk_handle env') sender) ms (om_services b', om_spawned b')"
      "om_router (receive_each env' now' sender j ws b') = om_router b'"
      "paired tx rx i (send_each env now to ms a') j (receive_each env' now' sender j ws b')" by auto
  show ?case using ws step by (intro exI [of _ "w # ws"]) (simp add: send_each_def receive_each_def)
qed

section \<open>Sending to all sessions\<close>

text \<open>What an operation on another session leaves of session \<open>i\<close> and of the rest of the node.\<close>

definition untouched :: "nat \<Rightarrow> ('ts, 'svc) OmniMesh \<Rightarrow> ('ts, 'svc) OmniMesh \<Rightarrow> bool" where
  "untouched i a a' \<longleftrightarrow> session_at a' i = session_at a i \<and> length (om_store a') = length (om_store a) \<and>
     om_router a' = om_router a \<and> om_sessions a' = om_sessions a"

lemma untouched_trans: "untouched i a b \<Longrightarrow> untouched i b c \<Longrightarrow> untouched i a c"
  by (simp add: untouched_def)

lemma untouched_paired: "untouched i a a' \<Longrightarrow> paired tx rx i a j b \<Longrightarrow> paired tx rx i a' j b"
  by (simp add: untouched_def paired_def)

lemma untouched_room: "untouched i a a' \<Longrightarrow> room tx left k i a \<Longrightarrow> room tx left k i a'"
  by (simp add: untouched_def room_def)

lemma map_session_other: "i \<noteq> j \<Longrightarrow> untouched i a (map_session j f a)"
  by (simp add: untouched_def session_at_def map_session_def)

lemma send_packet_other: "i \<noteq> j \<Longrightarrow> untouched i a (snd (send_packet env ptype plain j a))"
  by (auto simp: send_packet_def seal_for_def write_send_def split: prod.splits sum.splits
      intro: map_session_other untouched_trans)

lemma send_packet_frame:
  "om_sessions (snd (send_packet env ptype plain j a)) = om_sessions a" "om_router (snd (send_packet env ptype plain j a)) = om_router a"
  "length (om_store (snd (send_packet env ptype plain j a))) = length (om_store a)"
  by (simp_all add: send_packet_def seal_for_def write_send_def split: prod.splits sum.splits)

text \<open>No session of a list has a channel that fills up within \<open>k\<close> packets.\<close>

definition no_block :: "nat \<Rightarrow> nat list \<Rightarrow> ('ts, 'svc) OmniMesh \<Rightarrow> bool" where
  "no_block k is a \<longleftrightarrow>
     (\<forall>i \<in> set is. i < length (om_store a) \<and>
        (loop_running (session_at a i) \<longrightarrow> length (write_queue (session_at a i)) + k \<le> QUEUE_CAPACITY))"

lemma send_packet_ready:
  "i < length (om_store a) \<Longrightarrow> loop_running (session_at a i) \<longrightarrow> length (write_queue (session_at a i)) < QUEUE_CAPACITY \<Longrightarrow>
     \<exists>r. fst (send_packet env ptype plain i a) = Ready r"
  by (auto simp: send_packet_def seal_for_def write_send_def session_at_map split: prod.splits sum.splits)

lemma send_packet_queue:
  "i < length (om_store a) \<Longrightarrow>
     loop_running (session_at (snd (send_packet env ptype plain i a)) i) = loop_running (session_at a i) \<and>
     length (write_queue (session_at (snd (send_packet env ptype plain i a)) i)) \<le> Suc (length (write_queue (session_at a i)))"
  by (auto simp: send_packet_def seal_for_def write_send_def session_at_map split: prod.splits sum.splits)

lemma no_block_send:
  assumes "no_block (Suc k) (i # is) a" "i \<notin> set is"
  shows "no_block (Suc k) is (snd (send_packet env ptype plain i a)) \<and> no_block k (i # is) (snd (send_packet env ptype plain i a))"
proof -
  have "no_block (Suc k) is (snd (send_packet env ptype plain i a))"
    using assms send_packet_other [of _ i a env ptype plain] unfolding no_block_def untouched_def by force
  moreover have "no_block k [i] (snd (send_packet env ptype plain i a))"
    using assms send_packet_queue [of i a env ptype plain] send_packet_frame(3) [of env ptype plain i a]
    by (auto simp: no_block_def)
  ultimately show ?thesis by (auto simp: no_block_def)
qed

lemma send_all_other:
  "i \<notin> set is \<Longrightarrow> untouched i a (snd (send_all env ptype plain is a))"
proof (induction "is" arbitrary: a)
  case Nil
  then show ?case by (simp add: untouched_def)
next
  case (Cons j js)
  then show ?case using send_packet_other [of i j a env ptype plain]
    by (auto split: prod.splits async.splits intro: untouched_trans)
qed

lemma send_all_ready:
  "distinct is \<Longrightarrow> no_block (Suc k) is a \<Longrightarrow>
     fst (send_all env ptype plain is a) = Ready () \<and> no_block k is (snd (send_all env ptype plain is a)) \<and>
     om_sessions (snd (send_all env ptype plain is a)) = om_sessions a \<and> om_router (snd (send_all env ptype plain is a)) = om_router a"
proof (induction "is" arbitrary: a)
  case Nil
  then show ?case by (simp add: no_block_def)
next
  case (Cons i "is")
  let ?a = "snd (send_packet env ptype plain i a)"
  from Cons.prems have i: "i \<notin> set is" "distinct is" by simp_all
  from Cons.prems(2) have "i < length (om_store a)" "loop_running (session_at a i) \<longrightarrow> length (write_queue (session_at a i)) < QUEUE_CAPACITY"
    by (auto simp: no_block_def)
  from send_packet_ready [OF this, of env ptype plain] obtain r where r: "send_packet env ptype plain i a = (Ready r, ?a)"
    by (metis prod.collapse)
  note nb = no_block_send [OF Cons.prems(2) i(1), of env ptype plain]
  note ih = Cons.IH [OF i(2), of ?a, OF nb [THEN conjunct1]]
  have "untouched i ?a (snd (send_all env ptype plain is ?a))" by (rule send_all_other) (rule i(1))
  with nb have "no_block k [i] (snd (send_all env ptype plain is ?a))" by (auto simp: no_block_def untouched_def)
  with ih have "no_block k (i # is) (snd (send_all env ptype plain is ?a))" by (auto simp: no_block_def)
  moreover have "send_all env ptype plain (i # is) a = send_all env ptype plain is ?a"
    by (subst send_all.simps, subst r) simp
  ultimately show ?case using ih by (simp add: send_packet_frame)
qed

text \<open>A packet to all sessions reaches the other end of each of them.\<close>

lemma packet_to_all:
  assumes sn: "snow_xx (sdk_snow env) tx rx left pub" "sdk_snow env' = sdk_snow env" and cs: "wire_codec (sdk_codecs env)"
    and len: "length plain \<le> 65519"
  shows "distinct is \<Longrightarrow> i \<in> set is \<Longrightarrow> no_block (Suc k) is a \<Longrightarrow> paired tx rx i a j b \<Longrightarrow> room tx left (Suc k) i a \<Longrightarrow>
    \<exists>c w a' t. send_all env ptype plain is a = (Ready (), a') \<and>
      write_queue (session_at a' i) = write_queue (session_at a i) @ [w] \<and>
      om_router a' = om_router a \<and> om_sessions a' = om_sessions a \<and> room tx left k i a' \<and> no_block k is a' \<and>
      d_packet (sdk_codecs env) w = Inr (make_packet ptype c) \<and>
      open_for env' j c b = (Inr plain, map_session j (\<lambda>s. s\<lparr>s_transport := t\<rparr>) b) \<and>
      paired tx rx i a' j (map_session j (\<lambda>s. s\<lparr>s_transport := t\<rparr>) b) \<and>
      tx (ts_state t) = tx (ts_state (s_transport (session_at b j)))"
proof (induction "is" arbitrary: a)
  case Nil
  then show ?case by simp
next
  case (Cons h "is")
  let ?all = "send_all env ptype plain (h # is) a"
  note ready = send_all_ready [OF Cons.prems(1,3), of env ptype plain]
  let ?a = "snd (send_packet env ptype plain h a)"
  from Cons.prems(3) have "h < length (om_store a)" "loop_running (session_at a h) \<longrightarrow> length (write_queue (session_at a h)) < QUEUE_CAPACITY"
    by (auto simp: no_block_def)
  from send_packet_ready [OF this, of env ptype plain] obtain r where r: "send_packet env ptype plain h a = (Ready r, ?a)"
    by (metis prod.collapse)
  have all: "?all = send_all env ptype plain is ?a"
    by (subst send_all.simps, subst r) simp
  show ?case
  proof (cases "h = i")
    case True
    with packet_sent [OF sn cs Cons.prems(4,5) len, of ptype] obtain c w t where
      w: "write_queue (session_at ?a i) = write_queue (session_at a i) @ [w]" "room tx left k i ?a"
        "d_packet (sdk_codecs env) w = Inr (make_packet ptype c)"
        "open_for env' j c b = (Inr plain, map_session j (\<lambda>s. s\<lparr>s_transport := t\<rparr>) b)"
        "paired tx rx i ?a j (map_session j (\<lambda>s. s\<lparr>s_transport := t\<rparr>) b)"
        "tx (ts_state t) = tx (ts_state (s_transport (session_at b j)))" by fastforce
    have "i \<notin> set is" using True Cons.prems(1) by auto
    then have u: "untouched i ?a (snd ?all)" unfolding all by (rule send_all_other)
    from u w(1) have "write_queue (session_at (snd ?all) i) = write_queue (session_at a i) @ [w]" by (simp add: untouched_def)
    with ready w untouched_paired [OF u w(5)] untouched_room [OF u w(2)] show ?thesis by (metis prod.collapse)
  next
    case False
    with Cons.prems(2) have "i \<in> set is" by simp
    have u: "untouched i a ?a" using False by (intro send_packet_other) simp
    have "no_block (Suc k) is ?a" using no_block_send [OF Cons.prems(3), of env ptype plain] Cons.prems(1) by simp
    from Cons.IH [OF _ \<open>i \<in> set is\<close> this untouched_paired [OF u Cons.prems(4)] untouched_room [OF u Cons.prems(5)]] Cons.prems(1)
    obtain c w a' t where w: "send_all env ptype plain is ?a = (Ready (), a')"
      "write_queue (session_at a' i) = write_queue (session_at ?a i) @ [w]" "room tx left k i a'"
      "d_packet (sdk_codecs env) w = Inr (make_packet ptype c)"
      "open_for env' j c b = (Inr plain, map_session j (\<lambda>s. s\<lparr>s_transport := t\<rparr>) b)"
      "paired tx rx i a' j (map_session j (\<lambda>s. s\<lparr>s_transport := t\<rparr>) b)"
      "tx (ts_state t) = tx (ts_state (s_transport (session_at b j)))" by auto
    have "write_queue (session_at a' i) = write_queue (session_at a i) @ [w]" using w(2) u by (simp add: untouched_def)
    with w ready all show ?thesis by (metis snd_conv)
  qed
qed

end
