(* ===== verification/Sdk_Control.thy ===== *)
theory Sdk_Control
  imports Sdk_Links
begin

text \<open>
  The control traffic of the node: a probe is answered by a pong that records the round-trip time, and
  a gossip tick hands the link states of the node to the routers of its neighbours.
\<close>

section \<open>Probes\<close>

lemma reply_sent:
  assumes sn: "snow_xx (sdk_snow env) tx rx left pub" "sdk_snow env' = sdk_snow env"
    and p: "paired tx rx i a j b" and r: "0 < left (tx (ts_state (s_transport (session_at b j))))"
    and len: "length plain \<le> 65519"
  shows "\<exists>c t u. seal_for env' j plain b = (Inr c, map_session j (\<lambda>s. s\<lparr>s_transport := t\<rparr>) b) \<and> fits c \<and>
    open_for env i c a = (Inr plain, map_session i (\<lambda>s. s\<lparr>s_transport := u\<rparr>) a) \<and>
    paired tx rx i (map_session i (\<lambda>s. s\<lparr>s_transport := u\<rparr>) a) j (map_session j (\<lambda>s. s\<lparr>s_transport := t\<rparr>) b)"
proof -
  let ?a = "s_transport (session_at a i)" and ?b = "s_transport (session_at b j)"
  have "linked tx rx ?b ?a" using p by (simp add: paired_def linked_sym)
  from snow_xx.transfer [OF sn(1) this len r] obtain c tb ta where
    t: "noise_encrypt (sdk_snow env) plain ?b = (Inr c, tb)" "noise_decrypt (sdk_snow env) c ?a = (Inr plain, ta)"
      "linked tx rx tb ta" "length c = length plain + 16" by blast
  have "fits c" using t(4) len by (simp add: fits_def)
  with t p sn(2) linked_sym [OF t(3)] show ?thesis
    by (auto simp: seal_for_def open_for_def paired_def session_at_map)
qed

lemma ping_pong:
  assumes sn: "snow_xx (sdk_snow env) tx rx left pub" "sdk_snow env' = sdk_snow env"
    and cs: "wire_codec (sdk_codecs env)" "sdk_codecs env' = sdk_codecs env"
    and n: "distinct (map snd (om_sessions a))" "i \<in> set (map snd (om_sessions a))" "no_block (Suc k) (map snd (om_sessions a)) a"
    and p: "paired tx rx i a j b" and r: "room tx left (Suc k) i a" "0 < left (tx (ts_state (s_transport (session_at b j))))"
  shows "\<exists>ping a' pong b' a''. probing_tick env sent a = (Ready (), a') \<and>
    write_queue (session_at a' i) = write_queue (session_at a i) @ [ping] \<and>
    handle_wire_packet env' now' me ping j b = (Inr (Some pong), b') \<and> om_router b' = om_router b \<and>
    handle_wire_packet env now peer pong i a' = (Inr None, a'') \<and>
    om_router a'' = (if sent \<le> now then record_latency peer (f64_of_int (uint (now - sent))) (om_router a) else om_router a) \<and>
    paired tx rx i a'' j b'"
proof -
  let ?plain = "c_time (sdk_codecs env) sent"
  have len: "length ?plain \<le> 65519" by (simp add: wire_codec.time_size [OF cs(1)])
  from packet_to_all [OF sn cs(1) len n p r(1), of 6] obtain ping c a' t where
    w: "probing_tick env sent a = (Ready (), a')" "write_queue (session_at a' i) = write_queue (session_at a i) @ [ping]"
      "om_router a' = om_router a" "d_packet (sdk_codecs env) ping = Inr (make_packet 6 c)"
      "open_for env' j c b = (Inr ?plain, map_session j (\<lambda>s. s\<lparr>s_transport := t\<rparr>) b)"
      "paired tx rx i a' j (map_session j (\<lambda>s. s\<lparr>s_transport := t\<rparr>) b)"
      "tx (ts_state t) = tx (ts_state (s_transport (session_at b j)))" by (auto simp: probing_tick_def)
  have j: "j < length (om_store b)" using p by (simp add: paired_def)
  from w(7) r(2) j have "0 < left (tx (ts_state (s_transport (session_at (map_session j (\<lambda>s. s\<lparr>s_transport := t\<rparr>) b) j))))"
    by (simp add: session_at_map)
  from reply_sent [OF sn w(6) this len] obtain d t' u where
    d: "seal_for env' j ?plain (map_session j (\<lambda>s. s\<lparr>s_transport := t\<rparr>) b) =
        (Inr d, map_session j (\<lambda>s. s\<lparr>s_transport := t'\<rparr>) (map_session j (\<lambda>s. s\<lparr>s_transport := t\<rparr>) b))" "fits d"
      "open_for env i d a' = (Inr ?plain, map_session i (\<lambda>s. s\<lparr>s_transport := u\<rparr>) a')"
      "paired tx rx i (map_session i (\<lambda>s. s\<lparr>s_transport := u\<rparr>) a') j
        (map_session j (\<lambda>s. s\<lparr>s_transport := t'\<rparr>) (map_session j (\<lambda>s. s\<lparr>s_transport := t\<rparr>) b))" by blast
  have pong: "d_packet (sdk_codecs env) (c_packet (sdk_codecs env) (make_packet 7 d)) = Inr (make_packet 7 d)"
    by (rule wire_codec.packet_trip [OF cs(1) d(2)])
  define b' where "b' = map_session j (\<lambda>s. s\<lparr>s_transport := t'\<rparr>) (map_session j (\<lambda>s. s\<lparr>s_transport := t\<rparr>) b)"
  define a'' where "a'' = (if sent \<le> now
    then map_session i (\<lambda>s. s\<lparr>s_transport := u\<rparr>) a'\<lparr>om_router := record_latency peer (f64_of_int (uint (now - sent))) (om_router a)\<rparr>
    else map_session i (\<lambda>s. s\<lparr>s_transport := u\<rparr>) a')"
  have "handle_wire_packet env' now' me ping j b = (Inr (Some (c_packet (sdk_codecs env) (make_packet 7 d))), b')"
    using w(4,5) d(1) cs(2) by (simp add: handle_wire_packet_def handle_ping_def make_packet_def b'_def)
  moreover have "handle_wire_packet env now peer (c_packet (sdk_codecs env) (make_packet 7 d)) i a' = (Inr None, a'')"
    using pong d(3) w(3) wire_codec.time_trip [OF cs(1), of sent]
    by (simp add: handle_wire_packet_def handle_pong_def make_packet_def a''_def)
  moreover have "paired tx rx i a'' j b'" using d(4) by (simp add: paired_def a''_def b'_def)
  moreover have "om_router a'' = (if sent \<le> now then record_latency peer (f64_of_int (uint (now - sent))) (om_router a) else om_router a)"
    by (simp add: a''_def w(3))
  moreover have "om_router b' = om_router b" by (simp add: b'_def)
  ultimately show ?thesis using w(1,2) by blast
qed

section \<open>Gossip\<close>

text \<open>The updates of a gossip tick, and the router after it.\<close>

fun tick_updates :: "u64 \<Rightarrow> PeerId list \<Rightarrow> Router \<Rightarrow> LinkStateUpdate list \<times> Router" where
  "tick_updates now [] r = ([], r)"
| "tick_updates now (peer # peers) r =
     (case get_link_state_update peer now r of
        (None, r) \<Rightarrow> tick_updates now peers r
      | (Some u, r) \<Rightarrow> (case tick_updates now peers r of (us, r) \<Rightarrow> (u # us, r)))"

definition process_all :: "LinkStateUpdate list \<Rightarrow> Router \<Rightarrow> Router" where
  "process_all us r = fold (\<lambda>u r. snd (process_link_state_update u r)) us r"

lemma control_received:
  assumes cs: "wire_codec (sdk_codecs env)" "sdk_codecs env' = sdk_codecs env" and ok: "update_ok u"
    and w: "d_packet (sdk_codecs env) w = Inr (make_packet 3 c)"
      "open_for env' j c b = (Inr (c_update (sdk_codecs env) u), map_session j (\<lambda>s. s\<lparr>s_transport := t\<rparr>) b)"
  shows "handle_wire_packet env' now' me w j b =
    (Inr None, (map_session j (\<lambda>s. s\<lparr>s_transport := t\<rparr>) b)\<lparr>om_router := snd (process_link_state_update u (om_router b))\<rparr>)"
  using w cs(2) wire_codec.update_trip [OF cs(1) ok]
  by (simp add: handle_wire_packet_def handle_control_def make_packet_def)

lemma frame_router:
  "paired tx rx i (a\<lparr>om_router := r\<rparr>) j b = paired tx rx i a j b" "paired tx rx i a j (b\<lparr>om_router := r\<rparr>) = paired tx rx i a j b"
  "room tx left k i (a\<lparr>om_router := r\<rparr>) = room tx left k i a" "no_block k is (a\<lparr>om_router := r\<rparr>) = no_block k is a"
  by (simp_all add: paired_def room_def no_block_def)

lemma gossip_run:
  assumes sn: "snow_xx (sdk_snow env) tx rx left pub" "sdk_snow env' = sdk_snow env"
    and cs: "wire_codec (sdk_codecs env)" "sdk_codecs env' = sdk_codecs env"
    and S: "distinct (map snd S)" "i \<in> set (map snd S)"
  shows "tick_updates now peers (om_router a) = (us, r) \<Longrightarrow> list_all update_ok us \<Longrightarrow> om_sessions a = S \<Longrightarrow>
    no_block (length us) (map snd S) a \<Longrightarrow> paired tx rx i a j b \<Longrightarrow> room tx left (length us) i a \<Longrightarrow>
    \<exists>ws a'. gossip_peers env now peers a = (Ready (), a') \<and> om_router a' = r \<and>
      write_queue (session_at a' i) = write_queue (session_at a i) @ ws \<and> length ws = length us \<and>
      om_router (receive_each env' now' me j ws b) = process_all us (om_router b) \<and>
      paired tx rx i a' j (receive_each env' now' me j ws b)"
proof (induction peers arbitrary: a b us)
  case Nil
  then show ?case by (intro exI [of _ "[]"]) (simp add: receive_each_def process_all_def)
next
  case (Cons peer peers)
  obtain ou r1 where g: "get_link_state_update peer now (om_router a) = (ou, r1)" by fastforce
  show ?case
  proof (cases ou)
    case None
    with g Cons.prems Cons.IH [of "a\<lparr>om_router := r1\<rparr>" us b] show ?thesis by (simp add: frame_router)
  next
    case (Some u)
    obtain us' where t: "tick_updates now peers r1 = (us', r)" and us: "us = u # us'"
      using Cons.prems(1) g Some by (auto split: prod.splits)
    let ?a = "a\<lparr>om_router := r1\<rparr>" and ?plain = "c_update (sdk_codecs env) u"
    have ok: "update_ok u" and len: "length ?plain \<le> 65519"
      using Cons.prems(2) us wire_codec.update_size [OF cs(1), of u] by simp_all
    from packet_to_all [OF sn cs(1) len S, of "length us'" ?a j b 3] Cons.prems us obtain c w a' t where
      w: "send_all env 3 ?plain (map snd S) ?a = (Ready (), a')" "write_queue (session_at a' i) = write_queue (session_at a i) @ [w]"
        "om_router a' = r1" "om_sessions a' = S" "room tx left (length us') i a'" "no_block (length us') (map snd S) a'"
        "d_packet (sdk_codecs env) w = Inr (make_packet 3 c)" "open_for env' j c b = (Inr ?plain, map_session j (\<lambda>s. s\<lparr>s_transport := t\<rparr>) b)"
        "paired tx rx i a' j (map_session j (\<lambda>s. s\<lparr>s_transport := t\<rparr>) b)"
      by (auto simp: frame_router)
    let ?b = "(map_session j (\<lambda>s. s\<lparr>s_transport := t\<rparr>) b)\<lparr>om_router := snd (process_link_state_update u (om_router b))\<rparr>"
    have b: "snd (handle_wire_packet env' now' me w j b) = ?b" by (simp add: control_received [OF cs ok w(7,8)])
    from Cons.IH [of a' us' ?b] t w Cons.prems(2) us obtain ws a'' where
      ih: "gossip_peers env now peers a' = (Ready (), a'')" "om_router a'' = r"
        "write_queue (session_at a'' i) = write_queue (session_at a' i) @ ws" "length ws = length us'"
        "om_router (receive_each env' now' me j ws ?b) = process_all us' (om_router ?b)"
        "paired tx rx i a'' j (receive_each env' now' me j ws ?b)"
      by (auto simp: frame_router)
    have "gossip_peers env now (peer # peers) a = (Ready (), a'')" using g Some w(1) ih(1) Cons.prems(3) by simp
    moreover have "receive_each env' now' me j (w # ws) b = receive_each env' now' me j ws ?b" by (simp add: receive_each_def b)
    moreover have "process_all us (om_router b) = process_all us' (om_router ?b)" by (simp add: process_all_def us)
    ultimately show ?thesis using ih w(2) us by (intro exI [of _ "w # ws"] exI [of _ a'']) simp
  qed
qed

end
