(* ===== verification/Sdk_Runs.thy ===== *)
theory Sdk_Runs
  imports Sdk_Links
begin

text \<open>
  Runs of a node: every task's turn and every call is an event. What the operations do to a node is a
  few changes of its state; a property that all of these keep holds after every sequence of events. The
  contract \<open>node_property\<close> lists the changes, and is discharged for the invariant of the session table
  and for the packets a node sends.
\<close>

section \<open>Events\<close>

datatype 'svc node_event =
    Session_Turn nat "bytes \<Rightarrow> unit result" u64 session_event
  | Accepted bytes "peer_conn result"
  | Connect_Addr SocketAddr
  | Send_To instant PeerId string bytes
  | Broadcast string bytes
  | Probe u64
  | Gossip_Tick u64
  | Run_Spawned instant
  | Register string 'svc
  | Discovered peer_cache
  | Shut_Down "unit result"

fun node_step :: "('hs, 'ts, 'svc) env \<Rightarrow> 'svc node_event \<Rightarrow> ('ts, 'svc) OmniMesh \<Rightarrow> ('ts, 'svc) OmniMesh" where
  "node_step env (Session_Turn i put now ev) n = session_step env put now ev i n"
| "node_step env (Accepted rand conn) n = accept_step env rand conn n"
| "node_step env (Connect_Addr addr) n = snd (connect_addr env addr n)"
| "node_step env (Send_To now to service payload) n = snd (send_to_peer env now to service payload n)"
| "node_step env (Broadcast service payload) n = snd (broadcast_to_peers env service payload n)"
| "node_step env (Probe now) n = snd (probing_tick env now n)"
| "node_step env (Gossip_Tick now) n = snd (gossip_tick env now n)"
| "node_step env (Run_Spawned now) n = spawned_step env now n"
| "node_step env (Register service svc) n = register_service service svc n"
| "node_step env (Discovered cache) n = n\<lparr>om_cache := cache\<rparr>"
| "node_step env (Shut_Down r) n = snd (sdk_shutdown r n)"

lemma local_peer_id_router [simp]:
  "local_peer_id (snd (get_link_state_update peer now r)) = local_peer_id r"
  "local_peer_id (snd (process_link_state_update u r)) = local_peer_id r"
  "local_peer_id (record_latency peer x r) = local_peer_id r"
  by (simp_all add: get_link_state_update_def process_link_state_update_def Let_def recorder_defs split: option.splits)

lemma service_never_replies [simp]: "map_sum f (\<lambda>_. None) r \<noteq> Inr (Some reply)"
  by (cases r) simp_all

section \<open>Properties that every operation keeps\<close>

text \<open>
  \<open>queued\<close>, \<open>forward\<close> and \<open>reply\<close> are the ways a packet reaches a channel or a connection: sealed and queued,
  taken from the channel, or sealed as the answer to a ping.
\<close>

locale node_property =
  fixes env :: "('hs, 'ts, 'svc) env" and P :: "('ts, 'svc) OmniMesh \<Rightarrow> bool"
  assumes services: "P n \<Longrightarrow> P (n\<lparr>om_services := svs\<rparr>)"
    and spawned: "P n \<Longrightarrow> P (n\<lparr>om_spawned := sp\<rparr>)"
    and cache: "P n \<Longrightarrow> P (n\<lparr>om_cache := addrs\<rparr>)"
    and router: "P n \<Longrightarrow> local_peer_id r = local_peer_id (om_router n) \<Longrightarrow> P (n\<lparr>om_router := r\<rparr>)"
    and shutdown: "P n \<Longrightarrow> P (n\<lparr>om_running := False, om_shutdown_sent := True, om_sessions := []\<rparr>)"
    and install: "P n \<Longrightarrow> P (install_session peer t n)"
    and transport: "P n \<Longrightarrow> P (map_session i (\<lambda>s. s\<lparr>s_transport := t\<rparr>) n)"
    and stop: "P n \<Longrightarrow> P (map_session i (\<lambda>s. s\<lparr>loop_running := False\<rparr>) n)"
    and queued: "P n \<Longrightarrow> ptype \<in> {2, 3, 6} \<Longrightarrow> noise_encrypt (sdk_snow env) plain t = (Inr c, t') \<Longrightarrow>
      length (write_queue (session_at n i)) < QUEUE_CAPACITY \<Longrightarrow>
      P (map_session i (\<lambda>s. s\<lparr>write_queue := write_queue s @ [c_packet (sdk_codecs env) (make_packet ptype c)]\<rparr>) n)"
    and dropped: "P n \<Longrightarrow> write_queue (session_at n i) = w # q \<Longrightarrow> P (map_session i (\<lambda>s. s\<lparr>write_queue := q\<rparr>) n)"
    and forward: "P n \<Longrightarrow> write_queue (session_at n i) = w # q \<Longrightarrow>
      P (map_session i (\<lambda>s. s\<lparr>conn_out := conn_out s @ [w]\<rparr>) (map_session i (\<lambda>s. s\<lparr>write_queue := q\<rparr>) n))"
    and reply: "P n \<Longrightarrow> noise_encrypt (sdk_snow env) plain t = (Inr c, t') \<Longrightarrow>
      P (map_session i (\<lambda>s. s\<lparr>conn_out := conn_out s @ [c_packet (sdk_codecs env) (make_packet 7 c)]\<rparr>) n)"
begin

lemma seal_keeps: "P n \<Longrightarrow> seal_for env i plain n = (r, n') \<Longrightarrow> P n'"
  by (auto simp: seal_for_def transport split: prod.splits)

lemma open_keeps: "P n \<Longrightarrow> open_for env i payload n = (r, n') \<Longrightarrow> P n'"
  by (auto simp: open_for_def transport split: prod.splits)

lemma seal_cipher: "seal_for env i plain n = (Inr c, n') \<Longrightarrow> \<exists>t t'. noise_encrypt (sdk_snow env) plain t = (Inr c, t')"
  by (auto simp: seal_for_def split: prod.splits)

lemma write_send_keeps:
  assumes "P n" "ptype \<in> {2, 3, 6}" "noise_encrypt (sdk_snow env) plain t = (Inr c, t')"
  shows "P (snd (write_send i (c_packet (sdk_codecs env) (make_packet ptype c)) n))"
  using assms queued by (auto simp: write_send_def)

lemma send_packet_keeps:
  assumes "P n" "ptype \<in> {2, 3, 6}"
  shows "P (snd (send_packet env ptype plain i n))"
proof (cases "seal_for env i plain n")
  case (Pair r n')
  with assms(1) have "P n'" by (rule seal_keeps)
  show ?thesis
  proof (cases r)
    case (Inr c)
    with Pair obtain t t' where "noise_encrypt (sdk_snow env) plain t = (Inr c, t')" using seal_cipher by blast
    from write_send_keeps [OF \<open>P n'\<close> assms(2) this] Inr Pair show ?thesis by (simp add: send_packet_def)
  qed (simp add: send_packet_def Pair \<open>P n'\<close>)
qed

lemma sent_keeps: "send_packet env ptype plain i n = (r, n') \<Longrightarrow> P n \<Longrightarrow> ptype \<in> {2, 3, 6} \<Longrightarrow> P n'"
  using send_packet_keeps [of n ptype plain i] by simp

lemma send_all_keeps: "P n \<Longrightarrow> ptype \<in> {2, 3, 6} \<Longrightarrow> P (snd (send_all env ptype plain is n))"
proof (induction "is" arbitrary: n)
  case (Cons i "is")
  from send_packet_keeps [OF Cons.prems, of plain i] Cons.IH Cons.prems(2) show ?case
    by (auto split: prod.splits async.splits)
qed simp

lemma connect_addr_keeps: "P n \<Longrightarrow> P (snd (connect_addr env addr n))"
  by (auto simp: connect_addr_def install split: sum.splits async.splits outcome.splits)

lemma try_addrs_keeps: "P n \<Longrightarrow> P (snd (try_addrs env addrs e n))"
proof (induction addrs arbitrary: n e)
  case (Cons addr addrs)
  from connect_addr_keeps [OF Cons.prems, of addr] Cons.IH show ?case
    by (auto split: prod.splits async.splits outcome.splits sum.splits)
qed simp

lemma connect_peer_keeps: "P n \<Longrightarrow> P (snd (connect_peer env now peer n))"
  by (simp add: connect_peer_def Let_def try_addrs_keeps)

lemma send_to_peer_keeps:
  assumes "P n"
  shows "P (snd (send_to_peer env now to service payload n))"
proof -
  have "P n'" if "(if map_of (om_sessions n) to = None then connect_peer env now to n else (Ready (Returned (Inr ())), n)) = (r, n')" for r n'
    using that assms connect_peer_keeps [OF assms, of now to] by (auto split: if_splits)
  then show ?thesis unfolding send_to_peer_def
    by (auto split: prod.splits async.splits outcome.splits sum.splits option.splits dest: sent_keeps)
qed

lemma broadcast_keeps: "P n \<Longrightarrow> P (snd (broadcast_to_peers env service payload n))"
  unfolding broadcast_to_peers_def
  using send_all_keeps [of n 2 "c_service (sdk_codecs env) \<lparr>service_id = service, sp_payload = payload\<rparr>" "map snd (om_sessions n)"]
  by (auto split: prod.splits async.splits)

lemma gossip_keeps: "P n \<Longrightarrow> P (snd (gossip_peers env now peers n))"
proof (induction peers arbitrary: n)
  case (Cons peer peers)
  have keep: "P (n\<lparr>om_router := r\<rparr>)" if "get_link_state_update peer now (om_router n) = (ou, r)" for ou r
    using Cons.prems local_peer_id_router(1) [of peer now "om_router n"] that by (intro router) simp_all
  have step: "P n'" if "get_link_state_update peer now (om_router n) = (Some u, r)"
    "send_all env 3 plain is (n\<lparr>om_router := r\<rparr>) = (q, n')" for u r plain "is" q n'
    using that send_all_keeps [of "n\<lparr>om_router := r\<rparr>" 3 plain "is"] keep by simp
  show ?case using Cons.IH Cons.prems
    by (auto split: prod.splits option.splits async.splits dest: step keep)
qed simp

lemma handle_keeps: "P n \<Longrightarrow> P (snd (handle_wire_packet env now peer w i n))"
  by (auto simp: handle_wire_packet_def handle_data_def handle_control_def handle_ping_def handle_pong_def
      split: sum.splits prod.splits option.splits dest: open_keeps seal_keeps intro!: router services spawned)

lemma handle_reply:
  "handle_wire_packet env now peer w i n = (Inr (Some pong), n') \<Longrightarrow>
     \<exists>plain t c t'. noise_encrypt (sdk_snow env) plain t = (Inr c, t') \<and> pong = c_packet (sdk_codecs env) (make_packet 7 c)"
  by (auto simp: handle_wire_packet_def handle_data_def handle_control_def handle_ping_def handle_pong_def
      split: sum.splits prod.splits option.splits if_splits dest!: seal_cipher)

lemma stop_keeps: "P n \<Longrightarrow> P (stop_session i n)"
  by (simp add: stop_session_def stop)

lemma outgoing_keeps: "P n \<Longrightarrow> write_queue (session_at n i) = w # q \<Longrightarrow> P (conn_send put w i (map_session i (\<lambda>s. s\<lparr>write_queue := q\<rparr>) n))"
  by (auto simp: conn_send_def split: sum.splits intro!: stop_keeps dropped forward)

lemma incoming_keeps:
  assumes "P n"
  shows "P (case handle_wire_packet env now peer w i n of (Inr (Some reply), n) \<Rightarrow> conn_send put reply i n | (_, n) \<Rightarrow> n)"
  using handle_keeps [OF assms, of now peer w i] handle_reply [of now peer w i n]
  by (fastforce simp: conn_send_def split: prod.splits sum.splits option.splits intro: stop_keeps reply)

lemma session_step_keeps: "P n \<Longrightarrow> P (session_step env put now ev i n)"
  unfolding session_step_def
  by (auto split: session_event.splits list.splits sum.splits option.splits simp del: prod.case intro: stop_keeps outgoing_keeps incoming_keeps)

lemma accept_keeps: "P n \<Longrightarrow> P (accept_step env rand conn n)"
  by (auto simp: accept_step_def install split: sum.splits async.splits outcome.splits)

lemma spawned_keeps: "P n \<Longrightarrow> P (spawned_step env now n)"
  by (auto simp: spawned_step_def send_to_peer_keeps broadcast_keeps spawned split: list.splits outgoing.splits)

lemma shutdown_keeps: "P n \<Longrightarrow> P (snd (sdk_shutdown r n))"
  by (simp add: sdk_shutdown_def shutdown)

lemma step_keeps: "P n \<Longrightarrow> P (node_step env e n)"
  by (cases e) (simp_all add: session_step_keeps accept_keeps connect_addr_keeps send_to_peer_keeps
      broadcast_keeps probing_tick_def send_all_keeps gossip_tick_def gossip_keeps spawned_keeps
      register_service_def services cache shutdown_keeps)

lemma run_keeps: "P n \<Longrightarrow> P (fold (node_step env) es n)"
  by (induction es arbitrary: n) (simp_all add: step_keeps)

end

section \<open>The session table\<close>

text \<open>
  The node keeps its identity in all its parts; the session table has one session per peer, belonging
  to that peer and shared with no other; no channel exceeds its capacity.
\<close>

definition node_wf :: "PeerId \<Rightarrow> ('ts, 'svc) OmniMesh \<Rightarrow> bool" where
  "node_wf me n \<longleftrightarrow>
     om_peer_id n = me \<and> om_vip n = from_peer_id me \<and> local_peer_id (om_router n) = me \<and>
     distinct (map fst (om_sessions n)) \<and> distinct (map snd (om_sessions n)) \<and>
     (\<forall>(p, i) \<in> set (om_sessions n). i < length (om_store n) \<and> s_peer (session_at n i) = p) \<and>
     (\<forall>i < length (om_store n). length (write_queue (session_at n i)) \<le> QUEUE_CAPACITY)"

lemma snd_update_subset: "set (map snd (AList.update k v xs)) \<subseteq> insert v (set (map snd xs))"
  using set_update_subset [of k v xs] by auto

lemma distinct_snd_update:
  "distinct (map snd xs) \<Longrightarrow> v \<notin> set (map snd xs) \<Longrightarrow> distinct (map snd (AList.update k v xs))"
proof (induction xs)
  case (Cons x xs)
  then show ?case using snd_update_subset [of k v xs] by (cases x) auto
qed simp

lemma node_wf_map:
  assumes "node_wf me n"
    and "i < length (om_store n) \<Longrightarrow> s_peer (f (session_at n i)) = s_peer (session_at n i) \<and>
      length (write_queue (f (session_at n i))) \<le> QUEUE_CAPACITY"
  shows "node_wf me (map_session i f n)"
proof (cases "i < length (om_store n)")
  case True
  with assms show ?thesis by (auto simp: node_wf_def session_at_map split: prod.splits)
next
  case False
  then have "map_session i f n = n" by (simp add: map_session_def list_update_beyond)
  with assms(1) show ?thesis by simp
qed

lemma node_wf_queue: "node_wf me n \<Longrightarrow> i < length (om_store n) \<Longrightarrow> length (write_queue (session_at n i)) \<le> QUEUE_CAPACITY"
  by (simp add: node_wf_def)

lemma node_wf_frame [simp]:
  "node_wf me (n\<lparr>om_services := svs\<rparr>) = node_wf me n" "node_wf me (n\<lparr>om_spawned := sp\<rparr>) = node_wf me n"
  "node_wf me (n\<lparr>om_cache := c\<rparr>) = node_wf me n" "node_wf me (n\<lparr>om_running := run\<rparr>) = node_wf me n"
  "node_wf me (n\<lparr>om_shutdown_sent := run\<rparr>) = node_wf me n"
  by (simp_all add: node_wf_def session_at_def)

lemma node_wf_router: "node_wf me n \<Longrightarrow> local_peer_id r = local_peer_id (om_router n) \<Longrightarrow> node_wf me (n\<lparr>om_router := r\<rparr>)"
  by (simp add: node_wf_def)

lemma node_wf_install: "node_wf me n \<Longrightarrow> node_wf me (install_session peer t n)"
proof -
  assume wf: "node_wf me n"
  have "\<forall>(p, i) \<in> set (om_sessions n). i < length (om_store n)" using wf by (auto simp: node_wf_def)
  then have fresh: "length (om_store n) \<notin> set (map snd (om_sessions n))" by auto
  have entries: "i < length (om_store n) \<and> s_peer (om_store n ! i) = p \<or> (p, i) = (peer, length (om_store n))"
    if "(p, i) \<in> set (AList.update peer (length (om_store n)) (om_sessions n))" for p i
    using that set_update_subset [of peer "length (om_store n)" "om_sessions n"] wf by (auto simp: node_wf_def session_at_def)
  show ?thesis using wf entries distinct_snd_update [OF _ fresh, of peer]
    by (auto simp: node_wf_def install_session_def session_at_def nth_append QUEUE_CAPACITY_def
        dest!: entries split: if_splits)
qed

interpretation wf: node_property env "node_wf me" for env me
proof (unfold_locales, goal_cases)
  case (5 n)
  then show ?case by (auto simp: node_wf_def session_at_def)
qed (auto simp: node_wf_queue session_at_map Suc_le_eq intro: node_wf_router node_wf_install
    intro!: node_wf_map dest: node_wf_queue split: prod.splits)

lemma node_wf_build:
  "build ed rand listen local_addr discovery_new b = Inr (n, cmds) \<Longrightarrow> node_wf (keypair_to_peer_id ed (om_keypair n)) n"
  by (auto simp: build_def Let_def node_wf_def router_new_def split: option.splits prod.splits sum.splits)

section \<open>The packets a node sends\<close>

text \<open>
  A packet as it goes on the wire: it decodes to one with the SDK's magic, version and one of its types, and
  its payload is a ciphertext of the Noise session.
\<close>

definition sealed_packet :: "('hs, 'ts, 'svc) env \<Rightarrow> bytes \<Rightarrow> bool" where
  "sealed_packet env w \<longleftrightarrow>
     (\<exists>ptype c plain t t'. d_packet (sdk_codecs env) w = Inr (make_packet ptype c) \<and> ptype \<in> {2, 3, 6, 7} \<and>
        noise_encrypt (sdk_snow env) plain t = (Inr c, t') \<and> 16 \<le> length c \<and> length c \<le> 65535)"

definition only_sealed :: "('hs, 'ts, 'svc) env \<Rightarrow> ('ts, 'svc) OmniMesh \<Rightarrow> bool" where
  "only_sealed env n \<longleftrightarrow> list_all (\<lambda>s. list_all (sealed_packet env) (write_queue s) \<and> list_all (sealed_packet env) (conn_out s)) (om_store n)"

lemma sealed_made:
  assumes "snow_xx (sdk_snow env) tx rx left pub" "wire_codec (sdk_codecs env)" "ptype \<in> {2, 3, 6, 7}"
    and "noise_encrypt (sdk_snow env) plain t = (Inr c, t')"
  shows "sealed_packet env (c_packet (sdk_codecs env) (make_packet ptype c))"
proof -
  have l: "16 \<le> length c \<and> length c \<le> 65535" using snow_xx.encrypt_size [OF assms(1,4)] by simp
  then have "fits c" by (simp add: fits_def)
  from wire_codec.packet_trip [OF assms(2) this, of ptype] assms(3,4) l show ?thesis unfolding sealed_packet_def by blast
qed

lemma only_sealed_map:
  assumes "only_sealed env n"
    and "i < length (om_store n) \<Longrightarrow> list_all (sealed_packet env) (write_queue (session_at n i)) \<Longrightarrow>
      list_all (sealed_packet env) (conn_out (session_at n i)) \<Longrightarrow>
      list_all (sealed_packet env) (write_queue (f (session_at n i))) \<and> list_all (sealed_packet env) (conn_out (f (session_at n i)))"
  shows "only_sealed env (map_session i f n)"
proof (cases "i < length (om_store n)")
  case True
  with assms show ?thesis
    by (auto simp: only_sealed_def map_session_def session_at_def list_all_length nth_list_update)
next
  case False
  then show ?thesis using assms(1) by (simp add: map_session_def list_update_beyond)
qed

lemma only_sealed_frame [simp]:
  "only_sealed env (n\<lparr>om_services := svs\<rparr>) = only_sealed env n" "only_sealed env (n\<lparr>om_spawned := sp\<rparr>) = only_sealed env n"
  "only_sealed env (n\<lparr>om_cache := c\<rparr>) = only_sealed env n" "only_sealed env (n\<lparr>om_router := r\<rparr>) = only_sealed env n"
  "only_sealed env (n\<lparr>om_running := a, om_shutdown_sent := b, om_sessions := ss\<rparr>) = only_sealed env n"
  by (simp_all add: only_sealed_def)

lemma sealed_node_property:
  assumes "snow_xx (sdk_snow env) tx rx left pub" "wire_codec (sdk_codecs env)"
  shows "node_property env (only_sealed env)"
proof (unfold_locales, goal_cases)
  case (6 n peer t)
  then show ?case by (simp add: only_sealed_def install_session_def)
next
  case (9 n ptype plain t c t' i)
  then show ?case using sealed_made [OF assms _ 9(3), of ptype] by (intro only_sealed_map) auto
next
  case (11 n i w q)
  have d: "only_sealed env (map_session i (\<lambda>s. s\<lparr>write_queue := q\<rparr>) n)" using 11 by (intro only_sealed_map) auto
  have "list_all (sealed_packet env) (write_queue (om_store n ! i))" if "i < length (om_store n)"
    using 11(1) that by (simp add: only_sealed_def list_all_length)
  then have w: "i < length (om_store n) \<Longrightarrow> sealed_packet env w" using 11(2) by (simp add: session_at_def)
  show ?case by (rule only_sealed_map [OF d]) (use w in auto)
next
  case (12 n plain t c t' i)
  then show ?case using sealed_made [OF assms _ 12(2), of 7] by (intro only_sealed_map) auto
qed (auto intro!: only_sealed_map)

end
