(* ===== verification/Sdk_Laws.thy ===== *)
theory Sdk_Laws
  imports Sdk_Control Sdk_Runs
begin

text \<open>
  The properties of the node, with two sample nodes that hold the two ends of a session.
\<close>

section \<open>Sessions whose loop has ended\<close>

definition dead :: "PeerId \<Rightarrow> nat \<Rightarrow> ('ts, 'svc) OmniMesh \<Rightarrow> bool" where
  "dead peer i n \<longleftrightarrow> map_of (om_sessions n) peer = Some i \<and> i < length (om_store n) \<and> \<not> loop_running (session_at n i)"

lemma dead_send:
  assumes "dead peer i n"
  shows "\<exists>e n'. send_to_peer env now peer service payload n = (Ready (Returned (Inl e)), n') \<and> dead peer i n'"
  using assms
  by (auto simp: dead_def send_to_peer_def send_packet_def seal_for_def write_send_def session_at_map
      split: prod.splits sum.splits)

lemma dead_send_each: "dead peer i n \<Longrightarrow> dead peer i (send_each env now peer ms n)"
proof (induction ms arbitrary: n)
  case (Cons m ms)
  from dead_send [OF Cons.prems, of env now "fst m" "snd m"] Cons.IH show ?case by (auto simp: send_each_def)
qed (simp add: send_each_def)

section \<open>Connecting\<close>

lemma connect_addr_error: "connect_addr env addr n = (Ready (Returned (Inl e)), n') \<Longrightarrow> n' = n"
  by (auto simp: connect_addr_def split: sum.splits async.splits outcome.splits)

lemma connect_addr_ok:
  "connect_addr env addr n = (Ready (Returned (Inr who)), n') \<Longrightarrow> \<exists>t. n' = install_session who t n"
  by (auto simp: connect_addr_def split: sum.splits async.splits outcome.splits)

lemma try_addrs_skip:
  "list_all (\<lambda>a. \<exists>e. fst (connect_addr env a n) = Ready (Returned (Inl e))) pre \<Longrightarrow>
     \<exists>err'. try_addrs env (pre @ addrs) err n = try_addrs env addrs err' n \<and> (pre = [] \<longrightarrow> err' = err)"
proof (induction pre arbitrary: err)
  case (Cons a pre)
  from Cons.prems obtain e n' where "connect_addr env a n = (Ready (Returned (Inl e)), n')" by (auto simp: fst_def split: prod.splits)
  with connect_addr_error [OF this] have "try_addrs env ((a # pre) @ addrs) err n = try_addrs env (pre @ addrs) (Some e) n" by simp
  moreover obtain err' where "try_addrs env (pre @ addrs) (Some e) n = try_addrs env addrs err' n"
    using Cons.IH [of "Some e"] Cons.prems by auto
  ultimately show ?case by auto
qed auto

section \<open>Unusable packets\<close>

lemma map_session_same: "f (session_at n i) = session_at n i \<Longrightarrow> map_session i f n = n"
  by (simp add: map_session_def session_at_def)

lemma open_for_refused:
  assumes "snow_xx (sdk_snow env) tx rx left pub" "open_for env i payload n = (Inl e, n')"
  shows "n' = n"
  using assms(2) snow_xx.decrypt_refused [OF assms(1)]
  by (auto simp: open_for_def split: prod.splits intro!: map_session_same)

definition unusable :: "('hs, 'ts, 'svc) env \<Rightarrow> bytes \<Rightarrow> nat \<Rightarrow> ('ts, 'svc) OmniMesh \<Rightarrow> bool" where
  "unusable env w i n \<longleftrightarrow>
     (case d_packet (sdk_codecs env) w of
        Inl _ \<Rightarrow> True
      | Inr p \<Rightarrow> magic p \<noteq> MAGIC \<or> packet_type p \<notin> {2, 3, 6, 7} \<or>
          (\<exists>e. fst (noise_decrypt (sdk_snow env) (wp_payload p) (s_transport (session_at n i))) = Inl e))"

lemma unusable_ignored:
  assumes "snow_xx (sdk_snow env) tx rx left pub" "unusable env w i n"
  shows "\<exists>r. handle_wire_packet env now peer w i n = (r, n) \<and> (\<forall>reply. r \<noteq> Inr (Some reply))"
proof -
  have "open_for env i payload n = (Inl e, n)" if "fst (noise_decrypt (sdk_snow env) payload (s_transport (session_at n i))) = Inl e" for payload e
    using that open_for_refused [OF assms(1), of i payload n] by (auto simp: open_for_def split: prod.splits)
  then show ?thesis using assms(2)
    by (auto simp: unusable_def handle_wire_packet_def handle_data_def handle_control_def handle_ping_def handle_pong_def
        split: sum.splits)
qed

section \<open>Messages that are too long\<close>

lemma seal_too_long:
  assumes "snow_xx (sdk_snow env) tx rx left pub" "65519 < length plain"
  shows "\<exists>e. seal_for env i plain n = (Inl (Crypto (''noise encrypt: '' @ e)), n)"
proof (cases "noise_encrypt (sdk_snow env) plain (s_transport (session_at n i))")
  case (Pair r t)
  show ?thesis
  proof (cases r)
    case (Inl e)
    with Pair have "t = s_transport (session_at n i)" using snow_xx.encrypt_refused [OF assms(1)] by blast
    then have "map_session i (\<lambda>s. s\<lparr>s_transport := t\<rparr>) n = n" by (simp add: map_session_same)
    with Pair Inl show ?thesis by (auto simp: seal_for_def noise_encrypt_def split: prod.splits sum.splits)
  next
    case (Inr c)
    with Pair snow_xx.encrypt_size [OF assms(1), of plain] assms(2) show ?thesis by fastforce
  qed
qed

lemma send_too_long:
  assumes "snow_xx (sdk_snow env) tx rx left pub" "65519 < length plain"
  shows "\<exists>e. send_packet env ptype plain i n = (Ready (Inl (Crypto (''noise encrypt: '' @ e))), n)"
  using seal_too_long [OF assms, of i n] by (auto simp: send_packet_def)

lemma send_all_too_long:
  assumes "snow_xx (sdk_snow env) tx rx left pub" "65519 < length plain"
  shows "send_all env ptype plain is n = (Ready (), n)"
proof (induction "is")
  case (Cons i "is")
  with send_too_long [OF assms, of ptype i n] show ?case by auto
qed simp

text \<open>
  A pong is sent directly on the connection, before the packets waiting in the channel, although those
  were sealed earlier.
\<close>

lemma pong_overtakes:
  assumes "i < length (om_store n)" "loop_running (session_at n i)"
    and "handle_wire_packet env now (s_peer (session_at n i)) w i n = (Inr (Some pong), n')" "put pong = Inr ()"
  shows "write_queue (session_at (session_step env put now (Incoming (Inr (Some w))) i n) i) = write_queue (session_at n i) \<and>
    conn_out (session_at (session_step env put now (Incoming (Inr (Some w))) i n) i) = conn_out (session_at n i) @ [pong]"
proof -
  from assms(3) obtain t u where "n' = map_session i (\<lambda>s. s\<lparr>s_transport := u\<rparr>) (map_session i (\<lambda>s. s\<lparr>s_transport := t\<rparr>) n)"
    by (auto simp: handle_wire_packet_def handle_data_def handle_control_def handle_ping_def handle_pong_def open_for_def seal_for_def
        split: sum.splits prod.splits option.splits if_splits)
  with assms show ?thesis by (simp add: session_step_def conn_send_def session_at_map)
qed

text \<open>
  Sealing and queueing are two steps of a sender, and the lock is held for the first only: of two calls at
  the same time the one that seals second may be queued first.
\<close>

lemma concurrent_sends_swap:
  assumes "i < length (om_store n)" "loop_running (session_at n i)" "length (write_queue (session_at n i)) + 2 \<le> QUEUE_CAPACITY"
    and "seal_for env i p n = (Inr c, n1)" "seal_for env i q n1 = (Inr d, n2)"
  shows "write_queue (session_at (snd (write_send i (c_packet (sdk_codecs env) (make_packet 2 c))
      (snd (write_send i (c_packet (sdk_codecs env) (make_packet 2 d)) n2)))) i) =
    write_queue (session_at n i) @ [c_packet (sdk_codecs env) (make_packet 2 d), c_packet (sdk_codecs env) (make_packet 2 c)]"
  using assms by (auto simp: seal_for_def write_send_def session_at_map split: prod.splits)

section \<open>Two sample nodes\<close>

definition node_a :: PeerId where "node_a = PeerId (replicate 32 7)"
definition node_b :: PeerId where "node_b = PeerId (replicate 32 8)"

definition sample_env :: "(handshake_state, transport_state, mesh_service) env" where
  "sample_env =
     \<lparr>sdk_snow = ref_snow, sdk_codecs = bincode_codecs,
      sdk_ed = \<lparr>dalek_public = id, dalek_sign = (\<lambda>_ _. []), dalek_point = (\<lambda>_. Inr ()), dalek_verify = (\<lambda>_ _ _. Inr ())\<rparr>,
      sdk_hex = lower_hex, sdk_dial = (\<lambda>_. Returned (Inl (Connection ''refused''))), sdk_rand = (\<lambda>_. replicate 32 1),
      sdk_handle = mesh_handle\<rparr>"

definition sample_node :: "PeerId \<Rightarrow> (transport_state, mesh_service) OmniMesh" where
  "sample_node me =
     \<lparr>om_keypair = from_seed (as_bytes me), om_peer_id = me, om_vip = from_peer_id me, om_cache = cache_new,
      om_router = router_new me, om_sessions = [], om_store = [], om_services = [(''chat'', ChatSvc chat_new)],
      om_spawned = [], om_shutdown_sent = False, om_running = True\<rparr>"

definition sample_key :: "u8 \<Rightarrow> cipher_state" where
  "sample_key k = \<lparr>cs_key = replicate 32 k, cs_n = 0\<rparr>"

definition sample_a :: "(transport_state, mesh_service) OmniMesh" where
  "sample_a = install_session node_b \<lparr>ts_state = \<lparr>tr_tx = sample_key 1, tr_rx = sample_key 2\<rparr>, remote_static = None\<rparr> (sample_node node_a)"

definition sample_b :: "(transport_state, mesh_service) OmniMesh" where
  "sample_b = install_session node_a \<lparr>ts_state = \<lparr>tr_tx = sample_key 2, tr_rx = sample_key 1\<rparr>, remote_static = None\<rparr> (sample_node node_b)"

lemma sample_left: "k \<le> 100 \<Longrightarrow> k \<le> cs_left (sample_key b)"
  by (simp add: sample_key_def cs_left_def unsigned_minus_1_eq_mask mask_eq_exp_minus_1)

lemmas sample_defs = sample_a_def sample_b_def sample_node_def install_session_def session_at_def

lemma sample_paired: "paired tr_tx tr_rx 0 sample_a 0 sample_b"
  by (simp add: paired_def linked_def sample_defs)

lemma sample_room: "k \<le> 100 \<Longrightarrow> room tr_tx cs_left k 0 sample_a" "k \<le> 100 \<Longrightarrow> no_block k [0] sample_a"
  by (simp_all add: room_def no_block_def sample_defs sample_left QUEUE_CAPACITY_def)

lemma sample_left_b: "0 < cs_left (tr_tx (ts_state (s_transport (session_at sample_b 0))))"
  using sample_left [of 1 2] by (simp add: sample_defs)

lemma sample_fields [simp]:
  "om_sessions sample_a = [(node_b, 0)]" "om_services sample_b = [(''chat'', ChatSvc chat_new)]" "om_spawned sample_b = []"
  "om_router sample_a = router_new node_a" "om_router sample_b = router_new node_b"
  by (simp_all add: sample_defs)

lemma sample_contracts:
  "snow_xx (sdk_snow sample_env) tr_tx tr_rx cs_left modp_pub" "wire_codec (sdk_codecs sample_env)"
  using modp.spec.snow_xx_axioms bin.wire_codec_axioms by (simp_all add: sample_env_def)

section \<open>Properties\<close>

text \<open>
  C15. A probe measures the round trip: one tick of the probing loop makes the other end of every session
  answer with a pong, and handling the pong records the elapsed time as the latency of that peer, or
  nothing when the clock ran backwards; the answering node's router is unchanged.
\<close>

theorem probe_measures:
  assumes "snow_xx (sdk_snow env) tx rx left pub" "sdk_snow env' = sdk_snow env"
    and "wire_codec (sdk_codecs env)" "sdk_codecs env' = sdk_codecs env"
    and "distinct (map snd (om_sessions a))" "i \<in> set (map snd (om_sessions a))" "no_block (Suc k) (map snd (om_sessions a)) a"
    and "paired tx rx i a j b" "room tx left (Suc k) i a" "0 < left (tx (ts_state (s_transport (session_at b j))))"
  shows "\<exists>ping a' pong b' a''. probing_tick env sent a = (Ready (), a') \<and>
    write_queue (session_at a' i) = write_queue (session_at a i) @ [ping] \<and>
    handle_wire_packet env' now' me ping j b = (Inr (Some pong), b') \<and> om_router b' = om_router b \<and>
    handle_wire_packet env now peer pong i a' = (Inr None, a'') \<and>
    om_router a'' = (if sent \<le> now then record_latency peer (f64_of_int (uint (now - sent))) (om_router a) else om_router a) \<and>
    paired tx rx i a'' j b'"
  using assms by (rule ping_pong)

theorem probe_measures_witness:
  "\<exists>ping a' pong b' a''. probing_tick sample_env 1000 sample_a = (Ready (), a') \<and>
    handle_wire_packet sample_env 1020 node_a ping 0 sample_b = (Inr (Some pong), b') \<and>
    handle_wire_packet sample_env 1045 node_b pong 0 a' = (Inr None, a'') \<and>
    om_router a'' = record_latency node_b (f64_of_int 45) (router_new node_a)"
proof -
  have t: "uint (1045 - 1000 :: u64) = 45" "(1000 :: u64) \<le> 1045" by simp_all
  from probe_measures [OF sample_contracts(1) refl sample_contracts(2) refl, of sample_a 0 0 0 sample_b 1000 1020 node_a 1045 node_b]
    sample_paired sample_room [of 1] sample_left_b show ?thesis
    unfolding sample_fields t by (simp add: t) blast
qed

text \<open>
  C7. Gossip reaches the neighbours: one tick of the gossip loop sends the states of all measured links,
  with consecutive sequence numbers, over every session, and the router at the other end processes
  exactly these updates in order.
\<close>

theorem gossip_tick_delivers:
  assumes "snow_xx (sdk_snow env) tx rx left pub" "sdk_snow env' = sdk_snow env"
    and "wire_codec (sdk_codecs env)" "sdk_codecs env' = sdk_codecs env"
    and "distinct (map snd (om_sessions a))" "i \<in> set (map snd (om_sessions a))"
    and "tick_updates now (map fst (om_sessions a)) (om_router a) = (us, r)" "list_all update_ok us"
    and "no_block (length us) (map snd (om_sessions a)) a" "paired tx rx i a j b" "room tx left (length us) i a"
  shows "\<exists>ws a'. gossip_tick env now a = (Ready (), a') \<and> om_router a' = r \<and>
    write_queue (session_at a' i) = write_queue (session_at a i) @ ws \<and> length ws = length us \<and>
    om_router (receive_each env' now' me j ws b) = process_all us (om_router b) \<and>
    paired tx rx i a' j (receive_each env' now' me j ws b)"
  unfolding gossip_tick_def by (rule gossip_run [OF assms(1-7) assms(8) refl assms(9-11)])

definition sample_measured :: "(transport_state, mesh_service) OmniMesh" where
  "sample_measured = sample_a\<lparr>om_router := record_latency node_b (f64_lit 20) (router_new node_a)\<rparr>"

theorem gossip_tick_delivers_witness:
  "\<exists>ws a' u. gossip_tick sample_env 5 sample_measured = (Ready (), a') \<and> length ws = 1 \<and>
    source u = node_a \<and> destination u = node_b \<and> seqno u = 1 \<and>
    om_router (receive_each sample_env 0 node_a 0 ws sample_b) = process_all [u] (router_new node_b)"
proof -
  let ?r = "record_latency node_b (f64_lit 20) (router_new node_a)"
  obtain u r where u: "tick_updates 5 [node_b] ?r = ([u], r)" "source u = node_a" "destination u = node_b" "seqno u = 1"
    by (auto simp: get_link_state_update_def recorder_defs router_new_def)
  have ok: "list_all update_ok [u]" using u by (simp add: update_ok_def peer_wf_def node_a_def node_b_def)
  have "om_sessions sample_measured = [(node_b, 0)]" "om_router sample_measured = ?r" by (simp_all add: sample_measured_def)
  with gossip_tick_delivers [OF sample_contracts(1) refl sample_contracts(2) refl, of sample_measured 0 5 "[u]" r 0 sample_b]
    u ok sample_room [of 1] sample_paired show ?thesis by (fastforce simp: sample_measured_def frame_router)
qed


definition sample_config :: Config where
  "sample_config = Config_default OtherUnix Map.empty ''id''"


text \<open>
  C27. Unusable packets are ignored: a packet that does not decode, has the wrong magic or an unknown type,
  or does not authenticate leaves the whole node as it was, and the session's loop goes on.
\<close>

theorem unusable_packet_ignored:
  assumes "snow_xx (sdk_snow env) tx rx left pub" "unusable env w i n"
  shows "session_step env put now (Incoming (Inr (Some w))) i n = n"
  using unusable_ignored [OF assms, of now "s_peer (session_at n i)"]
  by (auto simp: session_step_def split: sum.splits option.splits)

theorem unusable_packet_ignored_witness:
  "session_step sample_env (\<lambda>_. Inr ()) 0 (Incoming (Inr (Some [1, 2, 3]))) 0 sample_b = sample_b"
  by (rule unusable_packet_ignored [OF sample_contracts(1)])
    (simp add: unusable_def sample_env_def bincode_codecs_def finish_def dec_packet_def take_bytes_def)

text \<open>
  C9. Everything is sealed: from its construction on, through any sequence of events, every packet that a node
  has queued on a session or sent on its connection decodes to one with the magic, the version and a type of
  the protocol, and its payload is a ciphertext of a Noise session of at most 65535 bytes.
\<close>

theorem only_sealed_packets:
  assumes "snow_xx (sdk_snow env) tx rx left pub" "wire_codec (sdk_codecs env)"
    and "build ed rand listen local_addr discovery_new b = Inr (n, cmds)"
  shows "only_sealed env (fold (node_step env) es n)"
proof -
  have "only_sealed env n" using assms(3)
    by (auto simp: build_def Let_def only_sealed_def split: option.splits prod.splits sum.splits)
  with node_property.run_keeps [OF sealed_node_property [OF assms(1,2)]] show ?thesis by blast
qed

theorem only_sealed_packets_witness:
  "\<exists>n. build (sdk_ed sample_env) (replicate 32 1) (\<lambda>t _. (Inr (), t)) (\<lambda>_. None) (\<lambda>_ _ _. Inr ())
      ((builder_new sample_config)\<lparr>b_transport := Some ()\<rparr>) = Inr (n :: (transport_state, mesh_service) OmniMesh, []) \<and>
    only_sealed sample_env (fold (node_step sample_env) [Accepted [1] (Inl (Transport ''closed'')), Probe 0, Gossip_Tick 1] n)"
proof -
  obtain n :: "(transport_state, mesh_service) OmniMesh" where
    n: "build (sdk_ed sample_env) (replicate 32 1) (\<lambda>t _. (Inr (), t)) (\<lambda>_. None) (\<lambda>_ _ _. Inr ())
      ((builder_new sample_config)\<lparr>b_transport := Some ()\<rparr>) = Inr (n, [])"
    by (simp add: build_def builder_new_def Let_def)
  from only_sealed_packets [OF sample_contracts n] n show ?thesis by blast
qed

text \<open>
  C34. Messages that are too long for one Noise message: broadcasting one reports success and sends nothing to
  anybody, without any trace in the node; sending it to a peer with a session fails.
\<close>

theorem oversized_broadcast_lost:
  assumes "snow_xx (sdk_snow env) tx rx left pub" "wire_codec (sdk_codecs env)"
    and "65503 < length service + length payload"
  shows "broadcast_to_peers env service payload n = (Ready (Inr ()), n) \<and>
    (map_of (om_sessions n) peer \<noteq> None \<longrightarrow>
      (\<exists>e. send_to_peer env now peer service payload n = (Ready (Returned (Inl (Crypto (''noise encrypt: '' @ e)))), n)))"
proof -
  have l: "65519 < length (c_service (sdk_codecs env) \<lparr>service_id = service, sp_payload = payload\<rparr>)"
    using wire_codec.service_size [OF assms(2)] assms(3) by simp
  have "\<exists>e. send_to_peer env now peer service payload n = (Ready (Returned (Inl (Crypto (''noise encrypt: '' @ e)))), n)"
    if s: "map_of (om_sessions n) peer = Some i" for i
    using send_too_long [OF assms(1) l, of 2 i n] s by (auto simp: send_to_peer_def)
  with send_all_too_long [OF assms(1) l] show ?thesis by (auto simp: broadcast_to_peers_def)
qed

theorem oversized_broadcast_lost_witness:
  "broadcast_to_peers sample_env ''pubsub'' (replicate 65498 0) sample_a = (Ready (Inr ()), sample_a)"
  using oversized_broadcast_lost [OF sample_contracts, of "''pubsub''" "replicate 65498 0" sample_a] by simp



text \<open>
  C28. Connecting to a peer tries the discovered addresses in order until one answers and keeps the session
  with whoever answered there; when that is another peer the call succeeds all the same, and a message
  to the wanted peer fails.
\<close>

theorem connect_first_answer:
  assumes "map_of (om_sessions n) peer = None" "lookup now peer (om_cache n) = before @ addr # after"
    and "list_all (\<lambda>a. \<exists>e. fst (connect_addr env a n) = Ready (Returned (Inl e))) before"
    and "connect_addr env addr n = (Ready (Returned (Inr who)), n')"
  shows "connect_peer env now peer n = (Ready (Returned (Inr ())), n') \<and>
    map_of (om_sessions n') who = Some (length (om_store n)) \<and> s_peer (session_at n' (length (om_store n))) = who \<and>
    (who \<noteq> peer \<longrightarrow> send_to_peer env now peer service payload n =
       (Ready (Returned (Inl (Connection (''no active session to peer '' @ to_hex (sdk_hex env) peer)))), n'))"
proof -
  obtain t where t: "n' = install_session who t n" using connect_addr_ok [OF assms(4)] by blast
  from try_addrs_skip [OF assms(3), of "addr # after" None] assms(4)
  have "try_addrs env (before @ addr # after) None n = (Ready (Returned (Inr ())), n')" by auto
  then have c: "connect_peer env now peer n = (Ready (Returned (Inr ())), n')"
    using assms(1,2) by (simp add: connect_peer_def Let_def)
  with assms(1) t show ?thesis by (simp add: install_session_def session_at_def send_to_peer_def)
qed

definition addr_one :: SocketAddr where "addr_one = SocketAddrV4 [10, 0, 0, 1] 4433"
definition addr_two :: SocketAddr where "addr_two = SocketAddrV4 [10, 0, 0, 2] 4433"

text \<open>The first address refuses, the second answers with the given message.\<close>

definition dial_two :: "bytes \<Rightarrow> SocketAddr \<Rightarrow> peer_conn outcome" where
  "dial_two m addr =
     (if addr = addr_one then Returned (Inl (Connection ''refused''))
      else Returned (Inr \<lparr>conn_received = [Inr (Some m)], conn_put = (\<lambda>_. Inr ())\<rparr>))"

definition sample_cached :: "PeerId \<Rightarrow> (transport_state, mesh_service) OmniMesh" where
  "sample_cached peer =
     (sample_node node_a)\<lparr>om_cache := cache_insert 0 peer addr_two (cache_insert 0 peer addr_one cache_new)\<rparr>"

lemma sample_answer:
  "\<exists>m t. \<forall>n. om_keypair n = from_seed (as_bytes node_a) \<and> om_peer_id n = node_a \<longrightarrow>
     connect_addr (sample_env\<lparr>sdk_dial := dial_two m\<rparr>) addr_two n = (Ready (Returned (Inr node_b)), install_session node_b t n)"
proof -
  from handshake_pair [OF modp.spec.snow_xx_axioms bin.wire_codec_axioms, of "as_bytes node_a" "replicate 32 1"
      "replicate 32 4" "replicate 32 3" node_a node_b]
  obtain hi m t out where h: "with_keypair ref_snow (replicate 32 1) Initiator (as_bytes node_a) = Inr hi"
    "perform_handshake ref_snow bincode_codecs (\<lambda>_. Inr ()) hi node_a [Inr (Some m)] = (Ready (Returned (Inr (t, node_b))), out)"
    by (auto simp: peer_wf_def node_a_def node_b_def)
  then show ?thesis
    by (intro exI [of _ m] exI [of _ t])
      (simp add: connect_addr_def sample_env_def dial_two_def addr_one_def addr_two_def seed_def from_seed_def)
qed

theorem connect_first_answer_witness:
  "\<exists>m n'. connect_peer (sample_env\<lparr>sdk_dial := dial_two m\<rparr>) 1 (PeerId (replicate 32 9)) (sample_cached (PeerId (replicate 32 9))) =
      (Ready (Returned (Inr ())), n') \<and> map_of (om_sessions n') node_b = Some 0"
proof -
  let ?peer = "PeerId (replicate 32 9)"
  have "om_keypair (sample_cached ?peer) = from_seed (as_bytes node_a)" "om_peer_id (sample_cached ?peer) = node_a"
    by (simp_all add: sample_cached_def sample_node_def)
  with sample_answer obtain m t where m: "connect_addr (sample_env\<lparr>sdk_dial := dial_two m\<rparr>) addr_two (sample_cached ?peer) =
     (Ready (Returned (Inr node_b)), install_session node_b t (sample_cached ?peer))" by blast
  have l: "lookup 1 ?peer (om_cache (sample_cached ?peer)) = [addr_one] @ addr_two # []"
    by (simp add: lookup_def active_def sample_cached_def sample_node_def cache_insert_def insert_with_ttl_def cache_new_def
        DEFAULT_TTL_def addr_one_def addr_two_def)
  have e: "list_all (\<lambda>a. \<exists>e. fst (connect_addr (sample_env\<lparr>sdk_dial := dial_two m\<rparr>) a (sample_cached ?peer)) =
      Ready (Returned (Inl e))) [addr_one]"
    by (simp add: connect_addr_def dial_two_def)
  have n: "map_of (om_sessions (sample_cached ?peer)) ?peer = None" by (simp add: sample_cached_def sample_node_def)
  from connect_first_answer [OF n l e m] show ?thesis by (auto simp: sample_cached_def sample_node_def)
qed

end
