(* ===== verification/Secure_Channel.thy ===== *)
theory Secure_Channel
  imports Crypto_Ops
begin

text \<open>
  \<^verbatim>\<open>crates/omnimesh-crypto/src/channel.rs\<close>: the channel that ratchets its key after every message.
  The contract it relies on is the union of the two contracts of \<open>Crypto_Ops\<close>. Two endpoints and the
  messages in flight between them form a \<open>duplex\<close>, on which any interleaving of sends and in-order
  deliveries is a list of events.
\<close>

section \<open>Operations\<close>

definition REKEY_THRESHOLD :: u64 where "REKEY_THRESHOLD = 1000000"

record SecureChannel =
  send_key :: bytes
  recv_key :: bytes
  send_counter :: u64
  recv_counter :: u64

definition channel_new :: "expander \<Rightarrow> bytes \<Rightarrow> bool \<Rightarrow> SecureChannel result" where
  "channel_new hkdf shared_secret is_initiator =
     (case derive_key_pair hkdf shared_secret None TRANSPORT of
        Inl e \<Rightarrow> Inl e
      | Inr (key_a, key_b) \<Rightarrow>
          (let (s, r) = (if is_initiator then (key_a, key_b) else (key_b, key_a))
           in Inr \<lparr>send_key = s, recv_key = r, send_counter = 0, recv_counter = 0\<rparr>))"

definition em_dash :: string where
  "em_dash = [CHR 0xE2, CHR 0x80, CHR 0x94]"

definition channel_encrypt ::
  "cipher \<Rightarrow> expander \<Rightarrow> bytes \<Rightarrow> bytes \<Rightarrow> SecureChannel \<Rightarrow> bytes result \<times> SecureChannel" where
  "channel_encrypt seal hkdf rand plaintext ch =
     (if REKEY_THRESHOLD \<le> send_counter ch
      then (Inl (Crypto (''send key exhausted '' @ em_dash @ '' rekeying required'')), ch)
      else case encrypt seal rand (send_key ch) plaintext of
             Inl e \<Rightarrow> (Inl e, ch)
           | Inr ciphertext \<Rightarrow>
               (case ratchet_key hkdf (send_key ch) of
                  Inl e \<Rightarrow> (Inl e, ch)
                | Inr k \<Rightarrow> (Inr ciphertext, ch\<lparr>send_key := k, send_counter := send_counter ch + 1\<rparr>)))"

definition channel_decrypt ::
  "cipher \<Rightarrow> expander \<Rightarrow> bytes \<Rightarrow> SecureChannel \<Rightarrow> bytes result \<times> SecureChannel" where
  "channel_decrypt open_cipher hkdf ciphertext ch =
     (if REKEY_THRESHOLD \<le> recv_counter ch
      then (Inl (Crypto (''receive key exhausted '' @ em_dash @ '' rekeying required'')), ch)
      else case decrypt open_cipher (recv_key ch) ciphertext of
             Inl e \<Rightarrow> (Inl e, ch)
           | Inr plaintext \<Rightarrow>
               (case ratchet_key hkdf (recv_key ch) of
                  Inl e \<Rightarrow> (Inl e, ch)
                | Inr k \<Rightarrow> (Inr plaintext, ch\<lparr>recv_key := k, recv_counter := recv_counter ch + 1\<rparr>)))"

definition messages_remaining :: "SecureChannel \<Rightarrow> u64" where
  "messages_remaining ch =
     (let used = max (send_counter ch) (recv_counter ch)
      in if used \<le> REKEY_THRESHOLD then REKEY_THRESHOLD - used else 0)"

definition send_count :: "SecureChannel \<Rightarrow> u64" where
  "send_count ch = send_counter ch"

definition recv_count :: "SecureChannel \<Rightarrow> u64" where
  "recv_count ch = recv_counter ch"

text \<open>The \<^verbatim>\<open>Debug\<close> form, on one line.\<close>

definition debug_channel :: "SecureChannel \<Rightarrow> string" where
  "debug_channel ch =
     ''SecureChannel { send_counter: '' @ show_nat (unat (send_counter ch)) @
     '', recv_counter: '' @ show_nat (unat (recv_counter ch)) @
     '', messages_remaining: '' @ show_nat (unat (messages_remaining ch)) @
     '', keys: '' @ [CHR 0x22] @ ''[REDACTED]'' @ [CHR 0x22] @ '' }''"

text \<open>What \<^verbatim>\<open>drop\<close> leaves in memory.\<close>

definition channel_drop :: "SecureChannel \<Rightarrow> SecureChannel" where
  "channel_drop ch =
     ch\<lparr>send_key := replicate (length (send_key ch)) 0, recv_key := replicate (length (recv_key ch)) 0\<rparr>"

section \<open>Two endpoints\<close>

text \<open>
  \<open>sent_a\<close> and \<open>got_b\<close> are the plaintexts accepted for sending at the initiator and delivered at the
  responder, \<open>wire_ab\<close> the messages in between; likewise in the other direction. \<open>refused\<close> counts
  deliveries the receiver rejected.
\<close>

record duplex =
  side_a :: SecureChannel
  side_b :: SecureChannel
  wire_ab :: "bytes list"
  wire_ba :: "bytes list"
  sent_a :: "bytes list"
  sent_b :: "bytes list"
  got_a :: "bytes list"
  got_b :: "bytes list"
  refused :: nat

datatype channel_event = SendA bytes bytes | SendB bytes bytes | DeliverAB | DeliverBA

fun duplex_step :: "cipher \<Rightarrow> cipher \<Rightarrow> expander \<Rightarrow> channel_event \<Rightarrow> duplex \<Rightarrow> duplex" where
  "duplex_step seal open_cipher hkdf (SendA rand msg) d =
     (case channel_encrypt seal hkdf rand msg (side_a d) of
        (Inr c, ch) \<Rightarrow> d\<lparr>side_a := ch, wire_ab := wire_ab d @ [c], sent_a := sent_a d @ [msg]\<rparr>
      | (Inl e, ch) \<Rightarrow> d\<lparr>side_a := ch\<rparr>)"
| "duplex_step seal open_cipher hkdf (SendB rand msg) d =
     (case channel_encrypt seal hkdf rand msg (side_b d) of
        (Inr c, ch) \<Rightarrow> d\<lparr>side_b := ch, wire_ba := wire_ba d @ [c], sent_b := sent_b d @ [msg]\<rparr>
      | (Inl e, ch) \<Rightarrow> d\<lparr>side_b := ch\<rparr>)"
| "duplex_step seal open_cipher hkdf DeliverAB d =
     (case wire_ab d of
        [] \<Rightarrow> d
      | c # cs \<Rightarrow>
          (case channel_decrypt open_cipher hkdf c (side_b d) of
             (Inr msg, ch) \<Rightarrow> d\<lparr>side_b := ch, wire_ab := cs, got_b := got_b d @ [msg]\<rparr>
           | (Inl e, ch) \<Rightarrow> d\<lparr>side_b := ch, wire_ab := cs, refused := refused d + 1\<rparr>))"
| "duplex_step seal open_cipher hkdf DeliverBA d =
     (case wire_ba d of
        [] \<Rightarrow> d
      | c # cs \<Rightarrow>
          (case channel_decrypt open_cipher hkdf c (side_a d) of
             (Inr msg, ch) \<Rightarrow> d\<lparr>side_a := ch, wire_ba := cs, got_a := got_a d @ [msg]\<rparr>
           | (Inl e, ch) \<Rightarrow> d\<lparr>side_a := ch, wire_ba := cs, refused := refused d + 1\<rparr>))"

fun event_ok :: "channel_event \<Rightarrow> bool" where
  "event_ok (SendA rand msg) = (length rand = NONCE_SIZE)"
| "event_ok (SendB rand msg) = (length rand = NONCE_SIZE)"
| "event_ok _ = True"

definition duplex_new :: "SecureChannel \<Rightarrow> SecureChannel \<Rightarrow> duplex" where
  "duplex_new a b =
     \<lparr>side_a = a, side_b = b, wire_ab = [], wire_ba = [], sent_a = [], sent_b = [], got_a = [], got_b = [], refused = 0\<rparr>"

section \<open>Synchronisation\<close>

locale channel_crypto = aead_cipher seal open_cipher + key_derivation hkdf
  for seal open_cipher :: cipher and hkdf :: expander
begin

definition next_key :: "bytes \<Rightarrow> bytes" where
  "next_key k = (case ratchet_key hkdf k of Inr k' \<Rightarrow> k' | Inl _ \<Rightarrow> [])"

lemma ratchet_next: "ratchet_key hkdf k = Inr (next_key k)"
  using ratchet_key_ok [of k] by (auto simp: next_key_def)

fun in_sync :: "bytes \<Rightarrow> bytes list \<Rightarrow> bytes list \<Rightarrow> bytes \<Rightarrow> bool" where
  "in_sync k [] [] final = (k = final)"
| "in_sync k (c # cs) (p # ps) final = (decrypt open_cipher k c = Inr p \<and> in_sync (next_key k) cs ps final)"
| "in_sync k _ _ final = False"

lemma in_sync_snoc:
  "in_sync k cs ps final \<Longrightarrow> decrypt open_cipher final c = Inr p \<Longrightarrow>
     in_sync k (cs @ [c]) (ps @ [p]) (next_key final)"
  by (induction k cs ps final rule: in_sync.induct) auto

text \<open>One direction: sender counter and key, receiver counter and key, wire, sent and received.\<close>

definition direction :: "u64 \<Rightarrow> bytes \<Rightarrow> u64 \<Rightarrow> bytes \<Rightarrow> bytes list \<Rightarrow> bytes list \<Rightarrow> bytes list \<Rightarrow> bool" where
  "direction sc sk rc rk wire sent got \<longleftrightarrow>
     sc \<le> REKEY_THRESHOLD \<and> unat rc = length got \<and> unat sc = unat rc + length wire \<and>
     (\<exists>flight. sent = got @ flight \<and> in_sync rk wire flight sk)"

lemma counter_succ: "c < REKEY_THRESHOLD \<Longrightarrow> unat (c + 1) = unat c + 1 \<and> c + 1 \<le> REKEY_THRESHOLD"
  by (auto simp: REKEY_THRESHOLD_def word_less_nat_alt word_le_nat_alt unat_word_ariths)

lemma direction_send:
  assumes d: "direction (send_counter ch) (send_key ch) rc rk wire sent got"
    and e: "channel_encrypt seal hkdf rand msg ch = (Inr c, ch')" and r: "length rand = NONCE_SIZE"
  shows "direction (send_counter ch') (send_key ch') rc rk (wire @ [c]) (sent @ [msg]) got \<and>
    recv_key ch' = recv_key ch \<and> recv_counter ch' = recv_counter ch"
proof -
  from e have lt: "send_counter ch < REKEY_THRESHOLD" and c: "encrypt seal rand (send_key ch) msg = Inr c"
    and ch': "ch' = ch\<lparr>send_key := next_key (send_key ch), send_counter := send_counter ch + 1\<rparr>"
    by (auto simp: channel_encrypt_def ratchet_next split: if_splits sum.splits)
  have "decrypt open_cipher (send_key ch) c = Inr msg" by (rule decrypt_encrypt [OF r c])
  with d counter_succ [OF lt] show ?thesis
    by (auto simp: direction_def ch' intro: in_sync_snoc)
qed

lemma direction_deliver:
  assumes "direction sc sk (recv_counter ch) (recv_key ch) (c # cs) sent got"
  shows "\<exists>msg ch'. channel_decrypt open_cipher hkdf c ch = (Inr msg, ch') \<and>
    direction sc sk (recv_counter ch') (recv_key ch') cs sent (got @ [msg]) \<and>
    send_key ch' = send_key ch \<and> send_counter ch' = send_counter ch"
proof -
  from assms obtain flight where f: "sent = got @ flight" "in_sync (recv_key ch) (c # cs) flight sk"
    and n: "sc \<le> REKEY_THRESHOLD" "unat (recv_counter ch) = length got" "unat sc = unat (recv_counter ch) + Suc (length cs)"
    by (auto simp: direction_def)
  from f(2) obtain p ps where p: "flight = p # ps" "decrypt open_cipher (recv_key ch) c = Inr p"
    "in_sync (next_key (recv_key ch)) cs ps sk" by (cases flight) auto
  have lt: "recv_counter ch < REKEY_THRESHOLD" using n by (simp add: word_less_nat_alt word_le_nat_alt)
  show ?thesis
    using lt p f(1) n counter_succ [OF lt] by (auto simp: channel_decrypt_def ratchet_next direction_def not_le)
qed

definition duplex_inv :: "duplex \<Rightarrow> bool" where
  "duplex_inv d \<longleftrightarrow>
     direction (send_counter (side_a d)) (send_key (side_a d)) (recv_counter (side_b d)) (recv_key (side_b d))
       (wire_ab d) (sent_a d) (got_b d) \<and>
     direction (send_counter (side_b d)) (send_key (side_b d)) (recv_counter (side_a d)) (recv_key (side_a d))
       (wire_ba d) (sent_b d) (got_a d) \<and>
     refused d = 0"

lemma encrypt_error_keeps: "channel_encrypt seal hkdf rand msg ch = (Inl e, ch') \<Longrightarrow> ch' = ch"
  by (auto simp: channel_encrypt_def split: if_splits sum.splits)

lemma duplex_inv_step:
  assumes "duplex_inv d" "event_ok ev"
  shows "duplex_inv (duplex_step seal open_cipher hkdf ev d)"
proof (cases ev)
  case (SendA rand msg)
  with assms show ?thesis
    by (auto simp: duplex_inv_def split: sum.splits prod.splits dest: direction_send encrypt_error_keeps)
next
  case (SendB rand msg)
  with assms show ?thesis
    by (auto simp: duplex_inv_def split: sum.splits prod.splits dest: direction_send encrypt_error_keeps)
next
  case DeliverAB
  with assms show ?thesis
    by (cases "wire_ab d") (auto simp: duplex_inv_def dest!: direction_deliver)
next
  case DeliverBA
  with assms show ?thesis
    by (cases "wire_ba d") (auto simp: duplex_inv_def dest!: direction_deliver)
qed

lemma duplex_inv_run:
  "list_all event_ok evs \<Longrightarrow> duplex_inv d \<Longrightarrow> duplex_inv (fold (duplex_step seal open_cipher hkdf) evs d)"
  by (induction evs arbitrary: d) (auto intro: duplex_inv_step)

lemma duplex_inv_new:
  "channel_new hkdf secret True = Inr a \<Longrightarrow> channel_new hkdf secret False = Inr b \<Longrightarrow> duplex_inv (duplex_new a b)"
  by (auto simp: channel_new_def duplex_inv_def duplex_new_def direction_def split: sum.splits)

lemma in_sync_length: "in_sync k cs ps final \<Longrightarrow> length cs = length ps"
  by (induction k cs ps final rule: in_sync.induct) auto

lemma direction_summary:
  assumes "direction sc sk rc rk wire sent got"
  shows "(\<exists>flight. sent = got @ flight \<and> length flight = length wire) \<and> length sent \<le> 1000000"
proof -
  from assms obtain flight where f: "sent = got @ flight" "length wire = length flight"
    and n: "sc \<le> REKEY_THRESHOLD" "unat rc = length got" "unat sc = unat rc + length wire"
    by (auto simp: direction_def dest: in_sync_length)
  have "unat sc \<le> 1000000" using n(1) by (simp add: REKEY_THRESHOLD_def word_le_nat_alt)
  with f n show ?thesis by auto
qed

lemma channel_new_ok: "\<exists>ch. channel_new hkdf secret init = Inr ch"
  using derive_key_pair_ok [of secret None TRANSPORT] by (auto simp: channel_new_def split: if_splits)

end

interpretation real_channel: channel_crypto chapoly_seal chapoly_open hkdf_expand
  by unfold_locales

section \<open>Properties\<close>

text \<open>
  C11. Two channels made from one secret stay synchronised: whatever the interleaving of sends and
  in-order deliveries in both directions, no delivery is refused, what has been received is a prefix
  of what was accepted for sending (the rest is in flight), and no direction carries more than a
  million messages.
\<close>

theorem channel_in_order:
  assumes "channel_crypto seal open_cipher hkdf" "list_all event_ok evs"
    and "channel_new hkdf secret True = Inr a" "channel_new hkdf secret False = Inr b"
  shows "let d = fold (duplex_step seal open_cipher hkdf) evs (duplex_new a b) in
    refused d = 0 \<and>
    (\<exists>flight. sent_a d = got_b d @ flight \<and> length flight = length (wire_ab d)) \<and>
    (\<exists>flight. sent_b d = got_a d @ flight \<and> length flight = length (wire_ba d)) \<and>
    length (sent_a d) \<le> 1000000 \<and> length (sent_b d) \<le> 1000000"
proof -
  have "channel_crypto.duplex_inv open_cipher hkdf (fold (duplex_step seal open_cipher hkdf) evs (duplex_new a b))"
    by (rule channel_crypto.duplex_inv_run [OF assms(1,2)
          channel_crypto.duplex_inv_new [OF assms(1) assms(3) assms(4)]])
  then show ?thesis
    unfolding Let_def channel_crypto.duplex_inv_def [OF assms(1)]
    by (auto dest!: channel_crypto.direction_summary [OF assms(1)])
qed

theorem channel_in_order_witness:
  "\<exists>a b. channel_new hkdf_expand (replicate 32 42) True = Inr a \<and>
     channel_new hkdf_expand (replicate 32 42) False = Inr b \<and>
     refused (fold (duplex_step chapoly_seal chapoly_open hkdf_expand)
       [SendA (replicate 12 0) [104, 105], SendB (replicate 12 1) [111], DeliverAB, DeliverBA, DeliverAB]
       (duplex_new a b)) = 0"
proof -
  obtain a b where ab: "channel_new hkdf_expand (replicate 32 42) True = Inr a"
    "channel_new hkdf_expand (replicate 32 42) False = Inr b"
    using real_channel.channel_new_ok by blast
  have "list_all event_ok [SendA (replicate 12 0) [104, 105], SendB (replicate 12 1) [111], DeliverAB, DeliverBA, DeliverAB]"
    by (simp add: NONCE_SIZE_def)
  from channel_in_order [OF real_channel.channel_crypto_axioms this ab] ab show ?thesis
    unfolding Let_def by blast
qed

text \<open>
  A refused message changes nothing, so a receiver is not thrown out of step by garbage; and a
  message that was accepted once is accepted again only if it is also an encryption under the next
  key.
\<close>

lemma channel_refusal_and_replay:
  assumes "aead_cipher seal open_cipher"
  shows "(case channel_decrypt open_cipher hkdf c ch of
      (Inl e, ch') \<Rightarrow> ch' = ch
    | (Inr msg, ch') \<Rightarrow>
        (case channel_decrypt open_cipher hkdf c ch' of
           (Inl e, ch'') \<Rightarrow> ch'' = ch'
         | (Inr msg', ch'') \<Rightarrow> encrypt seal (take NONCE_SIZE c) (recv_key ch') msg' = Inr c))"
  using aead_cipher.decrypt_only_sealed [OF assms, of _ c]
  by (auto simp: channel_decrypt_def split: sum.splits if_splits)

end
