(* ===== verification/Key_Store.thy ===== *)
theory Key_Store
  imports Identity Config_Model Secure_Channel
begin

text \<open>
  \<^verbatim>\<open>crates/omnimesh-identity/src/keystore.rs\<close>: the encrypted key file. The files are a map from paths
  to contents; which of the system calls fail, and what a failed write leaves behind, are the record
  \<open>store_io\<close>. \<^verbatim>\<open>serde_json\<close> is a pair of functions of which a round trip is assumed; the cipher and
  the key derivation are those of \<open>Crypto_Ops\<close>.
\<close>

section \<open>The store\<close>

record EncryptedKey =
  ek_version :: u32
  ek_nonce :: bytes
  ek_ciphertext :: bytes
  ek_salt :: bytes
  ek_created_at :: string

record json_codec =
  json_write :: "EncryptedKey \<Rightarrow> string + string"
  json_read :: "string \<Rightarrow> string + EncryptedKey"

type_synonym files = "path \<rightharpoonup> string"

text \<open>A failed write reports an error and what the file then holds.\<close>

record store_io =
  mkdir_fault :: "string option"
  write_fault :: "(string \<times> string option) option"
  rename_fault :: "string option"

text \<open>\<^verbatim>\<open>Path::with_extension\<close> on a Unix path without a trailing slash.\<close>

fun split_name :: "path \<Rightarrow> path \<times> string" where
  "split_name p = (let n = rev (takeWhile (\<lambda>c. c \<noteq> CHR ''/'') (rev p)) in (take (length p - length n) p, n))"

definition file_stem :: "string \<Rightarrow> string" where
  "file_stem n =
     (let d = dropWhile (\<lambda>c. c \<noteq> CHR ''.'') (rev n)
      in if d = [] \<or> tl d = [] then n else rev (tl d))"

definition with_extension :: "path \<Rightarrow> string \<Rightarrow> path" where
  "with_extension p ext =
     (case split_name p of (dir, n) \<Rightarrow>
        if n = [] \<or> n = ''..'' then p else dir @ file_stem n @ ''.'' @ ext)"

definition keystore_derive_key :: "expander \<Rightarrow> string \<Rightarrow> bytes \<Rightarrow> bytes option" where
  "keystore_derive_key hkdf passphrase salt =
     (case hkdf (Some salt) (ascii passphrase) KEYSTORE 32 of Inr key \<Rightarrow> Some key | Inl _ \<Rightarrow> None)"

definition store ::
  "cipher \<Rightarrow> expander \<Rightarrow> json_codec \<Rightarrow> store_io \<Rightarrow> bytes \<Rightarrow> bytes \<Rightarrow> string \<Rightarrow> path \<Rightarrow> Keypair \<Rightarrow> string \<Rightarrow> files \<Rightarrow>
     unit outcome \<times> files" where
  "store seal hkdf json io salt nonce_bytes now path kp passphrase fs =
     (case keystore_derive_key hkdf passphrase salt of
        None \<Rightarrow> (Panicked, fs)
      | Some enc_key \<Rightarrow>
     (case cipher_init enc_key of
        Inl e \<Rightarrow> (Returned (Inl (KeyStore (''cipher init failed: '' @ e))), fs)
      | Inr _ \<Rightarrow>
     (case seal enc_key nonce_bytes (seed kp) of
        Inl e \<Rightarrow> (Returned (Inl (KeyStore (''encryption failed: '' @ e))), fs)
      | Inr ciphertext \<Rightarrow>
     (let rec = \<lparr>ek_version = 1, ek_nonce = nonce_bytes, ek_ciphertext = ciphertext, ek_salt = salt, ek_created_at = now\<rparr> in
      case mkdir_fault io of
        Some e \<Rightarrow> (Returned (Inl (KeyStore (''failed to create key directory: '' @ e))), fs)
      | None \<Rightarrow>
     (case json_write json rec of
        Inl e \<Rightarrow> (Returned (Inl (KeyStore (''serialization failed: '' @ e))), fs)
      | Inr text \<Rightarrow>
     (let tmp_path = with_extension path ''tmp'' in
      case write_fault io of
        Some (e, left) \<Rightarrow> (Returned (Inl (KeyStore (''failed to write key file: '' @ e))), fs(tmp_path := left))
      | None \<Rightarrow>
     (let fs = fs(tmp_path \<mapsto> text) in
      case rename_fault io of
        Some e \<Rightarrow> (Returned (Inl (KeyStore (''failed to rename key file: '' @ e))), fs)
      | None \<Rightarrow> (Returned (Inr ()), (fs(tmp_path := None))(path \<mapsto> text)))))))))"

text \<open>\<open>read_fault\<close> is the error of reading a file that cannot be read, a missing one included.\<close>

definition keystore_load ::
  "cipher \<Rightarrow> expander \<Rightarrow> json_codec \<Rightarrow> string \<Rightarrow> path \<Rightarrow> string \<Rightarrow> files \<Rightarrow> Keypair outcome" where
  "keystore_load open_cipher hkdf json read_fault path passphrase fs =
     (case fs path of
        None \<Rightarrow> Returned (Inl (KeyStore (''failed to read key file: '' @ read_fault)))
      | Some text \<Rightarrow>
     (case json_read json text of
        Inl e \<Rightarrow> Returned (Inl (KeyStore (''invalid key file format: '' @ e)))
      | Inr rec \<Rightarrow>
      if ek_version rec \<noteq> 1
      then Returned (Inl (KeyStore (''unsupported key format version: '' @ show_nat (unat (ek_version rec)))))
      else
     (case keystore_derive_key hkdf passphrase (ek_salt rec) of
        None \<Rightarrow> Panicked
      | Some enc_key \<Rightarrow>
     (case cipher_init enc_key of
        Inl e \<Rightarrow> Returned (Inl (KeyStore (''cipher init failed: '' @ e)))
      | Inr _ \<Rightarrow>
     (case open_cipher enc_key (ek_nonce rec) (ek_ciphertext rec) of
        Inl _ \<Rightarrow> Returned (Inl (KeyStore (''decryption failed '' @ [CHR 0xE2, CHR 0x80, CHR 0x94] @
                   '' wrong passphrase or corrupted file'')))
      | Inr seed_bytes \<Rightarrow>
      if length seed_bytes \<noteq> 32
      then Returned (Inl (KeyStore (''invalid seed length: expected 32, got '' @ show_nat (length seed_bytes))))
      else Returned (Inr (from_seed seed_bytes)))))))"

definition keystore_exists :: "path \<Rightarrow> files \<Rightarrow> bool" where
  "keystore_exists path fs \<longleftrightarrow> fs path \<noteq> None"

text \<open>A failure of the overwriting write is ignored; \<open>remove_fault\<close> is the outcome of the removal.\<close>

definition delete :: "bool \<Rightarrow> string option \<Rightarrow> path \<Rightarrow> files \<Rightarrow> unit result \<times> files" where
  "delete overwrite_ok remove_fault path fs =
     (if keystore_exists path fs
      then let fs = (if overwrite_ok then fs(path \<mapsto> replicate 512 (CHR 0x00)) else fs)
           in case remove_fault of
                Some e \<Rightarrow> (Inl (KeyStore (''failed to delete key file: '' @ e)), fs)
              | None \<Rightarrow> (Inr (), fs(path := None))
      else (Inr (), fs))"

section \<open>Storing and loading\<close>

definition json_faithful :: "json_codec \<Rightarrow> bool" where
  "json_faithful json \<longleftrightarrow> (\<forall>r text. json_write json r = Inr text \<longrightarrow> json_read json text = Inr r)"

context channel_crypto
begin

lemma keystore_derive_ok: "\<exists>key. keystore_derive_key hkdf passphrase salt = Some key \<and> length key = 32"
  using expand_ok [of 32 "Some salt" "ascii passphrase" KEYSTORE] by (auto simp: keystore_derive_key_def)

lemma store_no_panic: "fst (store seal hkdf json io salt nonce now path kp passphrase fs) \<noteq> Panicked"
  using keystore_derive_ok [of passphrase salt] by (auto simp: store_def Let_def split: sum.splits option.splits)

lemma load_after_store:
  assumes "store seal hkdf json io salt nonce now path kp passphrase fs = (Returned (Inr ()), fs')"
    and "length (seed kp) = 32" "json_faithful json"
  shows "keystore_load open_cipher hkdf json rf path passphrase fs' = Returned (Inr kp)"
  using assms open_seal
  by (auto simp: store_def keystore_load_def Let_def from_seed_def seed_def json_faithful_def
      split: sum.splits option.splits)

lemma load_errors:
  "\<exists>r. keystore_load open_cipher hkdf json rf path passphrase fs = Returned r \<and>
     (case r of Inl e \<Rightarrow> is_security_error e | Inr kp \<Rightarrow> length (seed kp) = 32)"
proof -
  have "\<exists>key. keystore_derive_key hkdf passphrase s = Some key" for s using keystore_derive_ok by blast
  then show ?thesis
    by (auto simp: keystore_load_def from_seed_def seed_def split: sum.splits option.splits) (metis option.distinct(1))
qed

end

section \<open>Properties\<close>

text \<open>
  C21. A key that was stored is read back: after a successful \<^verbatim>\<open>store\<close>, \<^verbatim>\<open>load\<close> with the same
  passphrase returns the same key pair.
\<close>

theorem keystore_round_trip:
  assumes "channel_crypto seal open_cipher hkdf" "json_faithful json" "length (seed kp) = 32"
    and "store seal hkdf json io salt nonce now path kp passphrase fs = (Returned (Inr ()), fs')"
  shows "keystore_load open_cipher hkdf json rf path passphrase fs' = Returned (Inr kp)"
  by (rule channel_crypto.load_after_store [OF assms(1,4,3,2)])

definition sample_record :: EncryptedKey where
  "sample_record = \<lparr>ek_version = 1, ek_nonce = replicate 12 3,
     ek_ciphertext = projr (chapoly_seal (the (keystore_derive_key hkdf_expand ''pw'' (replicate 32 4))) (replicate 12 3) (replicate 32 5)),
     ek_salt = replicate 32 4, ek_created_at = ''now''\<rparr>"

text \<open>A codec that knows one record.\<close>

definition sample_json :: json_codec where
  "sample_json = \<lparr>json_write = (\<lambda>r. if r = sample_record then Inr ''{}'' else Inl ''unknown''),
     json_read = (\<lambda>t. if t = ''{}'' then Inr sample_record else Inl ''unknown'')\<rparr>"

definition no_faults :: store_io where
  "no_faults = \<lparr>mkdir_fault = None, write_fault = None, rename_fault = None\<rparr>"

lemma sample_json_faithful: "json_faithful sample_json"
  by (auto simp: json_faithful_def sample_json_def split: if_splits)

lemma sample_store:
  "\<exists>fs'. store chapoly_seal hkdf_expand sample_json no_faults (replicate 32 4) (replicate 12 3) ''now'' ''id.key''
     (from_seed (replicate 32 5)) ''pw'' Map.empty = (Returned (Inr ()), fs')"
proof -
  obtain key where k: "keystore_derive_key hkdf_expand ''pw'' (replicate 32 4) = Some key" "length key = 32"
    using real_channel.keystore_derive_ok by blast
  obtain c where c: "chapoly_seal key (replicate 12 3) (replicate 32 5) = Inr c"
    by (simp add: chapoly_seal_def chapoly_seal_ad_def Let_def)
  show ?thesis using k c
    by (simp add: store_def cipher_init_def seed_def from_seed_def Let_def no_faults_def sample_json_def sample_record_def)
qed

theorem keystore_round_trip_witness:
  "\<exists>fs'. keystore_load chapoly_open hkdf_expand sample_json ''gone'' ''id.key'' ''pw'' fs' =
     Returned (Inr (from_seed (replicate 32 5)))"
proof -
  obtain fs' where "store chapoly_seal hkdf_expand sample_json no_faults (replicate 32 4) (replicate 12 3) ''now'' ''id.key''
     (from_seed (replicate 32 5)) ''pw'' Map.empty = (Returned (Inr ()), fs')"
    using sample_store by blast
  from keystore_round_trip [OF real_channel.channel_crypto_axioms sample_json_faithful _ this] show ?thesis
    by (auto simp: seed_def from_seed_def)
qed

text \<open>
  C22. Storing is atomic when the temporary file is not the key file itself: whatever system call
  fails, a \<^verbatim>\<open>store\<close> that does not succeed leaves the key file as it was, and no \<^verbatim>\<open>store\<close> touches a
  file other than the key file and its temporary.
\<close>

theorem keystore_atomic:
  assumes "with_extension path ''tmp'' \<noteq> path"
    and "store seal hkdf json io salt nonce now path kp passphrase fs = (r, fs')"
  shows "(r \<noteq> Returned (Inr ()) \<longrightarrow> fs' path = fs path) \<and>
    (\<forall>q. q \<noteq> path \<longrightarrow> q \<noteq> with_extension path ''tmp'' \<longrightarrow> fs' q = fs q)"
  using assms by (auto simp: store_def Let_def split: sum.splits option.splits)

lemma sample_extension: "with_extension ''id.key'' ''tmp'' = ''id.tmp''"
  by (simp add: with_extension_def file_stem_def Let_def)

theorem keystore_atomic_witness:
  "snd (store chapoly_seal hkdf_expand sample_json (no_faults\<lparr>write_fault := Some (''disk full'', None)\<rparr>)
     (replicate 32 4) (replicate 12 3) ''now'' ''id.key'' (from_seed (replicate 32 5)) ''pw'' [''id.key'' \<mapsto> ''old''])
   ''id.key'' = Some ''old''"
proof -
  let ?s = "store chapoly_seal hkdf_expand sample_json (no_faults\<lparr>write_fault := Some (''disk full'', None)\<rparr>)
     (replicate 32 4) (replicate 12 3) ''now'' ''id.key'' (from_seed (replicate 32 5)) ''pw'' [''id.key'' \<mapsto> ''old'']"
  have "fst ?s \<noteq> Returned (Inr ())"
    by (auto simp: store_def Let_def no_faults_def split: sum.splits option.splits)
  with keystore_atomic [of "''id.key''" chapoly_seal hkdf_expand sample_json
      "no_faults\<lparr>write_fault := Some (''disk full'', None)\<rparr>" "replicate 32 4" "replicate 12 3" "''now''"
      "from_seed (replicate 32 5)" "''pw''" "[''id.key'' \<mapsto> ''old'']" "fst ?s" "snd ?s"]
  show ?thesis by (simp add: sample_extension)
qed

text \<open>
  Loading never panics; it returns a key pair with a 32-byte seed or an error that counts as a
  security error, so no caller retries it.
\<close>

lemma keystore_load_errors:
  assumes "channel_crypto seal open_cipher hkdf"
  shows "\<exists>r. keystore_load open_cipher hkdf json rf path passphrase fs = Returned r \<and>
    (case r of Inl e \<Rightarrow> is_security_error e | Inr kp \<Rightarrow> length (seed kp) = 32)"
  by (rule channel_crypto.load_errors [OF assms])

text \<open>
  A key path that already ends in \<^verbatim>\<open>.tmp\<close> is its own temporary file, and a failed write then destroys
  the stored key.
\<close>

lemma tmp_key_path_not_atomic:
  "with_extension ''id.tmp'' ''tmp'' = ''id.tmp'' \<and>
   snd (store chapoly_seal hkdf_expand sample_json (no_faults\<lparr>write_fault := Some (''disk full'', None)\<rparr>)
     (replicate 32 4) (replicate 12 3) ''now'' ''id.tmp'' (from_seed (replicate 32 5)) ''pw'' [''id.tmp'' \<mapsto> ''old''])
   ''id.tmp'' = None"
proof -
  obtain key where k: "keystore_derive_key hkdf_expand ''pw'' (replicate 32 4) = Some key" "length key = 32"
    using real_channel.keystore_derive_ok by blast
  obtain c where c: "chapoly_seal key (replicate 12 3) (replicate 32 5) = Inr c"
    by (simp add: chapoly_seal_def chapoly_seal_ad_def Let_def)
  have e: "with_extension ''id.tmp'' ''tmp'' = ''id.tmp''" by (simp add: with_extension_def file_stem_def Let_def)
  show ?thesis using k c e
    by (simp add: store_def cipher_init_def seed_def from_seed_def Let_def no_faults_def sample_json_def sample_record_def)
qed

end
