(* ===== verification/Node_Cli.thy ===== *)
theory Node_Cli
  imports Sdk_Laws Key_Store Endpoints
begin

text \<open>
  \<^verbatim>\<open>crates/omnimesh-node/src/main.rs\<close>: the commands of the program. A command works on the files and
  prints lines; the random draws, the clock and the faults of system calls are an argument. The clap
  crate has parsed the arguments into \<open>Cli\<close>, and errors leave the program as their display form.
\<close>

section \<open>Arguments and system\<close>

datatype IdentityAction = Show | Generate

datatype Commands = Init | Identity_Cmd IdentityAction | Run

record Cli =
  cli_config :: path
  cli_command :: "Commands option"

record system =
  sys_files :: files
  sys_out :: "string list"

datatype exit = Exit_Ok | Exit_Error string | Exit_Panic

text \<open>The libraries below the commands.\<close>

record libs =
  lib_seal :: cipher
  lib_open :: cipher
  lib_hkdf :: expander
  lib_json :: json_codec
  lib_ed :: ed25519
  lib_hex :: "bytes \<Rightarrow> string"
  lib_toml_write :: "Config \<Rightarrow> string + string"

record 'ep net =
  net_quinn :: "'ep quinn"
  net_codec :: libp2p_codec
  net_multiaddr :: "string \<Rightarrow> Multiaddr option"
  net_faults :: swarm_faults

text \<open>What the system decides during a command.\<close>

record draws =
  dr_seed :: bytes
  dr_salt :: bytes
  dr_nonce :: bytes
  dr_now :: string
  dr_io :: store_io
  dr_read_fault :: string
  dr_data_dir_fault :: "string option"
  dr_config_fault :: "string option"

definition println :: "string \<Rightarrow> system \<Rightarrow> system" where
  "println line sys = sys\<lparr>sys_out := sys_out sys @ [line]\<rparr>"

definition println_all :: "string list \<Rightarrow> system \<Rightarrow> system" where
  "println_all lines sys = fold println lines sys"

definition warning_sign :: string where "warning_sign = [CHR 0xE2, CHR 0x9A, CHR 0xA0]"
definition check_mark :: string where "check_mark = [CHR 0xE2, CHR 0x9C, CHR 0x93]"

definition show_vip :: "VirtualIp \<Rightarrow> string" where
  "show_vip vip = show_v6 (vip_addr vip)"

section \<open>The commands\<close>

definition store_key :: "libs \<Rightarrow> draws \<Rightarrow> path \<Rightarrow> Keypair \<Rightarrow> system \<Rightarrow> unit outcome \<times> system" where
  "store_key l dr path kp sys =
     (case store (lib_seal l) (lib_hkdf l) (lib_json l) (dr_io dr) (dr_salt dr) (dr_nonce dr) (dr_now dr) path kp [] (sys_files sys) of
        (r, fs) \<Rightarrow> (r, sys\<lparr>sys_files := fs\<rparr>))"

definition load_key :: "libs \<Rightarrow> draws \<Rightarrow> path \<Rightarrow> system \<Rightarrow> Keypair outcome" where
  "load_key l dr path sys =
     keystore_load (lib_open l) (lib_hkdf l) (lib_json l) (dr_read_fault dr) path [] (sys_files sys)"

definition cmd_init :: "libs \<Rightarrow> draws \<Rightarrow> Config \<Rightarrow> system \<Rightarrow> exit \<times> system" where
  "cmd_init l dr config sys =
     (case dr_data_dir_fault dr of
        Some e \<Rightarrow> (Exit_Error e, sys)
      | None \<Rightarrow>
          (let kp = generate (dr_seed dr); peer_id = keypair_to_peer_id (lib_ed l) kp; vip = from_peer_id peer_id;
               path = key_path (cfg_identity config)
           in if keystore_exists path (sys_files sys)
              then (Exit_Ok, println_all
                [warning_sign @ ''  Identity already exists at '' @ path,
                 ''   PeerId: '' @ to_hex (lib_hex l) peer_id] sys)
              else case store_key l dr path kp sys of
                     (Panicked, sys) \<Rightarrow> (Exit_Panic, sys)
                   | (Returned (Inl e), sys) \<Rightarrow> (Exit_Error (display_error e), sys)
                   | (Returned (Inr _), sys) \<Rightarrow>
                       (let sys = println_all
                          [check_mark @ ''  Node initialized successfully!'',
                           ''   PeerId:     '' @ to_hex (lib_hex l) peer_id,
                           ''   Virtual IP: '' @ show_vip vip,
                           ''   Key file:   '' @ path,
                           ''   Data dir:   '' @ data_dir (cfg_node config)] sys
                        in case to_toml (lib_toml_write l) config of
                             Inl e \<Rightarrow> (Exit_Error (display_error e), sys)
                           | Inr text \<Rightarrow>
                               (case dr_config_fault dr of
                                  Some e \<Rightarrow> (Exit_Error e, sys)
                                | None \<Rightarrow>
                                    (Exit_Ok, println ''   Config:     config.toml''
                                      (sys\<lparr>sys_files := (sys_files sys)(''config.toml'' \<mapsto> text)\<rparr>))))))"

text \<open>The lines that \<^verbatim>\<open>identity show\<close> prints for a key pair; the short identifier may panic.\<close>

definition identity_lines :: "libs \<Rightarrow> path \<Rightarrow> Keypair \<Rightarrow> string list option" where
  "identity_lines l path kp =
     (let peer_id = keypair_to_peer_id (lib_ed l) kp
      in case short (lib_hex l) peer_id of
           None \<Rightarrow> None
         | Some s \<Rightarrow> Some
             [''Node Identity:'', ''  PeerId:      '' @ to_hex (lib_hex l) peer_id, ''  Short ID:    '' @ s,
              ''  Virtual IP:  '' @ show_vip (from_peer_id peer_id),
              ''  Public Key:  '' @ public_key_to_hex (lib_hex l) (public_key (lib_ed l) kp), ''  Key file:    '' @ path])"

definition cmd_identity_show :: "libs \<Rightarrow> draws \<Rightarrow> Config \<Rightarrow> system \<Rightarrow> exit \<times> system" where
  "cmd_identity_show l dr config sys =
     (let path = key_path (cfg_identity config)
      in if \<not> keystore_exists path (sys_files sys)
         then (Exit_Ok, println ''No identity found. Run `omnimesh init` first.'' sys)
         else case load_key l dr path sys of
                Panicked \<Rightarrow> (Exit_Panic, sys)
              | Returned (Inl e) \<Rightarrow> (Exit_Error (display_error e), sys)
              | Returned (Inr kp) \<Rightarrow>
                  (case identity_lines l path kp of
                     None \<Rightarrow> (Exit_Panic, println_all
                       [''Node Identity:'', ''  PeerId:      '' @ to_hex (lib_hex l) (keypair_to_peer_id (lib_ed l) kp)] sys)
                   | Some lines \<Rightarrow> (Exit_Ok, println_all lines sys)))"

definition cmd_identity_generate :: "libs \<Rightarrow> draws \<Rightarrow> Config \<Rightarrow> system \<Rightarrow> exit \<times> system" where
  "cmd_identity_generate l dr config sys =
     (let kp = generate (dr_seed dr); peer_id = keypair_to_peer_id (lib_ed l) kp
      in case store_key l dr (key_path (cfg_identity config)) kp sys of
           (Panicked, sys) \<Rightarrow> (Exit_Panic, sys)
         | (Returned (Inl e), sys) \<Rightarrow> (Exit_Error (display_error e), sys)
         | (Returned (Inr _), sys) \<Rightarrow>
             (Exit_Ok, println_all
               [check_mark @ ''  New identity generated!'', ''   PeerId:     '' @ to_hex (lib_hex l) peer_id,
                ''   Virtual IP: '' @ show_vip (from_peer_id peer_id)] sys))"

text \<open>The default services of a running node; remote calls are echoed.\<close>

definition echo_handler :: rpc_handler where
  "echo_handler sender meth request = Inr request"

definition register_defaults :: "('ts, mesh_service) OmniMesh \<Rightarrow> ('ts, mesh_service) OmniMesh" where
  "register_defaults n =
     register_service ''pubsub'' (PubSubSvc pubsub_new)
       (register_service ''rpc'' (RpcSvc echo_handler rpc_new) (register_service ''chat'' (ChatSvc chat_new) n))"

definition start_discovery :: "libs \<Rightarrow> 'ep net \<Rightarrow> Config \<Rightarrow> Keypair \<Rightarrow> u16 \<Rightarrow> unit result" where
  "start_discovery l net config kp port =
     map_sum id (\<lambda>_. ()) (discovery_service_new (net_codec net) (lib_ed l) (net_multiaddr net) (net_faults net) config kp port)"

text \<open>
  \<^verbatim>\<open>cmd_run\<close> up to the wait for the interrupt signal gives the running node. The log line with the short identifier is enabled, as it is at
  the default level.
\<close>

definition cmd_run ::
  "libs \<Rightarrow> 'ep net \<Rightarrow> draws \<Rightarrow> Config \<Rightarrow> system \<Rightarrow> exit \<times> ('ts, mesh_service) OmniMesh option \<times> system" where
  "cmd_run l net dr config sys =
     (let path = key_path (cfg_identity config)
      in if \<not> keystore_exists path (sys_files sys)
         then (Exit_Ok, None, println ''No identity found. Run `omnimesh init` first.'' sys)
         else case load_key l dr path sys of
                Panicked \<Rightarrow> (Exit_Panic, None, sys)
              | Returned (Inl e) \<Rightarrow> (Exit_Error (display_error e), None, sys)
              | Returned (Inr kp) \<Rightarrow>
                  (let peer_id = keypair_to_peer_id (lib_ed l) kp
                   in case short (lib_hex l) peer_id of
                        None \<Rightarrow> (Exit_Panic, None, sys)
                      | Some short_id \<Rightarrow>
                          (case build (lib_ed l) (dr_seed dr) (quic_listen (net_quinn net)) qt_local_addr (start_discovery l net)
                                  \<lparr>b_config = config, b_keypair = Some kp, b_transport = Some quic_new\<rparr> of
                             Inl e \<Rightarrow> (Exit_Error (display_error e), None, sys)
                           | Inr (n, _) \<Rightarrow>
                               (Exit_Ok, Some (register_defaults n), println_all
                                 [''OmniMesh node running'', ''  Name:        '' @ nc_name (cfg_node config),
                                  ''  PeerId:      '' @ short_id, ''  Virtual IP:  '' @ show_vip (from_peer_id peer_id),
                                  ''  Listening:   '' @ show_socket_addr (listen_addr (cfg_transport config)),
                                  [], ''Press Ctrl+C to stop.''] sys))))"

text \<open>
  The task that prints chat messages; the process ends on the interrupt signal, whose result is
  \<open>ctrl_c\<close>, after shutting down with \<open>transport_result\<close>, the result of closing the transport.
\<close>

definition print_chat :: "libs \<Rightarrow> PeerId \<times> string \<Rightarrow> system \<Rightarrow> system option" where
  "print_chat l m sys =
     map_option (\<lambda>s. println (CHR 0x0A # ''['' @ s @ ''] Chat: '' @ snd m) sys) (short (lib_hex l) (fst m))"

text \<open>
  What the task's channel gives it: a message, that messages were lost because the task fell behind, or
  that the service is gone. The \<^verbatim>\<open>while let Ok\<close> ends on everything but a message.
\<close>

datatype chat_recv = Chat_Ok "PeerId \<times> string" | Chat_Lagged | Chat_Closed

fun chat_task :: "libs \<Rightarrow> chat_recv list \<Rightarrow> system \<Rightarrow> system" where
  "chat_task l [] sys = sys"
| "chat_task l (Chat_Ok m # rest) sys = (case print_chat l m sys of None \<Rightarrow> sys | Some sys \<Rightarrow> chat_task l rest sys)"
| "chat_task l (_ # rest) sys = sys"

definition cmd_run_stop ::
  "string + unit \<Rightarrow> unit result \<Rightarrow> ('ts, mesh_service) OmniMesh \<Rightarrow> exit \<times> ('ts, mesh_service) OmniMesh" where
  "cmd_run_stop ctrl_c transport_result n =
     (case ctrl_c of
        Inl e \<Rightarrow> (Exit_Error e, n)
      | Inr _ \<Rightarrow>
          (case sdk_shutdown transport_result n of
             (Inl e, n) \<Rightarrow> (Exit_Error (display_error e), n)
           | (Inr _, n) \<Rightarrow> (Exit_Ok, n)))"

text \<open>The configuration of \<^verbatim>\<open>main\<close>: an error of loading is replaced by the defaults.\<close>

definition main_config :: "toml_parser \<Rightarrow> file_system \<Rightarrow> target_os \<Rightarrow> Config_Model.env \<Rightarrow> string \<Rightarrow> Cli \<Rightarrow> Config" where
  "main_config toml fs os env uuid cli =
     (case load toml fs os env uuid (Some (cli_config cli)) of Inr c \<Rightarrow> c | Inl _ \<Rightarrow> Config_default os env uuid)"

definition main ::
  "libs \<Rightarrow> 'ep net \<Rightarrow> draws \<Rightarrow> Cli \<Rightarrow> Config \<Rightarrow> system \<Rightarrow> exit \<times> ('ts, mesh_service) OmniMesh option \<times> system" where
  "main l net dr cli config sys =
     (case cli_command cli of
        Some Init \<Rightarrow> (case cmd_init l dr config sys of (e, sys) \<Rightarrow> (e, None, sys))
      | Some (Identity_Cmd Show) \<Rightarrow> (case cmd_identity_show l dr config sys of (e, sys) \<Rightarrow> (e, None, sys))
      | Some (Identity_Cmd Generate) \<Rightarrow> (case cmd_identity_generate l dr config sys of (e, sys) \<Rightarrow> (e, None, sys))
      | Some Run \<Rightarrow> cmd_run l net dr config sys
      | None \<Rightarrow> cmd_run l net dr config sys)"

section \<open>Printing\<close>

lemma println_simps [simp]:
  "sys_files (println line sys) = sys_files sys" "sys_out (println line sys) = sys_out sys @ [line]"
  by (simp_all add: println_def)

lemma println_all_simps [simp]:
  "sys_files (println_all lines sys) = sys_files sys \<and> sys_out (println_all lines sys) = sys_out sys @ lines"
  by (induction lines arbitrary: sys) (simp_all add: println_all_def)

text \<open>Once the task has fallen behind it prints nothing more.\<close>

lemma chat_task_lagged: "chat_task l (map Chat_Ok ms @ Chat_Lagged # rest) sys = chat_task l (map Chat_Ok ms) sys"
  by (induction ms arbitrary: sys) (auto split: option.splits)

section \<open>Stored identities\<close>

lemma key_stored:
  assumes "channel_crypto (lib_seal l) (lib_open l) (lib_hkdf l)" "json_faithful (lib_json l)" "length (seed kp) = 32"
    and "store_key l dr path kp sys = (Returned (Inr ()), sys')"
  shows "keystore_exists path (sys_files sys') \<and> load_key l dr' path sys' = Returned (Inr kp)"
proof -
  obtain fs' where s: "store (lib_seal l) (lib_hkdf l) (lib_json l) (dr_io dr) (dr_salt dr) (dr_nonce dr) (dr_now dr) path kp []
      (sys_files sys) = (Returned (Inr ()), fs')" "sys_files sys' = fs'"
    using assms(4) by (auto simp: store_key_def split: prod.splits)
  have l: "load_key l dr' path sys' = Returned (Inr kp)"
    using channel_crypto.load_after_store [OF assms(1) s(1) assms(3,2)] s(2) by (simp add: load_key_def)
  then have "sys_files sys' path \<noteq> None" by (cases "sys_files sys' path") (simp_all add: load_key_def keystore_load_def)
  with l show ?thesis by (simp add: keystore_exists_def)
qed

lemma load_key_frame:
  "sys_files sys' path = sys_files sys path \<Longrightarrow> load_key l dr path sys' = load_key l dr path sys"
  by (simp add: load_key_def keystore_load_def)

text \<open>A successful \<^verbatim>\<open>init\<close> that found no identity leaves the generated key in the key file.\<close>

lemma init_stores:
  assumes "channel_crypto (lib_seal l) (lib_open l) (lib_hkdf l)" "json_faithful (lib_json l)" "length (dr_seed dr) = 32"
    and "key_path (cfg_identity config) \<noteq> ''config.toml''" "\<not> keystore_exists (key_path (cfg_identity config)) (sys_files sys)"
    and "cmd_init l dr config sys = (Exit_Ok, sys')"
  shows "keystore_exists (key_path (cfg_identity config)) (sys_files sys') \<and>
    load_key l dr' (key_path (cfg_identity config)) sys' = Returned (Inr (generate (dr_seed dr))) \<and>
    ''   PeerId:     '' @ to_hex (lib_hex l) (keypair_to_peer_id (lib_ed l) (generate (dr_seed dr))) \<in> set (sys_out sys')"
proof -
  let ?path = "key_path (cfg_identity config)" and ?kp = "generate (dr_seed dr)"
  obtain sys1 where s: "store_key l dr ?path ?kp sys = (Returned (Inr ()), sys1)"
    and out: "sys_files sys' ?path = sys_files sys1 ?path"
      "''   PeerId:     '' @ to_hex (lib_hex l) (keypair_to_peer_id (lib_ed l) ?kp) \<in> set (sys_out sys')"
    using assms(4-6) by (auto simp: cmd_init_def Let_def split: option.splits prod.splits outcome.splits sum.splits)
  have "length (seed ?kp) = 32" using assms(3) by (simp add: generate_def seed_def)
  from key_stored [OF assms(1,2) this s, of dr'] out load_key_frame [OF out(1)] show ?thesis
    by (simp add: keystore_exists_def)
qed

lemma identity_lines_total:
  assumes "hex_codec (lib_hex l) hex_decode" "length (dalek_public (lib_ed l) (kp_seed kp)) = 32"
  shows "\<exists>lines. identity_lines l path kp = Some lines"
  using assms by (auto simp: identity_lines_def short_def to_hex_def hex_codec.encode_length
      keypair_to_peer_id_def public_key_to_peer_id_def public_key_def from_bytes_def)

section \<open>A sample installation\<close>

text \<open>A record codec that knows the one record of the sample draws.\<close>

definition cli_record :: EncryptedKey where
  "cli_record = \<lparr>ek_version = 1, ek_nonce = replicate 12 3,
     ek_ciphertext = projr (chapoly_seal (the (keystore_derive_key hkdf_expand [] (replicate 32 4))) (replicate 12 3) (replicate 32 5)),
     ek_salt = replicate 32 4, ek_created_at = ''now''\<rparr>"

definition cli_json :: json_codec where
  "cli_json = \<lparr>json_write = (\<lambda>r. if r = cli_record then Inr ''{}'' else Inl ''unknown''),
     json_read = (\<lambda>t. if t = ''{}'' then Inr cli_record else Inl ''unknown'')\<rparr>"

definition cli_libs :: libs where
  "cli_libs = \<lparr>lib_seal = chapoly_seal, lib_open = chapoly_open, lib_hkdf = hkdf_expand, lib_json = cli_json,
     lib_ed = sdk_ed sample_env, lib_hex = lower_hex, lib_toml_write = (\<lambda>_. Inr ''toml'')\<rparr>"

definition cli_draws :: "bytes \<Rightarrow> draws" where
  "cli_draws s = \<lparr>dr_seed = s, dr_salt = replicate 32 4, dr_nonce = replicate 12 3, dr_now = ''now'', dr_io = no_faults,
     dr_read_fault = ''gone'', dr_data_dir_fault = None, dr_config_fault = None\<rparr>"

definition cli_config_ok :: Config where
  "cli_config_ok = sample_config\<lparr>cfg_identity := (cfg_identity sample_config)\<lparr>key_path := ''id.key''\<rparr>\<rparr>"

definition cli_net :: "SocketAddr net" where
  "cli_net = \<lparr>net_quinn = \<lparr>rcgen_cert = Inr (), rustls_key = Inr (), server_config_new = Inr (), client_config_new = Inr (), endpoint_server = Inr,
       endpoint_client = Inr, endpoint_local_addr = Inr, endpoint_accept = (\<lambda>_. Blocked),
       endpoint_connect = (\<lambda>_ _ _. Inl ''refused'')\<rparr>,
     net_codec = spec_codec (\<lambda>_. True), net_multiaddr = (\<lambda>_. None),
     net_faults = \<lparr>tcp_fault = None, behaviour_fault = None, listen_fault = None\<rparr>\<rparr>"

definition empty_system :: system where
  "empty_system = \<lparr>sys_files = Map.empty, sys_out = []\<rparr>"

lemma cli_contracts:
  "channel_crypto (lib_seal cli_libs) (lib_open cli_libs) (lib_hkdf cli_libs)" "json_faithful (lib_json cli_libs)"
  using real_channel.channel_crypto_axioms
  by (auto simp: cli_libs_def json_faithful_def cli_json_def split: if_splits)

lemma cli_hex: "hex_codec (lib_hex cli_libs) parse_hex"
  using lower.hex_codec_axioms by (simp add: cli_libs_def)

lemma cli_net_starts:
  "fst (quic_listen (net_quinn cli_net) quic_new (listen_addr (cfg_transport cli_config_ok))) = Inr ()"
  "discovery_service_new (net_codec cli_net) (lib_ed cli_libs) (net_multiaddr cli_net) (net_faults cli_net) cli_config_ok
     (generate (dr_seed (cli_draws (replicate 32 5)))) 0 =
   Inr \<lparr>ds_task = \<lparr>d_cache = cache_new, d_calls = ListenOn [Ip4 [0, 0, 0, 0], Tcp 0] # seed_bootstrap (\<lambda>_. None) cli_config_ok\<rparr>,
        ds_queue = [Bootstrap]\<rparr>"
  by (simp_all add: cli_net_def quic_listen_def make_server_config_def discovery_service_new_def to_libp2p_keypair_def spec_codec_def
      cli_libs_def sample_env_def cli_draws_def generate_def seed_def public_key_def Let_def)

lemma cli_init: "\<exists>sys. cmd_init cli_libs (cli_draws (replicate 32 5)) cli_config_ok empty_system = (Exit_Ok, sys)"
proof -
  obtain key where k: "keystore_derive_key hkdf_expand [] (replicate 32 4) = Some key" "length key = 32"
    using real_channel.keystore_derive_ok by blast
  obtain c where c: "chapoly_seal key (replicate 12 3) (replicate 32 5) = Inr c"
    by (simp add: chapoly_seal_def chapoly_seal_ad_def Let_def)
  show ?thesis using k c
    by (simp add: cmd_init_def cli_draws_def cli_libs_def store_key_def store_def cipher_init_def seed_def generate_def Let_def
        no_faults_def cli_json_def cli_record_def cli_config_ok_def empty_system_def keystore_exists_def to_toml_def)
qed

section \<open>Properties\<close>



text \<open>
  \<^verbatim>\<open>init\<close> never replaces an identity: when the key file exists it changes no file. The identifier it
  then prints is that of a key generated for the occasion, which differs from the stored one whenever
  the two keys have different identifiers.
\<close>

lemma init_keeps_identity:
  assumes "hex_codec (lib_hex l) hex_decode" "dr_data_dir_fault dr = None"
    and "load_key l dr (key_path (cfg_identity config)) sys = Returned (Inr kp)"
    and "keypair_to_peer_id (lib_ed l) kp \<noteq> keypair_to_peer_id (lib_ed l) (generate (dr_seed dr))"
  shows "\<exists>sys' shown. cmd_init l dr config sys = (Exit_Ok, sys') \<and> sys_files sys' = sys_files sys \<and>
    last (sys_out sys') = ''   PeerId: '' @ shown \<and> shown \<noteq> to_hex (lib_hex l) (keypair_to_peer_id (lib_ed l) kp)"
proof -
  have "keystore_exists (key_path (cfg_identity config)) (sys_files sys)"
    using assms(3) by (auto simp: load_key_def keystore_load_def keystore_exists_def split: option.splits)
  moreover have "to_hex (lib_hex l) p \<noteq> to_hex (lib_hex l) q" if "p \<noteq> q" for p q
    using hex_codec.decode_encode [OF assms(1)] that
    by (metis PeerId.expand sum.inject(2) to_hex_def)
  ultimately show ?thesis using assms(2,4) by (auto simp: cmd_init_def Let_def)
qed

end
