(* ===== verification/Mesh_Pair.thy ===== *)
theory Mesh_Pair
  imports Sdk_Laws Mock_Net
begin

text \<open>
  Two nodes with a session over a mock connection, as the SDK's integration test sets them up: calls at both
  nodes, the messages their services answer with, and the turns of both session loops, in any order. The
  turns of a loop use the connection's own send and receive.
\<close>

section \<open>The system\<close>

text \<open>\<open>e_sent\<close> is the history of the messages whose sending has succeeded.\<close>

record ('ts, 'svc) mesh_end =
  e_node :: "('ts, 'svc) OmniMesh"
  e_sess :: nat
  e_peer :: PeerId
  e_conn :: MockConnection
  e_sent :: "(string \<times> bytes) list"

abbreviation e_session :: "('ts, 'svc) mesh_end \<Rightarrow> 'ts Session" where
  "e_session e \<equiv> session_at (e_node e) (e_sess e)"

text \<open>A call to the peer is admitted when the session's channel has room.\<close>

definition say :: "('hs, 'ts, 'svc) env \<Rightarrow> instant \<Rightarrow> string \<times> bytes \<Rightarrow> ('ts, 'svc) mesh_end \<Rightarrow> ('ts, 'svc) mesh_end" where
  "say env now m e =
     (if QUEUE_CAPACITY \<le> length (write_queue (e_session e)) then e
      else case send_to_peer env now (e_peer e) (fst m) (snd m) (e_node e) of
             (Ready (Returned (Inr _)), n) \<Rightarrow> e\<lparr>e_node := n, e_sent := e_sent e @ [m]\<rparr>
           | (_, n) \<Rightarrow> e\<lparr>e_node := n\<rparr>)"

text \<open>The first message that a service has handed to the node, when it is for the peer.\<close>

definition answer :: "('hs, 'ts, 'svc) env \<Rightarrow> instant \<Rightarrow> ('ts, 'svc) mesh_end \<Rightarrow> ('ts, 'svc) mesh_end" where
  "answer env now e =
     (case om_spawned (e_node e) of
        SendMessage to service payload # rest \<Rightarrow>
          if to = e_peer e \<and> length (write_queue (e_session e)) < QUEUE_CAPACITY
          then say env now (service, payload) (e\<lparr>e_node := (e_node e)\<lparr>om_spawned := rest\<rparr>\<rparr>) else e
      | _ \<Rightarrow> e)"

text \<open>The turns of the session's loop that send a packet and that receive one.\<close>

definition loop_out ::
  "('hs, 'ts, 'svc) env \<Rightarrow> u64 \<Rightarrow> ('ts, 'svc) mesh_end \<Rightarrow> mock_world \<Rightarrow> ('ts, 'svc) mesh_end \<times> mock_world" where
  "loop_out env now e w =
     (case write_queue (e_session e) of
        [] \<Rightarrow> (e, w)
      | p # _ \<Rightarrow>
          (case mock_send p (e_conn e) w of
             (Ready r, w') \<Rightarrow> (e\<lparr>e_node := session_step env (\<lambda>_. r) now Outgoing (e_sess e) (e_node e)\<rparr>, w')
           | (Blocked, _) \<Rightarrow> (e, w)))"

definition loop_in ::
  "('hs, 'ts, 'svc) env \<Rightarrow> u64 \<Rightarrow> ('ts, 'svc) mesh_end \<Rightarrow> mock_world \<Rightarrow> ('ts, 'svc) mesh_end \<times> mock_world" where
  "loop_in env now e w =
     (case mock_recv (e_conn e) w of
        (Blocked, _) \<Rightarrow> (e, w)
      | (Ready r, w1) \<Rightarrow>
          (let turn = \<lambda>res. session_step env (\<lambda>_. res) now (Incoming r) (e_sess e) (e_node e)
           in case drop (length (conn_out (e_session e))) (conn_out (session_at (turn (Inr ())) (e_sess e))) of
                [] \<Rightarrow> (e\<lparr>e_node := turn (Inr ())\<rparr>, w1)
              | reply # _ \<Rightarrow>
                  (case mock_send reply (e_conn e) w1 of
                     (Ready res, w2) \<Rightarrow> (e\<lparr>e_node := turn res\<rparr>, w2)
                   | (Blocked, _) \<Rightarrow> (e, w))))"

datatype end_event = Say "string \<times> bytes" | Answer | Loop_Out | Loop_In

fun end_step ::
  "('hs, 'ts, 'svc) env \<Rightarrow> end_event \<Rightarrow> ('ts, 'svc) mesh_end \<Rightarrow> mock_world \<Rightarrow> ('ts, 'svc) mesh_end \<times> mock_world" where
  "end_step env (Say m) e w = (say env 0 m e, w)"
| "end_step env Answer e w = (answer env 0 e, w)"
| "end_step env Loop_Out e w = loop_out env 0 e w"
| "end_step env Loop_In e w = loop_in env 0 e w"

type_synonym ('ts, 'svc) mesh = "('ts, 'svc) mesh_end \<times> ('ts, 'svc) mesh_end \<times> mock_world"

datatype side = West | East

fun mesh_step :: "('hs, 'ts, 'svc) env \<Rightarrow> side \<times> end_event \<Rightarrow> ('ts, 'svc) mesh \<Rightarrow> ('ts, 'svc) mesh" where
  "mesh_step env (West, ev) (a, b, w) = (case end_step env ev a w of (a, w) \<Rightarrow> (a, b, w))"
| "mesh_step env (East, ev) (a, b, w) = (case end_step env ev b w of (b, w) \<Rightarrow> (a, b, w))"

definition mesh_run :: "('hs, 'ts, 'svc) env \<Rightarrow> (side \<times> end_event) list \<Rightarrow> ('ts, 'svc) mesh \<Rightarrow> ('ts, 'svc) mesh" where
  "mesh_run env evs s = fold (mesh_step env) evs s"

section \<open>Packets under way\<close>

text \<open>
  The packets \<open>ws\<close> carry the messages \<open>ms\<close>: each was sealed with the cipher that the one before left, from
  the cipher \<open>d\<close> to the cipher \<open>d'\<close>.
\<close>

inductive carried ::
  "('hs, 'ts, 'svc) env \<Rightarrow> ('ts \<Rightarrow> 'd) \<Rightarrow> 'd \<Rightarrow> bytes list \<Rightarrow> (string \<times> bytes) list \<Rightarrow> 'd \<Rightarrow> bool"
  for env tx where
  carried_nil: "carried env tx d [] [] d"
| carried_cons: "sn_seal (sdk_snow env) (c_service (sdk_codecs env) \<lparr>service_id = fst m, sp_payload = snd m\<rparr>) s = (Inr c, s') \<Longrightarrow>
    d_packet (sdk_codecs env) p = Inr (make_packet 2 c) \<Longrightarrow> carried env tx (tx s') ps ms d' \<Longrightarrow>
    carried env tx (tx s) (p # ps) (m # ms) d'"

inductive_cases carried_nilE: "carried env tx d [] ms d'"
inductive_cases carried_consE: "carried env tx d (p # ps) ms d'"

lemma carried_append: "carried env tx d ps ms d' \<Longrightarrow> carried env tx d' qs ns d'' \<Longrightarrow> carried env tx d (ps @ qs) (ms @ ns) d''"
  by (induction rule: carried.induct) (auto intro: carried_cons)

lemma carried_length: "carried env tx d ps ms d' \<Longrightarrow> length ps = length ms"
  by (induction rule: carried.induct) simp_all

section \<open>The invariant\<close>

definition deliver_to ::
  "('svc \<Rightarrow> PeerId \<Rightarrow> bytes \<Rightarrow> unit result \<times> outgoing list \<times> 'svc) \<Rightarrow> PeerId \<Rightarrow> string \<times> bytes \<Rightarrow> (string \<times> 'svc) list \<Rightarrow> (string \<times> 'svc) list" where
  "deliver_to handle from m svs = fst (deliver handle from m (svs, []))"

lemma deliver_fst: "fst (deliver handle from m (svs, sp)) = deliver_to handle from m svs"
  by (simp add: deliver_to_def deliver_def split: option.splits prod.splits)

definition end_ok :: "('ts, 'svc) mesh_end \<Rightarrow> bool" where
  "end_ok e \<longleftrightarrow> e_sess e < length (om_store (e_node e)) \<and> map_of (om_sessions (e_node e)) (e_peer e) = Some (e_sess e) \<and>
     loop_running (e_session e) \<and> s_peer (e_session e) = e_peer e"

definition wired :: "('ts, 'svc) mesh_end \<Rightarrow> ('ts, 'svc) mesh_end \<Rightarrow> mock_world \<Rightarrow> bool" where
  "wired a b w \<longleftrightarrow> mock_ends (e_conn a) (e_conn b) w \<and> mock_ends (e_conn b) (e_conn a) w \<and> mc_tx (e_conn a) \<noteq> mc_tx (e_conn b)"

text \<open>
  From \<open>a\<close> to \<open>b\<close>: what \<open>a\<close> has sent is what the services of \<open>b\<close> have been given and what the packets in
  the pipe and in the channel carry.
\<close>

definition under_way :: "('ts, 'svc) mesh_end \<Rightarrow> mock_world \<Rightarrow> bytes list" where
  "under_way a w = pipes w ! mc_tx (e_conn a) @ write_queue (e_session a)"

definition half ::
  "('hs, 'ts, 'svc) env \<Rightarrow> ('ts \<Rightarrow> 'd) \<Rightarrow> ('ts \<Rightarrow> 'd) \<Rightarrow> (string \<times> 'svc) list \<Rightarrow> ('ts, 'svc) mesh_end \<Rightarrow> ('ts, 'svc) mesh_end \<Rightarrow>
     mock_world \<Rightarrow> bool" where
  "half env tx rx svs a b w \<longleftrightarrow>
     (\<exists>seen pend. e_sent a = seen @ pend \<and>
        om_services (e_node b) = fold (deliver_to (sdk_handle env) (e_peer b)) seen svs \<and>
        carried env tx (rx (ts_state (s_transport (e_session b)))) (under_way a w) pend (tx (ts_state (s_transport (e_session a)))))"

definition mesh_inv ::
  "('hs, 'ts, 'svc) env \<Rightarrow> ('ts \<Rightarrow> 'd) \<Rightarrow> ('ts \<Rightarrow> 'd) \<Rightarrow> (string \<times> 'svc) list \<Rightarrow> (string \<times> 'svc) list \<Rightarrow>
     ('ts, 'svc) mesh_end \<Rightarrow> ('ts, 'svc) mesh_end \<Rightarrow> mock_world \<Rightarrow> bool" where
  "mesh_inv env tx rx svs_a svs_b a b w \<longleftrightarrow>
     end_ok a \<and> end_ok b \<and> wired a b w \<and> half env tx rx svs_b a b w \<and> half env tx rx svs_a b a w"

lemma mesh_inv_swap: "mesh_inv env tx rx sa sb a b w = mesh_inv env tx rx sb sa b a w"
  by (auto simp: mesh_inv_def wired_def)

section \<open>Every event keeps it\<close>

text \<open>A call changes nothing, or seals its message and queues it.\<close>

lemma say_effect:
  assumes "snow_xx (sdk_snow env) tx rx left pub" "end_ok e"
  shows "say env now m e = e \<or>
    (\<exists>c s' t. sn_seal (sdk_snow env) (c_service (sdk_codecs env) \<lparr>service_id = fst m, sp_payload = snd m\<rparr>)
        (ts_state (s_transport (e_session e))) = (Inr c, s') \<and> ts_state t = s' \<and>
      say env now m e = e\<lparr>e_node := map_session (e_sess e) (\<lambda>s. s\<lparr>s_transport := t,
          write_queue := write_queue s @ [c_packet (sdk_codecs env) (make_packet 2 c)]\<rparr>) (e_node e), e_sent := e_sent e @ [m]\<rparr>)"
proof (cases "QUEUE_CAPACITY \<le> length (write_queue (e_session e))")
  case False
  let ?plain = "c_service (sdk_codecs env) \<lparr>service_id = fst m, sp_payload = snd m\<rparr>" and ?t = "s_transport (e_session e)"
  have i: "e_sess e < length (om_store (e_node e))" "map_of (om_sessions (e_node e)) (e_peer e) = Some (e_sess e)" "loop_running (e_session e)"
    using assms(2) by (simp_all add: end_ok_def)
  obtain r s' where s: "sn_seal (sdk_snow env) ?plain (ts_state ?t) = (r, s')" by fastforce
  show ?thesis
  proof (cases r)
    case (Inl x)
    with s snow_xx.seal_refused [OF assms(1)] have "s' = ts_state ?t" by blast
    then have "map_session (e_sess e) (\<lambda>s. s\<lparr>s_transport := ?t\<lparr>ts_state := s'\<rparr>\<rparr>) (e_node e) = e_node e"
      by (simp add: map_session_same)
    with s Inl i False show ?thesis
      by (simp add: say_def send_to_peer_def send_packet_def seal_for_def noise_encrypt_def)
  next
    case (Inr c)
    have "map_session (e_sess e) (\<lambda>s. s\<lparr>write_queue := write_queue s @ [x]\<rparr>) (map_session (e_sess e) (\<lambda>s. s\<lparr>s_transport := t\<rparr>) (e_node e)) =
        map_session (e_sess e) (\<lambda>s. s\<lparr>s_transport := t, write_queue := write_queue s @ [x]\<rparr>) (e_node e)" for x t
      using i by (simp add: map_session_def)
    with s Inr i False show ?thesis
      by (intro disjI2 exI [of _ c] exI [of _ s'] exI [of _ "?t\<lparr>ts_state := s'\<rparr>"])
        (simp add: say_def send_to_peer_def send_packet_def seal_for_def noise_encrypt_def write_send_def session_at_map)
  qed
qed (simp add: say_def)

lemma seal_carried:
  assumes "snow_xx (sdk_snow env) tx rx left pub" "wire_codec (sdk_codecs env)"
    and "sn_seal (sdk_snow env) (c_service (sdk_codecs env) \<lparr>service_id = fst m, sp_payload = snd m\<rparr>) s = (Inr c, s')"
  shows "carried env tx (tx s) [c_packet (sdk_codecs env) (make_packet 2 c)] [m] (tx s')"
proof -
  from snow_xx.seal_size [OF assms(1,3)] have "fits c" by (simp add: fits_def)
  from carried_cons [OF assms(3) wire_codec.packet_trip [OF assms(2) this] carried_nil] show ?thesis .
qed

lemma say_keeps:
  assumes "snow_xx (sdk_snow env) tx rx left pub" "wire_codec (sdk_codecs env)" "mesh_inv env tx rx sa sb a b w"
  shows "mesh_inv env tx rx sa sb (say env now m a) b w"
proof -
  have a: "end_ok a" using assms(3) by (simp add: mesh_inv_def)
  from say_effect [OF assms(1) a, of now m] show ?thesis
  proof (elim disjE exE conjE)
    fix c s' t
    assume s: "sn_seal (sdk_snow env) (c_service (sdk_codecs env) \<lparr>service_id = fst m, sp_payload = snd m\<rparr>)
        (ts_state (s_transport (e_session a))) = (Inr c, s')" "ts_state t = s'"
      and e: "say env now m a = a\<lparr>e_node := map_session (e_sess a) (\<lambda>s. s\<lparr>s_transport := t,
          write_queue := write_queue s @ [c_packet (sdk_codecs env) (make_packet 2 c)]\<rparr>) (e_node a), e_sent := e_sent a @ [m]\<rparr>"
    have i: "e_sess a < length (om_store (e_node a))" using a by (simp add: end_ok_def)
    note c = seal_carried [OF assms(1,2) s(1)]
    have rx: "rx s' = rx (ts_state (s_transport (e_session a)))" using snow_xx.seal_size [OF assms(1) s(1)] by simp
    from assms(3) obtain seen pend where h: "e_sent a = seen @ pend"
      "om_services (e_node b) = fold (deliver_to (sdk_handle env) (e_peer b)) seen sb"
      "carried env tx (rx (ts_state (s_transport (e_session b)))) (under_way a w) pend (tx (ts_state (s_transport (e_session a))))"
      by (auto simp: mesh_inv_def half_def)
    from carried_append [OF h(3) c] h(1,2) i s(2) have "half env tx rx sb (say env now m a) b w"
      unfolding half_def e by (intro exI [of _ seen] exI [of _ "pend @ [m]"]) (simp add: session_at_map under_way_def)
    with assms(3) i rx s(2) show ?thesis
      by (auto simp: mesh_inv_def e end_ok_def wired_def half_def session_at_map under_way_def)
  qed (use assms(3) in simp)
qed

lemma answer_keeps:
  assumes "snow_xx (sdk_snow env) tx rx left pub" "wire_codec (sdk_codecs env)" "mesh_inv env tx rx sa sb a b w"
  shows "mesh_inv env tx rx sa sb (answer env now a) b w"
proof -
  have "mesh_inv env tx rx sa sb (a\<lparr>e_node := (e_node a)\<lparr>om_spawned := rest\<rparr>\<rparr>) b w" for rest
    using assms(3) by (simp add: mesh_inv_def end_ok_def wired_def half_def under_way_def)
  from say_keeps [OF assms(1,2) this] assms(3) show ?thesis
    by (auto simp: answer_def split: list.splits outgoing.splits)
qed

lemma loop_out_idle:
  assumes "end_ok a" "wired a b w" "write_queue (e_session a) = [] \<or> 256 \<le> length (pipes w ! mc_tx (e_conn a))"
  shows "loop_out env now a w = (a, w)"
  using assms by (auto simp: loop_out_def mock_send_def wired_def mock_ends_def split: list.splits)

lemma loop_out_effect:
  assumes "end_ok a" "wired a b w" "write_queue (e_session a) = p # q" "length (pipes w ! mc_tx (e_conn a)) < 256"
  shows "loop_out env now a w =
    (a\<lparr>e_node := map_session (e_sess a) (\<lambda>s. s\<lparr>conn_out := conn_out s @ [p]\<rparr>) (map_session (e_sess a) (\<lambda>s. s\<lparr>write_queue := q\<rparr>) (e_node a))\<rparr>,
     w\<lparr>pipes := (pipes w)[mc_tx (e_conn a) := pipes w ! mc_tx (e_conn a) @ [p]]\<rparr>)"
  using assms by (auto simp: loop_out_def mock_send_def wired_def mock_ends_def end_ok_def session_step_def conn_send_def)

lemma loop_out_keeps:
  assumes "mesh_inv env tx rx sa sb a b w"
  shows "mesh_inv env tx rx sa sb (fst (loop_out env now a w)) b (snd (loop_out env now a w))"
proof -
  have a: "end_ok a" "wired a b w" using assms by (simp_all add: mesh_inv_def)
  show ?thesis
  proof (cases "write_queue (e_session a) = [] \<or> 256 \<le> length (pipes w ! mc_tx (e_conn a))")
    case True
    with loop_out_idle [OF a, of env now] assms show ?thesis by simp
  next
    case False
    then obtain p q where q: "write_queue (e_session a) = p # q" by (cases "write_queue (e_session a)") auto
    from loop_out_effect [OF a q, of env now] False obtain a' w' where eq: "loop_out env now a w = (a', w')"
      and w': "w' = w\<lparr>pipes := (pipes w)[mc_tx (e_conn a) := pipes w ! mc_tx (e_conn a) @ [p]]\<rparr>"
      and a': "a' = a\<lparr>e_node := map_session (e_sess a) (\<lambda>s. s\<lparr>conn_out := conn_out s @ [p]\<rparr>)
        (map_session (e_sess a) (\<lambda>s. s\<lparr>write_queue := q\<rparr>) (e_node a))\<rparr>" by simp
    have i: "e_sess a < length (om_store (e_node a))" using a by (simp add: end_ok_def)
    have "under_way a' w' = under_way a w" "under_way b w' = under_way b w"
      using q i a by (simp_all add: a' w' under_way_def session_at_map wired_def mock_ends_def)
    moreover have "wired a' b w'" "end_ok a'" using a i by (auto simp: a' w' wired_def mock_ends_def end_ok_def session_at_map)
    ultimately show ?thesis using assms i unfolding eq by (simp add: mesh_inv_def half_def a' session_at_map)
  qed
qed

text \<open>A packet that carries a message is delivered to the service the message names.\<close>

lemma carried_turn:
  assumes "snow_xx (sdk_snow env) tx rx left pub" "wire_codec (sdk_codecs env)" "end_ok e"
    and "sn_seal (sdk_snow env) (c_service (sdk_codecs env) \<lparr>service_id = fst m, sp_payload = snd m\<rparr>) s = (Inr c, s')"
    and "d_packet (sdk_codecs env) p = Inr (make_packet 2 c)" "rx (ts_state (s_transport (e_session e))) = tx s"
  shows "\<exists>t. rx (ts_state t) = tx s' \<and> tx (ts_state t) = tx (ts_state (s_transport (e_session e))) \<and>
    session_step env put now (Incoming (Inr (Some p))) (e_sess e) (e_node e) =
      (map_session (e_sess e) (\<lambda>s. s\<lparr>s_transport := t\<rparr>) (e_node e))
        \<lparr>om_services := fst (deliver (sdk_handle env) (e_peer e) m (om_services (e_node e), om_spawned (e_node e))),
         om_spawned := snd (deliver (sdk_handle env) (e_peer e) m (om_services (e_node e), om_spawned (e_node e)))\<rparr>"
proof -
  let ?sp = "\<lparr>service_id = fst m, sp_payload = snd m\<rparr>" and ?t = "s_transport (e_session e)"
  from snow_xx.seal_open [OF assms(1,4,6)] obtain st where
    o: "sn_open (sdk_snow env) c (ts_state ?t) = (Inr (c_service (sdk_codecs env) ?sp), st)" "rx st = tx s'" "tx st = tx (ts_state ?t)" by blast
  from snow_xx.seal_size [OF assms(1,4)] wire_codec.service_size [OF assms(2), of ?sp] have "service_ok ?sp"
    by (simp add: service_ok_def fits_def)
  from wire_codec.service_trip [OF assms(2) this] o assms(3,5) show ?thesis
    by (intro exI [of _ "?t\<lparr>ts_state := st\<rparr>"])
      (auto simp: session_step_def end_ok_def handle_wire_packet_def handle_data_def open_for_def noise_decrypt_def make_packet_def
        deliver_def conn_send_def split: option.splits prod.splits sum.splits)
qed

lemma loop_in_idle:
  assumes "wired a b w" "pipes w ! mc_tx (e_conn b) = []"
  shows "loop_in env now a w = (a, w)"
  using assms by (auto simp: loop_in_def mock_recv_def wired_def mock_ends_def)

text \<open>The next packet in the pipe carries the first message under way.\<close>

lemma loop_in_effect:
  assumes "snow_xx (sdk_snow env) tx rx left pub" "wire_codec (sdk_codecs env)" "end_ok a" "wired a b w"
    and "pipes w ! mc_tx (e_conn b) = p # ps"
    and "carried env tx (rx (ts_state (s_transport (e_session a)))) (p # qs) pend d"
  shows "\<exists>m ms t. pend = m # ms \<and> carried env tx (rx (ts_state t)) qs ms d \<and>
    tx (ts_state t) = tx (ts_state (s_transport (e_session a))) \<and>
    loop_in env now a w =
      (a\<lparr>e_node := (map_session (e_sess a) (\<lambda>s. s\<lparr>s_transport := t\<rparr>) (e_node a))
          \<lparr>om_services := fst (deliver (sdk_handle env) (e_peer a) m (om_services (e_node a), om_spawned (e_node a))),
           om_spawned := snd (deliver (sdk_handle env) (e_peer a) m (om_services (e_node a), om_spawned (e_node a)))\<rparr>\<rparr>,
       w\<lparr>pipes := (pipes w)[mc_tx (e_conn b) := ps]\<rparr>)"
proof -
  have rx: "mc_rx (e_conn a) = mc_tx (e_conn b)" using assms(4) by (simp add: wired_def mock_ends_def)
  from assms(6) obtain m ms s c s' where m: "pend = m # ms" "rx (ts_state (s_transport (e_session a))) = tx s"
    "sn_seal (sdk_snow env) (c_service (sdk_codecs env) \<lparr>service_id = fst m, sp_payload = snd m\<rparr>) s = (Inr c, s')"
    "d_packet (sdk_codecs env) p = Inr (make_packet 2 c)" "carried env tx (tx s') qs ms d"
    by (elim carried_consE) auto
  from carried_turn [OF assms(1-3) m(3,4,2), of "\<lambda>_. Inr ()" now] obtain t where
    t: "rx (ts_state t) = tx s'" "tx (ts_state t) = tx (ts_state (s_transport (e_session a)))"
    and step: "session_step env (\<lambda>_. Inr ()) now (Incoming (Inr (Some p))) (e_sess a) (e_node a) =
      (map_session (e_sess a) (\<lambda>s. s\<lparr>s_transport := t\<rparr>) (e_node a))
        \<lparr>om_services := fst (deliver (sdk_handle env) (e_peer a) m (om_services (e_node a), om_spawned (e_node a))),
         om_spawned := snd (deliver (sdk_handle env) (e_peer a) m (om_services (e_node a), om_spawned (e_node a)))\<rparr>" by blast
  have i: "e_sess a < length (om_store (e_node a))" using assms(3) by (simp add: end_ok_def)
  show ?thesis
    by (rule exI [of _ m], rule exI [of _ ms], rule exI [of _ t])
      (use m t assms(4,5) rx step i in \<open>auto simp: loop_in_def mock_recv_def wired_def mock_ends_def Let_def session_at_map\<close>)
qed

lemma loop_in_keeps:
  assumes "snow_xx (sdk_snow env) tx rx left pub" "wire_codec (sdk_codecs env)" "mesh_inv env tx rx sa sb a b w"
  shows "mesh_inv env tx rx sa sb (fst (loop_in env now a w)) b (snd (loop_in env now a w))"
proof -
  have a: "end_ok a" "end_ok b" "wired a b w" using assms(3) by (simp_all add: mesh_inv_def)
  from assms(3) obtain seen pend where h: "e_sent b = seen @ pend"
    "om_services (e_node a) = fold (deliver_to (sdk_handle env) (e_peer a)) seen sa"
    "carried env tx (rx (ts_state (s_transport (e_session a)))) (under_way b w) pend (tx (ts_state (s_transport (e_session b))))"
    by (auto simp: mesh_inv_def half_def)
  show ?thesis
  proof (cases "pipes w ! mc_tx (e_conn b)")
    case Nil
    with loop_in_idle [OF a(3), of env now] assms(3) show ?thesis by simp
  next
    case (Cons p ps)
    with h(3) have "carried env tx (rx (ts_state (s_transport (e_session a)))) (p # ps @ write_queue (e_session b)) pend
        (tx (ts_state (s_transport (e_session b))))" by (simp add: under_way_def)
    from loop_in_effect [OF assms(1,2) a(1,3) Cons this, of now] obtain m ms t a' w' where m: "pend = m # ms"
        "carried env tx (rx (ts_state t)) (ps @ write_queue (e_session b)) ms (tx (ts_state (s_transport (e_session b))))"
      and t: "tx (ts_state t) = tx (ts_state (s_transport (e_session a)))"
      and eq: "loop_in env now a w = (a', w')" and w': "w' = w\<lparr>pipes := (pipes w)[mc_tx (e_conn b) := ps]\<rparr>"
      and a': "a' = a\<lparr>e_node := (map_session (e_sess a) (\<lambda>s. s\<lparr>s_transport := t\<rparr>) (e_node a))
          \<lparr>om_services := fst (deliver (sdk_handle env) (e_peer a) m (om_services (e_node a), om_spawned (e_node a))),
           om_spawned := snd (deliver (sdk_handle env) (e_peer a) m (om_services (e_node a), om_spawned (e_node a)))\<rparr>\<rparr>"
      by auto
    have i: "e_sess a < length (om_store (e_node a))" using a by (simp add: end_ok_def)
    have "half env tx rx sa b a' w'" unfolding half_def
      by (rule exI [of _ "seen @ [m]"], rule exI [of _ ms])
        (use h m t i a in \<open>simp add: a' w' session_at_map under_way_def deliver_fst wired_def mock_ends_def\<close>)
    moreover have "half env tx rx sb a' b w'"
      using assms(3) t i a by (simp add: mesh_inv_def half_def a' w' session_at_map under_way_def wired_def)
    moreover have "wired a' b w'" "end_ok a'" using a i by (auto simp: a' w' wired_def mock_ends_def end_ok_def session_at_map)
    ultimately show ?thesis using a unfolding eq by (simp add: mesh_inv_def)
  qed
qed

lemma end_step_keeps:
  assumes "snow_xx (sdk_snow env) tx rx left pub" "wire_codec (sdk_codecs env)"
    and "mesh_inv env tx rx sa sb a b w" "end_step env ev a w = (a', w')"
  shows "mesh_inv env tx rx sa sb a' b w'"
  using assms(4) say_keeps [OF assms(1-3)] answer_keeps [OF assms(1-3)] loop_out_keeps [OF assms(3), of 0] loop_in_keeps [OF assms(1-3), of 0]
  by (cases ev) auto

lemma mesh_run_keeps:
  assumes "snow_xx (sdk_snow env) tx rx left pub" "wire_codec (sdk_codecs env)"
  shows "mesh_inv env tx rx sa sb a b w \<Longrightarrow> mesh_run env evs (a, b, w) = (a', b', w') \<Longrightarrow> mesh_inv env tx rx sa sb a' b' w'"
proof (induction evs arbitrary: a b w)
  case (Cons ev evs)
  obtain side e where ev: "ev = (side, e)" by (cases ev)
  obtain a1 b1 w1 where s: "mesh_step env ev (a, b, w) = (a1, b1, w1)" by (cases "mesh_step env ev (a, b, w)")
  have "mesh_inv env tx rx sa sb a1 b1 w1"
  proof (cases side)
    case West
    with s ev end_step_keeps [OF assms Cons.prems(1), of e] show ?thesis by (auto split: prod.splits)
  next
    case East
    with s ev end_step_keeps [OF assms, of sb sa b a w e] Cons.prems(1) show ?thesis
      by (auto simp: mesh_inv_swap [of env tx rx sa] split: prod.splits)
  qed
  from Cons.IH [OF this] Cons.prems(2) s show ?case by (simp add: mesh_run_def)
qed (simp add: mesh_run_def)

section \<open>Meeting\<close>

definition carrying :: "bytes list \<Rightarrow> peer_conn" where
  "carrying msgs = \<lparr>conn_received = map (\<lambda>m. Inr (Some m)) msgs, conn_put = (\<lambda>_. Inr ())\<rparr>"

definition joined :: "PeerId \<Rightarrow> 'ts NoiseTransport \<Rightarrow> MockConnection \<Rightarrow> ('ts, 'svc) OmniMesh \<Rightarrow> ('ts, 'svc) mesh_end" where
  "joined peer t c n =
     \<lparr>e_node = install_session peer t n, e_sess = length (om_store n), e_peer = peer, e_conn = c, e_sent = []\<rparr>"

lemma joined_session: "e_session (joined peer t c n) = \<lparr>s_peer = peer, write_queue = [], s_transport = t, loop_running = True, conn_out = [],
    subscribed = (\<not> om_shutdown_sent n)\<rparr>"
  by (simp add: joined_def install_session_def session_at_def)

lemma joined_inv:
  assumes "linked tx rx ta tb" "mock_ends c d w" "mock_ends d c w" "mc_tx c \<noteq> mc_tx d"
    and "pipes w ! mc_tx c = []" "pipes w ! mc_tx d = []"
  shows "mesh_inv env tx rx (om_services na) (om_services nb) (joined ida ta c na) (joined idb tb d nb) w"
proof -
  have "carried env tx (rx (ts_state tb)) [] [] (tx (ts_state ta))" "carried env tx (rx (ts_state ta)) [] [] (tx (ts_state tb))"
    using assms(1) carried_nil by (simp_all add: linked_def)
  with assms show ?thesis
    by (auto simp: mesh_inv_def half_def under_way_def end_ok_def wired_def joined_session)
      (auto simp: joined_def install_session_def)
qed

lemma nodes_meet:
  assumes "snow_xx (sdk_snow env) tx rx left pub" "wire_codec (sdk_codecs env)"
    and "list_all (\<lambda>k. length k = 32) [seed (om_keypair na), sdk_rand env addr, seed (om_keypair nb), rand]"
    and "peer_wf (om_peer_id na)" "peer_wf (om_peer_id nb)" "keypair_to_peer_id (sdk_ed env) (om_keypair nb) = om_peer_id nb"
  shows "\<exists>m1 m2 m3 ta tb.
    connect_addr (env\<lparr>sdk_dial := \<lambda>_. Returned (Inr (carrying [m2]))\<rparr>) addr na =
      (Ready (Returned (Inr (om_peer_id nb))), install_session (om_peer_id nb) ta na) \<and>
    accept_step env rand (Inr (carrying [m1, m3])) nb = install_session (om_peer_id na) tb nb \<and> linked tx rx ta tb \<and>
    left (tx (ts_state ta)) = 2 ^ 64 - 1 \<and> left (tx (ts_state tb)) = 2 ^ 64 - 1"
proof -
  from handshake_pair [OF assms(1-5)] obtain hi hr m1 m2 m3 ti tr where
    "with_keypair (sdk_snow env) (sdk_rand env addr) Initiator (seed (om_keypair na)) = Inr hi"
    "with_keypair (sdk_snow env) rand Responder (seed (om_keypair nb)) = Inr hr"
    "perform_handshake (sdk_snow env) (sdk_codecs env) (\<lambda>_. Inr ()) hi (om_peer_id na) [Inr (Some m2)] =
      (Ready (Returned (Inr (ti, om_peer_id nb))), [m1, m3])"
    "perform_handshake (sdk_snow env) (sdk_codecs env) (\<lambda>_. Inr ()) hr (om_peer_id nb) [Inr (Some m1), Inr (Some m3)] =
      (Ready (Returned (Inr (tr, om_peer_id na))), [m2])"
    "linked tx rx ti tr" "left (tx (ts_state ti)) = 2 ^ 64 - 1" "left (tx (ts_state tr)) = 2 ^ 64 - 1" by blast
  with assms(6) show ?thesis
    by (intro exI [of _ m1] exI [of _ m2] exI [of _ m3] exI [of _ ti] exI [of _ tr])
      (simp add: connect_addr_def accept_step_def carrying_def)
qed

lemma half_lengths:
  "half env tx rx svs a b w \<Longrightarrow> \<exists>seen pend. e_sent a = seen @ pend \<and> length pend = length (under_way a w) \<and>
     om_services (e_node b) = fold (deliver_to (sdk_handle env) (e_peer b)) seen svs"
  unfolding half_def using carried_length by metis

lemma step_peers:
  "e_peer (fst (end_step env ev a w)) = e_peer a"
  by (cases ev) (auto simp: say_def answer_def loop_out_def loop_in_def Let_def
      split: prod.splits async.splits outcome.splits sum.splits list.splits outgoing.splits)

lemma run_peers: "mesh_run env evs (a, b, w) = (a', b', w') \<Longrightarrow> e_peer a' = e_peer a \<and> e_peer b' = e_peer b"
proof (induction evs arbitrary: a b w)
  case (Cons ev evs)
  obtain a1 b1 w1 where s: "mesh_step env ev (a, b, w) = (a1, b1, w1)" by (cases "mesh_step env ev (a, b, w)")
  have "e_peer a1 = e_peer a \<and> e_peer b1 = e_peer b"
    using s step_peers [of env "snd ev" a w] step_peers [of env "snd ev" b w]
    by (cases ev rule: prod.exhaust; cases "fst ev") (auto split: prod.splits)
  with Cons.IH [of a1 b1 w1] Cons.prems s show ?case by (simp add: mesh_run_def)
qed (simp add: mesh_run_def)

text \<open>
  What the services at either end have been given is the first of what the other end has sent; the other
  messages are in the packets under way.
\<close>

fun in_order :: "('hs, 'ts, 'svc) env \<Rightarrow> ('ts, 'svc) OmniMesh \<Rightarrow> ('ts, 'svc) OmniMesh \<Rightarrow> ('ts, 'svc) mesh \<Rightarrow> bool" where
  "in_order env na nb (a, b, w) \<longleftrightarrow>
     (\<exists>seen pend. e_sent a = seen @ pend \<and> length pend = length (under_way a w) \<and>
        om_services (e_node b) = fold (deliver_to (sdk_handle env) (om_peer_id na)) seen (om_services nb)) \<and>
     (\<exists>seen pend. e_sent b = seen @ pend \<and> length pend = length (under_way b w) \<and>
        om_services (e_node a) = fold (deliver_to (sdk_handle env) (om_peer_id nb)) seen (om_services na))"

section \<open>Single messages\<close>

text \<open>Nothing is under way from \<open>a\<close> to \<open>b\<close>, and what \<open>a\<close> seals next is what \<open>b\<close> opens next.\<close>

definition clear :: "('ts \<Rightarrow> 'd) \<Rightarrow> ('ts \<Rightarrow> 'd) \<Rightarrow> ('ts, 'svc) mesh_end \<Rightarrow> ('ts, 'svc) mesh_end \<Rightarrow> mock_world \<Rightarrow> bool" where
  "clear tx rx a b w \<longleftrightarrow> end_ok a \<and> end_ok b \<and> wired a b w \<and> under_way a w = [] \<and>
     rx (ts_state (s_transport (e_session b))) = tx (ts_state (s_transport (e_session a)))"

lemma clear_joined:
  assumes "linked tx rx ta tb" "mock_ends c d w" "mock_ends d c w" "mc_tx c \<noteq> mc_tx d"
    and "pipes w ! mc_tx c = []" "pipes w ! mc_tx d = []"
  shows "clear tx rx (joined ida ta c na) (joined idb tb d nb) w" "clear tx rx (joined idb tb d nb) (joined ida ta c na) w"
  using assms by (auto simp: clear_def under_way_def end_ok_def wired_def joined_session linked_def)
    (auto simp: joined_def install_session_def)

lemma say_sent:
  assumes "snow_xx (sdk_snow env) tx rx left pub" "wire_codec (sdk_codecs env)" "end_ok e" "write_queue (e_session e) = []"
    and "0 < left (tx (ts_state (s_transport (e_session e))))" "message_ok m"
  shows "\<exists>c t. sn_seal (sdk_snow env) (c_service (sdk_codecs env) \<lparr>service_id = fst m, sp_payload = snd m\<rparr>)
        (ts_state (s_transport (e_session e))) = (Inr c, ts_state t) \<and>
      say env now m e = e\<lparr>e_node := map_session (e_sess e) (\<lambda>s. s\<lparr>s_transport := t,
          write_queue := write_queue s @ [c_packet (sdk_codecs env) (make_packet 2 c)]\<rparr>) (e_node e), e_sent := e_sent e @ [m]\<rparr>"
proof -
  let ?plain = "c_service (sdk_codecs env) \<lparr>service_id = fst m, sp_payload = snd m\<rparr>"
  have "length ?plain \<le> 65519" using wire_codec.service_size [OF assms(2)] assms(6) by (simp add: message_ok_def)
  from snow_xx.seal_ok [OF assms(1) this assms(5)] obtain c s' where
    c: "sn_seal (sdk_snow env) ?plain (ts_state (s_transport (e_session e))) = (Inr c, s')" by blast
  have "e_sent (say env now m e) = e_sent e @ [m]"
    using c assms(3,4) by (simp add: say_def send_to_peer_def send_packet_def seal_for_def noise_encrypt_def write_send_def
        session_at_map end_ok_def QUEUE_CAPACITY_def)
  then have "say env now m e \<noteq> e" by (metis append_self_conv not_Cons_self)
  with say_effect [OF assms(1,3), of now m] show ?thesis by blast
qed

text \<open>A message sent in this situation is in the pipe one turn later.\<close>

lemma leaves:
  assumes sn: "snow_xx (sdk_snow env) tx rx left pub" and cs: "wire_codec (sdk_codecs env)" and cl: "clear tx rx a b w"
    and "0 < left (tx (ts_state (s_transport (e_session a))))" "message_ok m"
  shows "\<exists>a' p w1. loop_out env 0 (say env 0 m a) w = (a', w1) \<and> w1 = w\<lparr>pipes := (pipes w)[mc_tx (e_conn a) := [p]]\<rparr> \<and>
    carried env tx (rx (ts_state (s_transport (e_session b)))) [p] [m] (tx (ts_state (s_transport (e_session a')))) \<and>
    end_ok a' \<and> wired b a' w1 \<and> e_conn a' = e_conn a \<and> e_peer a' = e_peer a \<and> write_queue (e_session a') = [] \<and>
    rx (ts_state (s_transport (e_session a'))) = rx (ts_state (s_transport (e_session a))) \<and>
    om_services (e_node a') = om_services (e_node a) \<and> om_spawned (e_node a') = om_spawned (e_node a)"
proof -
  have ok: "end_ok a" "wired a b w" and q: "write_queue (e_session a) = []" "pipes w ! mc_tx (e_conn a) = []"
    and lk: "rx (ts_state (s_transport (e_session b))) = tx (ts_state (s_transport (e_session a)))"
    using cl by (auto simp: clear_def under_way_def)
  from say_sent [OF sn cs ok(1) q(1) assms(4,5), of 0] obtain c t where
    c: "sn_seal (sdk_snow env) (c_service (sdk_codecs env) \<lparr>service_id = fst m, sp_payload = snd m\<rparr>)
        (ts_state (s_transport (e_session a))) = (Inr c, ts_state t)"
    and say: "say env 0 m a = a\<lparr>e_node := map_session (e_sess a) (\<lambda>s. s\<lparr>s_transport := t,
          write_queue := write_queue s @ [c_packet (sdk_codecs env) (make_packet 2 c)]\<rparr>) (e_node a), e_sent := e_sent a @ [m]\<rparr>" by blast
  let ?p = "c_packet (sdk_codecs env) (make_packet 2 c)" and ?a1 = "say env 0 m a"
  have i: "e_sess a < length (om_store (e_node a))" using ok by (simp add: end_ok_def)
  have ok1: "end_ok ?a1" "wired ?a1 b w" "write_queue (e_session ?a1) = [?p]" "e_conn ?a1 = e_conn a"
    using ok i q by (auto simp: say end_ok_def wired_def session_at_map)
  have room: "length (pipes w ! mc_tx (e_conn ?a1)) < 256" using q ok1(4) by simp
  let ?a' = "?a1\<lparr>e_node := map_session (e_sess ?a1) (\<lambda>s. s\<lparr>conn_out := conn_out s @ [?p]\<rparr>)
      (map_session (e_sess ?a1) (\<lambda>s. s\<lparr>write_queue := []\<rparr>) (e_node ?a1))\<rparr>"
  let ?w1 = "w\<lparr>pipes := (pipes w)[mc_tx (e_conn a) := [?p]]\<rparr>"
  have out: "loop_out env 0 ?a1 w = (?a', ?w1)" using loop_out_effect [OF ok1(1-3) room, of env 0] q ok1(4) by simp
  show ?thesis
    by (rule exI [of _ ?a'], rule exI [of _ ?p], rule exI [of _ ?w1])
      (use out ok i q seal_carried [OF sn cs c] snow_xx.seal_size [OF sn c] lk in
        \<open>auto simp: say end_ok_def wired_def mock_ends_def session_at_map\<close>)
qed

text \<open>It crosses: after a turn of the other loop the service it names has been given it.\<close>

definition crossed ::
  "('hs, 'ts, 'svc) env \<Rightarrow> ('ts \<Rightarrow> 'd) \<Rightarrow> ('ts \<Rightarrow> 'd) \<Rightarrow> string \<times> bytes \<Rightarrow> ('ts, 'svc) mesh_end \<Rightarrow> ('ts, 'svc) mesh_end \<Rightarrow>
     ('ts, 'svc) mesh_end \<Rightarrow> ('ts, 'svc) mesh_end \<Rightarrow> bool" where
  "crossed env tx rx m a b a' b' \<longleftrightarrow>
     om_services (e_node a') = om_services (e_node a) \<and> om_spawned (e_node a') = om_spawned (e_node a) \<and>
     (om_services (e_node b'), om_spawned (e_node b')) =
       deliver (sdk_handle env) (e_peer b) m (om_services (e_node b), om_spawned (e_node b)) \<and>
     tx (ts_state (s_transport (e_session b'))) = tx (ts_state (s_transport (e_session b))) \<and>
     e_peer a' = e_peer a \<and> e_peer b' = e_peer b"

lemma crosses:
  assumes sn: "snow_xx (sdk_snow env) tx rx left pub" and cs: "wire_codec (sdk_codecs env)" and cl: "clear tx rx a b w"
    and "0 < left (tx (ts_state (s_transport (e_session a))))" "message_ok m"
  shows "\<exists>a' b' w1 w'. loop_out env 0 (say env 0 m a) w = (a', w1) \<and> loop_in env 0 b w1 = (b', w') \<and> clear tx rx a' b' w' \<and>
    (clear tx rx b a w \<longrightarrow> clear tx rx b' a' w') \<and> crossed env tx rx m a b a' b'"
proof -
  have b: "end_ok b" "wired a b w" "e_sess b < length (om_store (e_node b))" using cl by (simp_all add: clear_def end_ok_def)
  from leaves [OF assms] obtain a' p w1 where out: "loop_out env 0 (say env 0 m a) w = (a', w1)"
    and w1: "w1 = w\<lparr>pipes := (pipes w)[mc_tx (e_conn a) := [p]]\<rparr>"
    and c: "carried env tx (rx (ts_state (s_transport (e_session b)))) [p] [m] (tx (ts_state (s_transport (e_session a'))))"
    and a': "end_ok a'" "wired b a' w1" "e_conn a' = e_conn a" "e_peer a' = e_peer a" "write_queue (e_session a') = []"
      "rx (ts_state (s_transport (e_session a'))) = rx (ts_state (s_transport (e_session a)))"
      "om_services (e_node a') = om_services (e_node a)" "om_spawned (e_node a') = om_spawned (e_node a)" by blast
  have p: "pipes w1 ! mc_tx (e_conn a') = [p]" using b(2) by (simp add: w1 a'(3) wired_def mock_ends_def)
  let ?d = "deliver (sdk_handle env) (e_peer b) m (om_services (e_node b), om_spawned (e_node b))"
  from loop_in_effect [OF sn cs b(1) a'(2) p c, of 0] obtain u b' w' where
    u: "carried env tx (rx (ts_state u)) [] [] (tx (ts_state (s_transport (e_session a'))))"
      "tx (ts_state u) = tx (ts_state (s_transport (e_session b)))"
    and inn: "loop_in env 0 b w1 = (b', w')" and w': "w' = w1\<lparr>pipes := (pipes w1)[mc_tx (e_conn a') := []]\<rparr>"
    and b': "b' = b\<lparr>e_node := (map_session (e_sess b) (\<lambda>s. s\<lparr>s_transport := u\<rparr>) (e_node b))\<lparr>om_services := fst ?d, om_spawned := snd ?d\<rparr>\<rparr>"
    by auto
  have ru: "rx (ts_state u) = tx (ts_state (s_transport (e_session a')))" using u(1) by (auto elim: carried_nilE)
  have n: "mc_tx (e_conn a) \<noteq> mc_tx (e_conn b)" using b(2) by (simp add: wired_def)
  have e: "end_ok b'" "wired a' b' w'" "wired b' a' w'"
    using b a'(2) by (auto simp: b' w' end_ok_def wired_def mock_ends_def session_at_map)
  have s: "s_transport (e_session b') = u" "write_queue (e_session b') = write_queue (e_session b)"
    using b by (simp_all add: b' session_at_map)
  have "clear tx rx a' b' w'" using e a' s ru b by (simp add: clear_def under_way_def w' w1 wired_def mock_ends_def)
  moreover have "clear tx rx b' a' w'" if "clear tx rx b a w"
    using that e a' s u(2) n by (simp add: clear_def under_way_def w' w1) (simp add: b')
  ultimately show ?thesis using out inn a' s u(2)
    by (intro exI [of _ a'] exI [of _ b'] exI [of _ w1] exI [of _ w']) (simp add: b' crossed_def)
qed

section \<open>Remote calls\<close>

text \<open>\<^verbatim>\<open>RpcService::call\<close> up to the sending of its request, on the service registered with the node.\<close>

definition rpc_call ::
  "string \<Rightarrow> bytes \<Rightarrow> ('ts, mesh_service) mesh_end \<Rightarrow> (u64 \<times> outgoing list) option \<times> ('ts, mesh_service) mesh_end" where
  "rpc_call meth req e =
     (case map_of (om_services (e_node e)) ''rpc'' of
        Some (RpcSvc handler s) \<Rightarrow>
          (case call_start enc_rpc (e_peer e) meth req s of
             (out, s') \<Rightarrow>
               (Some out, e\<lparr>e_node := (e_node e)\<lparr>om_services := AList.update ''rpc'' (RpcSvc handler s') (om_services (e_node e))\<rparr>\<rparr>))
      | _ \<Rightarrow> (None, e))"

lemma rpc_fits_ok: "message_ok (''rpc'', enc_rpc m) \<Longrightarrow> rpc_fits m"
  by (cases m rule: rpc_fits.cases) (simp_all add: message_ok_def enc_rpc_def enc_sizes fits_def)

lemma deliver_request:
  assumes "map_of svs ''rpc'' = Some (RpcSvc handler t)" "message_ok (''rpc'', enc_rpc (Request i meth req))"
  shows "deliver mesh_handle from (''rpc'', enc_rpc (Request i meth req)) (svs, sp) =
    (AList.update ''rpc'' (RpcSvc handler t) svs, sp @ [SendMessage from ''rpc'' (enc_rpc (rpc_respond handler from i meth req))])"
  using assms(1) rpc_codec.dec_enc [OF rpc_fits_ok [OF assms(2)]]
  by (simp add: deliver_def rpc_handle_message_def)

lemma deliver_response:
  assumes "map_of svs ''rpc'' = Some (RpcSvc handler t)" "message_ok (''rpc'', enc_rpc (Response i r))" "i \<in> set (pending_requests t)"
  shows "deliver mesh_handle from (''rpc'', enc_rpc (Response i r)) (svs, sp) =
    (AList.update ''rpc'' (RpcSvc handler (t\<lparr>pending_requests := remove1 i (pending_requests t), answered := answered t @ [(i, r)]\<rparr>)) svs, sp)"
  using assms(1,3) rpc_codec.dec_enc [OF rpc_fits_ok [OF assms(2)]]
  by (simp add: deliver_def rpc_handle_message_def)

lemma clear_frame:
  "clear tx rx (a\<lparr>e_node := (e_node a)\<lparr>om_services := svs\<rparr>\<rparr>) b w = clear tx rx a b w"
  "clear tx rx a (b\<lparr>e_node := (e_node b)\<lparr>om_services := svs\<rparr>\<rparr>) w = clear tx rx a b w"
  "clear tx rx (a\<lparr>e_node := (e_node a)\<lparr>om_spawned := sp\<rparr>\<rparr>) b w = clear tx rx a b w"
  "clear tx rx a (b\<lparr>e_node := (e_node b)\<lparr>om_spawned := sp\<rparr>\<rparr>) w = clear tx rx a b w"
  by (simp_all add: clear_def end_ok_def wired_def under_way_def)

lemma answer_say:
  assumes "om_spawned (e_node e) = [SendMessage (e_peer e) service payload]" "write_queue (e_session e) = []"
  shows "answer env now e = say env now (service, payload) (e\<lparr>e_node := (e_node e)\<lparr>om_spawned := []\<rparr>\<rparr>)"
  using assms by (simp add: answer_def QUEUE_CAPACITY_def)

lemma call_completes:
  assumes "snow_xx (sdk_snow env) tx rx left pub" "wire_codec (sdk_codecs env)" "sdk_handle env = mesh_handle"
    and "clear tx rx a b w" "clear tx rx b a w"
    and "0 < left (tx (ts_state (s_transport (e_session a))))" "0 < left (tx (ts_state (s_transport (e_session b))))"
    and "map_of (om_services (e_node a)) ''rpc'' = Some (RpcSvc h s)" "distinct (pending_requests s)"
    and "map_of (om_services (e_node b)) ''rpc'' = Some (RpcSvc handler t)" "om_spawned (e_node b) = []"
    and "message_ok (''rpc'', enc_rpc (Request (next_request_id s) meth req))"
    and "message_ok (''rpc'', enc_rpc (rpc_respond handler (e_peer b) (next_request_id s) meth req))"
  shows "\<exists>i request a1 a' b' w' s'. rpc_call meth req a = (Some (i, [SendMessage (e_peer a) ''rpc'' request]), a1) \<and>
    mesh_run env [(West, Say (''rpc'', request)), (West, Loop_Out), (East, Loop_In), (East, Answer), (East, Loop_Out), (West, Loop_In)]
      (a1, b, w) = (a', b', w') \<and>
    map_of (om_services (e_node a')) ''rpc'' = Some (RpcSvc h s') \<and>
    answered s' = answered s @ [(i, case handler (e_peer b) meth req of Inr v \<Rightarrow> Inr v | Inl e \<Rightarrow> Inl (display_error e))] \<and>
    i \<notin> set (pending_requests s')"
proof -
  let ?i = "next_request_id s"
  let ?s1 = "s\<lparr>next_request_id := ?i + 1, pending_requests := List.insert ?i (pending_requests s)\<rparr>"
  define a1 where "a1 = a\<lparr>e_node := (e_node a)\<lparr>om_services := AList.update ''rpc'' (RpcSvc h ?s1) (om_services (e_node a))\<rparr>\<rparr>"
  let ?req = "(''rpc'', enc_rpc (Request ?i meth req))" and ?ans = "(''rpc'', enc_rpc (rpc_respond handler (e_peer b) ?i meth req))"
  have call: "rpc_call meth req a = (Some (?i, [SendMessage (e_peer a) ''rpc'' (snd ?req)]), a1)"
    using assms(8) by (simp add: a1_def rpc_call_def call_start_def create_request_def Let_def)
  have cl: "clear tx rx a1 b w" "clear tx rx b a1 w" "0 < left (tx (ts_state (s_transport (e_session a1))))"
    using assms(4-6) by (simp_all add: a1_def clear_frame)
  from crosses [OF assms(1,2) cl(1,3) assms(12)] cl(2) obtain a2 b2 w1 w2 where
    run1: "loop_out env 0 (say env 0 ?req a1) w = (a2, w1)" "loop_in env 0 b w1 = (b2, w2)" "clear tx rx b2 a2 w2"
    and cr1: "crossed env tx rx ?req a1 b a2 b2" by blast
  note x = cr1 [unfolded crossed_def assms(3,11)]
  have sp: "om_spawned (e_node b2) = [SendMessage (e_peer b2) ''rpc'' (snd ?ans)]"
    using x deliver_request [OF assms(10,12), of "e_peer b" "[]"] by simp
  define b3 where "b3 = b2\<lparr>e_node := (e_node b2)\<lparr>om_spawned := []\<rparr>\<rparr>"
  have ans: "answer env 0 b2 = say env 0 ?ans b3" using answer_say [OF sp, of env 0] run1(3) by (simp add: b3_def clear_def under_way_def)
  have "clear tx rx b3 a2 w2" "0 < left (tx (ts_state (s_transport (e_session b3))))" using run1(3) x assms(7) by (simp_all add: b3_def clear_frame)
  from crosses [OF assms(1,2) this assms(13)] obtain b4 a5 w4 w5 where
    run2: "loop_out env 0 (say env 0 ?ans b3) w2 = (b4, w4)" "loop_in env 0 a2 w4 = (a5, w5)"
    and cr2: "crossed env tx rx ?ans b3 a2 b4 a5" by blast
  note y = cr2 [unfolded crossed_def assms(3)]
  have m1: "map_of (om_services (e_node a1)) ''rpc'' = Some (RpcSvc h ?s1)" by (simp add: a1_def)
  have "om_services (e_node a5) = AList.update ''rpc'' (RpcSvc h (?s1\<lparr>pending_requests := remove1 ?i (pending_requests ?s1),
      answered := answered ?s1 @ [(?i, case handler (e_peer b) meth req of Inr v \<Rightarrow> Inr v | Inl e \<Rightarrow> Inl (display_error e))]\<rparr>))
      (om_services (e_node a1))"
    using x y deliver_response [OF m1 assms(13) [unfolded rpc_respond_def], of "e_peer a2" "om_spawned (e_node a2)"]
    by (simp add: rpc_respond_def)
  moreover have "mesh_run env [(West, Say ?req), (West, Loop_Out), (East, Loop_In), (East, Answer), (East, Loop_Out), (West, Loop_In)]
      (a1, b, w) = (a5, b4, w5)" using run1(1,2) run2 ans by (simp add: mesh_run_def)
  ultimately show ?thesis using call assms(9)
    by (intro exI [of _ ?i] exI [of _ "snd ?req"] exI [of _ a1] exI [of _ a5] exI [of _ b4] exI [of _ w5] exI conjI) (assumption | simp)+
qed

section \<open>Properties\<close>

text \<open>
  C2. Two nodes connect and talk: a node that connects and one that accepts, over a connection of the mock
  transport, exchange the handshake's three messages and have a session with each other; from then on,
  whatever the order of calls, of answers by services and of turns of the two session loops, the services at
  either end have been given exactly the first of the messages the other end has sent, in order and with the
  sender's identifier, and the others are in the packets under way.
\<close>

theorem mesh_delivers:
  assumes "snow_xx (sdk_snow env) tx rx left pub" "wire_codec (sdk_codecs env)"
    and "list_all (\<lambda>k. length k = 32) [seed (om_keypair na), sdk_rand env addr, seed (om_keypair nb), rand]"
    and "peer_wf (om_peer_id na)" "peer_wf (om_peer_id nb)" "keypair_to_peer_id (sdk_ed env) (om_keypair nb) = om_peer_id nb"
    and "mock_listen addr mock_new registry_new = (Inr (), server, w1)"
  shows "\<exists>c d w2 w3 m1 m2 m3 ta tb.
    mock_connect addr mock_new w1 = (Ready (Inr c), w2) \<and> mock_accept server w2 = (Ready (Inr d), w3) \<and>
    connect_addr (env\<lparr>sdk_dial := \<lambda>_. Returned (Inr (carrying [m2]))\<rparr>) addr na =
      (Ready (Returned (Inr (om_peer_id nb))), install_session (om_peer_id nb) ta na) \<and>
    accept_step env rand (Inr (carrying [m1, m3])) nb = install_session (om_peer_id na) tb nb \<and>
    (\<forall>evs. in_order env na nb (mesh_run env evs (joined (om_peer_id nb) ta c na, joined (om_peer_id na) tb d nb, w3)))"
proof -
  have "mock_wf registry_new" "\<forall>i. incoming_rx mock_new = Some i \<longrightarrow> i < length (accept_queues registry_new)"
    by (simp_all add: mock_wf_def registry_new_def mock_new_def)
  from mock_meet [OF this assms(7), of mock_new] obtain c d w2 w3 where
    c: "mock_connect addr mock_new w1 = (Ready (Inr c), w2)" "mock_accept server w2 = (Ready (Inr d), w3)"
    and ends: "mock_ends c d w3" "mock_ends d c w3" "mc_tx c \<noteq> mc_tx d" "pipes w3 ! mc_tx c = []" "pipes w3 ! mc_tx d = []" by blast
  from nodes_meet [OF assms(1-6)] obtain m1 m2 m3 ta tb where
    m: "connect_addr (env\<lparr>sdk_dial := \<lambda>_. Returned (Inr (carrying [m2]))\<rparr>) addr na =
      (Ready (Returned (Inr (om_peer_id nb))), install_session (om_peer_id nb) ta na)"
      "accept_step env rand (Inr (carrying [m1, m3])) nb = install_session (om_peer_id na) tb nb" and l: "linked tx rx ta tb" by blast
  let ?a = "joined (om_peer_id nb) ta c na" and ?b = "joined (om_peer_id na) tb d nb"
  have "in_order env na nb (a, b, w)"
    if run: "mesh_run env evs (?a, ?b, w3) = (a, b, w)" for evs a b w
  proof -
    have "mesh_inv env tx rx (om_services na) (om_services nb) a b w"
      using mesh_run_keeps [OF assms(1,2) joined_inv [OF l ends] run] .
    moreover have "e_peer a = om_peer_id nb" "e_peer b = om_peer_id na" using run_peers [OF run] by (simp_all add: joined_def)
    ultimately show ?thesis unfolding mesh_inv_def
      using half_lengths [of env tx rx "om_services nb" a b w] half_lengths [of env tx rx "om_services na" b a w] by simp
  qed
  then have "in_order env na nb (mesh_run env evs (?a, ?b, w3))" for evs by (cases "mesh_run env evs (?a, ?b, w3)") simp
  with c m show ?thesis by (intro exI conjI allI) assumption+
qed

theorem mesh_delivers_witness:
  "\<exists>c d w3 m1 m2 m3 ta tb.
    connect_addr (sample_env\<lparr>sdk_dial := \<lambda>_. Returned (Inr (carrying [m2]))\<rparr>) loopback_any (sample_node node_a) =
      (Ready (Returned (Inr node_b)), install_session node_b ta (sample_node node_a)) \<and>
    accept_step sample_env (replicate 32 3) (Inr (carrying [m1, m3])) (sample_node node_b) = install_session node_a tb (sample_node node_b) \<and>
    in_order sample_env (sample_node node_a) (sample_node node_b)
      (mesh_run sample_env [(West, Say (''chat'', [1])), (East, Say (''chat'', [2])), (West, Loop_Out), (East, Loop_In)]
        (joined node_b ta c (sample_node node_a), joined node_a tb d (sample_node node_b), w3))"
proof -
  obtain server w1 where l: "mock_listen loopback_any mock_new registry_new = (Inr (), server, w1)"
    by (simp add: mock_listen_def Let_def)
  have k: "list_all (\<lambda>k. length k = 32) [seed (om_keypair (sample_node node_a)), sdk_rand sample_env loopback_any,
      seed (om_keypair (sample_node node_b)), replicate 32 3]"
    by (simp add: sample_node_def sample_env_def seed_def from_seed_def node_a_def node_b_def)
  have i: "peer_wf (om_peer_id (sample_node node_a))" "peer_wf (om_peer_id (sample_node node_b))"
    "keypair_to_peer_id (sdk_ed sample_env) (om_keypair (sample_node node_b)) = om_peer_id (sample_node node_b)"
    by (simp_all add: sample_node_def sample_env_def peer_wf_def node_a_def node_b_def keypair_to_peer_id_def public_key_to_peer_id_def
        public_key_def from_bytes_def from_seed_def)
  have f: "om_peer_id (sample_node me) = me" for me by (simp add: sample_node_def)
  from mesh_delivers [OF sample_contracts k i l, unfolded f] show ?thesis by (elim exE conjE allE) (intro exI conjI, assumption+)
qed

text \<open>
  C6. A remote call over the mesh returns what the remote handler computed: when nothing is under way between
  two nodes with a session, a call at one of them, two turns of the session loops, the answer of the other's
  service and two more turns complete the call with the handler's value, or the text of its error.
\<close>

theorem rpc_over_mesh:
  assumes "snow_xx (sdk_snow env) tx rx left pub" "wire_codec (sdk_codecs env)" "sdk_handle env = mesh_handle"
    and "clear tx rx a b w" "clear tx rx b a w"
    and "0 < left (tx (ts_state (s_transport (e_session a))))" "0 < left (tx (ts_state (s_transport (e_session b))))"
    and "map_of (om_services (e_node a)) ''rpc'' = Some (RpcSvc h s)" "distinct (pending_requests s)"
    and "map_of (om_services (e_node b)) ''rpc'' = Some (RpcSvc handler t)" "om_spawned (e_node b) = []"
    and "message_ok (''rpc'', enc_rpc (Request (next_request_id s) meth req))"
    and "message_ok (''rpc'', enc_rpc (rpc_respond handler (e_peer b) (next_request_id s) meth req))"
  shows "\<exists>i request a1 a' b' w' s'. rpc_call meth req a = (Some (i, [SendMessage (e_peer a) ''rpc'' request]), a1) \<and>
    mesh_run env [(West, Say (''rpc'', request)), (West, Loop_Out), (East, Loop_In), (East, Answer), (East, Loop_Out), (West, Loop_In)]
      (a1, b, w) = (a', b', w') \<and>
    map_of (om_services (e_node a')) ''rpc'' = Some (RpcSvc h s') \<and>
    answered s' = answered s @ [(i, case handler (e_peer b) meth req of Inr v \<Rightarrow> Inr v | Inl e \<Rightarrow> Inl (display_error e))] \<and>
    i \<notin> set (pending_requests s')"
  using assms by (rule call_completes)

definition wire_a :: MockConnection where
  "wire_a = \<lparr>mc_local_addr = addr_one, mc_remote_addr = addr_two, mc_tx = 0, mc_rx = 1, mc_connected = True\<rparr>"

definition wire_b :: MockConnection where
  "wire_b = \<lparr>mc_local_addr = addr_two, mc_remote_addr = addr_one, mc_tx = 1, mc_rx = 0, mc_connected = True\<rparr>"

definition sample_transport :: "u8 \<Rightarrow> u8 \<Rightarrow> transport_state NoiseTransport" where
  "sample_transport j k = \<lparr>ts_state = \<lparr>tr_tx = sample_key j, tr_rx = sample_key k\<rparr>, remote_static = None\<rparr>"

definition rpc_node :: "rpc_handler \<Rightarrow> PeerId \<Rightarrow> (transport_state, mesh_service) OmniMesh" where
  "rpc_node handler me = register_service ''rpc'' (RpcSvc handler rpc_new) (sample_node me)"

theorem rpc_over_mesh_witness:
  "\<exists>request a1 a' b' w' s'.
    rpc_call ''echo'' [1, 2, 3] (joined node_b (sample_transport 1 2) wire_a (rpc_node (\<lambda>_ _ r. Inr r) node_a)) =
      (Some (1, [SendMessage node_b ''rpc'' request]), a1) \<and>
    mesh_run sample_env [(West, Say (''rpc'', request)), (West, Loop_Out), (East, Loop_In), (East, Answer), (East, Loop_Out), (West, Loop_In)]
      (a1, joined node_a (sample_transport 2 1) wire_b (rpc_node (\<lambda>_ _ r. Inr (rev r)) node_b), registry_new\<lparr>pipes := [[], []]\<rparr>) =
      (a', b', w') \<and>
    map_of (om_services (e_node a')) ''rpc'' = Some (RpcSvc (\<lambda>_ _ r. Inr r) s') \<and> answered s' = [(1, Inr [3, 2, 1])]"
proof -
  let ?w = "registry_new\<lparr>pipes := [[], []]\<rparr>"
  let ?a = "joined node_b (sample_transport 1 2) wire_a (rpc_node (\<lambda>_ _ r. Inr r) node_a)"
  let ?b = "joined node_a (sample_transport 2 1) wire_b (rpc_node (\<lambda>_ _ r. Inr (rev r)) node_b)"
  have "linked tr_tx tr_rx (sample_transport 1 2) (sample_transport 2 1)" by (simp add: linked_def sample_transport_def)
  note cl = clear_joined [OF this, of wire_a wire_b ?w]
  have svs: "map_of (om_services (e_node ?a)) ''rpc'' = Some (RpcSvc (\<lambda>_ _ r. Inr r) rpc_new)"
    "map_of (om_services (e_node ?b)) ''rpc'' = Some (RpcSvc (\<lambda>_ _ r. Inr (rev r)) rpc_new)" "om_spawned (e_node ?b) = []"
    "e_peer ?a = node_b" "e_peer ?b = node_a"
    by (simp_all add: joined_def install_session_def rpc_node_def register_service_def sample_node_def)
  have left: "0 < cs_left (tr_tx (ts_state (s_transport (e_session ?a))))" "0 < cs_left (tr_tx (ts_state (s_transport (e_session ?b))))"
    using sample_left [of 1 1] sample_left [of 1 2] by (simp_all add: joined_session sample_transport_def)
  have ok: "message_ok (''rpc'', enc_rpc (Request (next_request_id rpc_new) ''echo'' [1, 2, 3]))"
    "message_ok (''rpc'', enc_rpc (rpc_respond (\<lambda>_ _ r. Inr (rev r)) (e_peer ?b) (next_request_id rpc_new) ''echo'' [1, 2, 3]))"
    by (simp_all add: message_ok_def enc_rpc_def enc_sizes enc_u32_def enc_int_def rpc_respond_def)
  have n: "next_request_id rpc_new = 1" "answered rpc_new = []" "distinct (pending_requests rpc_new)" by (simp_all add: rpc_new_def)
  have h: "sdk_handle sample_env = mesh_handle" by (simp add: sample_env_def)
  have e: "mock_ends wire_a wire_b ?w" "mock_ends wire_b wire_a ?w" "mc_tx wire_a \<noteq> mc_tx wire_b" "pipes ?w ! mc_tx wire_a = []"
    "pipes ?w ! mc_tx wire_b = []" by (simp_all add: mock_ends_def wire_a_def wire_b_def registry_new_def)
  from rpc_over_mesh [OF sample_contracts h cl(1) [OF e] cl(2) [OF e] left svs(1) n(3) svs(2,3) ok]
  show ?thesis unfolding svs(4,5) n(2) by (auto simp: rpc_call_def svs call_start_def create_request_def n(1) Let_def)
qed

end
