(* ===== verification/Utf8_Text.thy ===== *)
theory Utf8_Text
  imports Socket_Addr
begin

text \<open>
  The parts of Rust's \<^verbatim>\<open>str\<close> that the example programs use on what they receive and read: \<^verbatim>\<open>String::from_utf8\<close>,
  \<^verbatim>\<open>chars\<close>, \<^verbatim>\<open>trim\<close> and \<^verbatim>\<open>parse::<u16>\<close>. A text is its bytes in UTF-8; a character is the group of
  bytes that encodes it.
\<close>

section \<open>Characters\<close>

definition continuation :: "u8 \<Rightarrow> bool" where
  "continuation b \<longleftrightarrow> 0x80 \<le> b \<and> b \<le> 0xBF"

text \<open>The well-formed sequences of two, three and four bytes: no overlong forms, no surrogates, nothing beyond U+10FFFF.\<close>

definition two_ok :: "u8 \<Rightarrow> u8 \<Rightarrow> bool" where
  "two_ok a b \<longleftrightarrow> 0xC2 \<le> a \<and> a \<le> 0xDF \<and> continuation b"

definition three_ok :: "u8 \<Rightarrow> u8 \<Rightarrow> u8 \<Rightarrow> bool" where
  "three_ok a b c \<longleftrightarrow> 0xE0 \<le> a \<and> a \<le> 0xEF \<and> continuation b \<and> continuation c \<and>
     (a = 0xE0 \<longrightarrow> 0xA0 \<le> b) \<and> (a = 0xED \<longrightarrow> b \<le> 0x9F)"

definition four_ok :: "u8 \<Rightarrow> u8 \<Rightarrow> u8 \<Rightarrow> u8 \<Rightarrow> bool" where
  "four_ok a b c d \<longleftrightarrow> 0xF0 \<le> a \<and> a \<le> 0xF4 \<and> continuation b \<and> continuation c \<and> continuation d \<and>
     (a = 0xF0 \<longrightarrow> 0x90 \<le> b) \<and> (a = 0xF4 \<longrightarrow> b \<le> 0x8F)"

fun char_group :: "bytes \<Rightarrow> bool" where
  "char_group [a] \<longleftrightarrow> a \<le> 0x7F"
| "char_group [a, b] \<longleftrightarrow> two_ok a b"
| "char_group [a, b, c] \<longleftrightarrow> three_ok a b c"
| "char_group [a, b, c, d] \<longleftrightarrow> four_ok a b c d"
| "char_group _ \<longleftrightarrow> False"

text \<open>The number of bytes of the character that a byte starts.\<close>

definition group_length :: "u8 \<Rightarrow> nat" where
  "group_length a = (if a \<le> 0x7F then 1 else if a \<le> 0xDF then 2 else if a \<le> 0xEF then 3 else 4)"

text \<open>\<^verbatim>\<open>String::from_utf8\<close>, as the characters of the string.\<close>

function utf8_chars :: "bytes \<Rightarrow> bytes list option" where
  "utf8_chars [] = Some []"
| "utf8_chars (a # bs) =
     (let g = take (group_length a) (a # bs)
      in if \<not> char_group g then None
         else map_option (\<lambda>gs. g # gs) (utf8_chars (drop (group_length a) (a # bs))))"
  by pat_completeness auto
termination by (relation "measure length") (auto simp: group_length_def)

declare utf8_chars.simps(2) [simp del]

lemma group_length: "char_group g \<Longrightarrow> g \<noteq> [] \<and> group_length (hd g) = length g"
proof (induction g rule: char_group.induct)
  case (2 a b)
  then have "0x7F < a" "a \<le> 0xDF" by (simp_all add: two_ok_def word_le_nat_alt word_less_nat_alt)
  then show ?case by (simp add: group_length_def)
next
  case (3 a b c)
  then have "0x7F < a" "0xDF < a" "a \<le> 0xEF" by (simp_all add: three_ok_def word_le_nat_alt word_less_nat_alt)
  then show ?case by (simp add: group_length_def not_le)
next
  case (4 a b c d)
  then have "0x7F < a" "0xDF < a" "0xEF < a" by (simp_all add: four_ok_def word_le_nat_alt word_less_nat_alt)
  then show ?case by (simp add: group_length_def not_le)
qed (simp_all add: group_length_def)

lemma utf8_chars_group:
  assumes "char_group g"
  shows "utf8_chars (g @ rest) = map_option (\<lambda>gs. g # gs) (utf8_chars rest)"
proof -
  obtain a bs where g: "g = a # bs" "group_length a = length g" using group_length [OF assms] by (cases g) auto
  have "take (group_length a) (a # bs @ rest) = g" "drop (group_length a) (a # bs @ rest) = rest" using g by simp_all
  with g(1) assms show ?thesis by (simp add: utf8_chars.simps(2) Let_def)
qed

text \<open>A text is valid exactly when it is a sequence of characters, and then it is these.\<close>

lemma utf8_concat: "list_all char_group gs \<Longrightarrow> utf8_chars (concat gs) = Some gs"
  by (induction gs) (simp_all add: utf8_chars_group)

lemma utf8_sound: "utf8_chars bs = Some gs \<Longrightarrow> bs = concat gs \<and> list_all char_group gs"
proof (induction bs arbitrary: gs rule: utf8_chars.induct)
  case (2 a bs)
  then obtain hs where "char_group (take (group_length a) (a # bs))" "utf8_chars (drop (group_length a) (a # bs)) = Some hs"
    "gs = take (group_length a) (a # bs) # hs"
    by (auto simp: utf8_chars.simps(2) Let_def split: if_splits)
  with "2.IH" [OF refl _, of hs] append_take_drop_id [of "group_length a" "a # bs"] show ?case by simp
qed simp

lemma utf8_ascii: "list_all (\<lambda>b. b \<le> 0x7F) bs \<Longrightarrow> utf8_chars bs = Some (map (\<lambda>b. [b]) bs)"
  using utf8_concat [of "map (\<lambda>b. [b]) bs"] by (simp add: list_all_iff)

section \<open>Trimming\<close>

text \<open>The characters with the property \<^verbatim>\<open>White_Space\<close>.\<close>

definition white_space :: "bytes \<Rightarrow> bool" where
  "white_space g \<longleftrightarrow>
     g \<in> set [[9], [10], [11], [12], [13], [32], [0xC2, 0x85], [0xC2, 0xA0], [0xE1, 0x9A, 0x80],
       [0xE2, 0x80, 0x80], [0xE2, 0x80, 0x81], [0xE2, 0x80, 0x82], [0xE2, 0x80, 0x83], [0xE2, 0x80, 0x84], [0xE2, 0x80, 0x85],
       [0xE2, 0x80, 0x86], [0xE2, 0x80, 0x87], [0xE2, 0x80, 0x88], [0xE2, 0x80, 0x89], [0xE2, 0x80, 0x8A],
       [0xE2, 0x80, 0xA8], [0xE2, 0x80, 0xA9], [0xE2, 0x80, 0xAF], [0xE2, 0x81, 0x9F], [0xE3, 0x80, 0x80]]"

definition trim_chars :: "bytes list \<Rightarrow> bytes list" where
  "trim_chars gs = rev (dropWhile white_space (rev (dropWhile white_space gs)))"

section \<open>Numbers\<close>

text \<open>\<^verbatim>\<open>str::parse::<u16>\<close>: an optional plus sign and digits, leading zeros allowed.\<close>

definition parse_u16 :: "string \<Rightarrow> u16 option" where
  "parse_u16 s =
     (let digits = (case s of CHR ''+'' # rest \<Rightarrow> rest | _ \<Rightarrow> s)
      in case read_number 10 None True 65535 digits of
           Some (n, []) \<Rightarrow> Some (word_of_nat n)
         | _ \<Rightarrow> None)"

end
