(* ===== verification/Examples.thy ===== *)
theory Examples
  imports Node_Cli Mesh_Pair Utf8_Text
begin

text \<open>
  The programs under \<^verbatim>\<open>crates/omnimesh-sdk/examples\<close>: chat, remote calls and publish/subscribe from a terminal.
  Each reads its arguments, builds a node on the QUIC transport, prints a banner and then serves or acts as
  a client. What a program prints is text on two streams; a line of input is its bytes. The \<^verbatim>\<open>Debug\<close> form
  of errors is a parameter, and logging is left out.
\<close>

section \<open>The terminal\<close>

record console =
  con_out :: string
  con_err :: string

definition print :: "string \<Rightarrow> console \<Rightarrow> console" where
  "print s con = con\<lparr>con_out := con_out con @ s\<rparr>"

definition print_lines :: "string list \<Rightarrow> console \<Rightarrow> console" where
  "print_lines ls con = print (concat (map (\<lambda>l. l @ [CHR 0x0A]) ls)) con"

definition eprint_lines :: "string list \<Rightarrow> console \<Rightarrow> console" where
  "eprint_lines ls con = con\<lparr>con_err := con_err con @ concat (map (\<lambda>l. l @ [CHR 0x0A]) ls)\<rparr>"

definition ballot_x :: string where "ballot_x = [CHR 0xE2, CHR 0x9C, CHR 0x97]"

definition rule_line :: string where "rule_line = replicate 50 (CHR ''='')"

text \<open>How a program ends: normally, with \<^verbatim>\<open>process::exit(1)\<close>, with an error from \<^verbatim>\<open>main\<close>, or with a panic.\<close>

datatype ex_end = Ex_Done | Ex_Code | Ex_Error | Ex_Panic

section \<open>Arguments\<close>

record ex_args =
  ea_connect :: "SocketAddr option"
  ea_role :: bool
  ea_publish :: "string option"
  ea_port :: u16

definition no_args :: ex_args where
  "no_args = \<lparr>ea_connect = None, ea_role = False, ea_publish = None, ea_port = 0\<rparr>"

text \<open>A value that does not parse is an error of \<^verbatim>\<open>main\<close>; a missing value or an unknown argument prints and exits.\<close>

datatype ex_parse = Parsed ex_args | Usage "string list" | Bad_Value

fun chat_args :: "string list \<Rightarrow> ex_args \<Rightarrow> ex_parse" where
  "chat_args [] a = Parsed a"
| "chat_args (x # xs) a =
     (if x = ''--connect'' \<or> x = ''-c'' then
        (case xs of
           [] \<Rightarrow> Usage [''Error: Missing address after --connect'']
         | v # rest \<Rightarrow> (case parse_socket_addr v of None \<Rightarrow> Bad_Value | Some addr \<Rightarrow> chat_args rest (a\<lparr>ea_connect := Some addr\<rparr>)))
      else if x = ''--listen-port'' \<or> x = ''-p'' then
        (case xs of
           [] \<Rightarrow> Usage [''Error: Missing port after --listen-port'']
         | v # rest \<Rightarrow> (case parse_u16 v of None \<Rightarrow> Bad_Value | Some p \<Rightarrow> chat_args rest (a\<lparr>ea_port := p\<rparr>)))
      else Usage [''Unknown argument: '' @ x, ''Usage: cargo run --example p2p_chat -- [-p PORT] [-c CONNECT_ADDR]''])"

fun rpc_args :: "string list \<Rightarrow> ex_args \<Rightarrow> ex_parse" where
  "rpc_args [] a = Parsed a"
| "rpc_args (x # xs) a =
     (if x = ''--connect'' \<or> x = ''-c'' then
        (case xs of
           [] \<Rightarrow> Usage [''Error: Missing address after --connect'']
         | v # rest \<Rightarrow> (case parse_socket_addr v of None \<Rightarrow> Bad_Value | Some addr \<Rightarrow> rpc_args rest (a\<lparr>ea_connect := Some addr\<rparr>)))
      else if x = ''--server'' \<or> x = ''-s'' then rpc_args xs (a\<lparr>ea_role := True\<rparr>)
      else if x = ''--listen-port'' \<or> x = ''-p'' then
        (case xs of
           [] \<Rightarrow> Usage [''Error: Missing port after --listen-port'']
         | v # rest \<Rightarrow> (case parse_u16 v of None \<Rightarrow> Bad_Value | Some p \<Rightarrow> rpc_args rest (a\<lparr>ea_port := p\<rparr>)))
      else Usage [''Unknown argument: '' @ x, ''Usage: cargo run --example p2p_rpc -- [--server] [-p PORT] [-c CONNECT_ADDR]''])"

fun pubsub_args :: "string list \<Rightarrow> ex_args \<Rightarrow> ex_parse" where
  "pubsub_args [] a = Parsed a"
| "pubsub_args (x # xs) a =
     (if x = ''--connect'' \<or> x = ''-c'' then
        (case xs of
           [] \<Rightarrow> Usage [''Error: Missing address after --connect'']
         | v # rest \<Rightarrow> (case parse_socket_addr v of None \<Rightarrow> Bad_Value | Some addr \<Rightarrow> pubsub_args rest (a\<lparr>ea_connect := Some addr\<rparr>)))
      else if x = ''--subscribe'' \<or> x = ''-s'' then pubsub_args xs (a\<lparr>ea_role := True\<rparr>)
      else if x = ''--publish'' \<or> x = ''-p'' then
        (case xs of
           [] \<Rightarrow> Usage [''Error: Missing message content after --publish'']
         | v # rest \<Rightarrow> pubsub_args rest (a\<lparr>ea_publish := Some v\<rparr>))
      else if x = ''--listen-port'' then
        (case xs of
           [] \<Rightarrow> Usage [''Error: Missing port after --listen-port'']
         | v # rest \<Rightarrow> (case parse_u16 v of None \<Rightarrow> Bad_Value | Some p \<Rightarrow> pubsub_args rest (a\<lparr>ea_port := p\<rparr>)))
      else Usage [''Unknown argument: '' @ x,
        ''Usage: cargo run --example p2p_pubsub -- [--subscribe] [--listen-port PORT] [-c CONNECT_ADDR] [-p MSG]''])"

text \<open>The checks after the loops.\<close>

definition rpc_check :: "ex_args \<Rightarrow> ex_parse" where
  "rpc_check a =
     (if \<not> ea_role a \<and> ea_connect a = None then Usage [''Error: Must either specify --server or --connect <ADDR>''] else Parsed a)"

definition pubsub_check :: "ex_args \<Rightarrow> ex_parse" where
  "pubsub_check a =
     (if \<not> ea_role a \<and> ea_publish a = None then Usage [''Error: Must either specify --subscribe or --publish <MSG>''] else Parsed a)"

section \<open>Starting a node\<close>

text \<open>\<open>cfg\<close> is the default configuration, \<open>rand\<close> the seed of the generated key pair.\<close>

definition example_config :: "Config \<Rightarrow> u16 \<Rightarrow> Config" where
  "example_config cfg port =
     cfg\<lparr>cfg_transport := (cfg_transport cfg)\<lparr>listen_addr := SocketAddrV4 [127, 0, 0, 1] port\<rparr>\<rparr>"

definition example_build ::
  "libs \<Rightarrow> 'ep net \<Rightarrow> Config \<Rightarrow> Config \<Rightarrow> bytes \<Rightarrow> (('ts, mesh_service) OmniMesh \<times> DiscoveryCommand list) result" where
  "example_build l net dflt cfg rand =
     build (lib_ed l) rand (quic_listen (net_quinn net)) qt_local_addr (start_discovery l net)
       (builder_transport quic_new (builder_keypair (generate rand) (builder_config cfg (builder_new dflt))))"

text \<open>The banner: \<open>hint\<close> gives the lines for the node's own address, when discovery has one.\<close>

definition example_banner ::
  "libs \<Rightarrow> string \<Rightarrow> (SocketAddr \<Rightarrow> string list) \<Rightarrow> instant \<Rightarrow> SocketAddr \<Rightarrow> ('ts, mesh_service) OmniMesh \<Rightarrow> string list option" where
  "example_banner l title hint now addr n =
     (case short (lib_hex l) (om_peer_id n) of
        None \<Rightarrow> None
      | Some s \<Rightarrow>
          Some ([rule_line, title, ''  PeerID:      '' @ s, ''  Virtual IP:  '' @ show_vip (om_vip n),
                 ''  Listening:   '' @ show_socket_addr addr] @
                (case lookup now (om_peer_id n) (om_cache n) of [] \<Rightarrow> [] | a # _ \<Rightarrow> hint a) @ [rule_line @ [CHR 0x0A]]))"

text \<open>Everything up to the banner, which the three programs do alike.\<close>

definition example_start ::
  "libs \<Rightarrow> 'ep net \<Rightarrow> Config \<Rightarrow> bytes \<Rightarrow> string \<times> mesh_service \<Rightarrow> string \<Rightarrow> (ex_args \<Rightarrow> SocketAddr \<Rightarrow> string list) \<Rightarrow> ex_parse \<Rightarrow> console \<Rightarrow>
     (ex_end + (('ts, mesh_service) OmniMesh \<times> ex_args)) \<times> console" where
  "example_start l net cfg rand svc title hint parsed con =
     (case parsed of
        Usage ls \<Rightarrow> (Inl Ex_Code, eprint_lines ls con)
      | Bad_Value \<Rightarrow> (Inl Ex_Error, con)
      | Parsed a \<Rightarrow>
          (case example_build l net cfg (example_config cfg (ea_port a)) rand of
             Inl e \<Rightarrow> (Inl Ex_Error, con)
           | Inr (n, _) \<Rightarrow>
               (let n = register_service (fst svc) (snd svc) n
                in case example_banner l title (hint a) 0 (SocketAddrV4 [127, 0, 0, 1] (ea_port a)) n of
                     None \<Rightarrow> (Inl Ex_Panic, print_lines [rule_line, title] con)
                   | Some ls \<Rightarrow> (Inr (n, a), print_lines ls con))))"

definition example_stop :: "unit result \<Rightarrow> ('ts, mesh_service) OmniMesh \<Rightarrow> console \<Rightarrow> ex_end \<times> ('ts, mesh_service) OmniMesh \<times> console" where
  "example_stop transport_result n con =
     (let con = print_lines [''Shutting down mesh node...''] con
      in case sdk_shutdown transport_result n of
           (Inl _, n) \<Rightarrow> (Ex_Error, n, con)
         | (Inr _, n) \<Rightarrow> (Ex_Done, n, con))"

section \<open>Chat\<close>

definition chat_start where
  "chat_start l net cfg rand args =
     example_start l net cfg rand (''chat'', ChatSvc chat_new) ''OmniMesh P2P Chat Example Running''
       (\<lambda>_ addr. [CHR 0x0A # ''To connect another peer, run:'',
         ''  cargo run --example p2p_chat -- --connect '' @ show_socket_addr addr])
       (chat_args args no_args)"

text \<open>Dialling the peer given on the command line; a failure is reported and the program goes on.\<close>

definition chat_dial ::
  "libs \<Rightarrow> (OmniMeshError \<Rightarrow> string) \<Rightarrow> ('hs, 'ts, mesh_service) env \<Rightarrow> SocketAddr \<Rightarrow> ('ts, mesh_service) OmniMesh \<Rightarrow> console \<Rightarrow>
     ex_end option async \<times> ('ts, mesh_service) OmniMesh \<times> console" where
  "chat_dial l dbg env addr n con =
     (let con = print_lines [''Connecting to '' @ show_socket_addr addr @ ''...''] con
      in case connect_addr env addr n of
           (Blocked, n) \<Rightarrow> (Blocked, n, con)
         | (Ready Panicked, n) \<Rightarrow> (Ready (Some Ex_Panic), n, con)
         | (Ready (Returned (Inl e)), n) \<Rightarrow> (Ready None, n, eprint_lines [ballot_x @ '' Failed to connect: '' @ dbg e] con)
         | (Ready (Returned (Inr remote_id)), n) \<Rightarrow>
             (case short (lib_hex l) remote_id of
                None \<Rightarrow> (Ready (Some Ex_Panic), n, con)
              | Some s \<Rightarrow> (Ready None, n, print_lines [check_mark @ '' Connected successfully to peer: '' @ s] con)))"

text \<open>
  The loop over the lines of input; it ends at the end of the input, on a line that is not UTF-8 and on
  \<^verbatim>\<open>exit\<close>. \<open>Blocked\<close>: a session's channel is full, and the program waits.
\<close>

definition trimmed :: "bytes \<Rightarrow> bytes option" where
  "trimmed line = map_option (\<lambda>gs. concat (trim_chars gs)) (utf8_chars line)"

fun chat_loop ::
  "(OmniMeshError \<Rightarrow> string) \<Rightarrow> ('hs, 'ts, mesh_service) env \<Rightarrow> bytes list \<Rightarrow> ('ts, mesh_service) OmniMesh \<Rightarrow> console \<Rightarrow>
     unit async \<times> ('ts, mesh_service) OmniMesh \<times> console" where
  "chat_loop dbg env [] n con = (Ready (), n, con)"
| "chat_loop dbg env (line # lines) n con =
     (case trimmed line of
        None \<Rightarrow> (Ready (), n, con)
      | Some t \<Rightarrow>
          if t = ascii ''exit'' then (Ready (), n, con)
          else if t = [] then chat_loop dbg env lines n (print ''> '' con)
          else (case broadcast_to_peers env ''chat'' (format_message enc_chat (bytes_string t)) n of
                  (Blocked, n) \<Rightarrow> (Blocked, n, con)
                | (Ready (Inl e), n) \<Rightarrow> chat_loop dbg env lines n (print ''> '' (eprint_lines [''Failed to send: '' @ dbg e] con))
                | (Ready (Inr _), n) \<Rightarrow> chat_loop dbg env lines n (print ''> '' con)))"

text \<open>The task that prints what arrives: a message and a new prompt.\<close>

fun chat_printer :: "libs \<Rightarrow> chat_recv list \<Rightarrow> console \<Rightarrow> console" where
  "chat_printer l [] con = con"
| "chat_printer l (Chat_Ok m # rest) con =
     (case short (lib_hex l) (fst m) of
        None \<Rightarrow> con
      | Some s \<Rightarrow> chat_printer l rest (print ''> '' (print_lines [CHR 0x0A # ''['' @ s @ ''] Chat: '' @ snd m] con)))"
| "chat_printer l (_ # rest) con = con"

text \<open>The program: the node, the peer to dial, the input, and the end.\<close>

definition chat_main ::
  "libs \<Rightarrow> (OmniMeshError \<Rightarrow> string) \<Rightarrow> 'ep net \<Rightarrow> Config \<Rightarrow> bytes \<Rightarrow> ('hs, 'ts, mesh_service) env \<Rightarrow> unit result \<Rightarrow>
     string list \<Rightarrow> bytes list \<Rightarrow> console \<Rightarrow> ex_end async \<times> console" where
  "chat_main l dbg net cfg rand env transport_result args lines con =
     (case chat_start l net cfg rand args con of
        (Inl e, con) \<Rightarrow> (Ready e, con)
      | (Inr (n, a), con) \<Rightarrow>
          (case (case ea_connect a of Some addr \<Rightarrow> chat_dial l dbg env addr n con | None \<Rightarrow> (Ready None, n, con)) of
             (Blocked, n, con) \<Rightarrow> (Blocked, con)
           | (Ready (Some e), n, con) \<Rightarrow> (Ready e, con)
           | (Ready None, n, con) \<Rightarrow>
               (let con = print ''> '' (print_lines
                      [''Type messages and press Enter to send (type '' @ [CHR 0x27] @ ''exit'' @ [CHR 0x27] @ '' to quit):'' @ [CHR 0x0A]] con)
                in case chat_loop dbg env lines n con of
                     (Blocked, n, con) \<Rightarrow> (Blocked, con)
                   | (Ready _, n, con) \<Rightarrow>
                       (case example_stop transport_result n con of (e, n, con) \<Rightarrow> (Ready e, con)))))"

section \<open>Remote calls\<close>

text \<open>The handler, with the line it prints.\<close>

definition string_reverse_handler :: "PeerId \<Rightarrow> string \<Rightarrow> bytes \<Rightarrow> bytes result \<times> string list" where
  "string_reverse_handler from meth request =
     (if meth = ''reverse'' then
        (let input = (case utf8_chars request of Some gs \<Rightarrow> gs | None \<Rightarrow> []); reversed = concat (rev input)
         in (Inr reversed,
             [''RPC Handler: reversed '' @ [CHR 0x27] @ bytes_string (concat input) @ [CHR 0x27] @ '' to '' @
              [CHR 0x27] @ bytes_string reversed @ [CHR 0x27]]))
      else (Inr (ascii ''Unknown method''), []))"

definition reverse_handler :: rpc_handler where
  "reverse_handler from meth request = fst (string_reverse_handler from meth request)"

definition rpc_start where
  "rpc_start l net cfg rand args =
     example_start l net cfg rand (''rpc'', RpcSvc reverse_handler rpc_new) ''OmniMesh P2P RPC Example Running''
       (\<lambda>a addr. if ea_role a
          then [CHR 0x0A # ''Server is running. Connect a client using:'',
                ''  cargo run --example p2p_rpc -- --connect '' @ show_socket_addr addr]
          else [])
       (case rpc_args args no_args of Parsed a \<Rightarrow> rpc_check a | p \<Rightarrow> p)"

definition rpc_payload :: bytes where
  "rpc_payload = ascii ''Hello from OmniMesh Client!''"

text \<open>What the client does with the result of its call.\<close>

definition rpc_report :: "(OmniMeshError \<Rightarrow> string) \<Rightarrow> bytes result \<Rightarrow> console \<Rightarrow> ex_end option \<times> console" where
  "rpc_report dbg r con =
     (case r of
        Inr bs \<Rightarrow>
          (case utf8_chars bs of
             None \<Rightarrow> (Some Ex_Error, con)
           | Some _ \<Rightarrow> (None, print_lines [check_mark @ '' RPC Response Received: '' @ [CHR 0x27] @ bytes_string bs @ [CHR 0x27]] con))
      | Inl e \<Rightarrow> (None, eprint_lines [ballot_x @ '' RPC Call Failed: '' @ dbg e] con))"

text \<open>
  The client up to the wait for the answer: it connects, and sends its request through the registered
  service. The number of the pending call is returned.
\<close>

definition rpc_client ::
  "libs \<Rightarrow> (OmniMeshError \<Rightarrow> string) \<Rightarrow> ('hs, 'ts, mesh_service) env \<Rightarrow> SocketAddr \<Rightarrow> ('ts, mesh_service) OmniMesh \<Rightarrow> console \<Rightarrow>
     (ex_end option + u64) async \<times> ('ts, mesh_service) OmniMesh \<times> console" where
  "rpc_client l dbg env addr n con =
     (let con = print_lines [''Connecting to RPC Server at '' @ show_socket_addr addr @ ''...''] con
      in case connect_addr env addr n of
           (Blocked, n) \<Rightarrow> (Blocked, n, con)
         | (Ready Panicked, n) \<Rightarrow> (Ready (Inl (Some Ex_Panic)), n, con)
         | (Ready (Returned (Inl e)), n) \<Rightarrow> (Ready (Inl (Some Ex_Error)), n, con)
         | (Ready (Returned (Inr remote_id)), n) \<Rightarrow>
             (case short (lib_hex l) remote_id of
                None \<Rightarrow> (Ready (Inl (Some Ex_Panic)), n, con)
              | Some s \<Rightarrow>
                  (let con = print_lines [check_mark @ '' Connected successfully to peer: '' @ s,
                         ''Sending RPC Request: '' @ [CHR 0x27] @ ''Hello from OmniMesh Client!'' @ [CHR 0x27]] con
                   in case map_of (om_services n) ''rpc'' of
                        Some (RpcSvc h svc) \<Rightarrow>
                          (case create_request enc_rpc ''reverse'' rpc_payload svc of
                             ((i, bs), svc) \<Rightarrow>
                               (case send_to_peer env 0 remote_id ''rpc'' bs
                                   (n\<lparr>om_services := AList.update ''rpc'' (RpcSvc h svc) (om_services n)\<rparr>) of
                                  (Blocked, n) \<Rightarrow> (Blocked, n, con)
                                | (Ready Panicked, n) \<Rightarrow> (Ready (Inl (Some Ex_Panic)), n, con)
                                | (Ready (Returned (Inl e)), n) \<Rightarrow>
                                    (Ready (Inl None), n, eprint_lines [ballot_x @ '' RPC Call Failed: '' @ dbg e] con)
                                | (Ready (Returned (Inr _)), n) \<Rightarrow> (Ready (Inr i), n, con)))
                      | _ \<Rightarrow> (Ready (Inl None), n, con))))"

text \<open>The server waits for the interrupt; \<open>ctrl_c\<close> is what the wait for it returns.\<close>

definition rpc_serve ::
  "string + unit \<Rightarrow> unit result \<Rightarrow> ('ts, mesh_service) OmniMesh \<Rightarrow> console \<Rightarrow> ex_end \<times> ('ts, mesh_service) OmniMesh \<times> console" where
  "rpc_serve ctrl_c transport_result n con =
     (let con = print_lines [''Server running. Press Ctrl+C to stop.''] con
      in case ctrl_c of
           Inl _ \<Rightarrow> (Ex_Error, n, con)
         | Inr _ \<Rightarrow> example_stop transport_result n con)"

section \<open>Publish and subscribe\<close>

definition pubsub_start where
  "pubsub_start l net cfg rand args =
     example_start l net cfg rand (''pubsub'', PubSubSvc pubsub_new) ''OmniMesh P2P PubSub Example Running''
       (\<lambda>a addr. if ea_role a
          then [CHR 0x0A # ''Subscriber is active on topic '' @ [CHR 0x27] @ ''news'' @ [CHR 0x27] @ ''. Run a publisher using:'',
                ''  cargo run --example p2p_pubsub -- --connect '' @ show_socket_addr addr @ '' --publish '' @ [CHR 0x22] @ ''Hello PubSub'' @ [CHR 0x22]]
          else [])
       (case pubsub_args args no_args of Parsed a \<Rightarrow> pubsub_check a | p \<Rightarrow> p)"

text \<open>The subscriber subscribes through the registered service; the number is that of its queue.\<close>

definition news_subscribe :: "('ts, mesh_service) OmniMesh \<Rightarrow> console \<Rightarrow> nat option \<times> ('ts, mesh_service) OmniMesh \<times> console" where
  "news_subscribe n con =
     (case map_of (om_services n) ''pubsub'' of
        Some (PubSubSvc svc) \<Rightarrow>
          (case subscribe ''news'' svc of
             (q, svc) \<Rightarrow>
               (Some q, n\<lparr>om_services := AList.update ''pubsub'' (PubSubSvc svc) (om_services n)\<rparr>,
                print_lines [check_mark @ '' Subscribed to topic '' @ [CHR 0x27] @ ''news'' @ [CHR 0x27] @
                  ''. Waiting for publications... Press Ctrl+C to stop.''] con))
      | _ \<Rightarrow> (None, n, con))"

text \<open>The subscriber's task; a payload that is not UTF-8 is skipped.\<close>

definition news_line :: "bytes \<Rightarrow> string" where
  "news_line msg = CHR 0x0A # ''[PubSub Topic: '' @ [CHR 0x27] @ ''news'' @ [CHR 0x27] @ ''] Received: '' @ [CHR 0x27] @ bytes_string msg @ [CHR 0x27]"

fun news_printer :: "bytes list \<Rightarrow> console \<Rightarrow> console" where
  "news_printer [] con = con"
| "news_printer (msg # msgs) con =
     news_printer msgs (case utf8_chars msg of Some _ \<Rightarrow> print_lines [news_line msg] con | None \<Rightarrow> con)"

definition publish_news ::
  "libs \<Rightarrow> ('hs, 'ts, mesh_service) env \<Rightarrow> SocketAddr option \<Rightarrow> string \<Rightarrow> ('ts, mesh_service) OmniMesh \<Rightarrow> console \<Rightarrow>
     ex_end option async \<times> ('ts, mesh_service) OmniMesh \<times> console" where
  "publish_news l env target msg n con =
     (case target of
        None \<Rightarrow> (Ready (Some Ex_Code), n, eprint_lines [''Error: Publisher must specify --connect <ADDR>''] con)
      | Some addr \<Rightarrow>
          (let con = print_lines [''Connecting to subscriber at '' @ show_socket_addr addr @ ''...''] con
           in case connect_addr env addr n of
                (Blocked, n) \<Rightarrow> (Blocked, n, con)
              | (Ready Panicked, n) \<Rightarrow> (Ready (Some Ex_Panic), n, con)
              | (Ready (Returned (Inl e)), n) \<Rightarrow> (Ready (Some Ex_Error), n, con)
              | (Ready (Returned (Inr remote_id)), n) \<Rightarrow>
                  (case short (lib_hex l) remote_id of
                     None \<Rightarrow> (Ready (Some Ex_Panic), n, con)
                   | Some s \<Rightarrow>
                       (let con = print_lines [check_mark @ '' Connected successfully to peer: '' @ s,
                              ''Publishing '' @ [CHR 0x27] @ msg @ [CHR 0x27] @ '' to topic '' @ [CHR 0x27] @ ''news'' @ [CHR 0x27] @ ''...''] con
                        in case broadcast_to_peers env ''pubsub'' (format_publish enc_pubsub ''news'' (ascii msg)) n of
                             (Blocked, n) \<Rightarrow> (Blocked, n, con)
                           | (Ready (Inl e), n) \<Rightarrow> (Ready (Some Ex_Error), n, con)
                           | (Ready (Inr _), n) \<Rightarrow> (Ready None, n, print_lines [check_mark @ '' Publication sent successfully!''] con)))))"

section \<open>Properties\<close>

lemma console_fields [simp]:
  "con_out (print s con) = con_out con @ s" "con_err (print s con) = con_err con"
  "con_out (print_lines ls con) = con_out con @ concat (map (\<lambda>l. l @ [CHR 0x0A]) ls)"
  by (simp_all add: print_def print_lines_def)

text \<open>A node that was just built knows no address of its own, so the banner never says how to connect to it.\<close>

lemma example_hint_missing:
  assumes "example_build l net dflt cfg rand = Inr (n, cmds)"
  shows "example_banner l title hint now addr (register_service name svc n) =
    example_banner l title (\<lambda>_. []) now addr (register_service name svc n)"
  using assms
  by (auto simp: example_build_def build_def builder_defs Let_def example_banner_def register_service_def lookup_def active_def cache_new_def
      split: option.splits prod.splits sum.splits)

text \<open>Reversing a text twice gives the text.\<close>

lemma reverse_twice:
  assumes "utf8_chars bs = Some gs"
  shows "\<exists>r. reverse_handler from ''reverse'' bs = Inr r \<and> reverse_handler from ''reverse'' r = Inr bs"
proof -
  have g: "bs = concat gs" "list_all char_group gs" using utf8_sound [OF assms] by simp_all
  then have "utf8_chars (concat (rev gs)) = Some (rev gs)" by (intro utf8_concat) (simp add: list_all_iff)
  with assms g show ?thesis by (simp add: reverse_handler_def string_reverse_handler_def Let_def)
qed

lemma news_printed:
  "con_out (news_printer msgs con) = con_out con @ concat (map (\<lambda>m. news_line m @ [CHR 0x0A]) (filter (\<lambda>m. utf8_chars m \<noteq> None) msgs))"
  by (induction msgs arbitrary: con) (auto split: option.splits)

text \<open>
  A subscriber prints exactly the texts published on its topic: what the service handles after the program
  subscribed is printed when it is for the topic and is text, in the order in which it arrives.
\<close>

lemma subscriber_prints:
  assumes "map_of (om_services n) ''pubsub'' = Some (PubSubSvc pubsub_new)"
  shows "\<exists>q svc n' con'. news_subscribe n con = (Some q, n', con') \<and> map_of (om_services n') ''pubsub'' = Some (PubSubSvc svc) \<and>
    con_out (news_printer (queues (fold (pubsub_apply de) ops svc) ! q) con') =
      con_out con' @ concat (map (\<lambda>m. news_line m @ [CHR 0x0A]) (filter (\<lambda>m. utf8_chars m \<noteq> None) (topic_payloads de ''news'' ops)))"
proof -
  let ?svc = "snd (subscribe ''news'' pubsub_new)" and ?q = "fst (subscribe ''news'' pubsub_new)"
  have "listens ?q ''news'' ?svc" "queues ?svc ! ?q = []" by (simp_all add: subscribe_def pubsub_new_def listens_def Let_def)
  then have "queues (fold (pubsub_apply de) ops ?svc) ! ?q = topic_payloads de ''news'' ops"
    using run_queue [OF pubsub_wf_subscribe [OF pubsub_wf_new]] by simp
  with assms show ?thesis by (auto simp: news_subscribe_def update_conv' news_printed split: prod.splits)
qed

text \<open>The texts that the input of the chat program asks it to send.\<close>

definition chat_texts :: "bytes list \<Rightarrow> bytes list" where
  "chat_texts lines =
     filter (\<lambda>t. t \<noteq> []) (takeWhile (\<lambda>t. t \<noteq> ascii ''exit'') (map the (takeWhile (\<lambda>t. t \<noteq> None) (map trimmed lines))))"

definition say_chat :: "('hs, 'ts, mesh_service) env \<Rightarrow> bytes \<Rightarrow> ('ts, mesh_service) OmniMesh \<Rightarrow> ('ts, mesh_service) OmniMesh" where
  "say_chat env t n = snd (broadcast_to_peers env ''chat'' (format_message enc_chat (bytes_string t)) n)"

lemma broadcast_ready:
  assumes "distinct (map snd (om_sessions n))" "no_block (Suc k) (map snd (om_sessions n)) n"
  shows "fst (broadcast_to_peers env service payload n) = Ready (Inr ()) \<and>
    om_sessions (snd (broadcast_to_peers env service payload n)) = om_sessions n \<and>
    no_block k (map snd (om_sessions n)) (snd (broadcast_to_peers env service payload n))"
  using send_all_ready [OF assms, of env 2 "c_service (sdk_codecs env) \<lparr>service_id = service, sp_payload = payload\<rparr>"]
  by (auto simp: broadcast_to_peers_def split: prod.splits)

lemma chat_loop_sends:
  assumes "distinct (map snd (om_sessions n))" "no_block (length (chat_texts lines)) (map snd (om_sessions n)) n"
  shows "\<exists>con'. chat_loop dbg env lines n con = (Ready (), fold (say_chat env) (chat_texts lines) n, con')"
  using assms
proof (induction lines arbitrary: n con)
  case (Cons line lines)
  show ?case
  proof (cases "trimmed line")
    case (Some t)
    show ?thesis
    proof (cases "t = ascii ''exit'' \<or> t = []")
      case False
      with Some have c: "chat_texts (line # lines) = t # chat_texts lines" by (simp add: chat_texts_def)
      have b: "fst (broadcast_to_peers env ''chat'' (format_message enc_chat (bytes_string t)) n) = Ready (Inr ())"
        "om_sessions (say_chat env t n) = om_sessions n" "no_block (length (chat_texts lines)) (map snd (om_sessions n)) (say_chat env t n)"
        using broadcast_ready [of n "length (chat_texts lines)" env "''chat''" "format_message enc_chat (bytes_string t)"] Cons.prems c
        by (simp_all add: say_chat_def)
      then have "broadcast_to_peers env ''chat'' (format_message enc_chat (bytes_string t)) n = (Ready (Inr ()), say_chat env t n)"
        by (simp add: say_chat_def prod_eq_iff)
      with Cons.IH [of "say_chat env t n" "print ''> '' con"] b Cons.prems(1) Some False c show ?thesis by simp
    qed (use Some Cons in \<open>auto simp: chat_texts_def ascii_def\<close>)
  qed (simp add: chat_texts_def)
qed (simp add: chat_texts_def)

text \<open>With nobody connected the chat program takes any input and ends normally when the transport closes.\<close>

lemma start_sessions: "example_start l net cfg rand svc title hint parsed con = (Inr (n, a), con') \<Longrightarrow> om_sessions n = []"
  by (auto simp: example_start_def example_build_def build_def builder_defs register_service_def Let_def
      split: ex_parse.splits sum.splits option.splits prod.splits)

lemma say_nobody: "om_sessions n = [] \<Longrightarrow> om_sessions (fold (say_chat env) ts n) = []"
  by (induction ts arbitrary: n) (simp_all add: say_chat_def broadcast_to_peers_def)

lemma chat_alone:
  fixes n :: "('ts, mesh_service) OmniMesh" and env :: "('hs, 'ts, mesh_service) env"
  assumes "chat_start l net cfg rand args con = (Inr (n, a), con1)" "ea_connect a = None"
  shows "fst (chat_main l dbg net cfg rand env (Inr ()) args lines con) = Ready Ex_Done"
proof -
  have n: "om_sessions n = []" using assms(1) unfolding chat_start_def by (rule start_sessions)
  have "\<exists>con'. chat_loop dbg env lines n con2 = (Ready (), fold (say_chat env) (chat_texts lines) n, con')" for con2
    using n by (intro chat_loop_sends) (simp_all add: no_block_def)
  then obtain f where "chat_loop dbg env lines n con2 = (Ready (), fold (say_chat env) (chat_texts lines) n, f con2)" for con2 by metis
  with assms show ?thesis
    by (simp add: chat_main_def example_stop_def sdk_shutdown_def Let_def split: prod.splits sum.splits if_splits)
qed

text \<open>
  C31. The chat program sends what is typed: every line before the first \<^verbatim>\<open>exit\<close>, the first line that is not
  text or the end of the input is broadcast without the white space around it, unless nothing is left of it, in
  the order typed and nothing else, as long as the sessions' channels have room.
\<close>

theorem chat_sends_typed:
  assumes "distinct (map snd (om_sessions n))" "no_block (length (chat_texts lines)) (map snd (om_sessions n)) n"
  shows "\<exists>con'. chat_loop dbg env lines n con = (Ready (), fold (say_chat env) (chat_texts lines) n, con')"
  by (rule chat_loop_sends [OF assms])

theorem chat_sends_typed_witness:
  "\<exists>con'. chat_loop (\<lambda>_. []) sample_env [ascii '' hi '', ascii ''   '', ascii ''exit'', ascii ''no''] sample_a \<lparr>con_out = [], con_err = []\<rparr> =
     (Ready (), say_chat sample_env (ascii ''hi'') sample_a, con')"
proof -
  let ?lines = "[ascii '' hi '', ascii ''   '', ascii ''exit'', ascii ''no'']"
  have a: "list_all (\<lambda>b. b \<le> 0x7F) (ascii '' hi '')" "list_all (\<lambda>b. b \<le> 0x7F) (ascii ''   '')" "list_all (\<lambda>b. b \<le> 0x7F) (ascii ''exit'')"
    "list_all (\<lambda>b. b \<le> 0x7F) (ascii ''no'')"
    by (simp_all add: ascii_def)
  have t: "chat_texts ?lines = [ascii ''hi'']"
    by (simp add: chat_texts_def trimmed_def utf8_ascii [OF a(1)] utf8_ascii [OF a(2)] utf8_ascii [OF a(3)] utf8_ascii [OF a(4)])
      (simp add: ascii_def trim_chars_def white_space_def)
  from chat_sends_typed [of sample_a ?lines] sample_room(2) [of 1] t show ?thesis by simp
qed



end
