(* ===== verification/Sdk_Life.thy ===== *)
theory Sdk_Life
  imports Sdk_Laws
begin

text \<open>
  The end of a node (\<^verbatim>\<open>shutdown\<close> in \<^verbatim>\<open>crates/omnimesh-sdk/src/lib.rs\<close>). The signal goes through a broadcast
  channel, which reaches the receivers that exist when it is sent: the sessions of that moment end, a session
  that is installed later does not hear of it.
\<close>

section \<open>What the operations keep\<close>

text \<open>Until the signal is sent every session has subscribed to it, and the signal is sent when the node stops running.\<close>

definition listening :: "('ts, 'svc) OmniMesh \<Rightarrow> bool" where
  "listening n \<longleftrightarrow>
     om_shutdown_sent n = (\<not> om_running n) \<and>
     (om_running n \<longrightarrow> (\<forall>i < length (om_store n). subscribed (session_at n i)))"

text \<open>A session whose loop has ended stays as it is.\<close>

definition ended :: "nat \<Rightarrow> ('ts, 'svc) OmniMesh \<Rightarrow> bool" where
  "ended i n \<longleftrightarrow> i < length (om_store n) \<and> \<not> loop_running (session_at n i)"

text \<open>A session that subscribed in time.\<close>

definition reached :: "nat \<Rightarrow> ('ts, 'svc) OmniMesh \<Rightarrow> bool" where
  "reached i n \<longleftrightarrow> i < length (om_store n) \<and> subscribed (session_at n i) \<and> om_shutdown_sent n"

lemma life_install [simp]:
  "om_running (install_session p t n) = om_running n" "om_shutdown_sent (install_session p t n) = om_shutdown_sent n"
  "length (om_store (install_session p t n)) = Suc (length (om_store n))"
  "i < length (om_store n) \<Longrightarrow> session_at (install_session p t n) i = session_at n i"
  "session_at (install_session p t n) (length (om_store n)) =
     \<lparr>s_peer = p, write_queue = [], s_transport = t, loop_running = True, conn_out = [], subscribed = (\<not> om_shutdown_sent n)\<rparr>"
  by (simp_all add: install_session_def session_at_def nth_append)

lemma life_map [simp]:
  "om_running (map_session j f n) = om_running n" "om_shutdown_sent (map_session j f n) = om_shutdown_sent n"
  "length (om_store (map_session j f n)) = length (om_store n)"
  "i < length (om_store n) \<Longrightarrow> session_at (map_session j f n) i = (if i = j then f (session_at n i) else session_at n i)"
  by (auto simp: map_session_def session_at_def)

lemma life_fields [simp]:
  "session_at (n\<lparr>om_cache := c\<rparr>) i = session_at n i"
  "session_at (n\<lparr>om_running := x, om_shutdown_sent := y, om_sessions := z\<rparr>) i = session_at n i"
  by (simp_all add: session_at_def)

interpretation hears: node_property env listening for env
  by unfold_locales (auto simp: listening_def less_Suc_eq)

interpretation over: node_property env "ended i" for env i
  by unfold_locales (auto simp: ended_def)

interpretation told: node_property env "reached i" for env i
  by unfold_locales (auto simp: reached_def)

section \<open>Properties\<close>

lemma signal_ends: "reached i n \<Longrightarrow> ended i (session_step env put now Shutdown_Signal i n)"
  by (auto simp: reached_def ended_def session_step_def stop_session_def)

lemma signalled_ends:
  "reached i n \<Longrightarrow> Session_Turn i put now Shutdown_Signal \<in> set es \<Longrightarrow> ended i (fold (node_step env) es n)"
proof (induction es arbitrary: n)
  case (Cons e es)
  show ?case
  proof (cases "e = Session_Turn i put now Shutdown_Signal")
    case True
    with over.run_keeps [OF signal_ends [OF Cons.prems(1)]] show ?thesis by simp
  next
    case False
    with Cons.prems told.step_keeps [OF Cons.prems(1)] show ?thesis by (auto intro: Cons.IH)
  qed
qed simp

lemma listening_build: "build ed rand listen local_addr discovery_new b = Inr (n, cmds) \<Longrightarrow> listening n"
  by (auto simp: build_def listening_def Let_def split: option.splits sum.splits prod.splits)

text \<open>
  C29. Shutting down ends the sessions: whatever a node has done since it was built, a session that exists
  when \<^verbatim>\<open>shutdown\<close> is called has ended once its loop has taken the signal, and never runs again, whatever
  happens before and after that turn; the table of sessions is empty after the call, and a second call does nothing.
\<close>

theorem shutdown_ends_sessions:
  assumes "build ed rand listen local_addr discovery_new b = Inr (n0, cmds)"
    and "n = fold (node_step env) es n0" "om_running n" "i < length (om_store n)"
    and "sdk_shutdown result n = (r, n')" "Session_Turn i put now Shutdown_Signal \<in> set later"
  shows "r = result \<and> om_sessions n' = [] \<and> sdk_shutdown result' n' = (Inr (), n') \<and>
    \<not> loop_running (session_at (fold (node_step env) later n') i)"
proof -
  have "listening n" unfolding assms(2) by (rule hears.run_keeps [OF listening_build [OF assms(1)]])
  with assms(3-5) have "reached i n'" by (auto simp: listening_def reached_def sdk_shutdown_def)
  with signalled_ends [OF this assms(6)] assms(3,5) show ?thesis by (auto simp: sdk_shutdown_def ended_def)
qed

lemma sample_built:
  "\<exists>n. build (sdk_ed sample_env) (replicate 32 7) (\<lambda>t _. (Inr (), t)) (\<lambda>_. None) (\<lambda>_ _ _. Inr ())
      ((builder_new sample_config)\<lparr>b_transport := Some ()\<rparr>) = Inr (n :: (transport_state, mesh_service) OmniMesh, []) \<and>
    om_keypair n = from_seed (as_bytes node_a) \<and> om_peer_id n = node_a \<and> om_running n \<and> om_store n = []"
  by (simp add: build_def builder_new_def Let_def generate_def from_seed_def node_a_def sample_env_def keypair_to_peer_id_def
      public_key_to_peer_id_def public_key_def from_bytes_def)

theorem shutdown_ends_sessions_witness:
  "\<exists>m n n'. om_running n \<and> length (om_store n) = 1 \<and> loop_running (session_at n 0) \<and> sdk_shutdown (Inr ()) n = (Inr (), n') \<and>
    \<not> loop_running (session_at (fold (node_step (sample_env\<lparr>sdk_dial := dial_two m\<rparr>))
       [Probe 0, Session_Turn 0 (\<lambda>_. Inr ()) 0 Shutdown_Signal, Probe 0] n') 0)"
proof -
  from sample_built obtain n0 :: "(transport_state, mesh_service) OmniMesh" where
    b: "build (sdk_ed sample_env) (replicate 32 7) (\<lambda>t _. (Inr (), t)) (\<lambda>_. None) (\<lambda>_ _ _. Inr ())
      ((builder_new sample_config)\<lparr>b_transport := Some ()\<rparr>) = Inr (n0, [])"
      "om_keypair n0 = from_seed (as_bytes node_a)" "om_peer_id n0 = node_a" "om_running n0" "om_store n0 = []" by blast
  from sample_answer b(2,3) obtain m t where
    m: "connect_addr (sample_env\<lparr>sdk_dial := dial_two m\<rparr>) addr_two n0 = (Ready (Returned (Inr node_b)), install_session node_b t n0)" by blast
  let ?env = "sample_env\<lparr>sdk_dial := dial_two m\<rparr>" and ?n = "install_session node_b t n0"
  have n: "?n = fold (node_step ?env) [Connect_Addr addr_two] n0" using m by simp
  have s: "sdk_shutdown (Inr ()) ?n = (Inr (), snd (sdk_shutdown (Inr ()) ?n))" using b(4) by (simp add: sdk_shutdown_def)
  have r: "om_running ?n" "length (om_store ?n) = 1" "loop_running (session_at ?n 0)" using b(4,5) by (simp_all, simp add: install_session_def session_at_def)
  have "\<not> loop_running (session_at (fold (node_step ?env) [Probe 0, Session_Turn 0 (\<lambda>_. Inr ()) 0 Shutdown_Signal, Probe 0]
      (snd (sdk_shutdown (Inr ()) ?n))) 0)"
    using shutdown_ends_sessions [OF b(1) n r(1) _ s, of 0 "\<lambda>_. Inr ()" 0
        "[Probe 0, Session_Turn 0 (\<lambda>_. Inr ()) 0 Shutdown_Signal, Probe 0]"] r(2) by (simp del: fold.simps)
  with r s show ?thesis by blast
qed

text \<open>The events by which a node is asked to stop.\<close>

fun stop_event :: "'svc node_event \<Rightarrow> bool" where
  "stop_event (Shut_Down r) = True"
| "stop_event (Session_Turn i put now Shutdown_Signal) = True"
| "stop_event _ = False"

definition survives :: "PeerId \<Rightarrow> nat \<Rightarrow> ('ts, 'svc) OmniMesh \<Rightarrow> bool" where
  "survives who i n \<longleftrightarrow> \<not> om_running n \<and> i < length (om_store n) \<and> loop_running (session_at n i) \<and> \<not> subscribed (session_at n i) \<and>
     map_of (om_sessions n) who = Some i"

lemma survives_stop: "survives who i n \<Longrightarrow> subscribed (session_at n j) \<Longrightarrow> survives who i (stop_session j n)"
  by (cases "i = j") (auto simp: survives_def stop_session_def)

lemma survives_step: "stop_event e \<Longrightarrow> survives who i n \<Longrightarrow> survives who i (node_step env e n)"
  by (cases e rule: stop_event.cases) (auto simp: session_step_def survives_stop, auto simp: survives_def sdk_shutdown_def)

lemma survives_run: "list_all stop_event es \<Longrightarrow> survives who i n \<Longrightarrow> survives who i (fold (node_step env) es n)"
  by (induction es arbitrary: n) (simp_all add: survives_step)

lemma survives_install: "om_shutdown_sent n \<Longrightarrow> \<not> om_running n \<Longrightarrow> survives who (length (om_store n)) (install_session who t n)"
  by (simp add: survives_def) (simp add: install_session_def)

text \<open>
  C39. A node can be revived by accident: a connection that is made after \<^verbatim>\<open>shutdown\<close> gets a session whose loop
  runs, and neither the signal nor any further call of \<^verbatim>\<open>shutdown\<close> ends it or takes it out of the table.
\<close>

theorem late_session_survives:
  assumes "om_running n" "sdk_shutdown (Inr ()) n = (Inr (), n1)" "connect_addr env addr n1 = (Ready (Returned (Inr who)), n2)"
    and "list_all stop_event es"
  shows "\<exists>i. map_of (om_sessions (fold (node_step env) es n2)) who = Some i \<and> loop_running (session_at (fold (node_step env) es n2) i)"
proof -
  from connect_addr_ok [OF assms(3)] obtain t where n2: "n2 = install_session who t n1" by blast
  have "om_shutdown_sent n1" "\<not> om_running n1" using assms(1,2) by (auto simp: sdk_shutdown_def)
  with survives_run [OF assms(4) survives_install [of n1 who t]] n2 show ?thesis by (auto simp: survives_def)
qed

theorem late_session_survives_witness:
  "\<exists>m n2. connect_addr (sample_env\<lparr>sdk_dial := dial_two m\<rparr>) addr_two (snd (sdk_shutdown (Inr ()) (sample_node node_a))) =
      (Ready (Returned (Inr node_b)), n2) \<and>
    (\<exists>i. map_of (om_sessions (fold (node_step (sample_env\<lparr>sdk_dial := dial_two m\<rparr>)) [Session_Turn 0 (\<lambda>_. Inr ()) 0 Shutdown_Signal, Shut_Down (Inr ())] n2)) node_b = Some i)"
proof -
  let ?n1 = "snd (sdk_shutdown (Inr ()) (sample_node node_a))"
  have n: "om_running (sample_node node_a)" "sdk_shutdown (Inr ()) (sample_node node_a) = (Inr (), ?n1)"
    "om_keypair ?n1 = from_seed (as_bytes node_a)" "om_peer_id ?n1 = node_a"
    by (simp_all add: sample_node_def sdk_shutdown_def)
  with sample_answer obtain m t where
    m: "connect_addr (sample_env\<lparr>sdk_dial := dial_two m\<rparr>) addr_two ?n1 = (Ready (Returned (Inr node_b)), install_session node_b t ?n1)" by blast
  from late_session_survives [OF n(1,2) m, of "[Session_Turn 0 (\<lambda>_. Inr ()) 0 Shutdown_Signal, Shut_Down (Inr ())]"] m
  show ?thesis by (simp del: fold.simps) blast
qed

end
