(* ===== verification/Chat_Feed.thy ===== *)
theory Chat_Feed
  imports Node_Cli
begin

text \<open>
  The way of a chat message from the service to the terminal: the broadcast channel of \<^verbatim>\<open>ChatService\<close>
  (\<^verbatim>\<open>crates/omnimesh-service/src/lib.rs\<close>) and the task of \<^verbatim>\<open>cmd_run\<close> that prints what it receives. A broadcast
  channel of tokio keeps the last \<open>cap\<close> values for every receiver, at least the 100 asked for; a receiver
  that has fallen behind by more is told so and goes on with the oldest value kept.
\<close>

section \<open>The receiver\<close>

text \<open>A receiver is the number of values sent before the next one it will take.\<close>

definition chat_subscribe :: "ChatService \<Rightarrow> nat" where
  "chat_subscribe s = length (chat_delivered s)"

definition feed_recv :: "nat \<Rightarrow> ChatService \<Rightarrow> nat \<Rightarrow> chat_recv async \<times> nat" where
  "feed_recv cap s pos =
     (let new = length (chat_delivered s) - pos
      in if new = 0 then (Blocked, pos)
         else if cap < new then (Ready Chat_Lagged, length (chat_delivered s) - cap)
         else (Ready (Chat_Ok (chat_delivered s ! pos)), Suc pos))"

section \<open>The printing task\<close>

datatype printer = Printing nat | Ended

fun printer_turn :: "libs \<Rightarrow> nat \<Rightarrow> ChatService \<Rightarrow> printer \<Rightarrow> system \<Rightarrow> printer \<times> system" where
  "printer_turn l cap s (Printing pos) sys =
     (case feed_recv cap s pos of
        (Blocked, pos) \<Rightarrow> (Printing pos, sys)
      | (Ready (Chat_Ok m), pos) \<Rightarrow>
          (case print_chat l m sys of None \<Rightarrow> (Ended, sys) | Some sys \<Rightarrow> (Printing pos, sys))
      | (Ready _, pos) \<Rightarrow> (Ended, sys))"
| "printer_turn l cap s Ended sys = (Ended, sys)"

text \<open>A message reaches the service, or the task has a turn.\<close>

datatype feed_event = Said PeerId bytes | Turn

record feed =
  f_chat :: ChatService
  f_printer :: printer
  f_sys :: system

fun feed_step :: "libs \<Rightarrow> nat \<Rightarrow> feed_event \<Rightarrow> feed \<Rightarrow> feed" where
  "feed_step l cap (Said peer payload) f = f\<lparr>f_chat := snd (chat_handle_message (finish dec_chat) peer payload (f_chat f))\<rparr>"
| "feed_step l cap Turn f =
     (case printer_turn l cap (f_chat f) (f_printer f) (f_sys f) of (p, sys) \<Rightarrow> f\<lparr>f_printer := p, f_sys := sys\<rparr>)"

definition feed_start :: "ChatService \<Rightarrow> system \<Rightarrow> feed" where
  "feed_start s sys = \<lparr>f_chat = s, f_printer = Printing (chat_subscribe s), f_sys = sys\<rparr>"

section \<open>Keeping up\<close>

text \<open>The messages in a sequence of events, and whether the task ever has more than \<open>cap\<close> of them before it.\<close>

fun said :: "feed_event list \<Rightarrow> (PeerId \<times> string) list" where
  "said [] = []"
| "said (Turn # es) = said es"
| "said (Said peer payload # es) =
     (case finish dec_chat payload of Inr m \<Rightarrow> (peer, cm_text m) # said es | Inl _ \<Rightarrow> said es)"

fun keeps_up :: "nat \<Rightarrow> nat \<Rightarrow> feed_event list \<Rightarrow> bool" where
  "keeps_up cap waiting [] = True"
| "keeps_up cap waiting (Turn # es) = keeps_up cap (waiting - 1) es"
| "keeps_up cap waiting (Said peer payload # es) =
     (case finish dec_chat payload of
        Inr m \<Rightarrow> waiting < cap \<and> keeps_up cap (Suc waiting) es
      | Inl _ \<Rightarrow> keeps_up cap waiting es)"

definition chat_line :: "libs \<Rightarrow> PeerId \<times> string \<Rightarrow> string" where
  "chat_line l m = CHR 0x0A # ''['' @ the (short (lib_hex l) (fst m)) @ ''] Chat: '' @ snd m"

text \<open>The state of a feed that has kept up: what was sent and what is printed.\<close>

definition printed :: "libs \<Rightarrow> nat \<Rightarrow> string list \<Rightarrow> (PeerId \<times> string) list \<Rightarrow> nat \<Rightarrow> feed \<Rightarrow> bool" where
  "printed l start out ms waiting f \<longleftrightarrow>
     waiting \<le> length ms \<and> length (chat_delivered (f_chat f)) = start + length ms \<and> drop start (chat_delivered (f_chat f)) = ms \<and>
     f_printer f = Printing (start + (length ms - waiting)) \<and>
     sys_out (f_sys f) = out @ map (chat_line l) (take (length ms - waiting) ms)"

lemma said_append: "said (es @ fs) = said es @ said fs"
  by (induction es rule: said.induct) (auto split: sum.splits)

lemma printed_said:
  assumes "printed l start out ms waiting f"
  shows "printed l start out (ms @ said [Said peer payload]) (waiting + length (said [Said peer payload])) (feed_step l cap (Said peer payload) f)"
  using assms by (auto simp: printed_def chat_handle_message_def Suc_diff_le split: sum.splits)

lemma printed_turn:
  assumes "printed l start out ms waiting f" "waiting \<le> cap" "\<And>m. m \<in> set ms \<Longrightarrow> short (lib_hex l) (fst m) \<noteq> None"
  shows "printed l start out ms (waiting - 1) (feed_step l cap Turn f)"
proof (cases waiting)
  case 0
  with assms(1) show ?thesis by (simp add: printed_def feed_recv_def)
next
  case (Suc w)
  let ?k = "length ms - waiting"
  have "waiting \<le> length ms" using assms(1) by (simp add: printed_def)
  then have k: "?k < length ms" "length ms - w = Suc ?k" using Suc by simp_all
  have "drop start (chat_delivered (f_chat f)) = ms" "start \<le> length (chat_delivered (f_chat f))"
    using assms(1) by (simp_all add: printed_def)
  then have "chat_delivered (f_chat f) ! (start + ?k) = ms ! ?k" using nth_drop [of start "chat_delivered (f_chat f)" ?k] by simp
  moreover obtain s where "short (lib_hex l) (fst (ms ! ?k)) = Some s" using assms(3) k(1) nth_mem by blast
  ultimately show ?thesis
    using assms(1,2) Suc k
    by (simp add: printed_def feed_recv_def print_chat_def println_def chat_line_def take_Suc_conv_app_nth)
qed

lemma feed_keeps_up:
  assumes "printed l start out ms waiting f" "waiting \<le> cap" "keeps_up cap waiting es"
    and "\<And>m. m \<in> set (ms @ said es) \<Longrightarrow> short (lib_hex l) (fst m) \<noteq> None"
  shows "\<exists>w \<le> cap. printed l start out (ms @ said es) w (fold (feed_step l cap) es f)"
  using assms
proof (induction es arbitrary: ms waiting f)
  case (Cons e es)
  show ?case
  proof (cases e)
    case Turn
    with Cons.prems(4) printed_turn [OF Cons.prems(1,2)] have "printed l start out ms (waiting - 1) (feed_step l cap Turn f)" by simp
    from Cons.IH [OF this] Cons.prems Turn show ?thesis by simp
  next
    case (Said peer payload)
    note p = printed_said [OF Cons.prems(1), of peer payload cap]
    from Cons.IH [OF p] Cons.prems Said show ?thesis by (auto split: sum.splits)
  qed
qed auto

text \<open>A task that is behind ends with its next turn, whatever arrives before it; a task that has ended prints nothing.\<close>

definition behind :: "nat \<Rightarrow> feed \<Rightarrow> bool" where
  "behind cap f \<longleftrightarrow> (case f_printer f of Printing pos \<Rightarrow> pos + cap < length (chat_delivered (f_chat f)) | Ended \<Rightarrow> True)"

lemma behind_step: "behind cap f \<Longrightarrow> behind cap (feed_step l cap e f)"
  by (cases e) (auto simp: behind_def feed_recv_def chat_handle_message_def split: printer.splits sum.splits prod.splits)

lemma behind_turn: "behind cap f \<Longrightarrow> f_printer (feed_step l cap Turn f) = Ended \<and> f_sys (feed_step l cap Turn f) = f_sys f"
  by (auto simp: behind_def feed_recv_def split: printer.splits)

lemma printed_behind: "printed l start out ms waiting f \<Longrightarrow> cap < waiting \<Longrightarrow> behind cap f"
  unfolding printed_def behind_def by (elim conjE) simp

lemma behind_run: "behind cap f \<Longrightarrow> behind cap (fold (feed_step l cap) es f)"
  by (induction es arbitrary: f) (simp_all add: behind_step)

lemma ended_run: "f_printer f = Ended \<Longrightarrow> f_printer (fold (feed_step l cap) es f) = Ended \<and> f_sys (fold (feed_step l cap) es f) = f_sys f"
proof (induction es arbitrary: f)
  case (Cons e es)
  have "f_printer (feed_step l cap e f) = Ended" "f_sys (feed_step l cap e f) = f_sys f" using Cons.prems by (cases e; simp)+
  with Cons.IH [of "feed_step l cap e f"] show ?case by simp
qed simp

lemma feed_falls_behind:
  assumes "printed l start out ms waiting f" "waiting \<le> cap" "\<not> keeps_up cap waiting es"
    and "\<And>m. m \<in> set (ms @ said es) \<Longrightarrow> short (lib_hex l) (fst m) \<noteq> None"
  shows "behind cap (fold (feed_step l cap) es f)"
  using assms
proof (induction es arbitrary: ms waiting f)
  case (Cons e es)
  show ?case
  proof (cases e)
    case Turn
    with Cons.prems(4) printed_turn [OF Cons.prems(1,2)] have "printed l start out ms (waiting - 1) (feed_step l cap Turn f)" by simp
    from Cons.IH [OF this] Cons.prems Turn show ?thesis by simp
  next
    case (Said peer payload)
    note p = printed_said [OF Cons.prems(1), of peer payload cap]
    show ?thesis
    proof (cases "waiting + length (said [Said peer payload]) \<le> cap")
      case True
      from Cons.IH [OF p True] True Cons.prems Said show ?thesis by (auto split: sum.splits)
    next
      case False
      with printed_behind [OF p] have "behind cap (feed_step l cap (Said peer payload) f)" by simp
      with behind_run Said show ?thesis by simp
    qed
  qed
qed simp

lemma printed_drain:
  assumes "printed l start out ms waiting f" "waiting \<le> cap" "\<And>m. m \<in> set ms \<Longrightarrow> short (lib_hex l) (fst m) \<noteq> None"
  shows "printed l start out ms (waiting - n) (fold (feed_step l cap) (replicate n Turn) f)"
  using assms(1,2)
proof (induction n arbitrary: waiting f)
  case (Suc n)
  from Suc.IH [OF printed_turn [OF Suc.prems assms(3)]] Suc.prems(2) show ?case by simp
qed simp

lemma printed_start: "printed l (length (chat_delivered s)) (sys_out sys) [] 0 (feed_start s sys)"
  by (simp add: printed_def feed_start_def chat_subscribe_def)

section \<open>Properties\<close>

text \<open>
  C33. The running node prints every chat message, as long as the printing task keeps up: if there are never more
  than the channel's capacity of messages waiting for it, then after enough turns all messages that were
  received have been printed, in their order and nothing else. Otherwise the task has ended, and the
  node prints no chat message for the rest of its life.
\<close>

theorem chat_printed:
  assumes "\<forall>m \<in> set (said es). short (lib_hex l) (fst m) \<noteq> None"
  shows "let f = fold (feed_step l cap) (es @ replicate (Suc cap) Turn) (feed_start s sys)
    in if keeps_up cap 0 es then f_printer f \<noteq> Ended \<and> sys_out (f_sys f) = sys_out sys @ map (chat_line l) (said es)
       else f_printer f = Ended \<and> (\<forall>later. f_sys (fold (feed_step l cap) later f) = f_sys f)"
proof (cases "keeps_up cap 0 es")
  case True
  obtain w where "w \<le> cap" "printed l (length (chat_delivered s)) (sys_out sys) (said es) w (fold (feed_step l cap) es (feed_start s sys))"
    using feed_keeps_up [OF printed_start _ True, of l s sys] assms by auto
  from printed_drain [OF this(2,1), of "Suc cap"] this(1) assms True show ?thesis by (auto simp: printed_def Let_def simp del: replicate.simps)
next
  case False
  let ?f = "fold (feed_step l cap) es (feed_start s sys)"
  have "behind cap ?f" using feed_falls_behind [OF printed_start _ False, of l s sys] assms by auto
  with behind_turn [of cap ?f l] have "f_printer (feed_step l cap Turn ?f) = Ended" by blast
  then have "f_printer (fold (feed_step l cap) (es @ replicate (Suc cap) Turn) (feed_start s sys)) = Ended"
    using ended_run [of "feed_step l cap Turn ?f" l cap "replicate cap Turn"] by (simp only: fold_append comp_def replicate_Suc fold.simps)
  with ended_run [OF this] False show ?thesis by (simp only: Let_def if_False) simp
qed

theorem chat_printed_witness:
  "sys_out (f_sys (fold (feed_step cli_libs 100) ([Said node_b (enc_chat \<lparr>cm_text = ''hi''\<rparr>), Turn] @ replicate (Suc 100) Turn)
     (feed_start chat_new empty_system))) = [chat_line cli_libs (node_b, ''hi'')]"
proof -
  let ?es = "[Said node_b (enc_chat \<lparr>cm_text = ''hi''\<rparr>), Turn]"
  have d: "finish dec_chat (enc_chat \<lparr>cm_text = ''hi''\<rparr>) = Inr \<lparr>cm_text = ''hi''\<rparr>" by (rule chat_codec.dec_enc) (simp add: fits_def)
  obtain h where "short (lib_hex cli_libs) node_b = Some h"
    using lower.short_total [of node_b] by (auto simp: cli_libs_def peer_wf_def node_b_def)
  then have "\<forall>m \<in> set (said ?es). short (lib_hex cli_libs) (fst m) \<noteq> None" by (simp add: d)
  from chat_printed [OF this, of 100 chat_new empty_system] show ?thesis by (simp only: Let_def) (simp add: d empty_system_def del: replicate.simps)
qed

end
