(* ===== verification/Test_Kit.thy ===== *)
theory Test_Kit
  imports Core_Types "HOL-Library.Sublist"
begin

text \<open>
  What the unit tests of the crates are made of. A test is a boolean: the conjunction of its assertions, with
  \<^verbatim>\<open>unwrap\<close> and \<^verbatim>\<open>expect\<close> on a result written as \<open>ok_then\<close>, on an option as \<open>some_then\<close> and on a call that may
  panic as \<open>returns_then\<close>; a panic fails it. Random draws are arguments. That a test passes is a lemma, for all
  draws, under what the third-party code is relied on to do.
\<close>

definition ok_then :: "'e + 'a \<Rightarrow> ('a \<Rightarrow> bool) \<Rightarrow> bool" where
  "ok_then r f = (case r of Inr v \<Rightarrow> f v | Inl _ \<Rightarrow> False)"

definition some_then :: "'a option \<Rightarrow> ('a \<Rightarrow> bool) \<Rightarrow> bool" where
  "some_then r f = (case r of Some v \<Rightarrow> f v | None \<Rightarrow> False)"

fun returns_then :: "'a outcome \<Rightarrow> ('a result \<Rightarrow> bool) \<Rightarrow> bool" where
  "returns_then (Returned r) f = f r"
| "returns_then Panicked f = False"

definition is_ok :: "'e + 'a \<Rightarrow> bool" where
  "is_ok r \<longleftrightarrow> ok_then r (\<lambda>_. True)"

definition is_err :: "'e + 'a \<Rightarrow> bool" where
  "is_err r \<longleftrightarrow> \<not> is_ok r"

definition contains :: "string \<Rightarrow> string \<Rightarrow> bool" where
  "contains s p \<longleftrightarrow> sublist p s"

lemma kit_simps [simp]:
  "ok_then (Inr v) f = f v" "ok_then (Inl e) f = False" "some_then (Some x) g = g x" "some_then None g = False"
  "is_ok (Inr v)" "\<not> is_ok (Inl e)" "is_err (Inl e)" "\<not> is_err (Inr v)"
  by (simp_all add: ok_then_def some_then_def is_ok_def is_err_def)

lemma is_err_iff: "is_err r \<longleftrightarrow> (\<exists>e. r = Inl e)"
  by (cases r) simp_all

lemma is_ok_iff: "is_ok r \<longleftrightarrow> (\<exists>v. r = Inr v)"
  by (cases r) simp_all

lemma contains_here: "contains (p @ b) p"
  by (auto simp: contains_def sublist_def)

lemma contains_later: "contains s p \<Longrightarrow> contains (a @ s) p"
  unfolding contains_def sublist_def by (metis append_assoc)

lemmas digits_shown = show_nat.simps char_of_def bit_0

lemma show_nat_small: "length (show_nat n) \<le> Suc n"
proof (induction n rule: show_nat.induct)
  case (1 n)
  then show ?case by (subst show_nat.simps) auto
qed

end
