(* ===== verification/Core_Tests.thy ===== *)
theory Core_Tests
  imports Test_Kit Retry Config_Model
begin

text \<open>The unit tests of \<^verbatim>\<open>omnimesh-core\<close>: \<^verbatim>\<open>error.rs\<close>, \<^verbatim>\<open>types.rs\<close>, \<^verbatim>\<open>retry.rs\<close> and \<^verbatim>\<open>config.rs\<close>.\<close>

section \<open>Errors\<close>

definition test_retryable_errors :: bool where
  "test_retryable_errors \<longleftrightarrow>
     is_retryable (Connection ''refused'') \<and> is_retryable (Timeout 5000) \<and>
     \<not> is_retryable (Crypto ''bad key'') \<and> \<not> is_retryable (Config ''missing'')"

definition test_security_errors :: bool where
  "test_security_errors \<longleftrightarrow>
     is_security_error (Crypto ''invalid'') \<and> is_security_error (Handshake ''failed'') \<and>
     \<not> is_security_error (Connection ''reset'')"

definition test_error_display :: bool where
  "test_error_display \<longleftrightarrow>
     display_error (Timeout 3000) = ''timeout after 3000ms'' \<and>
     display_error (ProtocolMismatch ''1.0'' ''2.0'') = ''protocol version mismatch: local=1.0, remote=2.0''"

lemma error_tests_pass: "test_retryable_errors" "test_security_errors" "test_error_display"
  by (simp_all add: test_retryable_errors_def test_security_errors_def test_error_display_def digits_shown)

section \<open>Types\<close>

definition test_protocol_version_compatibility :: bool where
  "test_protocol_version_compatibility \<longleftrightarrow>
     (let v1 = \<lparr>major = 1, minor = 0, patch = 0\<rparr>; v1_1 = \<lparr>major = 1, minor = 1, patch = 0\<rparr>; v2 = \<lparr>major = 2, minor = 0, patch = 0\<rparr>
      in is_compatible_with v1 v1_1 \<and> \<not> is_compatible_with v1 v2)"

definition test_protocol_version_display :: bool where
  "test_protocol_version_display \<longleftrightarrow> display_version CURRENT = ''0.1.0''"

definition test_peer_id_hex_roundtrip :: "(bytes \<Rightarrow> string) \<Rightarrow> (string \<Rightarrow> string + bytes) \<Rightarrow> bool" where
  "test_peer_id_hex_roundtrip hex_encode hex_decode \<longleftrightarrow>
     (let peer_id = from_bytes (replicate 32 42); hex = to_hex hex_encode peer_id
      in ok_then (from_hex hex_decode hex) (\<lambda>recovered. peer_id = recovered))"

definition test_peer_id_short :: "(bytes \<Rightarrow> string) \<Rightarrow> bool" where
  "test_peer_id_short hex_encode \<longleftrightarrow>
     some_then (short hex_encode (from_bytes (replicate 32 0xAB))) (\<lambda>s. length s = 8)"

definition starts_with :: "string \<Rightarrow> string \<Rightarrow> bool" where
  "starts_with s p \<longleftrightarrow> take (length p) s = p"

definition test_peer_id_debug :: "(bytes \<Rightarrow> string) \<Rightarrow> bool" where
  "test_peer_id_debug hex_encode \<longleftrightarrow>
     some_then (debug_peer_id hex_encode (from_bytes (replicate 32 0xFF))) (\<lambda>debug. starts_with debug ''PeerId(ffffffff'')"

definition test_connection_state_display :: bool where
  "test_connection_state_display \<longleftrightarrow> display_state Connected = ''connected'' \<and> display_state Disconnected = ''disconnected''"

lemma types_tests_pass:
  "test_protocol_version_compatibility" "test_protocol_version_display" "test_connection_state_display"
  by (simp_all add: test_protocol_version_compatibility_def test_protocol_version_display_def test_connection_state_display_def
      is_compatible_with_def display_version_def CURRENT_def digits_shown)

lemma hex_tests_pass:
  assumes "hex_codec hex_encode hex_decode"
  shows "test_peer_id_hex_roundtrip hex_encode hex_decode" "test_peer_id_short hex_encode"
  using hex_codec.from_hex_to_hex [OF assms, of "PeerId (replicate 32 42)"] hex_codec.short_total [OF assms, of "PeerId (replicate 32 0xAB)"]
  by (auto simp: test_peer_id_hex_roundtrip_def test_peer_id_short_def from_bytes_def peer_wf_def Let_def)

text \<open>The one test that depends on the digits themselves, for lower-case hexadecimal.\<close>

lemma hex_of_ff: "lower_hex (replicate n 0xFF) = replicate (2 * n) (CHR ''f'')"
  by (induction n) (simp_all add: hex_digit_def char_of_def bit_0)

lemma debug_test_passes: "test_peer_id_debug lower_hex"
proof -
  have "replicate 8 (CHR ''f'') = ''ffffffff''" by (simp add: numeral_eq_Suc)
  then show ?thesis
    by (simp add: test_peer_id_debug_def debug_peer_id_def short_def to_hex_def from_bytes_def starts_with_def hex_of_ff Let_def)
qed

section \<open>Retrying\<close>

definition refused :: OmniMeshError where "refused = Connection ''refused''"

definition test_retry_succeeds_immediately :: bool where
  "test_retry_succeeds_immediately \<longleftrightarrow>
     returns_then (fst (retry_async RetryPolicy_default (\<lambda>s. (Inr (42 :: int), s)) ())) (\<lambda>r. r = Inr 42)"

definition test_policy :: "u32 \<Rightarrow> RetryPolicy" where
  "test_policy retries =
     \<lparr>max_retries = retries, initial_interval = from_millis 1, max_interval = from_millis 10, multiplier = f64_lit 2\<rparr>"

definition test_retry_succeeds_after_failures :: bool where
  "test_retry_succeeds_after_failures \<longleftrightarrow>
     (case retry_async (test_policy 3) (\<lambda>attempt :: u32. (if attempt < 2 then Inl refused else Inr ''success'', attempt + 1)) 0 of
        (result, counter, _) \<Rightarrow> returns_then result (\<lambda>r. r = Inr ''success'') \<and> counter = 3)"

definition test_retry_exhausted :: bool where
  "test_retry_exhausted \<longleftrightarrow>
     returns_then (fst (retry_async (test_policy 2) (\<lambda>s. (Inl refused :: unit result, s)) ())) is_err"

definition test_non_retryable_error_fails_immediately :: bool where
  "test_non_retryable_error_fails_immediately \<longleftrightarrow>
     (case retry_async RetryPolicy_default (\<lambda>c :: u32. (Inl (Crypto ''bad key'') :: unit result, c + 1)) 0 of
        (result, counter, _) \<Rightarrow> returns_then result is_err \<and> counter = 1)"

lemma test_policy_safe: "policy_safe (test_policy k)"
  by (simp add: policy_safe_def test_policy_def from_millis_def from_secs_def f64_eval)

lemma retry_tests_pass:
  "test_retry_succeeds_immediately" "test_retry_exhausted" "test_non_retryable_error_fails_immediately"
  using retry_async_refines [OF policies_safe(1), of "\<lambda>s. (Inr (42 :: int), s)" "()"]
    retry_async_refines [OF test_policy_safe, of 2 "\<lambda>s. (Inl refused :: unit result, s)" "()"]
    retry_security_once [of "\<lambda>c :: u32. (Inl (Crypto ''bad key'') :: unit result, c + 1)" 0]
  by (auto simp: test_retry_succeeds_immediately_def test_retry_exhausted_def test_non_retryable_error_fails_immediately_def
      retry_spec.simps RetryPolicy_default_def test_policy_def refused_def)

lemma retry_counts: "test_retry_succeeds_after_failures"
  using retry_async_refines [OF test_policy_safe, of 3 "\<lambda>attempt :: u32. (if attempt < 2 then Inl refused else Inr ''success'', attempt + 1)" 0]
  by (auto simp: test_retry_succeeds_after_failures_def retry_spec.simps test_policy_def refused_def)

section \<open>Configuration\<close>

definition test_default_config :: "target_os \<Rightarrow> env \<Rightarrow> string \<Rightarrow> bool" where
  "test_default_config os env uuid \<longleftrightarrow>
     (let config = Config_default os env uuid
      in socket_port (listen_addr (cfg_transport config)) = 4433 \<and> nc_max_connections (cfg_node config) = 256 \<and>
         log_level (cfg_telemetry config) = ''info'')"

definition test_config_round_trip :: "toml_parser \<Rightarrow> (Config \<Rightarrow> string + string) \<Rightarrow> target_os \<Rightarrow> env \<Rightarrow> string \<Rightarrow> bool" where
  "test_config_round_trip toml pretty os env uuid \<longleftrightarrow>
     ok_then (to_toml pretty (Config_default os env uuid)) (\<lambda>toml_str.
       ok_then (toml toml_str) (\<lambda>t. socket_port (listen_addr (cfg_transport (fill_config os env uuid t))) = 4433))"

definition toml_lines :: "string list" where
  "toml_lines =
     [[], ''[node]'', ''name = '' @ [CHR 0x22] @ ''test-node'' @ [CHR 0x22], ''max_connections = 128'', [], ''[transport]'',
      ''listen_addr = '' @ [CHR 0x22] @ ''127.0.0.1:5555'' @ [CHR 0x22], ''connect_timeout_ms = 5000'', [], ''[telemetry]'',
      ''log_level = '' @ [CHR 0x22] @ ''debug'' @ [CHR 0x22], ''json_logs = true'']"

definition toml_str :: string where
  "toml_str = concat (map (\<lambda>l. l @ [CHR 0x0A]) toml_lines)"

definition test_config_from_toml_string :: "toml_parser \<Rightarrow> target_os \<Rightarrow> env \<Rightarrow> string \<Rightarrow> bool" where
  "test_config_from_toml_string toml os env uuid \<longleftrightarrow>
     ok_then (toml toml_str) (\<lambda>t. let config = fill_config os env uuid t in
       nc_name (cfg_node config) = ''test-node'' \<and> nc_max_connections (cfg_node config) = 128 \<and>
       socket_port (listen_addr (cfg_transport config)) = 5555 \<and> log_level (cfg_telemetry config) = ''debug'' \<and>
       json_logs (cfg_telemetry config))"

text \<open>What the TOML crate reads in the test's document; the address goes through the parser of the standard library.\<close>

definition test_table :: ConfigTable where
  "test_table = empty_table
     \<lparr>t_node := Some \<lparr>t_name = Some ''test-node'', t_data_dir = None, t_relay_enabled = None, t_max_connections = Some 128\<rparr>,
      t_transport := Some \<lparr>t_listen_addr = parse_socket_addr ''127.0.0.1:5555'', t_bootstrap_nodes = None,
        t_connect_timeout_ms = Some 5000, t_keepalive_secs = None\<rparr>,
      t_telemetry := Some \<lparr>t_log_level = Some ''debug'', t_json_logs = Some True, t_metrics_enabled = None, t_metrics_endpoint = None\<rparr>\<rparr>"

lemma config_default_passes: "test_default_config os env uuid"
  by (simp add: test_default_config_def Let_def Config_default_def TransportConfig_default_def NodeConfig_default_def
      TelemetryConfig_default_def default_listen_addr_def default_listen_addr_parses default_max_connections_def default_log_level_def)

lemma config_round_trip_passes:
  assumes "pretty (Config_default os env uuid) = Inr s" "toml s = Inr t" "fill_config os env uuid t = Config_default os env uuid"
  shows "test_config_round_trip toml pretty os env uuid"
  using assms config_default_passes [of os env uuid] by (simp add: test_config_round_trip_def to_toml_def test_default_config_def Let_def)

lemma test_addr_parses: "parse_socket_addr ''127.0.0.1:5555'' = Some (SocketAddrV4 [127, 0, 0, 1] 5555)"
  using parse_show_v4 [of 127 0 0 1 5555] by (simp add: show_v4_def digits_shown)

lemma config_from_toml_passes: "toml toml_str = Inr test_table \<Longrightarrow> test_config_from_toml_string toml os env uuid"
  by (simp add: test_config_from_toml_string_def test_table_def fill_config_def fill_node_def fill_transport_def fill_telemetry_def
      test_addr_parses empty_table_def Let_def)

end
