(* ===== verification/Routing_Tests.thy ===== *)
theory Routing_Tests
  imports Test_Kit Routing_Laws
begin

text \<open>
  The unit tests of \<^verbatim>\<open>omnimesh-routing\<close>: \<^verbatim>\<open>metrics.rs\<close>, \<^verbatim>\<open>graph.rs\<close> and \<^verbatim>\<open>router.rs\<close>. The comparisons of doubles
  are exact where the tests compare exactly.
\<close>

section \<open>Metrics\<close>

definition test_composite_cost_calculation :: bool where
  "test_composite_cost_calculation \<longleftrightarrow>
     (let metrics = \<lparr>latency_ms = f64_lit 20, bandwidth_kbps = f64_lit 2000, loss_rate = f64_lit (1 / 2), relay_cost = f64_lit 5\<rparr>
      in link_cost metrics = f64_lit 20)"

definition test_zero_bandwidth_divisor_guard :: bool where
  "test_zero_bandwidth_divisor_guard \<longleftrightarrow>
     (let metrics = \<lparr>latency_ms = f64_lit 10, bandwidth_kbps = f64_lit 0, loss_rate = f64_lit 0, relay_cost = f64_lit 0\<rparr>
      in link_cost metrics = f64_lit 100)"

definition f64_abs :: "f64 \<Rightarrow> f64" where
  "f64_abs x = (if f64_neg x then f64_minus x else x)"

definition test_metric_tracker_ema_smoothing :: bool where
  "test_metric_tracker_ema_smoothing \<longleftrightarrow>
     (let tracker = tracker_new \<lparr>latency_ms = f64_lit 10, bandwidth_kbps = f64_lit 1000, loss_rate = f64_lit 0, relay_cost = f64_lit 0\<rparr>;
          tracker = tracker_record_latency (f64_lit 20) tracker;
          after_one = latency_ms (tracker_metrics tracker);
          tracker = tracker_record_latency (f64_lit 20) tracker
      in after_one = f64_lit 12 \<and>
         f64_lt (f64_abs (f64_sub (latency_ms (tracker_metrics tracker)) (f64_lit (136 / 10)))) (f64_lit (1 / 1000000000)))"

text \<open>The doubles of the tests, as bits.\<close>

lemma test_lits:
  "f64_lit 0 = 0"
  "f64_lit 1 = 4607182418800017408"
  "f64_lit 20 = 4626322717216342016"
  "f64_lit 2000 = 4656510908468559872"
  "f64_lit (1 / 2) = 4602678819172646912"
  "f64_lit 5 = 4617315517961601024"
  "f64_lit 1000 = 4652007308841189376"
  "f64_lit (1 / 10) = 4591870180066957722"
  "f64_lit 10 = 4621819117588971520"
  "f64_lit 100 = 4636737291354636288"
  "f64_lit 12 = 4622945017495814144"
  "f64_lit 15 = 4624633867356078080"
  "f64_lit 11 = 4622382067542392832"
  "f64_lit (1 / 5) = 4596373779694328218"
  "f64_lit (68 / 5) = 4623845737421288243"
  "f64_lit (1 / 1000000000) = 4472406533629990549"
  by (simp_all add: f64_eval)

lemma test_ops:
  "f64_div 4656510908468559872 4652007308841189376 = 4611686018427387904"
  "f64_max 4611686018427387904 4591870180066957722 = 4611686018427387904"
  "f64_add 4607182418800017408 4602678819172646912 = 4609434218613702656"
  "f64_mul 4626322717216342016 4609434218613702656 = 4629137466983448576"
  "f64_div 4629137466983448576 4611686018427387904 = 4624633867356078080"
  "f64_add 4624633867356078080 4617315517961601024 = 4626322717216342016"
  "f64_div 0 4652007308841189376 = 0"
  "f64_max 0 4591870180066957722 = 4591870180066957722"
  "f64_add 4607182418800017408 0 = 4607182418800017408"
  "f64_mul 4621819117588971520 4607182418800017408 = 4621819117588971520"
  "f64_div 4621819117588971520 4591870180066957722 = 4636737291354636288"
  "f64_add 4636737291354636288 0 = 4636737291354636288"
  "f64_sub 4607182418800017408 4596373779694328218 = 4605380978949069210"
  "f64_mul 4596373779694328218 4626322717216342016 = 4616189618054758400"
  "f64_mul 4605380978949069210 4621819117588971520 = 4620693217682128896"
  "f64_add 4616189618054758400 4620693217682128896 = 4622945017495814144"
  "f64_mul 4605380978949069210 4622945017495814144 = 4621593937607602996"
  "f64_add 4616189618054758400 4621593937607602996 = 4623845737421288244"
  "f64_sub 4623845737421288244 4623845737421288243 = 4386506037058863104"
  "f64_mul 4596373779694328218 4624633867356078080 = 4613937818241073152"
  "f64_add 4613937818241073152 4620693217682128896 = 4622382067542392832"
  by (simp_all add: f64_eval)

lemma metrics_tests_pass: "test_composite_cost_calculation" "test_zero_bandwidth_divisor_guard"
  by (simp_all add: test_composite_cost_calculation_def test_zero_bandwidth_divisor_guard_def link_cost_def Let_def test_lits test_ops)

lemma smoothing_close: "f64_lt (f64_abs 4386506037058863104) 4472406533629990549"
  by (simp add: f64_abs_def f64_eval)

lemma smoothing_test_passes: "test_metric_tracker_ema_smoothing"
  using smoothing_close
  by (simp add: test_metric_tracker_ema_smoothing_def Let_def model_simps ema_def EMA_ALPHA_def test_lits test_ops)

lemma ema_latency: "ema (f64_lit 15) (f64_lit 10) = f64_lit 11"
  by (simp add: ema_def EMA_ALPHA_def test_lits test_ops)

section \<open>The graph\<close>

abbreviation dummy_peer :: "u8 \<Rightarrow> PeerId" where "dummy_peer \<equiv> node"

definition test_shortest_path_simple :: "heap_pop \<Rightarrow> bool" where
  "test_shortest_path_simple heap_pop \<longleftrightarrow>
     (let a = dummy_peer 1; b = dummy_peer 2; c = dummy_peer 3;
          graph = add_link b c (link_of 5) (add_link a b (link_of 10) graph_new)
      in find_shortest_path heap_pop graph a c = Some (Some [a, b, c]))"

definition test_shortest_path_selects_cheapest :: "heap_pop \<Rightarrow> bool" where
  "test_shortest_path_selects_cheapest heap_pop \<longleftrightarrow>
     (let a = dummy_peer 1; b = dummy_peer 2; c = dummy_peer 3; d = dummy_peer 4; slow = link_of 50; fast = link_of 5;
          graph = add_link c d fast (add_link a c fast (add_link b d slow (add_link a b slow graph_new)))
      in find_shortest_path heap_pop graph a d = Some (Some [a, c, d]))"

definition test_unreachable_node_returns_none :: "heap_pop \<Rightarrow> bool" where
  "test_unreachable_node_returns_none heap_pop \<longleftrightarrow>
     (let a = dummy_peer 1; b = dummy_peer 2; c = dummy_peer 3; graph = add_link a b (link_of 10) graph_new
      in find_shortest_path heap_pop graph a c = Some None)"

text \<open>The doubles of the graphs.\<close>

lemma graph_lits: "f64_lit 50 = 4632233691727265792" "f64_max_value = 9218868437227405311"
  by (simp_all add: f64_eval)

lemma graph_ops:
  "f64_div 4652007308841189376 4652007308841189376 = 4607182418800017408"
  "f64_max 4607182418800017408 4591870180066957722 = 4607182418800017408"
  "f64_div 4621819117588971520 4607182418800017408 = 4621819117588971520"
  "f64_add 4621819117588971520 0 = 4621819117588971520"
  "f64_add 0 4621819117588971520 = 4621819117588971520"
  "f64_mul 4617315517961601024 4607182418800017408 = 4617315517961601024"
  "f64_div 4617315517961601024 4607182418800017408 = 4617315517961601024"
  "f64_add 4617315517961601024 0 = 4617315517961601024"
  "f64_add 0 4617315517961601024 = 4617315517961601024"
  "f64_mul 4632233691727265792 4607182418800017408 = 4632233691727265792"
  "f64_div 4632233691727265792 4607182418800017408 = 4632233691727265792"
  "f64_add 4632233691727265792 0 = 4632233691727265792"
  "f64_add 0 4632233691727265792 = 4632233691727265792"
  "f64_add 4621819117588971520 4617315517961601024 = 4624633867356078080"
  "f64_add 4617315517961601024 4617315517961601024 = 4621819117588971520"
  "f64_add 4632233691727265792 4632233691727265792 = 4636737291354636288"
  "f64_add 4617315517961601024 4632233691727265792 = 4632937379169042432"
  by (simp_all add: f64_eval)

lemma graph_lt:
  "f64_lt 4621819117588971520 9218868437227405311"
  "f64_lt 4617315517961601024 9218868437227405311"
  "f64_lt 4632233691727265792 9218868437227405311"
  "f64_lt 4624633867356078080 9218868437227405311"
  "f64_lt 4636737291354636288 9218868437227405311"
  "f64_lt 4617315517961601024 4632233691727265792"
  "\<not> f64_lt 4632233691727265792 4617315517961601024"
  "f64_lt 4621819117588971520 4632233691727265792"
  "\<not> f64_lt 4632233691727265792 4621819117588971520"
  "\<not> f64_lt 4617315517961601024 4617315517961601024"
  "\<not> f64_lt 4621819117588971520 4621819117588971520"
  "f64_lt 0 9218868437227405311"
  by (simp_all add: f64_eval)

lemma test_costs: "link_cost (link_of 10) = 4621819117588971520" "link_cost (link_of 5) = 4617315517961601024" "link_cost (link_of 50) = 4632233691727265792"
  by (simp_all add: link_cost_def link_of_def Let_def test_lits graph_lits test_ops graph_ops)

lemma graph_tests_pass:
  "test_shortest_path_simple list_heap_pop" "test_shortest_path_selects_cheapest list_heap_pop" "test_unreachable_node_returns_none list_heap_pop"
  by (simp_all add: test_shortest_path_simple_def test_shortest_path_selects_cheapest_def test_unreachable_node_returns_none_def
      add_link_def graph_new_def search_eval test_costs test_ops graph_ops graph_lits graph_lt cmp_Greater_iff)

section \<open>The router\<close>

definition test_router_local_link_state :: "heap_pop \<Rightarrow> u64 \<Rightarrow> bool" where
  "test_router_local_link_state heap_pop now \<longleftrightarrow>
     (let alice = dummy_peer 1; bob = dummy_peer 2;
          router = record_bandwidth bob (f64_lit 5000) (record_latency bob (f64_lit 15) (router_new alice))
      in find_route heap_pop router bob = Some (Some [alice, bob]) \<and>
         some_then (fst (get_link_state_update bob now router)) (\<lambda>update.
           source update = alice \<and> destination update = bob \<and> latency_ms (metrics update) = f64_lit 11 \<and> seqno update = 1))"

definition test_router_process_gossip_sequence :: bool where
  "test_router_process_gossip_sequence \<longleftrightarrow>
     (let alice = dummy_peer 1; bob = dummy_peer 2; charlie = dummy_peer 3;
          u1 = \<lparr>source = bob, destination = charlie, metrics = LinkMetrics_default, seqno = 5, timestamp = 100\<rparr>;
          (first_time, router) = process_link_state_update u1 (router_new alice);
          (old_seq, router) = process_link_state_update (u1\<lparr>seqno := 3\<rparr>) router;
          (same_seq, router) = process_link_state_update u1 router;
          (newer_seq, router) = process_link_state_update (u1\<lparr>seqno := 6\<rparr>) router
      in first_time \<and> \<not> old_seq \<and> \<not> same_seq \<and> newer_seq)"

lemma gossip_test_passes: "test_router_process_gossip_sequence"
  by (simp add: test_router_process_gossip_sequence_def process_link_state_update_def router_new_def Let_def)

lemma router_lits: "f64_lit 5000 = 4662219572839972864" "f64_lit 10000 = 4666723172467343360"
  by (simp_all add: f64_eval)

lemma router_ops:
  "f64_mul 4596373779694328218 4662219572839972864 = 4652007308841189376"
  "f64_mul 4605380978949069210 4666723172467343360 = 4665518107723300864"
  "f64_add 4652007308841189376 4665518107723300864 = 4666173416653455360"
  "f64_div 4666173416653455360 4652007308841189376 = 4621256167635550208"
  "f64_max 4621256167635550208 4591870180066957722 = 4621256167635550208"
  "f64_mul 4622382067542392832 4607182418800017408 = 4622382067542392832"
  "f64_div 4622382067542392832 4621256167635550208 = 4608183218717210852"
  "f64_add 4608183218717210852 0 = 4608183218717210852"
  "f64_add 0 4608183218717210852 = 4608183218717210852"
  "f64_mul 4596373779694328218 4621819117588971520 = 4611686018427387904"
  "f64_lt 4608183218717210852 9218868437227405311"
  by (simp_all add: f64_eval)

lemma local_link_test_passes: "test_router_local_link_state list_heap_pop now"
  by (simp add: test_router_local_link_state_def recorder_defs tracker_entry_def router_new_def model_simps ema_def EMA_ALPHA_def
      find_route_def get_link_state_update_def add_link_def graph_new_def search_eval link_cost_def test_lits test_ops graph_lits graph_ops graph_lt
      router_lits router_ops cmp_Greater_iff)

end
