(* ===== verification/Crypto_Tests.thy ===== *)
theory Crypto_Tests
  imports Test_Kit Secure_Channel
begin

text \<open>
  The unit tests of \<^verbatim>\<open>omnimesh-crypto\<close>: \<^verbatim>\<open>aead.rs\<close>, \<^verbatim>\<open>kdf.rs\<close> and \<^verbatim>\<open>channel.rs\<close>. Tests of what honest
  users rely on pass for every key and nonce. A test that expects a failure under another key passes
  unless two authentication tags or two derived keys collide, and the lemma says which.
\<close>

section \<open>Authenticated encryption\<close>

text \<open>\<open>key\<close> is drawn by \<^verbatim>\<open>test_key\<close>, \<open>rand\<close> is the nonce that \<^verbatim>\<open>encrypt\<close> draws.\<close>

definition test_encrypt_decrypt_roundtrip :: "bytes \<Rightarrow> bytes \<Rightarrow> bool" where
  "test_encrypt_decrypt_roundtrip key rand \<longleftrightarrow>
     (let plaintext = ascii ''hello omnimesh crypto''
      in ok_then (encrypt chapoly_seal rand key plaintext) (\<lambda>encrypted.
           ok_then (decrypt chapoly_open key encrypted) (\<lambda>decrypted. decrypted = plaintext)))"

definition test_different_keys_fail :: "bytes \<Rightarrow> bytes \<Rightarrow> bytes \<Rightarrow> bool" where
  "test_different_keys_fail key1 key2 rand \<longleftrightarrow>
     ok_then (encrypt chapoly_seal rand key1 (ascii ''secret data'')) (\<lambda>encrypted. is_err (decrypt chapoly_open key2 encrypted))"

definition test_tampered_ciphertext_fails :: "bytes \<Rightarrow> bytes \<Rightarrow> bool" where
  "test_tampered_ciphertext_fails key rand \<longleftrightarrow>
     ok_then (encrypt chapoly_seal rand key (ascii ''integrity check'')) (\<lambda>encrypted.
       let last_index = length encrypted - 1
       in is_err (decrypt chapoly_open key (encrypted[last_index := encrypted ! last_index XOR 0xFF])))"

definition test_empty_plaintext :: "bytes \<Rightarrow> bytes \<Rightarrow> bool" where
  "test_empty_plaintext key rand \<longleftrightarrow>
     ok_then (encrypt chapoly_seal rand key []) (\<lambda>encrypted. ok_then (decrypt chapoly_open key encrypted) (\<lambda>decrypted. decrypted = []))"

definition test_short_ciphertext_rejected :: "bytes \<Rightarrow> bool" where
  "test_short_ciphertext_rejected key \<longleftrightarrow> is_err (decrypt chapoly_open key (replicate 10 0))"

definition test_explicit_nonce_deterministic :: "bytes \<Rightarrow> bool" where
  "test_explicit_nonce_deterministic key \<longleftrightarrow>
     (let nonce = replicate NONCE_SIZE 42; plaintext = ascii ''deterministic''
      in ok_then (encrypt_with_nonce chapoly_seal key nonce plaintext) (\<lambda>enc1.
           ok_then (encrypt_with_nonce chapoly_seal key nonce plaintext) (\<lambda>enc2. enc1 = enc2)))"

definition test_output_size :: "bytes \<Rightarrow> bytes \<Rightarrow> bool" where
  "test_output_size key rand \<longleftrightarrow>
     (let plaintext = ascii ''size check''
      in ok_then (encrypt chapoly_seal rand key plaintext) (\<lambda>encrypted. length encrypted = NONCE_SIZE + length plaintext + TAG_SIZE))"

lemma length_ascii [simp]: "length (ascii s) = length s"
  by (simp add: ascii_def)

lemma encrypt_small:
  assumes "length key = 32" "length msg < 2 ^ 32"
  shows "encrypt chapoly_seal rand key msg =
    Inr (rand @ chacha20_xor key rand msg @ mac_tag key rand [] (chacha20_xor key rand msg))"
  using assms by (auto simp: encrypt_def cipher_init_def chapoly_seal_def chapoly_seal_ad_def Let_def)

lemma decrypt_chapoly:
  assumes "length key = 32" "length rand = NONCE_SIZE" "length ct < 2 ^ 32" "length tag = TAG_SIZE"
  shows "decrypt chapoly_open key (rand @ ct @ tag) =
    (if mac_tag key rand [] ct = tag then Inr (chacha20_xor key rand ct) else Inl (Crypto ''decryption failed: invalid key or corrupted data''))"
  using assms by (auto simp: decrypt_def cipher_init_def chapoly_open_def chapoly_open_ad_def TAG_SIZE_def Let_def)

lemmas aead_test_defs = test_encrypt_decrypt_roundtrip_def test_empty_plaintext_def test_output_size_def test_short_ciphertext_rejected_def
  test_explicit_nonce_deterministic_def Let_def

lemma aead_tests_pass:
  assumes "length key = 32" "length rand = NONCE_SIZE"
  shows "test_encrypt_decrypt_roundtrip key rand" "test_empty_plaintext key rand" "test_output_size key rand"
    "test_short_ciphertext_rejected key" "test_explicit_nonce_deterministic key"
proof -
  show "test_encrypt_decrypt_roundtrip key rand" "test_empty_plaintext key rand" "test_output_size key rand"
    using assms by (simp_all add: aead_test_defs encrypt_small decrypt_chapoly chacha20_xor_twice TAG_SIZE_def)
  show "test_short_ciphertext_rejected key" by (simp add: aead_test_defs decrypt_def NONCE_SIZE_def TAG_SIZE_def)
  show "test_explicit_nonce_deterministic key"
    using assms by (simp add: aead_test_defs encrypt_with_nonce_def cipher_init_def chapoly_seal_def chapoly_seal_ad_def)
qed

lemma flip_byte: "(b :: u8) XOR 0xFF \<noteq> b"
proof
  assume "b XOR 0xFF = b"
  then have "bit (b XOR 0xFF) 0 = bit b 0" by (rule arg_cong)
  then show False unfolding bit_xor_iff by (simp add: bit_0)
qed

lemma tampered_test_passes:
  assumes "length key = 32" "length rand = NONCE_SIZE"
  shows "test_tampered_ciphertext_fails key rand"
proof -
  define ct where "ct = chacha20_xor key rand (ascii ''integrity check'')"
  define tag where "tag = mac_tag key rand [] ct"
  have len: "length tag = 16" "length ct = 15" by (simp_all add: tag_def ct_def)
  let ?tag = "tag[15 := tag ! 15 XOR 0xFF]"
  have "?tag ! 15 = tag ! 15 XOR 0xFF" using len by simp
  with flip_byte [of "tag ! 15"] have t: "?tag \<noteq> tag" by auto
  have u: "(rand @ ct @ tag)[length (rand @ ct @ tag) - 1 := (rand @ ct @ tag) ! (length (rand @ ct @ tag) - 1) XOR 0xFF] = rand @ ct @ ?tag"
    using len by (simp add: list_update_append nth_append)
  have e: "encrypt chapoly_seal rand key (ascii ''integrity check'') = Inr (rand @ ct @ tag)"
    using assms(1) by (simp add: encrypt_small ct_def tag_def)
  have "is_err (decrypt chapoly_open key (rand @ ct @ ?tag))"
    using decrypt_chapoly [OF assms, of ct ?tag] t len by (simp add: TAG_SIZE_def tag_def)
  then show ?thesis unfolding test_tampered_ciphertext_fails_def e Let_def kit_simps u .
qed

lemma different_keys_test:
  assumes "length key1 = 32" "length key2 = 32" "length rand = NONCE_SIZE"
  shows "test_different_keys_fail key1 key2 rand \<longleftrightarrow>
    (let ct = chacha20_xor key1 rand (ascii ''secret data'') in mac_tag key2 rand [] ct \<noteq> mac_tag key1 rand [] ct)"
  using assms by (simp add: test_different_keys_fail_def encrypt_small decrypt_chapoly TAG_SIZE_def Let_def)

section \<open>Key derivation\<close>

definition test_derive_key_deterministic :: "expander \<Rightarrow> bool" where
  "test_derive_key_deterministic hkdf \<longleftrightarrow>
     (let ikm = ascii ''input keying material''; salt = ascii ''some salt''; info = TRANSPORT
      in ok_then (derive_key hkdf ikm (Some salt) info 32) (\<lambda>key1.
           ok_then (derive_key hkdf ikm (Some salt) info 32) (\<lambda>key2. key1 = key2 \<and> length key1 = 32)))"

definition test_different_domains_different_keys :: "expander \<Rightarrow> bool" where
  "test_different_domains_different_keys hkdf \<longleftrightarrow>
     (let ikm = ascii ''same input''
      in ok_then (derive_key_256 hkdf ikm None TRANSPORT) (\<lambda>key1. ok_then (derive_key_256 hkdf ikm None KEYSTORE) (\<lambda>key2. key1 \<noteq> key2)))"

definition test_different_salts_different_keys :: "expander \<Rightarrow> bool" where
  "test_different_salts_different_keys hkdf \<longleftrightarrow>
     (let ikm = ascii ''same input''; info = TRANSPORT
      in ok_then (derive_key_256 hkdf ikm (Some (ascii ''salt-a'')) info) (\<lambda>key1.
           ok_then (derive_key_256 hkdf ikm (Some (ascii ''salt-b'')) info) (\<lambda>key2. key1 \<noteq> key2)))"

definition test_derive_key_pair :: "expander \<Rightarrow> bool" where
  "test_derive_key_pair hkdf \<longleftrightarrow>
     ok_then (derive_key_pair hkdf (ascii ''key exchange result'') None TRANSPORT) (\<lambda>(enc, auth).
       enc \<noteq> auth \<and> length enc = 32 \<and> length auth = 32)"

definition test_ratchet_key_produces_different_key :: "expander \<Rightarrow> bool" where
  "test_ratchet_key_produces_different_key hkdf \<longleftrightarrow>
     (let key = replicate 32 42 in ok_then (ratchet_key hkdf key) (\<lambda>next. key \<noteq> next))"

definition test_ratchet_is_deterministic :: "expander \<Rightarrow> bool" where
  "test_ratchet_is_deterministic hkdf \<longleftrightarrow>
     (let key = replicate 32 42 in ok_then (ratchet_key hkdf key) (\<lambda>next1. ok_then (ratchet_key hkdf key) (\<lambda>next2. next1 = next2)))"

definition test_ratchet_chain_is_one_way :: "expander \<Rightarrow> bool" where
  "test_ratchet_chain_is_one_way hkdf \<longleftrightarrow>
     (let key0 = replicate 32 1
      in ok_then (ratchet_key hkdf key0) (\<lambda>key1. ok_then (ratchet_key hkdf key1) (\<lambda>key2. key0 \<noteq> key1 \<and> key1 \<noteq> key2 \<and> key0 \<noteq> key2)))"

definition test_zero_length_rejected :: "expander \<Rightarrow> bool" where
  "test_zero_length_rejected hkdf \<longleftrightarrow> is_err (derive_key hkdf (ascii ''ikm'') None (ascii ''info'') 0)"

definition test_excessive_length_rejected :: "expander \<Rightarrow> bool" where
  "test_excessive_length_rejected hkdf \<longleftrightarrow> is_err (derive_key hkdf (ascii ''ikm'') None (ascii ''info'') 10000)"

definition test_variable_output_lengths :: "expander \<Rightarrow> bool" where
  "test_variable_output_lengths hkdf \<longleftrightarrow>
     list_all (\<lambda>len. ok_then (derive_key hkdf (ascii ''ikm'') None (ascii ''info'') len) (\<lambda>key. length key = len)) [16, 32, 48, 64, 128]"

context key_derivation
begin

lemma derive_key_ok: "0 < n \<Longrightarrow> n \<le> 8160 \<Longrightarrow> \<exists>out. derive_key hkdf ikm salt info n = Inr out \<and> length out = n"
  using derive_key_spec [of n ikm salt info] by simp

lemma derive_key_length: "0 < n \<Longrightarrow> n \<le> 8160 \<Longrightarrow> ok_then (derive_key hkdf ikm salt info n) (\<lambda>key. length key = n)"
  using derive_key_ok [of n ikm salt info] by auto

lemma kdf_tests_pass:
  "test_derive_key_deterministic hkdf" "test_ratchet_is_deterministic hkdf" "test_zero_length_rejected hkdf"
  "test_excessive_length_rejected hkdf" "test_variable_output_lengths hkdf"
proof -
  show "test_derive_key_deterministic hkdf"
    using derive_key_ok [of 32 "ascii ''input keying material''" "Some (ascii ''some salt'')" TRANSPORT]
    by (auto simp: test_derive_key_deterministic_def Let_def)
  show "test_ratchet_is_deterministic hkdf"
    using ratchet_key_ok [of "replicate 32 42"] by (auto simp: test_ratchet_is_deterministic_def Let_def)
  show "test_variable_output_lengths hkdf"
    by (simp add: test_variable_output_lengths_def derive_key_length)
qed (simp_all add: test_zero_length_rejected_def test_excessive_length_rejected_def derive_key_def)

text \<open>The tests that expect two keys to differ hold exactly when the derivation separates their inputs.\<close>

lemma separation_tests:
  "test_different_domains_different_keys hkdf \<longleftrightarrow>
     hkdf None (ascii ''same input'') TRANSPORT 32 \<noteq> hkdf None (ascii ''same input'') KEYSTORE 32"
  "test_different_salts_different_keys hkdf \<longleftrightarrow>
     hkdf (Some (ascii ''salt-a'')) (ascii ''same input'') TRANSPORT 32 \<noteq> hkdf (Some (ascii ''salt-b'')) (ascii ''same input'') TRANSPORT 32"
  "test_ratchet_key_produces_different_key hkdf \<longleftrightarrow> hkdf None (replicate 32 42) SESSION_RATCHET 32 \<noteq> Inr (replicate 32 42)"
  using expand_ok [of 32 None "ascii ''same input''" TRANSPORT] expand_ok [of 32 None "ascii ''same input''" KEYSTORE]
    expand_ok [of 32 "Some (ascii ''salt-a'')" "ascii ''same input''" TRANSPORT]
    expand_ok [of 32 "Some (ascii ''salt-b'')" "ascii ''same input''" TRANSPORT]
    expand_ok [of 32 None "replicate 32 42" SESSION_RATCHET]
  by (auto simp: test_different_domains_different_keys_def test_different_salts_different_keys_def
      test_ratchet_key_produces_different_key_def ratchet_key_def derive_key_256_def derive_key_def Let_def)

lemma pair_test:
  "hkdf None (ascii ''key exchange result'') TRANSPORT 64 = Inr out \<Longrightarrow> test_derive_key_pair hkdf \<longleftrightarrow> take 32 out \<noteq> drop 32 out"
  using expand_ok [of 64 None "ascii ''key exchange result''" TRANSPORT]
  by (auto simp: test_derive_key_pair_def derive_key_pair_def derive_key_def)

lemma chain_test:
  "ratchet_key hkdf (replicate 32 1) = Inr key1 \<Longrightarrow> ratchet_key hkdf key1 = Inr key2 \<Longrightarrow>
     test_ratchet_chain_is_one_way hkdf \<longleftrightarrow> distinct [replicate 32 1, key1, key2]"
  by (auto simp: test_ratchet_chain_is_one_way_def Let_def)

end

section \<open>The secure channel\<close>

abbreviation channel_put :: "bytes \<Rightarrow> bytes \<Rightarrow> SecureChannel \<Rightarrow> bytes result \<times> SecureChannel" where
  "channel_put \<equiv> channel_encrypt chapoly_seal hkdf_expand"

abbreviation channel_get :: "bytes \<Rightarrow> SecureChannel \<Rightarrow> bytes result \<times> SecureChannel" where
  "channel_get \<equiv> channel_decrypt chapoly_open hkdf_expand"

definition create_channel_pair :: "(SecureChannel \<Rightarrow> SecureChannel \<Rightarrow> bool) \<Rightarrow> bool" where
  "create_channel_pair f =
     (let secret = replicate 32 42
      in ok_then (channel_new hkdf_expand secret True) (\<lambda>alice. ok_then (channel_new hkdf_expand secret False) (\<lambda>bob. f alice bob)))"

text \<open>One message through the channel and what follows; it must arrive as it was sent.\<close>

definition channel_pass ::
  "bytes \<Rightarrow> bytes \<Rightarrow> SecureChannel \<Rightarrow> SecureChannel \<Rightarrow> (bytes \<Rightarrow> SecureChannel \<Rightarrow> SecureChannel \<Rightarrow> bool) \<Rightarrow> bool" where
  "channel_pass rand msg from to f =
     (case channel_put rand msg from of (r, from) \<Rightarrow> ok_then r (\<lambda>ct.
        case channel_get ct to of (r, to) \<Rightarrow> ok_then r (\<lambda>pt. pt = msg \<and> f ct from to)))"

definition test_channel_roundtrip :: "bytes \<Rightarrow> bool" where
  "test_channel_roundtrip rand \<longleftrightarrow>
     create_channel_pair (\<lambda>alice bob. channel_pass rand (ascii ''hello bob'') alice bob (\<lambda>_ _ _. True))"

definition test_channel_bidirectional :: "bytes \<Rightarrow> bytes \<Rightarrow> bool" where
  "test_channel_bidirectional rand1 rand2 \<longleftrightarrow>
     create_channel_pair (\<lambda>alice bob. channel_pass rand1 (ascii ''from alice'') alice bob
       (\<lambda>_ alice bob. channel_pass rand2 (ascii ''from bob'') bob alice (\<lambda>_ _ _. True)))"

fun ratchet_rounds :: "nat \<Rightarrow> bytes list \<Rightarrow> SecureChannel \<Rightarrow> SecureChannel \<Rightarrow> (SecureChannel \<Rightarrow> SecureChannel \<Rightarrow> bool) \<Rightarrow> bool" where
  "ratchet_rounds i [] alice bob f = f alice bob"
| "ratchet_rounds i (rand # rands) alice bob f =
     channel_pass rand (ascii (''message '' @ show_nat i)) alice bob (\<lambda>_ alice bob. ratchet_rounds (Suc i) rands alice bob f)"

definition test_channel_ratcheting :: "bytes list \<Rightarrow> bool" where
  "test_channel_ratcheting rands \<longleftrightarrow>
     create_channel_pair (\<lambda>alice bob. ratchet_rounds 0 rands alice bob (\<lambda>alice bob. send_count alice = 5 \<and> recv_count bob = 5))"

definition test_channel_replay_fails :: "bytes \<Rightarrow> bool" where
  "test_channel_replay_fails rand \<longleftrightarrow>
     create_channel_pair (\<lambda>alice bob. channel_pass rand (ascii ''first message'') alice bob (\<lambda>ct alice bob. is_err (fst (channel_get ct bob))))"

definition test_channel_wrong_direction_fails :: "bytes \<Rightarrow> bool" where
  "test_channel_wrong_direction_fails rand \<longleftrightarrow>
     create_channel_pair (\<lambda>alice bob. case channel_put rand (ascii ''from alice'') alice of (r, alice) \<Rightarrow>
       ok_then r (\<lambda>ct. is_err (fst (channel_get ct alice))))"

definition test_channel_counters :: "bytes \<Rightarrow> bool" where
  "test_channel_counters rand \<longleftrightarrow>
     create_channel_pair (\<lambda>alice bob. send_count alice = 0 \<and> messages_remaining alice = REKEY_THRESHOLD \<and>
       channel_pass rand (ascii ''test'') alice bob (\<lambda>_ alice bob. send_count alice = 1 \<and> recv_count bob = 1))"

definition test_channel_debug_redacts_keys :: bool where
  "test_channel_debug_redacts_keys \<longleftrightarrow> create_channel_pair (\<lambda>alice bob. contains (debug_channel alice) ''[REDACTED]'')"

text \<open>The two ends of the pair hold each other's keys, so a pass between them succeeds and both ends move on to
  the same next key.\<close>

abbreviation fresh_channel :: "bytes \<Rightarrow> bytes \<Rightarrow> SecureChannel" where
  "fresh_channel a b \<equiv> \<lparr>send_key = a, recv_key = b, send_counter = 0, recv_counter = 0\<rparr>"

abbreviation sealed :: "bytes \<Rightarrow> bytes \<Rightarrow> bytes \<Rightarrow> bytes" where
  "sealed key rand msg \<equiv> rand @ chacha20_xor key rand msg @ mac_tag key rand [] (chacha20_xor key rand msg)"

lemma channel_pair_keys:
  "\<exists>a b. length a = 32 \<and> length b = 32 \<and> (\<forall>f. create_channel_pair f = f (fresh_channel a b) (fresh_channel b a))"
proof -
  obtain a b where "derive_key_pair hkdf_expand (replicate 32 42) None TRANSPORT = Inr (a, b)" "length a = 32" "length b = 32"
    using hkdf_sha.derive_key_pair_ok by blast
  then show ?thesis by (intro exI [of _ a] exI [of _ b]) (simp add: create_channel_pair_def channel_new_def Let_def)
qed

lemma channel_put_ok:
  assumes "length (send_key from) = 32" "send_counter from < REKEY_THRESHOLD" "length msg < 2 ^ 32"
    and "ratchet_key hkdf_expand (send_key from) = Inr k"
  shows "channel_put rand msg from = (Inr (sealed (send_key from) rand msg), from\<lparr>send_key := k, send_counter := send_counter from + 1\<rparr>)"
  using assms(2) assms(4) encrypt_small [OF assms(1,3), of rand] by (simp add: channel_encrypt_def not_le [symmetric])

lemma channel_get_ok:
  assumes "length (recv_key to) = 32" "recv_counter to < REKEY_THRESHOLD" "length msg < 2 ^ 32" "length rand = NONCE_SIZE"
    and "ratchet_key hkdf_expand (recv_key to) = Inr k"
  shows "channel_get (sealed (recv_key to) rand msg) to = (Inr msg, to\<lparr>recv_key := k, recv_counter := recv_counter to + 1\<rparr>)"
proof -
  let ?ct = "chacha20_xor (recv_key to) rand msg"
  have "decrypt chapoly_open (recv_key to) (rand @ ?ct @ mac_tag (recv_key to) rand [] ?ct) = Inr msg"
    using assms decrypt_chapoly [of "recv_key to" rand ?ct "mac_tag (recv_key to) rand [] ?ct"] by (simp add: chacha20_xor_twice TAG_SIZE_def)
  with assms(2,5) show ?thesis by (simp add: channel_decrypt_def not_le [symmetric])
qed

lemma channel_get_refused:
  assumes "length (recv_key to) = 32" "recv_counter to < REKEY_THRESHOLD" "length msg < 2 ^ 32" "length rand = NONCE_SIZE" "length key = 32"
  shows "is_err (fst (channel_get (sealed key rand msg) to)) \<longleftrightarrow>
    mac_tag (recv_key to) rand [] (chacha20_xor key rand msg) \<noteq> mac_tag key rand [] (chacha20_xor key rand msg)"
proof -
  let ?ct = "chacha20_xor key rand msg"
  obtain k where "ratchet_key hkdf_expand (recv_key to) = Inr k" using hkdf_sha.ratchet_key_ok by blast
  then show ?thesis
    using assms decrypt_chapoly [of "recv_key to" rand ?ct "mac_tag key rand [] ?ct"]
    by (auto simp: channel_decrypt_def not_le [symmetric] TAG_SIZE_def is_err_def)
qed

lemma channel_pass_ok:
  assumes "send_key from = recv_key to" "length (recv_key to) = 32" "send_counter from < REKEY_THRESHOLD" "recv_counter to < REKEY_THRESHOLD"
    and "length rand = NONCE_SIZE" "length msg < 2 ^ 32"
  shows "\<exists>k. length k = 32 \<and> (\<forall>f. channel_pass rand msg from to f \<longleftrightarrow>
      f (sealed (recv_key to) rand msg) (from\<lparr>send_key := k, send_counter := send_counter from + 1\<rparr>)
        (to\<lparr>recv_key := k, recv_counter := recv_counter to + 1\<rparr>))"
proof -
  obtain k where k: "ratchet_key hkdf_expand (recv_key to) = Inr k" "length k = 32" using hkdf_sha.ratchet_key_ok by blast
  with assms show ?thesis
    by (intro exI [of _ k]) (simp add: channel_pass_def channel_put_ok channel_get_ok)
qed

lemma first_counters [simp]: "(0 :: u64) < REKEY_THRESHOLD" "(1 :: u64) < REKEY_THRESHOLD"
  by (simp_all add: REKEY_THRESHOLD_def)

lemma channel_tests_pass:
  assumes "length rand = NONCE_SIZE" "length rand2 = NONCE_SIZE"
  shows "test_channel_roundtrip rand" "test_channel_bidirectional rand rand2" "test_channel_counters rand"
proof -
  obtain a b where ab: "length a = 32" "length b = 32" "\<forall>f. create_channel_pair f = f (fresh_channel a b) (fresh_channel b a)"
    using channel_pair_keys by blast
  have there: "\<exists>k. length k = 32 \<and> (\<forall>f. channel_pass rand msg (fresh_channel a b) (fresh_channel b a) f \<longleftrightarrow>
      f (sealed a rand msg) ((fresh_channel a b)\<lparr>send_key := k, send_counter := 1\<rparr>) ((fresh_channel b a)\<lparr>recv_key := k, recv_counter := 1\<rparr>))"
    if "length msg < 2 ^ 32" for msg
    using channel_pass_ok [of "fresh_channel a b" "fresh_channel b a" rand msg] that ab(1) assms(1) by auto
  show "test_channel_roundtrip rand" using there [of "ascii ''hello bob''"] by (auto simp: test_channel_roundtrip_def ab(3))
  show "test_channel_counters rand" using there [of "ascii ''test''"]
    by (auto simp: test_channel_counters_def ab(3) send_count_def recv_count_def messages_remaining_def REKEY_THRESHOLD_def)
  obtain k where k: "\<forall>f. channel_pass rand (ascii ''from alice'') (fresh_channel a b) (fresh_channel b a) f \<longleftrightarrow>
      f (sealed a rand (ascii ''from alice'')) \<lparr>send_key = k, recv_key = b, send_counter = 1, recv_counter = 0\<rparr>
        \<lparr>send_key = b, recv_key = k, send_counter = 0, recv_counter = 1\<rparr>"
    using there [of "ascii ''from alice''"] by auto
  obtain k' where "\<forall>f. channel_pass rand2 (ascii ''from bob'') \<lparr>send_key = b, recv_key = k, send_counter = 0, recv_counter = 1\<rparr>
      \<lparr>send_key = k, recv_key = b, send_counter = 1, recv_counter = 0\<rparr> f \<longleftrightarrow> f (sealed b rand2 (ascii ''from bob''))
      \<lparr>send_key = k', recv_key = k, send_counter = 1, recv_counter = 1\<rparr> \<lparr>send_key = k, recv_key = k', send_counter = 1, recv_counter = 1\<rparr>"
    using channel_pass_ok [of "\<lparr>send_key = b, recv_key = k, send_counter = 0, recv_counter = 1\<rparr>"
        "\<lparr>send_key = k, recv_key = b, send_counter = 1, recv_counter = 0\<rparr>" rand2 "ascii ''from bob''"] ab(2) assms(2) by auto
  then show "test_channel_bidirectional rand rand2" by (simp add: test_channel_bidirectional_def ab(3) k)
qed

text \<open>The ratchet keeps the two ends in step for as many rounds as the counter allows, of which the test takes five.\<close>

lemma ratchet_rounds_count:
  assumes "send_key alice = recv_key bob" "length (recv_key bob) = 32" "send_counter alice = recv_counter bob"
    and "unat (recv_counter bob) + length rands \<le> unat REKEY_THRESHOLD" "i + length rands < 1000" "\<forall>r \<in> set rands. length r = NONCE_SIZE"
  shows "\<exists>k. \<forall>f. ratchet_rounds i rands alice bob f \<longleftrightarrow>
    f (alice\<lparr>send_key := k, send_counter := send_counter alice + of_nat (length rands)\<rparr>)
      (bob\<lparr>recv_key := k, recv_counter := recv_counter bob + of_nat (length rands)\<rparr>)"
  using assms
proof (induction rands arbitrary: i alice bob)
  case Nil
  then show ?case by (intro exI [of _ "recv_key bob"]) (cases alice; cases bob; simp)
next
  case (Cons r rs)
  let ?m = "ascii (''message '' @ show_nat i)"
  have below: "recv_counter bob < REKEY_THRESHOLD" using Cons.prems(4) by (simp add: word_less_nat_alt)
  have "length ?m < 2 ^ 32" using show_nat_small [of i] Cons.prems(5) by (simp add: ascii_def)
  then obtain k where k: "length k = 32"
    "\<forall>f. channel_pass r ?m alice bob f \<longleftrightarrow> f (sealed (recv_key bob) r ?m) (alice\<lparr>send_key := k, send_counter := send_counter alice + 1\<rparr>)
       (bob\<lparr>recv_key := k, recv_counter := recv_counter bob + 1\<rparr>)"
    using channel_pass_ok [of alice bob r ?m] Cons.prems below by auto
  have "unat (recv_counter bob + 1) = unat (recv_counter bob) + 1"
    using below by (simp add: unat_word_ariths word_less_nat_alt REKEY_THRESHOLD_def)
  then show ?case
    using Cons.IH [of "alice\<lparr>send_key := k, send_counter := send_counter alice + 1\<rparr>" "bob\<lparr>recv_key := k, recv_counter := recv_counter bob + 1\<rparr>" "Suc i"]
      Cons.prems k by (simp add: add_ac)
qed

lemma ratcheting_test_passes:
  assumes "length rands = 5" "\<forall>r \<in> set rands. length r = NONCE_SIZE"
  shows "test_channel_ratcheting rands"
proof -
  obtain a b where ab: "length a = 32" "\<forall>f. create_channel_pair f = f (fresh_channel a b) (fresh_channel b a)"
    using channel_pair_keys by blast
  then show ?thesis
    using ratchet_rounds_count [of "fresh_channel a b" "fresh_channel b a" rands 0] assms
    by (auto simp: test_channel_ratcheting_def send_count_def recv_count_def REKEY_THRESHOLD_def)
qed

text \<open>The two refusals hold exactly when the tag of the other key differs, which is all that separates them from a
  collision of the authenticator.\<close>

lemma replay_test:
  assumes "length rand = NONCE_SIZE"
  shows "\<exists>key next. test_channel_replay_fails rand \<longleftrightarrow>
    (let ct = chacha20_xor key rand (ascii ''first message'') in mac_tag next rand [] ct \<noteq> mac_tag key rand [] ct)"
proof -
  obtain a b where ab: "length a = 32" "\<forall>f. create_channel_pair f = f (fresh_channel a b) (fresh_channel b a)"
    using channel_pair_keys by blast
  then obtain k where k: "length k = 32"
    "\<forall>f. channel_pass rand (ascii ''first message'') (fresh_channel a b) (fresh_channel b a) f \<longleftrightarrow>
       f (sealed a rand (ascii ''first message'')) \<lparr>send_key = k, recv_key = b, send_counter = 1, recv_counter = 0\<rparr>
         \<lparr>send_key = b, recv_key = k, send_counter = 0, recv_counter = 1\<rparr>"
    using channel_pass_ok [of "fresh_channel a b" "fresh_channel b a" rand "ascii ''first message''"] assms by auto
  then show ?thesis
    using channel_get_refused [of "\<lparr>send_key = b, recv_key = k, send_counter = 0, recv_counter = 1\<rparr>" "ascii ''first message''" rand a] assms ab(1)
    by (intro exI [of _ a] exI [of _ k]) (simp add: test_channel_replay_fails_def ab(2) Let_def)
qed

lemma wrong_direction_test:
  assumes "length rand = NONCE_SIZE"
  shows "\<exists>key other. test_channel_wrong_direction_fails rand \<longleftrightarrow>
    (let ct = chacha20_xor key rand (ascii ''from alice'') in mac_tag other rand [] ct \<noteq> mac_tag key rand [] ct)"
proof -
  obtain a b where ab: "length a = 32" "length b = 32" "\<forall>f. create_channel_pair f = f (fresh_channel a b) (fresh_channel b a)"
    using channel_pair_keys by blast
  obtain k where "ratchet_key hkdf_expand a = Inr k" using hkdf_sha.ratchet_key_ok by blast
  then have "channel_put rand (ascii ''from alice'') (fresh_channel a b) =
      (Inr (sealed a rand (ascii ''from alice'')), \<lparr>send_key = k, recv_key = b, send_counter = 1, recv_counter = 0\<rparr>)"
    using channel_put_ok [of "fresh_channel a b" "ascii ''from alice''" k rand] ab(1) by simp
  then show ?thesis
    using channel_get_refused [of "\<lparr>send_key = k, recv_key = b, send_counter = 1, recv_counter = 0\<rparr>" "ascii ''from alice''" rand a] assms ab(1,2)
    by (intro exI [of _ a] exI [of _ b]) (simp add: test_channel_wrong_direction_fails_def ab(3) Let_def)
qed

text \<open>The debug text of a channel does not depend on its keys.\<close>

lemma debug_hides_keys: "debug_channel (ch\<lparr>send_key := a, recv_key := b\<rparr>) = debug_channel ch"
  by (simp add: debug_channel_def messages_remaining_def)

lemma channel_debug_passes: test_channel_debug_redacts_keys
proof -
  have "contains (debug_channel ch) ''[REDACTED]''" for ch
    unfolding debug_channel_def by (intro contains_here contains_later)
  then show ?thesis using channel_pair_keys by (auto simp: test_channel_debug_redacts_keys_def)
qed

end
