(* ===== verification/Noise_Tests.thy ===== *)
theory Noise_Tests
  imports Test_Kit Noise_Spec
begin

text \<open>
  The unit tests of \<^verbatim>\<open>noise.rs\<close>, under the contract of the \<^verbatim>\<open>snow\<close> crate. The draws are the static and the ephemeral keys of the two sides.\<close>

definition read_then :: "('hs, 'ts) snow \<Rightarrow> 'hs NoiseHandshake \<Rightarrow> 'hs NoiseHandshake \<Rightarrow> ('hs NoiseHandshake \<Rightarrow> 'hs NoiseHandshake \<Rightarrow> bool) \<Rightarrow> bool" where
  "read_then sn sender reader f =
     (case write_message sn [] sender of (r, sender) \<Rightarrow> ok_then r (\<lambda>msg.
        case read_message sn msg reader of (r, reader) \<Rightarrow> ok_then r (\<lambda>_. f sender reader)))"

definition three_messages :: "('hs, 'ts) snow \<Rightarrow> 'hs NoiseHandshake \<Rightarrow> 'hs NoiseHandshake \<Rightarrow> ('hs NoiseHandshake \<Rightarrow> 'hs NoiseHandshake \<Rightarrow> bool) \<Rightarrow> bool" where
  "three_messages sn initiator responder f =
     read_then sn initiator responder (\<lambda>initiator responder.
       read_then sn responder initiator (\<lambda>responder initiator.
         read_then sn initiator responder (\<lambda>initiator responder.
           is_finished sn initiator \<and> is_finished sn responder \<and> f initiator responder)))"

definition do_handshake ::
  "('hs, 'ts) snow \<Rightarrow> bytes \<times> bytes \<times> bytes \<times> bytes \<Rightarrow> ('ts NoiseTransport \<Rightarrow> 'ts NoiseTransport \<Rightarrow> bool) \<Rightarrow> bool" where
  "do_handshake sn draws f =
     (case draws of (ki, ei, kr, er) \<Rightarrow>
        ok_then (handshake_new sn ki ei Initiator) (\<lambda>initiator. ok_then (handshake_new sn kr er Responder) (\<lambda>responder.
          three_messages sn initiator responder (\<lambda>initiator responder.
            returns_then (into_transport sn initiator) (\<lambda>i. ok_then i (\<lambda>i.
              returns_then (into_transport sn responder) (\<lambda>r. ok_then r (f i))))))))"

definition noise_pass ::
  "('hs, 'ts) snow \<Rightarrow> bytes \<Rightarrow> 'ts NoiseTransport \<Rightarrow> 'ts NoiseTransport \<Rightarrow> ('ts NoiseTransport \<Rightarrow> 'ts NoiseTransport \<Rightarrow> bool) \<Rightarrow> bool" where
  "noise_pass sn msg from to f =
     (case noise_encrypt sn msg from of (r, from) \<Rightarrow> ok_then r (\<lambda>ct.
        case noise_decrypt sn ct to of (r, to) \<Rightarrow> ok_then r (\<lambda>pt. pt = msg \<and> f from to)))"

definition test_noise_handshake_completes :: "('hs, 'ts) snow \<Rightarrow> bytes \<times> bytes \<times> bytes \<times> bytes \<Rightarrow> bool" where
  "test_noise_handshake_completes sn draws \<longleftrightarrow>
     do_handshake sn draws (\<lambda>i r. remote_static_key i \<noteq> None \<and> remote_static_key r \<noteq> None)"

definition test_noise_encrypt_decrypt :: "('hs, 'ts) snow \<Rightarrow> bytes \<times> bytes \<times> bytes \<times> bytes \<Rightarrow> bool" where
  "test_noise_encrypt_decrypt sn draws \<longleftrightarrow>
     do_handshake sn draws (\<lambda>i r. noise_pass sn (ascii ''hello from initiator'') i r
       (\<lambda>i r. noise_pass sn (ascii ''hello from responder'') r i (\<lambda>_ _. True)))"

fun noise_rounds :: "('hs, 'ts) snow \<Rightarrow> nat list \<Rightarrow> 'ts NoiseTransport \<Rightarrow> 'ts NoiseTransport \<Rightarrow> bool" where
  "noise_rounds sn [] i r \<longleftrightarrow> True"
| "noise_rounds sn (n # ns) i r \<longleftrightarrow> noise_pass sn (ascii (''message '' @ show_nat n)) i r (noise_rounds sn ns)"

definition test_noise_bidirectional_multiple_messages :: "('hs, 'ts) snow \<Rightarrow> bytes \<times> bytes \<times> bytes \<times> bytes \<Rightarrow> bool" where
  "test_noise_bidirectional_multiple_messages sn draws \<longleftrightarrow> do_handshake sn draws (noise_rounds sn [0..<10])"

definition test_into_transport_before_complete_fails :: "('hs, 'ts) snow \<Rightarrow> bytes \<Rightarrow> bytes \<Rightarrow> bool" where
  "test_into_transport_before_complete_fails sn k e \<longleftrightarrow>
     ok_then (handshake_new sn k e Initiator) (\<lambda>h. \<not> is_finished sn h \<and>
       returns_then (into_transport sn h) is_err)"

definition test_with_keypair :: "('hs, 'ts) snow \<Rightarrow> bytes \<Rightarrow> bytes \<Rightarrow> bytes \<Rightarrow> bool" where
  "test_with_keypair sn ei kr er \<longleftrightarrow>
     ok_then (with_keypair sn ei Initiator (replicate 32 42)) (\<lambda>init. ok_then (handshake_new sn kr er Responder) (\<lambda>resp.
       three_messages sn init resp (\<lambda>_ _. True)))"

context snow_xx
begin

lemma handshake_runs:
  assumes "list_all (\<lambda>k. length k = 32) [ki, ei, kr, er]"
  shows "\<exists>i r i3 r3 ti tr. handshake_new sn ki ei Initiator = Inr i \<and> handshake_new sn kr er Responder = Inr r \<and>
    \<not> is_finished sn i \<and> (\<forall>f. three_messages sn i r f \<longleftrightarrow> f i3 r3) \<and>
    into_transport sn i3 = Returned (Inr ti) \<and> into_transport sn r3 = Returned (Inr tr) \<and> linked tx rx ti tr \<and>
    remote_static_key ti = Some (pub kr) \<and> remote_static_key tr = Some (pub ki) \<and>
    left (tx (ts_state ti)) = 2 ^ 64 - 1 \<and> left (tx (ts_state tr)) = 2 ^ 64 - 1"
proof -
  obtain params where params: "sn_parse sn NOISE_PATTERN = Inr params" using pattern_ok by blast
  have "list_all (\<lambda>p. length p \<le> max_payload) [[], [], [] :: bytes]" by simp
  from exchange [OF params assms this] obtain i0 r0 m1 i1 r1 m2 r2 i2 m3 i3 r3 ti tr where
    x: "sn_build sn params Initiator ki ei = Inr i0" "\<not> sn_finished sn i0" "sn_build sn params Responder kr er = Inr r0"
      "sn_write sn [] i0 = (Inr m1, i1)" "sn_read sn m1 r0 = (Inr [], r1)" "sn_write sn [] r1 = (Inr m2, r2)"
      "sn_read sn m2 i1 = (Inr [], i2)" "sn_write sn [] i2 = (Inr m3, i3)" "sn_finished sn i3"
      "sn_read sn m3 r2 = (Inr [], r3)" "sn_finished sn r3" "sn_transport sn i3 = Inr ti" "sn_remote_static sn i3 = Some (pub kr)"
      "sn_transport sn r3 = Inr tr" "sn_remote_static sn r3 = Some (pub ki)" "tx ti = rx tr" "tx tr = rx ti"
      "left (tx ti) = 2 ^ 64 - 1" "left (tx tr) = 2 ^ 64 - 1" by blast
  show ?thesis
    by (intro exI [of _ "\<lparr>hs_state = i0, hs_role = Initiator\<rparr>"] exI [of _ "\<lparr>hs_state = r0, hs_role = Responder\<rparr>"]
        exI [of _ "\<lparr>hs_state = i3, hs_role = Initiator\<rparr>"] exI [of _ "\<lparr>hs_state = r3, hs_role = Responder\<rparr>"]
        exI [of _ "\<lparr>ts_state = ti, remote_static = Some (pub kr)\<rparr>"] exI [of _ "\<lparr>ts_state = tr, remote_static = Some (pub ki)\<rparr>"])
      (use x params assms pub_length in \<open>simp add: handshake_new_def with_keypair_def three_messages_def read_then_def
         write_message_def read_message_def is_finished_def into_transport_def linked_def remote_static_key_def\<close>)
qed

lemma noise_passes:
  assumes "linked tx rx a b" "length p \<le> 65519" "0 < left (tx (ts_state a))"
  shows "\<exists>a' b'. linked tx rx a' b' \<and> left (tx (ts_state a')) = left (tx (ts_state a)) - 1 \<and> tx (ts_state b') = tx (ts_state b) \<and>
    (\<forall>f. noise_pass sn p a b f \<longleftrightarrow> f a' b')"
proof -
  obtain c a' b' where "noise_encrypt sn p a = (Inr c, a')" "noise_decrypt sn c b = (Inr p, b')" "linked tx rx a' b'"
    "left (tx (ts_state a')) = left (tx (ts_state a)) - 1" "tx (ts_state b') = tx (ts_state b)" using transfer [OF assms] by blast
  then show ?thesis by (intro exI [of _ a'] exI [of _ b']) (simp add: noise_pass_def)
qed

lemma noise_rounds_hold:
  assumes "linked tx rx a b" "length ns \<le> left (tx (ts_state a))" "\<forall>n \<in> set ns. n < 1000"
  shows "noise_rounds sn ns a b"
  using assms
proof (induction ns arbitrary: a b)
  case (Cons n ns)
  have "length (ascii (''message '' @ show_nat n)) \<le> 65519" using show_nat_small [of n] Cons.prems(3) by (simp add: ascii_def)
  then obtain a' b' where "linked tx rx a' b'" "left (tx (ts_state a')) = left (tx (ts_state a)) - 1"
    "\<forall>f. noise_pass sn (ascii (''message '' @ show_nat n)) a b f \<longleftrightarrow> f a' b'"
    using noise_passes [of a b "ascii (''message '' @ show_nat n)"] Cons.prems by auto
  moreover from this Cons.prems have "noise_rounds sn ns a' b'" by (intro Cons.IH) auto
  ultimately show ?case by simp
qed simp

lemma noise_tests:
  assumes "list_all (\<lambda>k. length k = 32) [ki, ei, kr, er]"
  shows "test_noise_handshake_completes sn (ki, ei, kr, er)" "test_noise_encrypt_decrypt sn (ki, ei, kr, er)"
    "test_noise_bidirectional_multiple_messages sn (ki, ei, kr, er)" "test_into_transport_before_complete_fails sn ki ei"
proof -
  obtain i r i3 r3 ti tr where x: "handshake_new sn ki ei Initiator = Inr i" "handshake_new sn kr er Responder = Inr r"
    "\<not> is_finished sn i" "\<forall>f. three_messages sn i r f \<longleftrightarrow> f i3 r3"
    "into_transport sn i3 = Returned (Inr ti)" "into_transport sn r3 = Returned (Inr tr)" "linked tx rx ti tr"
    "remote_static_key ti = Some (pub kr)" "remote_static_key tr = Some (pub ki)"
    "left (tx (ts_state ti)) = 2 ^ 64 - 1" "left (tx (ts_state tr)) = 2 ^ 64 - 1"
    using handshake_runs [OF assms] by (elim exE conjE) (rule that; assumption)
  have shake: "do_handshake sn (ki, ei, kr, er) f \<longleftrightarrow> f ti tr" for f by (simp add: do_handshake_def x)
  show "test_noise_handshake_completes sn (ki, ei, kr, er)" by (simp add: test_noise_handshake_completes_def shake x)
  show "test_noise_bidirectional_multiple_messages sn (ki, ei, kr, er)"
    unfolding test_noise_bidirectional_multiple_messages_def shake by (rule noise_rounds_hold [OF x(7)]) (simp_all add: x(10))
  show "test_into_transport_before_complete_fails sn ki ei"
    using x(3) by (simp add: test_into_transport_before_complete_fails_def x(1) into_transport_def is_finished_def is_err_def)
  have "length (ascii ''hello from initiator'') \<le> 65519" "length (ascii ''hello from responder'') \<le> 65519" by (simp_all add: ascii_def)
  note sizes = this
  have "0 < left (tx (ts_state ti))" by (simp add: x(10))
  from noise_passes [OF x(7) sizes(1) this] obtain a b where ab: "linked tx rx a b" "tx (ts_state b) = tx (ts_state tr)"
    "\<forall>f. noise_pass sn (ascii ''hello from initiator'') ti tr f \<longleftrightarrow> f a b" by (elim exE conjE) (rule that; assumption)
  have "0 < left (tx (ts_state b))" by (simp add: ab(2) x(11))
  from noise_passes [OF linked_sym [OF ab(1)] sizes(2) this]
  show "test_noise_encrypt_decrypt sn (ki, ei, kr, er)"
    by (elim exE conjE) (simp only: test_noise_encrypt_decrypt_def shake ab(3) simp_thms)
qed

lemma keypair_test:
  assumes "list_all (\<lambda>k. length k = 32) [ei, kr, er]"
  shows "test_with_keypair sn ei kr er"
proof -
  have "list_all (\<lambda>k. length k = 32) [replicate 32 42, ei, kr, er]" using assms by simp
  from handshake_runs [OF this] show ?thesis
    by (elim exE conjE) (simp add: test_with_keypair_def handshake_new_def)
qed

end

end
