(* ===== verification/Identity_Tests.thy ===== *)
theory Identity_Tests
  imports Test_Kit Key_Store Discovery
begin

text \<open>
  The unit tests of \<^verbatim>\<open>omnimesh-identity\<close> (\<^verbatim>\<open>keypair.rs\<close>, \<^verbatim>\<open>peer_id.rs\<close>, \<^verbatim>\<open>virtual_ip.rs\<close>, \<^verbatim>\<open>keystore.rs\<close>) and of
  \<^verbatim>\<open>omnimesh-discovery\<close> (\<^verbatim>\<open>key_conv.rs\<close>, \<^verbatim>\<open>cache.rs\<close>). What they rely on in \<^verbatim>\<open>ed25519-dalek\<close> is \<open>ed25519_ok\<close>; a test that
  expects a refusal passes exactly when the library refuses.
\<close>

section \<open>Key pairs\<close>

definition ed25519_ok :: "ed25519 \<Rightarrow> bool" where
  "ed25519_ok ed \<longleftrightarrow> (\<forall>s. length s = 32 \<longrightarrow> length (dalek_public ed s) = 32 \<and> dalek_point ed (dalek_public ed s) = Inr () \<and>
     (\<forall>m. dalek_verify ed (dalek_public ed s) m (dalek_sign ed s m) = Inr ()))"

lemma ed25519_ok_possible: "ed25519_ok \<lparr>dalek_public = id, dalek_sign = (\<lambda>_ m. m), dalek_point = (\<lambda>_. Inr ()), dalek_verify = (\<lambda>_ _ _. Inr ())\<rparr>"
  by (simp add: ed25519_ok_def)

definition test_keypair_generation :: "ed25519 \<Rightarrow> bytes \<Rightarrow> bool" where
  "test_keypair_generation ed rand \<longleftrightarrow> length (public_key_as_bytes (public_key ed (generate rand))) = 32"

definition test_sign_and_verify :: "ed25519 \<Rightarrow> bytes \<Rightarrow> bool" where
  "test_sign_and_verify ed rand \<longleftrightarrow>
     (let kp = generate rand; message = ascii ''hello omnimesh''; sig = sign ed kp message
      in is_ok (keypair_verify ed kp message sig) \<and> is_err (keypair_verify ed kp (ascii ''wrong message'') sig))"

definition test_cross_keypair_verify_fails :: "ed25519 \<Rightarrow> bytes \<Rightarrow> bytes \<Rightarrow> bool" where
  "test_cross_keypair_verify_fails ed rand1 rand2 \<longleftrightarrow>
     (let kp1 = generate rand1; kp2 = generate rand2; message = ascii ''test''; sig = sign ed kp1 message
      in is_err (public_key_verify ed (public_key ed kp2) message sig))"

definition test_keypair_from_seed_deterministic :: "ed25519 \<Rightarrow> bool" where
  "test_keypair_from_seed_deterministic ed \<longleftrightarrow>
     (let seed = replicate 32 42; kp1 = from_seed seed; kp2 = from_seed seed; message = ascii ''deterministic test''
      in public_key ed kp1 = public_key ed kp2 \<and> sign ed kp1 message = sign ed kp2 message)"

definition test_keypair_debug_redacts_secret :: "(bytes \<Rightarrow> string) \<Rightarrow> ed25519 \<Rightarrow> bytes \<Rightarrow> bool" where
  "test_keypair_debug_redacts_secret hex_encode ed rand \<longleftrightarrow>
     (let kp = generate rand; debug = debug_keypair ed kp
      in contains debug ''[REDACTED]'' \<and> \<not> contains debug (hex_encode (seed kp)))"

definition test_public_key_hex_roundtrip :: "(bytes \<Rightarrow> string) \<Rightarrow> ed25519 \<Rightarrow> bytes \<Rightarrow> bool" where
  "test_public_key_hex_roundtrip hex_encode ed rand \<longleftrightarrow> length (public_key_to_hex hex_encode (public_key ed (generate rand))) = 64"

lemma keypair_tests_pass:
  assumes "ed25519_ok ed" "length rand = 32"
  shows "test_keypair_generation ed rand" "test_keypair_from_seed_deterministic ed"
    "test_public_key_hex_roundtrip lower_hex ed rand"
  using assms
  by (simp_all add: test_keypair_generation_def test_keypair_from_seed_deterministic_def test_public_key_hex_roundtrip_def
      public_key_as_bytes_def public_key_def generate_def ed25519_ok_def public_key_to_hex_def length_lower_hex)

lemma signature_tests:
  assumes "ed25519_ok ed" "length rand = 32" "length rand2 = 32"
  shows "test_sign_and_verify ed rand \<longleftrightarrow>
      is_err (dalek_verify ed (dalek_public ed rand) (ascii ''wrong message'') (dalek_sign ed rand (ascii ''hello omnimesh'')))"
    and "test_cross_keypair_verify_fails ed rand rand2 \<longleftrightarrow>
      is_err (dalek_verify ed (dalek_public ed rand2) (ascii ''test'') (dalek_sign ed rand (ascii ''test'')))"
  using assms
  by (simp_all add: test_sign_and_verify_def test_cross_keypair_verify_fails_def keypair_verify_def public_key_verify_def
      public_key_def sign_def generate_def ed25519_ok_def Let_def split: sum.splits)

text \<open>The debug form of a key pair consists of short words, and the hexadecimal seed is one long word, so it is not in it.\<close>

lemma contains_word: "CHR '' '' \<notin> set p \<Longrightarrow> contains (a @ CHR '' '' # b) p \<Longrightarrow> contains a p \<or> contains b p"
  unfolding contains_def sublist_append sublist_Cons_right by (auto simp: prefix_def suffix_def Cons_eq_append_conv append_eq_Cons_conv)

lemma short_words:
  assumes "CHR '' '' \<notin> set p" "20 < length p" "\<And>w. length w \<le> 10 \<Longrightarrow> \<not> contains (w @ v) p"
  shows "\<forall>x \<in> set xs. length x \<le> 3 \<Longrightarrow> length u \<le> 7 \<Longrightarrow> \<not> contains (u @ commas xs @ v) p"
proof (induction xs arbitrary: u rule: commas.induct)
  case (3 x y ys)
  have "\<not> contains (u @ x @ '','') p" using 3 assms(2) by (auto simp: contains_def dest!: sublist_length_le)
  moreover have "\<not> contains (commas (y # ys) @ v) p" using "3.IH" [of "[]"] "3.prems"(1) by simp
  ultimately show ?case using contains_word [OF assms(1), of "u @ x @ '',''" "commas (y # ys) @ v"] by auto
qed (use assms(3) in \<open>auto simp flip: append_assoc\<close>)

lemma octet_digits: "length (show_nat (unat (b :: u8))) \<le> 3"
proof -
  have "unat b < 256" using unsigned_less [of b] by simp
  then show ?thesis by (subst show_nat.simps, subst show_nat.simps, subst show_nat.simps) auto
qed

lemma not_in_word: "length s < length p \<Longrightarrow> \<not> contains s p"
  by (auto simp: contains_def dest!: sublist_length_le)

lemma debug_without_secret:
  assumes "CHR '' '' \<notin> set p" "length p = 64"
  shows "\<not> contains (debug_keypair ed kp) p"
proof -
  note word = contains_word [OF assms(1)]
  let ?bytes = "commas (map (\<lambda>b. show_nat (unat b)) (pk_bytes (public_key ed kp)))"
  have quoted: "\<not> contains ([CHR 0x22] @ ''[REDACTED]'' @ [CHR 0x22] @ '' }'') p" by (rule not_in_word) (simp add: assms(2))
  have tail: "\<not> contains (w @ ''] }, secret: '' @ [CHR 0x22] @ ''[REDACTED]'' @ [CHR 0x22] @ '' }'') p" if "length w \<le> 10" for w
    using word [of "w @ '']''" "''}, secret: '' @ [CHR 0x22] @ ''[REDACTED]'' @ [CHR 0x22] @ '' }''"]
      not_in_word [of "w @ '']''" p] not_in_word [of "''}, secret: '' @ [CHR 0x22] @ ''[REDACTED]'' @ [CHR 0x22] @ '' }''" p] that assms(2)
    by auto
  have "\<not> contains (''['' @ ?bytes @ ''] }, secret: '' @ [CHR 0x22] @ ''[REDACTED]'' @ [CHR 0x22] @ '' }'') p"
    using short_words [OF assms(1) _ tail, of "map (\<lambda>b. show_nat (unat b)) (pk_bytes (public_key ed kp))" "''[''"] assms(2) octet_digits
    by auto
  then show ?thesis
    using word [of "''Keypair { public_key: PublicKey { bytes:''" "''['' @ ?bytes @ ''] }, secret: '' @ [CHR 0x22] @ ''[REDACTED]'' @ [CHR 0x22] @ '' }''"]
      not_in_word [of "''Keypair { public_key: PublicKey { bytes:''" p] assms(2)
    by (auto simp: debug_keypair_def debug_public_key_def)
qed

lemma lower_hex_words: "CHR '' '' \<notin> set (lower_hex bs)"
proof (induction bs)
  case (Cons b bs)
  have "unat b < 256" using unsigned_less [of b] by simp
  then have "hex_value (hex_digit (unat b div 16)) \<noteq> None" "hex_value (hex_digit (unat b mod 16)) \<noteq> None"
    by (simp_all add: hex_value_digit)
  then have "hex_digit (unat b div 16) \<noteq> CHR '' ''" "hex_digit (unat b mod 16) \<noteq> CHR '' ''" by (auto simp: hex_value_def Let_def)
  with Cons show ?case by auto
qed simp

lemma debug_secret_test: "length rand = 32 \<Longrightarrow> test_keypair_debug_redacts_secret lower_hex ed rand"
proof -
  have "contains (debug_keypair ed kp) ''[REDACTED]''" for kp
    unfolding debug_keypair_def by (intro contains_here contains_later)
  moreover assume "length rand = 32"
  ultimately show ?thesis using debug_without_secret [OF lower_hex_words, of rand]
    by (simp add: test_keypair_debug_redacts_secret_def seed_def generate_def length_lower_hex)
qed

section \<open>Peer identifiers\<close>

definition test_peer_id_from_keypair :: "ed25519 \<Rightarrow> bytes \<Rightarrow> bool" where
  "test_peer_id_from_keypair ed rand \<longleftrightarrow> length (as_bytes (keypair_to_peer_id ed (generate rand))) = 32"

definition test_peer_id_deterministic :: "ed25519 \<Rightarrow> bool" where
  "test_peer_id_deterministic ed \<longleftrightarrow>
     (let seed = replicate 32 99; kp1 = from_seed seed; kp2 = from_seed seed in keypair_to_peer_id ed kp1 = keypair_to_peer_id ed kp2)"

definition test_peer_id_different_keys_different_ids :: "ed25519 \<Rightarrow> bytes \<Rightarrow> bytes \<Rightarrow> bool" where
  "test_peer_id_different_keys_different_ids ed rand1 rand2 \<longleftrightarrow>
     keypair_to_peer_id ed (generate rand1) \<noteq> keypair_to_peer_id ed (generate rand2)"

definition test_peer_id_from_public_key_matches :: "ed25519 \<Rightarrow> bytes \<Rightarrow> bool" where
  "test_peer_id_from_public_key_matches ed rand \<longleftrightarrow>
     (let pk = public_key ed (generate rand) in public_key_to_peer_id pk = peer_id_from_public_key_bytes (public_key_as_bytes pk))"

definition test_peer_id_is_raw_key :: "ed25519 \<Rightarrow> bytes \<Rightarrow> bool" where
  "test_peer_id_is_raw_key ed rand \<longleftrightarrow>
     (let pk = public_key ed (generate rand) in as_bytes (public_key_to_peer_id pk) = public_key_as_bytes pk)"

lemmas id_test_defs = test_peer_id_from_keypair_def test_peer_id_deterministic_def test_peer_id_different_keys_different_ids_def
  test_peer_id_from_public_key_matches_def test_peer_id_is_raw_key_def keypair_to_peer_id_def public_key_to_peer_id_def
  peer_id_from_public_key_bytes_def public_key_as_bytes_def public_key_def generate_def from_seed_def from_bytes_def Let_def

lemma peer_id_tests_pass:
  assumes "ed25519_ok ed" "length rand = 32"
  shows "test_peer_id_from_keypair ed rand" "test_peer_id_deterministic ed" "test_peer_id_from_public_key_matches ed rand"
    "test_peer_id_is_raw_key ed rand"
    and "test_peer_id_different_keys_different_ids ed rand rand2 \<longleftrightarrow> dalek_public ed rand \<noteq> dalek_public ed rand2"
  using assms by (simp_all add: id_test_defs ed25519_ok_def)

section \<open>Virtual addresses\<close>

definition test_virtual_ip_from_peer_id :: bool where
  "test_virtual_ip_from_peer_id \<longleftrightarrow>
     (let octets = vip_addr (from_peer_id (from_bytes (replicate 32 0xAA)))
      in octets ! 0 = 0xfd \<and> octets ! 1 = 0x4f \<and> octets ! 2 = 0x4d \<and> octets ! 3 = 0x00 \<and> octets ! 4 = 0xAA)"

definition test_virtual_ip_deterministic :: bool where
  "test_virtual_ip_deterministic \<longleftrightarrow>
     (let peer_id = from_bytes (replicate 32 42); vip1 = from_peer_id peer_id; vip2 = from_peer_id peer_id in vip1 = vip2)"

definition test_virtual_ip_unique_per_peer :: bool where
  "test_virtual_ip_unique_per_peer \<longleftrightarrow> from_peer_id (from_bytes (replicate 32 1)) \<noteq> from_peer_id (from_bytes (replicate 32 2))"

definition test_is_omnimesh_address :: bool where
  "test_is_omnimesh_address \<longleftrightarrow>
     is_omnimesh_address (vip_addr (from_peer_id (from_bytes (replicate 32 0xFF)))) \<and>
     some_then (read_ipv6 ''2001:db8::1'') (\<lambda>(groups, rest). rest = [] \<and> \<not> is_omnimesh_address (group_octets groups))"

definition test_virtual_ip_display :: bool where
  "test_virtual_ip_display \<longleftrightarrow> take 10 (show_v6 (vip_addr (from_peer_id (from_bytes (replicate 32 0))))) = ''fd4f:4d00:''"

lemma virtual_ip_tests_pass:
  test_virtual_ip_from_peer_id test_virtual_ip_deterministic test_virtual_ip_unique_per_peer
  by (simp_all add: test_virtual_ip_from_peer_id_def test_virtual_ip_deterministic_def test_virtual_ip_unique_per_peer_def
      from_peer_id_def from_bytes_def ULA_PREFIX_def as_bytes_def numeral_eq_Suc)

lemma virtual_ip_display_passes: test_virtual_ip_display
proof -
  have octets: "vip_addr (from_peer_id (from_bytes (replicate 32 0))) = [0xfd, 0x4f, 0x4d, 0, 0, 0, 0, 0, 0, 0, 0, 0, 0, 0, 0, 0]"
    by (simp add: from_peer_id_def from_bytes_def ULA_PREFIX_def numeral_eq_Suc)
  have "show_hex 64847 = ''fd4f''" "show_hex 19712 = ''4d00''" by (simp_all add: show_hex.simps hex_digit_def char_of_def bit_0)
  then show ?thesis by (simp add: test_virtual_ip_display_def octets show_v6_def Let_def)
qed

lemmas read_numerals = read_groups.simps(2) [of "pred_numeral v" for v, folded numeral_eq_Suc]
  read_octets.simps(2) [of "pred_numeral v" for v, folded numeral_eq_Suc]

lemma read_non_mesh: "read_ipv6 ''2001:db8::1'' = Some ([8193, 3512, 0, 0, 0, 0, 0, 1], [])"
proof -
  have "to_digit 16 CHR ''0'' = Some 0" "to_digit 16 CHR ''1'' = Some 1" "to_digit 16 CHR ''2'' = Some 2" "to_digit 16 CHR ''8'' = Some 8"
    "to_digit 16 CHR ''b'' = Some 11" "to_digit 16 CHR ''d'' = Some 13" "to_digit 16 CHR '':'' = None" "to_digit 10 CHR ''0'' = Some 0"
    "to_digit 10 CHR ''1'' = Some 1" "to_digit 10 CHR ''2'' = Some 2" "to_digit 10 CHR ''d'' = None" "to_digit 10 CHR '':'' = None"
    by (simp_all add: to_digit_def hex_value_def Let_def)
  moreover have "replicate 5 (0 :: nat) = [0, 0, 0, 0, 0]" by (simp add: numeral_eq_Suc)
  ultimately show ?thesis
    by (simp add: read_ipv6_def read_numerals read_ipv4_def read_separator_def read_number_def digits_value_def)
qed

lemma is_omnimesh_address_passes: test_is_omnimesh_address
  by (simp add: test_is_omnimesh_address_def read_non_mesh from_peer_id_def ULA_PREFIX_def is_omnimesh_address_def
      group_octets_def octet_def)

section \<open>The key store\<close>

text \<open>The file system starts empty; \<open>dir\<close> is the temporary directory.\<close>

definition test_store :: "string \<Rightarrow> path" where
  "test_store dir = dir @ ''/test.key''"

text \<open>\<^verbatim>\<open>store.store(&kp, passphrase).unwrap()\<close> with a fresh key pair, and what follows.\<close>

definition stored :: "json_codec \<Rightarrow> store_io \<Rightarrow> bytes \<times> bytes \<times> bytes \<Rightarrow> string \<Rightarrow> path \<Rightarrow> string \<Rightarrow> (Keypair \<Rightarrow> files \<Rightarrow> bool) \<Rightarrow> bool" where
  "stored json io draws now path passphrase f =
     (case draws of (rand, salt, nonce) \<Rightarrow>
        (let kp = generate rand in
         case store chapoly_seal hkdf_expand json io salt nonce now path kp passphrase Map.empty of (r, fs) \<Rightarrow>
           returns_then r (\<lambda>r. ok_then r (\<lambda>_. f kp fs))))"

abbreviation load_stored :: "json_codec \<Rightarrow> string \<Rightarrow> path \<Rightarrow> string \<Rightarrow> files \<Rightarrow> Keypair outcome" where
  "load_stored \<equiv> keystore_load chapoly_open hkdf_expand"

definition test_store_and_load :: "ed25519 \<Rightarrow> json_codec \<Rightarrow> store_io \<Rightarrow> bytes \<times> bytes \<times> bytes \<Rightarrow> string \<Rightarrow> string \<Rightarrow> string \<Rightarrow> bool" where
  "test_store_and_load ed json io draws now read_fault dir \<longleftrightarrow>
     (let path = test_store dir; passphrase = ''test-passphrase-123'' in
      stored json io draws now path passphrase (\<lambda>kp fs. keystore_exists path fs \<and>
        returns_then (load_stored json read_fault path passphrase fs) (\<lambda>r. ok_then r (\<lambda>loaded.
          keypair_to_peer_id ed loaded = keypair_to_peer_id ed kp))))"

definition test_wrong_passphrase_fails :: "json_codec \<Rightarrow> store_io \<Rightarrow> bytes \<times> bytes \<times> bytes \<Rightarrow> string \<Rightarrow> string \<Rightarrow> string \<Rightarrow> bool" where
  "test_wrong_passphrase_fails json io draws now read_fault dir \<longleftrightarrow>
     (let path = test_store dir in
      stored json io draws now path ''correct-passphrase'' (\<lambda>kp fs.
        returns_then (load_stored json read_fault path ''wrong-passphrase'' fs) is_err))"

definition test_nonexistent_file :: "json_codec \<Rightarrow> string \<Rightarrow> string \<Rightarrow> bool" where
  "test_nonexistent_file json read_fault dir \<longleftrightarrow>
     (let path = test_store dir; fs = Map.empty in
      \<not> keystore_exists path fs \<and> returns_then (load_stored json read_fault path ''any'' fs) is_err)"

definition test_delete :: "json_codec \<Rightarrow> store_io \<Rightarrow> bytes \<times> bytes \<times> bytes \<Rightarrow> string \<Rightarrow> string \<Rightarrow> bool \<Rightarrow> string option \<Rightarrow> bool" where
  "test_delete json io draws now dir overwrite_ok remove_fault \<longleftrightarrow>
     (let path = test_store dir in
      stored json io draws now path ''pass'' (\<lambda>kp fs. keystore_exists path fs \<and>
        (case delete overwrite_ok remove_fault path fs of (r, fs) \<Rightarrow> ok_then r (\<lambda>_. \<not> keystore_exists path fs))))"

definition test_store_creates_parent_dirs :: "json_codec \<Rightarrow> store_io \<Rightarrow> bytes \<times> bytes \<times> bytes \<Rightarrow> string \<Rightarrow> string \<Rightarrow> bool" where
  "test_store_creates_parent_dirs json io draws now dir \<longleftrightarrow>
     (let path = dir @ ''/deep/nested/key.json'' in
      stored json io draws now path ''pass'' (\<lambda>kp fs. keystore_exists path fs))"

definition test_different_salts_produce_different_keys :: bool where
  "test_different_salts_produce_different_keys \<longleftrightarrow>
     some_then (keystore_derive_key hkdf_expand ''same-pass'' (replicate 32 1)) (\<lambda>key1.
       some_then (keystore_derive_key hkdf_expand ''same-pass'' (replicate 32 2)) (\<lambda>key2. key1 \<noteq> key2))"

definition json_total :: "json_codec \<Rightarrow> bool" where
  "json_total json \<longleftrightarrow> (\<forall>r. \<exists>text. json_write json r = Inr text)"

text \<open>A store on a working disk succeeds and leaves the encrypted key in the file.\<close>

lemma stored_ok:
  assumes "json_total json" "length rand = 32" "keystore_derive_key hkdf_expand passphrase salt = Some key"
  shows "\<exists>content fs. json_write json \<lparr>ek_version = 1, ek_nonce = nonce,
      ek_ciphertext = chacha20_xor key nonce rand @ mac_tag key nonce [] (chacha20_xor key nonce rand), ek_salt = salt, ek_created_at = now\<rparr> = Inr content \<and>
    fs path = Some content \<and>
    (\<forall>f. stored json no_faults (rand, salt, nonce) now path passphrase f \<longleftrightarrow> f (generate rand) fs)"
proof -
  let ?c = "chacha20_xor key nonce rand @ mac_tag key nonce [] (chacha20_xor key nonce rand)"
  have key: "cipher_init key = Inr ()"
    using real_channel.keystore_derive_ok [of passphrase salt] assms(3) by (auto simp: cipher_init_def)
  have c: "chapoly_seal key nonce (seed (generate rand)) = Inr ?c"
    using assms(2) by (simp add: chapoly_seal_def chapoly_seal_ad_def seed_def generate_def Let_def)
  obtain content where "json_write json \<lparr>ek_version = 1, ek_nonce = nonce, ek_ciphertext = ?c, ek_salt = salt, ek_created_at = now\<rparr> = Inr content"
    using assms(1) unfolding json_total_def by blast
  then show ?thesis using key c assms(3)
    by (intro exI [of _ content] exI [of _ "(Map.empty(with_extension path ''tmp'' := None))(path \<mapsto> content)"])
      (simp add: stored_def store_def no_faults_def Let_def)
qed

lemma keystore_tests_pass:
  assumes "json_total json" "json_faithful json" "length rand = 32"
  shows "test_store_and_load ed json no_faults (rand, salt, nonce) now read_fault dir" "test_nonexistent_file json read_fault dir"
    "test_delete json no_faults (rand, salt, nonce) now dir overwrite_ok None"
    "test_store_creates_parent_dirs json no_faults (rand, salt, nonce) now dir"
proof -
  show "test_nonexistent_file json read_fault dir"
    by (simp add: test_nonexistent_file_def keystore_exists_def keystore_load_def Let_def)
  obtain key where key: "keystore_derive_key hkdf_expand ''pass'' salt = Some key"
    using real_channel.keystore_derive_ok by blast
  note ok = stored_ok [OF assms(1,3) key, of nonce now]
  show "test_delete json no_faults (rand, salt, nonce) now dir overwrite_ok None"
    using ok [of "test_store dir"] by (elim exE conjE) (simp add: test_delete_def keystore_exists_def delete_def Let_def)
  show "test_store_creates_parent_dirs json no_faults (rand, salt, nonce) now dir"
    using ok [of "dir @ ''/deep/nested/key.json''"]
    by (elim exE conjE) (simp add: test_store_creates_parent_dirs_def keystore_exists_def Let_def)
  obtain key where key: "keystore_derive_key hkdf_expand ''test-passphrase-123'' salt = Some key" "length key = 32"
    using real_channel.keystore_derive_ok by blast
  show "test_store_and_load ed json no_faults (rand, salt, nonce) now read_fault dir"
    using stored_ok [OF assms(1,3) key(1), of nonce now "test_store dir"] key assms(2,3)
    by (elim exE conjE) (simp add: test_store_and_load_def keystore_exists_def keystore_load_def json_faithful_def cipher_init_def
        chapoly_open_def chapoly_open_ad_def chacha20_xor_twice from_seed_def generate_def Let_def)
qed

lemma wrong_passphrase_test:
  assumes "json_total json" "json_faithful json" "length rand = 32"
    and "keystore_derive_key hkdf_expand ''correct-passphrase'' salt = Some key" "keystore_derive_key hkdf_expand ''wrong-passphrase'' salt = Some wrong"
  shows "test_wrong_passphrase_fails json no_faults (rand, salt, nonce) now read_fault dir \<longleftrightarrow>
    (let ct = chacha20_xor key nonce rand in mac_tag wrong nonce [] ct \<noteq> mac_tag key nonce [] ct)"
proof -
  have "length wrong = 32" using real_channel.keystore_derive_ok [of "''wrong-passphrase''" salt] assms(5) by auto
  then show ?thesis
    using stored_ok [OF assms(1,3,4), of nonce now "test_store dir"] assms(2,3,5)
    by (elim exE conjE) (simp add: test_wrong_passphrase_fails_def keystore_load_def json_faithful_def cipher_init_def
        chapoly_open_def chapoly_open_ad_def Let_def)
qed

lemma salts_test:
  "test_different_salts_produce_different_keys \<longleftrightarrow>
     keystore_derive_key hkdf_expand ''same-pass'' (replicate 32 1) \<noteq> keystore_derive_key hkdf_expand ''same-pass'' (replicate 32 2)"
  using real_channel.keystore_derive_ok [of "''same-pass''" "replicate 32 1"] real_channel.keystore_derive_ok [of "''same-pass''" "replicate 32 2"]
  by (auto simp: test_different_salts_produce_different_keys_def)

section \<open>Discovery\<close>

text \<open>\<open>kp_public\<close> is the accessor of libp2p's key pairs.\<close>

definition test_key_conversions :: "libp2p_codec \<Rightarrow> (bytes \<Rightarrow> libp2p_key) \<Rightarrow> ed25519 \<Rightarrow> bytes \<Rightarrow> bool" where
  "test_key_conversions lib kp_public ed rand \<longleftrightarrow>
     (let kp = generate rand; peer_id = keypair_to_peer_id ed kp in
      ok_then (to_libp2p_keypair lib ed kp) (\<lambda>libp2p_kp.
        ok_then (to_libp2p_peer_id lib peer_id) (\<lambda>libp2p_peer_id.
          libp2p_peer_id = peer_id_of_key lib (kp_public libp2p_kp) \<and>
          ok_then (from_libp2p_peer_id lib libp2p_peer_id) (\<lambda>recovered. recovered = peer_id))))"

definition test_cache_expiration :: "instant \<Rightarrow> instant \<Rightarrow> instant \<Rightarrow> instant \<Rightarrow> bool" where
  "test_cache_expiration t1 t2 t3 t4 \<longleftrightarrow>
     (let peer_id = from_bytes (replicate 32 7) in
      some_then (parse_socket_addr ''127.0.0.1:1234'') (\<lambda>addr.
        let cache = insert_with_ttl t1 peer_id addr 0 cache_new in
        lookup t2 peer_id cache = [] \<and> lookup t4 peer_id (insert_with_ttl t3 peer_id addr (10 * 1000000000) cache) = [addr]))"

definition test_cache_deduplication :: "instant \<Rightarrow> instant \<Rightarrow> instant \<Rightarrow> bool" where
  "test_cache_deduplication t1 t2 t3 \<longleftrightarrow>
     (let peer_id = from_bytes (replicate 32 9) in
      some_then (parse_socket_addr ''127.0.0.1:1234'') (\<lambda>addr.
        length (lookup t3 peer_id (cache_insert t2 peer_id addr (cache_insert t1 peer_id addr cache_new))) = 1))"

lemma key_conversion_test:
  assumes "libp2p_identity lib" "ed25519_ok ed" "length rand = 32"
    and "ed_keypair_decode lib (rand @ dalek_public ed rand) = Inr k" "kp_public k = Ed25519Key (dalek_public ed rand)"
    and "ed_public_decode lib (dalek_public ed rand) = Inr (dalek_public ed rand)"
  shows "test_key_conversions lib kp_public ed rand"
proof -
  let ?p = "keypair_to_peer_id ed (generate rand)"
  have p: "as_bytes ?p = dalek_public ed rand"
    by (simp add: keypair_to_peer_id_def public_key_to_peer_id_def public_key_def generate_def from_bytes_def)
  then have "peer_wf ?p" using assms(2,3) by (simp add: peer_wf_def ed25519_ok_def)
  moreover have to: "to_libp2p_peer_id lib ?p = Inr (peer_id_of_key lib (Ed25519Key (dalek_public ed rand)))"
    using assms(6) p by (simp add: to_libp2p_peer_id_def)
  ultimately have "from_libp2p_peer_id lib (peer_id_of_key lib (Ed25519Key (dalek_public ed rand))) = Inr ?p"
    by (rule libp2p_identity.peer_id_round_trip [OF assms(1)])
  moreover have "to_libp2p_keypair lib ed (generate rand) = Inr k"
    using assms(4) by (simp add: to_libp2p_keypair_def seed_def generate_def public_key_def)
  ultimately show ?thesis using to assms(5) by (simp add: test_key_conversions_def Let_def)
qed

lemma cached_addr_parses: "parse_socket_addr ''127.0.0.1:1234'' = Some (SocketAddrV4 [127, 0, 0, 1] 1234)"
  using parse_show_v4 [of 127 0 0 1 1234] by (simp add: show_v4_def digits_shown)

lemma cache_tests_pass:
  "t1 \<le> t2 \<Longrightarrow> t4 < t3 + 10 * 1000000000 \<Longrightarrow> test_cache_expiration t1 t2 t3 t4"
  "t3 < t2 + DEFAULT_TTL \<Longrightarrow> test_cache_deduplication t1 t2 t3"
  by (simp_all add: test_cache_expiration_def test_cache_deduplication_def cached_addr_parses insert_with_ttl_def cache_insert_def
      cache_new_def lookup_def active_def Let_def)

end
