(* ===== verification/Transport_Tests.thy ===== *)
theory Transport_Tests
  imports Test_Kit Mock_Net Conn_Pool Crypto_Ops
begin

text \<open>
  The unit tests of \<^verbatim>\<open>omnimesh-transport\<close>: \<^verbatim>\<open>mock.rs\<close> and \<^verbatim>\<open>connection.rs\<close>. An awaited call that never becomes ready fails the
  test. Values go out of scope at the end of a loop body, which ends their channels.
\<close>

section \<open>The mock transport\<close>

fun ready_then :: "'a result async \<Rightarrow> ('a \<Rightarrow> bool) \<Rightarrow> bool" where
  "ready_then (Ready r) f = ok_then r f"
| "ready_then Blocked f = False"

text \<open>One message and its arrival.\<close>

definition mock_pass :: "bytes \<Rightarrow> MockConnection \<Rightarrow> MockConnection \<Rightarrow> mock_world \<Rightarrow> (mock_world \<Rightarrow> bool) \<Rightarrow> bool" where
  "mock_pass msg from to w f =
     (case mock_send msg from w of (r, w) \<Rightarrow> ready_then r (\<lambda>_.
        case mock_recv to w of (r, w) \<Rightarrow> ready_then r (\<lambda>m. some_then m (\<lambda>received. received = msg \<and> f w))))"

definition mock_meeting ::
  "SocketAddr \<Rightarrow> MockTransport \<Rightarrow> MockTransport \<Rightarrow> mock_world \<Rightarrow> (MockConnection \<Rightarrow> MockConnection \<Rightarrow> mock_world \<Rightarrow> bool) \<Rightarrow> bool" where
  "mock_meeting addr client server w f =
     (case mock_connect addr client w of (r, w) \<Rightarrow> ready_then r (\<lambda>conn.
        case mock_accept server w of (r, w) \<Rightarrow> ready_then r (\<lambda>srv_conn. f conn srv_conn w)))"

definition test_mock_connect_and_send :: bool where
  "test_mock_connect_and_send \<longleftrightarrow>
     some_then (parse_socket_addr ''127.0.0.1:9999'') (\<lambda>server_addr.
       case mock_listen server_addr mock_new registry_new of (r, server, w) \<Rightarrow> ok_then r (\<lambda>_.
         mock_meeting server_addr mock_new server w (\<lambda>client_conn server_conn w.
           mock_pass (ascii ''hello'') client_conn server_conn w (\<lambda>w.
             mock_pass (ascii ''world'') server_conn client_conn w (\<lambda>_. True)))))"

fun mock_clients :: "nat list \<Rightarrow> SocketAddr \<Rightarrow> MockTransport \<Rightarrow> mock_world \<Rightarrow> bool" where
  "mock_clients [] addr server w \<longleftrightarrow> True"
| "mock_clients (i # is) addr server w \<longleftrightarrow>
     mock_meeting addr mock_new server w (\<lambda>conn srv_conn w.
       mock_pass (ascii (''client-'' @ show_nat i)) conn srv_conn w (\<lambda>w.
         mock_clients is addr server (mock_drop conn (mock_drop srv_conn w))))"

definition test_mock_multiple_clients :: bool where
  "test_mock_multiple_clients \<longleftrightarrow>
     some_then (parse_socket_addr ''127.0.0.1:8888'') (\<lambda>server_addr.
       case mock_listen server_addr mock_new registry_new of (r, server, w) \<Rightarrow> ok_then r (\<lambda>_.
         mock_clients [0..<3] server_addr server w))"

definition test_mock_connect_no_listener_fails :: bool where
  "test_mock_connect_no_listener_fails \<longleftrightarrow>
     some_then (parse_socket_addr ''127.0.0.1:7777'') (\<lambda>addr.
       case fst (mock_connect addr mock_new registry_new) of Ready r \<Rightarrow> is_err r | Blocked \<Rightarrow> False)"

definition test_mock_close_connection :: bool where
  "test_mock_close_connection \<longleftrightarrow>
     some_then (parse_socket_addr ''127.0.0.1:6666'') (\<lambda>addr.
       case mock_listen addr mock_new registry_new of (r, server, w) \<Rightarrow> ok_then r (\<lambda>_.
         ready_then (fst (mock_connect addr mock_new w)) (\<lambda>conn. mc_connected conn \<and>
           (case mock_close conn of (r, conn) \<Rightarrow> ok_then r (\<lambda>_. \<not> mc_connected conn)))))"

lemma parsed_addresses:
  "parse_socket_addr ''127.0.0.1:9999'' = Some (SocketAddrV4 [127, 0, 0, 1] 9999)"
  "parse_socket_addr ''127.0.0.1:8888'' = Some (SocketAddrV4 [127, 0, 0, 1] 8888)"
  "parse_socket_addr ''127.0.0.1:7777'' = Some (SocketAddrV4 [127, 0, 0, 1] 7777)"
  "parse_socket_addr ''127.0.0.1:6666'' = Some (SocketAddrV4 [127, 0, 0, 1] 6666)"
  using parse_show_v4 [of 127 0 0 1 9999] parse_show_v4 [of 127 0 0 1 8888] parse_show_v4 [of 127 0 0 1 7777] parse_show_v4 [of 127 0 0 1 6666]
  by (simp_all add: show_v4_def digits_shown)

lemmas mock_evaluation = mock_pass_def mock_meeting_def mock_send_def mock_recv_def mock_connect_def mock_accept_def
  mock_listen_def drop_listener_def mock_drop_def mock_new_def registry_new_def mock_close_def Let_def

text \<open>The loop works for any number of clients: a connection that is over leaves the server as it was.\<close>

definition served :: "SocketAddr \<Rightarrow> MockTransport \<Rightarrow> mock_world \<Rightarrow> bool" where
  "served addr server w \<longleftrightarrow> mock_wf w \<and> (\<exists>ch < length (accept_queues w). incoming_rx server = Some ch \<and>
     mw_listeners w addr = Some ch \<and> accepting w ch \<and> accept_queues w ! ch = [])"

lemma mock_clients_served: "served addr server w \<Longrightarrow> mock_clients is addr server w"
proof (induction "is" arbitrary: w)
  case (Cons i ss)
  let ?n = "length (pipes w)"
  from Cons.prems have fresh: "?n \<notin> set (rx_dropped w)" "Suc ?n \<notin> set (rx_dropped w)" by (auto simp: served_def mock_wf_def list_all_iff)
  obtain ch where ch: "ch < length (accept_queues w)" "incoming_rx server = Some ch" "mw_listeners w addr = Some ch"
    "accepting w ch" "accept_queues w ! ch = []" using Cons.prems by (auto simp: served_def)
  let ?w = "w\<lparr>pipes := pipes w @ [[], []], tx_dropped := ?n # Suc ?n # tx_dropped w, rx_dropped := Suc ?n # ?n # rx_dropped w\<rparr>"
  have "mock_wf ?w" using Cons.prems by (fastforce simp: served_def mock_wf_def list_all_iff)
  with ch have "served addr server ?w" by (simp add: served_def)
  then have "mock_clients ss addr server ?w" by (rule Cons.IH)
  moreover have "(accept_queues w)[ch := []] = accept_queues w" using ch by (metis list_update_id)
  ultimately show ?case using ch fresh
    by (simp add: mock_evaluation nth_append list_update_append)
qed simp

lemma mock_tests_pass:
  test_mock_connect_and_send test_mock_multiple_clients test_mock_connect_no_listener_fails test_mock_close_connection
proof -
  show test_mock_connect_and_send
    unfolding test_mock_connect_and_send_def parsed_addresses by (simp add: mock_evaluation ascii_def)
  show test_mock_multiple_clients
    unfolding test_mock_multiple_clients_def parsed_addresses
    by (auto simp: mock_listen_def drop_listener_def mock_new_def registry_new_def served_def mock_wf_def Let_def intro!: mock_clients_served)
  show test_mock_connect_no_listener_fails
    unfolding test_mock_connect_no_listener_fails_def parsed_addresses by (simp add: mock_evaluation)
  show test_mock_close_connection
    unfolding test_mock_close_connection_def parsed_addresses by (simp add: mock_evaluation)
qed

section \<open>The connection pool\<close>

definition make_info :: "u8 \<Rightarrow> ConnectionInfo option" where
  "make_info i =
     (case parse_socket_addr (''127.0.0.1:'' @ show_nat (1000 + unat i)) of
        None \<Rightarrow> None
      | Some addr \<Rightarrow> Some \<lparr>ci_peer_id = from_bytes (replicate 32 i), ci_remote_addr = addr, ci_state = Connected, connected_at = 0,
          bytes_sent = 0, bytes_received = 0\<rparr>)"

text \<open>\<^verbatim>\<open>pool.insert(make_info(i)).unwrap()\<close> and what follows.\<close>

definition inserted :: "u8 \<Rightarrow> ConnectionPool \<Rightarrow> (ConnectionInfo \<Rightarrow> ConnectionPool \<Rightarrow> bool) \<Rightarrow> bool" where
  "inserted i pool f =
     some_then (make_info i) (\<lambda>info. case pool_insert info pool of (r, pool) \<Rightarrow> ok_then r (\<lambda>_. f info pool))"

definition test_insert_and_get :: bool where
  "test_insert_and_get \<longleftrightarrow> inserted 1 (pool_new 10) (\<lambda>info pool. pool_len pool = 1 \<and> pool_is_connected (ci_peer_id info) pool)"

definition test_remove :: bool where
  "test_remove \<longleftrightarrow> inserted 2 (pool_new 10) (\<lambda>info pool. pool_is_empty (snd (pool_remove (ci_peer_id info) pool)))"

definition test_capacity_limit :: bool where
  "test_capacity_limit \<longleftrightarrow> inserted 1 (pool_new 2) (\<lambda>_ pool. inserted 2 pool (\<lambda>_ pool.
     some_then (make_info 3) (\<lambda>info. is_err (fst (pool_insert info pool)))))"

definition test_connected_peers :: bool where
  "test_connected_peers \<longleftrightarrow> inserted 1 (pool_new 10) (\<lambda>_ pool. inserted 2 pool (\<lambda>_ pool. length (connected_peers pool) = 2))"

definition test_update_state :: bool where
  "test_update_state \<longleftrightarrow> inserted 5 (pool_new 10) (\<lambda>info pool.
     \<not> pool_is_connected (ci_peer_id info) (update_state (ci_peer_id info) Disconnected pool))"

definition test_bytes_tracking :: bool where
  "test_bytes_tracking \<longleftrightarrow> inserted 3 (pool_new 10) (\<lambda>info pool.
     some_then (pool_get (ci_peer_id info) (record_bytes_received (ci_peer_id info) 200 (record_bytes_sent (ci_peer_id info) 100 pool)))
       (\<lambda>retrieved. bytes_sent retrieved = 100 \<and> bytes_received retrieved = 200))"

lemma make_info_some: "\<exists>addr. make_info i = Some \<lparr>ci_peer_id = from_bytes (replicate 32 i), ci_remote_addr = addr,
  ci_state = Connected, connected_at = 0, bytes_sent = 0, bytes_received = 0\<rparr>"
proof -
  have "unat i < 256" using unsigned_less [of i] by simp
  then have "unat (word_of_nat (1000 + unat i) :: u16) = 1000 + unat i" by (simp add: unat_of_nat del: of_nat_add)
  moreover have "show_v4 [127, 0, 0, 1] = ''127.0.0.1''" by (simp add: show_v4_def digits_shown)
  ultimately have "show_socket_addr (SocketAddrV4 [127, 0, 0, 1] (word_of_nat (1000 + unat i))) = ''127.0.0.1:'' @ show_nat (1000 + unat i)"
    by (simp del: of_nat_add)
  with parse_show_v4 [of 127 0 0 1 "word_of_nat (1000 + unat i)"] show ?thesis by (simp add: make_info_def)
qed

lemma different_ids: "i \<noteq> j \<Longrightarrow> from_bytes (replicate 32 i) \<noteq> from_bytes (replicate 32 j)"
  by (simp add: from_bytes_def numeral_eq_Suc)

lemmas pool_evaluation = inserted_def pool_insert_def pool_full_def pool_len_def pool_new_def pool_commit_def pool_is_connected_def
  pool_get_def pool_remove_def pool_is_empty_def connected_peers_def pool_modify_def update_state_def record_bytes_sent_def
  record_bytes_received_def

lemma pool_tests_pass:
  test_insert_and_get test_remove test_capacity_limit test_connected_peers test_update_state test_bytes_tracking
  using make_info_some [of 1] make_info_some [of 2] make_info_some [of 3] make_info_some [of 5] different_ids [of 1 2]
  by (auto simp: test_insert_and_get_def test_remove_def test_capacity_limit_def test_connected_peers_def test_update_state_def
      test_bytes_tracking_def pool_evaluation)

end
